(* ===== verification/Prelude.thy ===== *)
theory Prelude
  imports Main "HOL-Library.Word" "HOL-Library.Char_ord" "HOL-Library.List_Lexorder"
begin

unbundle bit_operations_syntax

section \<open>Prelude: outcomes, stateful computations, strings, bytes and maps\<close>

text \<open>
  What every component of the model shares: the outcomes a C++ call can have, a small
  state-and-outcome monad in which the handlers are written, the parts of \<open>std::string\<close>,
  \<open>std::stoi\<close> and \<open>std::to_string\<close> the sources use, bytes and little-endian
  integers, and \<open>std::map\<close> as a list of pairs sorted by key. The interfaces (locales)
  for a finite map, a codec and a state invariant are declared here and interpreted by the
  components that provide them.
\<close>

subsection \<open>Collections\<close>

named_theorems em_simps \<open>evaluation of the state-and-outcome combinators\<close>
named_theorems frame_intros \<open>rules showing that a computation leaves part of the state alone\<close>
named_theorems str_simps \<open>evaluation of the std::string operations\<close>

subsection \<open>Outcomes\<close>

text \<open>
  A C++ call returns, throws, or does neither: \<open>Undefined\<close> stands for undefined behaviour
  (a null dereference, a read past the end of a buffer) and \<open>Deadlock\<close> for a thread that
  locks a \<open>std::mutex\<close> it already holds. The first five are exceptions derived from
  \<open>std::exception\<close>, which a \<open>catch (...)\<close> stops; the last two are stopped by nothing.
\<close>

datatype err =
    Parse_Error
  | Type_Error
  | Runtime_Error string
  | Invalid_Argument
  | Out_Of_Range
  | Undefined string
  | Deadlock string

fun catchable :: "err \<Rightarrow> bool" where
  "catchable (Undefined _) = False"
| "catchable (Deadlock _) = False"
| "catchable _ = True"

text \<open>Bytes and machine integers keep their widths.\<close>

type_synonym byte = "8 word"
type_synonym u16 = "16 word"
type_synonym u32 = "32 word"
type_synonym u64 = "64 word"
type_synonym bytes = "byte list"

subsection \<open>Computations over a state\<close>

text \<open>
  \<open>('s, 'a) em\<close> is a computation over a state \<open>'s\<close>: it returns a value or an outcome
  that is not one, and the state in either case, since effects done before a throw stay done.
\<close>

type_synonym ('s, 'a) em = "'s \<Rightarrow> (err + 'a) \<times> 's"

definition ret :: "'a \<Rightarrow> ('s, 'a) em" where
  "ret x = (\<lambda>s. (Inr x, s))"

definition raise :: "err \<Rightarrow> ('s, 'a) em" where
  "raise e = (\<lambda>s. (Inl e, s))"

definition lift_sum :: "err + 'a \<Rightarrow> ('s, 'a) em" where
  "lift_sum r = (\<lambda>s. (r, s))"

definition get_st :: "('s \<Rightarrow> 'a) \<Rightarrow> ('s, 'a) em" where
  "get_st f = (\<lambda>s. (Inr (f s), s))"

definition mod_st :: "('s \<Rightarrow> 's) \<Rightarrow> ('s, unit) em" where
  "mod_st f = (\<lambda>s. (Inr (), f s))"

definition and_then :: "('s, 'a) em \<Rightarrow> ('a \<Rightarrow> ('s, 'b) em) \<Rightarrow> ('s, 'b) em" where
  "and_then m f = (\<lambda>s. case m s of (Inl e, s') \<Rightarrow> (Inl e, s') | (Inr x, s') \<Rightarrow> f x s')"

text \<open>\<open>catch (...)\<close>: the handler runs in the state the throw left behind.\<close>

definition catch_any :: "('s, 'a) em \<Rightarrow> (err \<Rightarrow> ('s, 'a) em) \<Rightarrow> ('s, 'a) em" where
  "catch_any m h = (\<lambda>s. case m s of
       (Inl e, s') \<Rightarrow> if catchable e then h e s' else (Inl e, s')
     | (Inr x, s') \<Rightarrow> (Inr x, s'))"

text \<open>\<open>zoom\<close> runs a computation on one field of a larger state.\<close>

definition zoom :: "('s \<Rightarrow> 't) \<Rightarrow> ('t \<Rightarrow> 's \<Rightarrow> 's) \<Rightarrow> ('t, 'a) em \<Rightarrow> ('s, 'a) em" where
  "zoom get put m = (\<lambda>s. case m (get s) of (r, t) \<Rightarrow> (r, put t s))"

fun for_each :: "'x list \<Rightarrow> ('x \<Rightarrow> ('s, unit) em) \<Rightarrow> ('s, unit) em" where
  "for_each [] f = ret ()"
| "for_each (x # xs) f = and_then (f x) (\<lambda>_. for_each xs f)"

definition when_do :: "bool \<Rightarrow> ('s, unit) em \<Rightarrow> ('s, unit) em" where
  "when_do b m = (if b then m else ret ())"

lemma ret_run [em_simps]: "ret x s = (Inr x, s)"
  by (simp add: ret_def)

lemma raise_run [em_simps]: "raise e s = (Inl e, s)"
  by (simp add: raise_def)

lemma lift_sum_run [em_simps]: "lift_sum r s = (r, s)"
  by (simp add: lift_sum_def)

lemma get_st_run [em_simps]: "get_st f s = (Inr (f s), s)"
  by (simp add: get_st_def)

lemma mod_st_run [em_simps]: "mod_st f s = (Inr (), f s)"
  by (simp add: mod_st_def)

lemma and_then_run [em_simps]:
  "and_then m f s = (case m s of (Inl e, s') \<Rightarrow> (Inl e, s') | (Inr x, s') \<Rightarrow> f x s')"
  by (simp add: and_then_def)

lemma catch_any_run [em_simps]:
  "catch_any m h s = (case m s of
       (Inl e, s') \<Rightarrow> if catchable e then h e s' else (Inl e, s')
     | (Inr x, s') \<Rightarrow> (Inr x, s'))"
  by (simp add: catch_any_def)

lemma zoom_run [em_simps]: "zoom g p m s = (case m (g s) of (r, t) \<Rightarrow> (r, p t s))"
  by (simp add: zoom_def)

lemma when_do_run [em_simps]: "when_do b m s = (if b then m s else (Inr (), s))"
  by (simp add: when_do_def ret_def)

text \<open>\<open>keeps f m\<close>: whatever the outcome, \<open>m\<close> does not change \<open>f\<close> of the state.\<close>

definition keeps :: "('s \<Rightarrow> 'x) \<Rightarrow> ('s, 'a) em \<Rightarrow> bool" where
  "keeps f m \<longleftrightarrow> (\<forall>s. f (snd (m s)) = f s)"

lemma keepsD: "keeps f m \<Longrightarrow> f (snd (m s)) = f s"
  by (simp add: keeps_def)

lemma keeps_ret [frame_intros]: "keeps f (ret x)"
  by (simp add: keeps_def ret_def)

lemma keeps_raise [frame_intros]: "keeps f (raise e)"
  by (simp add: keeps_def raise_def)

lemma keeps_lift [frame_intros]: "keeps f (lift_sum r)"
  by (simp add: keeps_def lift_sum_def)

lemma keeps_get [frame_intros]: "keeps f (get_st g)"
  by (simp add: keeps_def get_st_def)

lemma keeps_mod: "(\<And>s. f (g s) = f s) \<Longrightarrow> keeps f (mod_st g)"
  by (simp add: keeps_def mod_st_def)

lemma keeps_and_then [frame_intros]:
  "keeps f m \<Longrightarrow> (\<And>x. keeps f (k x)) \<Longrightarrow> keeps f (and_then m k)"
  by (auto simp: keeps_def and_then_def split: prod.split sum.split) (metis snd_conv)+

lemma keeps_catch [frame_intros]:
  "keeps f m \<Longrightarrow> (\<And>e. keeps f (h e)) \<Longrightarrow> keeps f (catch_any m h)"
  by (auto simp: keeps_def catch_any_def split: prod.split sum.split) (metis snd_conv)+

lemma keeps_when [frame_intros]: "keeps f m \<Longrightarrow> keeps f (when_do b m)"
  by (simp add: when_do_def keeps_ret)

lemma keeps_for_each [frame_intros]: "(\<And>x. keeps f (g x)) \<Longrightarrow> keeps f (for_each xs g)"
  by (induction xs) (auto intro: keeps_ret keeps_and_then)

lemma keeps_zoom: "(\<And>t s. f (put t s) = f s) \<Longrightarrow> keeps f (zoom get put m)"
  by (simp add: keeps_def zoom_def split: prod.split)

lemma keeps_if [frame_intros]: "keeps f m \<Longrightarrow> keeps f n \<Longrightarrow> keeps f (if b then m else n)"
  by simp

lemma keeps_case_option [frame_intros]:
  "keeps f m \<Longrightarrow> (\<And>x. keeps f (k x)) \<Longrightarrow> keeps f (case v of None \<Rightarrow> m | Some x \<Rightarrow> k x)"
  by (simp split: option.split)

text \<open>\<open>maintains I m\<close>: \<open>m\<close> preserves a state predicate whatever its outcome.\<close>

definition maintains :: "('s \<Rightarrow> bool) \<Rightarrow> ('s, 'a) em \<Rightarrow> bool" where
  "maintains I m \<longleftrightarrow> (\<forall>s. I s \<longrightarrow> I (snd (m s)))"

lemma maintainsD: "maintains I m \<Longrightarrow> I s \<Longrightarrow> I (snd (m s))"
  by (simp add: maintains_def)

lemma maintains_pure [frame_intros]:
  "maintains I (ret x)" "maintains I (raise e)" "maintains I (lift_sum r)" "maintains I (get_st g)"
  by (simp_all add: maintains_def ret_def raise_def lift_sum_def get_st_def)

lemma maintains_mod: "(\<And>s. I s \<Longrightarrow> I (g s)) \<Longrightarrow> maintains I (mod_st g)"
  by (simp add: maintains_def mod_st_def)

lemma maintains_and_then [frame_intros]:
  "maintains I m \<Longrightarrow> (\<And>x. maintains I (k x)) \<Longrightarrow> maintains I (and_then m k)"
  by (fastforce simp: maintains_def and_then_def split: prod.split sum.split)

lemma maintains_catch [frame_intros]:
  "maintains I m \<Longrightarrow> (\<And>e. maintains I (h e)) \<Longrightarrow> maintains I (catch_any m h)"
  by (fastforce simp: maintains_def catch_any_def split: prod.split sum.split)

lemma maintains_when [frame_intros]: "maintains I m \<Longrightarrow> maintains I (when_do b m)"
  by (simp add: when_do_def maintains_pure)

lemma maintains_for_each [frame_intros]:
  "(\<And>x. maintains I (g x)) \<Longrightarrow> maintains I (for_each xs g)"
  by (induction xs) (auto intro: maintains_pure maintains_and_then)

subsection \<open>Systems with an invariant\<close>

text \<open>
  The interface between a component's steps and what its clients may assume of every state they
  see: the invariant holds initially and every step keeps it.
\<close>

locale invariant_system =
  fixes init :: "'s \<Rightarrow> bool"
    and step :: "'s \<Rightarrow> 's \<Rightarrow> bool"
    and inv :: "'s \<Rightarrow> bool"
  assumes init_inv: "init s \<Longrightarrow> inv s"
    and step_inv: "step s t \<Longrightarrow> inv s \<Longrightarrow> inv t"
begin

lemma steps_inv: "step\<^sup>*\<^sup>* s t \<Longrightarrow> inv s \<Longrightarrow> inv t"
  by (induction rule: rtranclp_induct) (auto intro: step_inv)

lemma reach_inv: "init s \<Longrightarrow> step\<^sup>*\<^sup>* s t \<Longrightarrow> inv t"
  using init_inv steps_inv by blast

end

end
