(* ===== verification/Cpp_Std.thy ===== *)
theory Cpp_Std
  imports Prelude
begin

section \<open>The parts of the C++ standard library the sources use\<close>

text \<open>
  \<open>std::string\<close> search and \<open>substr\<close>, decimal and hexadecimal \<open>std::stoi\<close>,
  \<open>std::to_string\<close>, the conversion between \<open>char\<close> and \<open>uint8_t\<close>,
  \<open>memcpy\<close> of integers in the little-endian layout of the target, and \<open>std::map\<close>.
  A \<open>std::map\<close> is the list of its pairs in iteration order, sorted by key; its contract
  is the locale \<open>finite_map\<close>, interpreted here for the sorted list.
\<close>

subsection \<open>Strings\<close>

text \<open>\<open>s.find(c)\<close> and \<open>s.rfind(c)\<close>; \<open>None\<close> is \<open>npos\<close>.\<close>

definition find_ch :: "char \<Rightarrow> string \<Rightarrow> nat option" where
  "find_ch c s =
     (let p = takeWhile (\<lambda>x. x \<noteq> c) s in if length p < length s then Some (length p) else None)"

definition find_ch_from :: "char \<Rightarrow> string \<Rightarrow> nat \<Rightarrow> nat option" where
  "find_ch_from c s pos = map_option (\<lambda>i. pos + i) (find_ch c (drop pos s))"

definition rfind_ch :: "char \<Rightarrow> string \<Rightarrow> nat option" where
  "rfind_ch c s = map_option (\<lambda>i. length s - 1 - i) (find_ch c (rev s))"

fun find_str :: "string \<Rightarrow> string \<Rightarrow> nat option" where
  "find_str p [] = (if p = [] then Some 0 else None)"
| "find_str p (c # s) =
     (if take (length p) (c # s) = p then Some 0 else map_option Suc (find_str p s))"

text \<open>\<open>s.substr(pos, n)\<close> throws \<open>std::out_of_range\<close> when \<open>pos > s.size()\<close>.\<close>

definition substr :: "string \<Rightarrow> nat \<Rightarrow> nat \<Rightarrow> err + string" where
  "substr s pos n = (if pos \<le> length s then Inr (take n (drop pos s)) else Inl Out_Of_Range)"

definition substr_from :: "string \<Rightarrow> nat \<Rightarrow> err + string" where
  "substr_from s pos = (if pos \<le> length s then Inr (drop pos s) else Inl Out_Of_Range)"

lemma find_ch_Nil [str_simps]: "find_ch c [] = None"
  by (simp add: find_ch_def)

lemma find_ch_Cons [str_simps]:
  "find_ch c (x # s) = (if x = c then Some 0 else map_option Suc (find_ch c s))"
  by (simp add: find_ch_def Let_def)

lemma find_ch_None: "find_ch c s = None \<longleftrightarrow> c \<notin> set s"
  by (induction s) (auto simp: str_simps)

lemma find_ch_append:
  "find_ch c (s @ t) = (case find_ch c s of Some i \<Rightarrow> Some i
                        | None \<Rightarrow> map_option (\<lambda>i. length s + i) (find_ch c t))"
proof (induction s)
  case Nil
  then show ?case by (cases "find_ch c t") (simp_all add: str_simps)
next
  case (Cons x s)
  then show ?case
    by (auto simp: str_simps option.map_comp o_def split: option.splits intro: option.map_cong)
qed

lemma find_ch_first: "c \<notin> set s \<Longrightarrow> find_ch c (s @ c # t) = Some (length s)"
  by (simp add: find_ch_append find_ch_None [THEN iffD2] str_simps)

lemma find_ch_Some:
  "find_ch c s = Some i \<Longrightarrow> i < length s \<and> s ! i = c \<and> c \<notin> set (take i s)"
proof (induction s arbitrary: i)
  case Nil
  then show ?case by (simp add: str_simps)
next
  case (Cons x s)
  then show ?case by (cases i) (auto simp: str_simps split: if_splits)
qed

lemma find_ch_split: "find_ch c s = Some i \<Longrightarrow> s = take i s @ c # drop (Suc i) s"
  by (metis find_ch_Some id_take_nth_drop)

lemma rfind_ch_last: "c \<notin> set t \<Longrightarrow> rfind_ch c (s @ c # t) = Some (length s)"
  by (simp add: rfind_ch_def find_ch_first)

lemma rfind_ch_None: "rfind_ch c s = None \<longleftrightarrow> c \<notin> set s"
  by (simp add: rfind_ch_def find_ch_None)

lemma find_str_take: "find_str p s = Some i \<Longrightarrow> take (length p) (drop i s) = p"
  by (induction p s arbitrary: i rule: find_str.induct) (auto split: if_splits)

lemma substr_ok [str_simps]: "pos \<le> length s \<Longrightarrow> substr s pos n = Inr (take n (drop pos s))"
  by (simp add: substr_def)

lemma substr_from_ok [str_simps]: "pos \<le> length s \<Longrightarrow> substr_from s pos = Inr (drop pos s)"
  by (simp add: substr_from_def)

text \<open>\<open>c_str()\<close> read back as a C string ends at the first NUL.\<close>

definition c_str :: "string \<Rightarrow> string" where
  "c_str s = takeWhile (\<lambda>c. c \<noteq> CHR 0x00) s"

subsection \<open>Characters and bytes\<close>

text \<open>
  A \<open>std::string\<close> holds 8-bit characters; the sources cast its data to
  \<open>unsigned char*\<close> and back.
\<close>

definition byte_of_char :: "char \<Rightarrow> byte" where
  "byte_of_char c = word_of_nat (of_char c)"

definition char_of_byte :: "byte \<Rightarrow> char" where
  "char_of_byte b = char_of (unat b)"

definition bytes_of :: "string \<Rightarrow> bytes" where
  "bytes_of s = map byte_of_char s"

definition string_of :: "bytes \<Rightarrow> string" where
  "string_of bs = map char_of_byte bs"

lemma char_of_byte_of_char [simp]: "char_of_byte (byte_of_char c) = c"
  by (simp add: char_of_byte_def byte_of_char_def unat_of_nat)

lemma byte_less_256: "unat (b :: byte) < 256"
proof -
  have "unat b < 2 ^ LENGTH(8)" by (rule unsigned_less)
  then show ?thesis by simp
qed

lemma byte_of_char_of_byte [simp]: "byte_of_char (char_of_byte b) = b"
  by (simp add: char_of_byte_def byte_of_char_def byte_less_256)

lemma string_of_bytes_of [simp]: "string_of (bytes_of s) = s"
  by (simp add: string_of_def bytes_of_def o_def)

lemma bytes_of_string_of [simp]: "bytes_of (string_of bs) = bs"
  by (simp add: string_of_def bytes_of_def o_def)

lemma length_bytes_of [simp]: "length (bytes_of s) = length s"
  by (simp add: bytes_of_def)

lemma length_string_of [simp]: "length (string_of bs) = length bs"
  by (simp add: string_of_def)

lemma inj_byte_of_char: "byte_of_char c = byte_of_char d \<longleftrightarrow> c = d"
  by (metis char_of_byte_of_char)

subsection \<open>Decimal output\<close>

definition digit_char :: "nat \<Rightarrow> char" where
  "digit_char d = char_of (48 + d)"

fun show_nat :: "nat \<Rightarrow> string" where
  "show_nat n =
     (if n < 10 then [digit_char n] else show_nat (n div 10) @ [digit_char (n mod 10)])"

declare show_nat.simps [simp del]

definition show_int :: "int \<Rightarrow> string" where
  "show_int i = (if i < 0 then CHR ''-'' # show_nat (nat (- i)) else show_nat (nat i))"

text \<open>Evaluation of decimal output.\<close>

lemma digit_chars:
  "digit_char 0 = CHR ''0''" "digit_char 1 = CHR ''1''" "digit_char 2 = CHR ''2''" "digit_char 3 = CHR ''3''"
  "digit_char 4 = CHR ''4''" "digit_char 5 = CHR ''5''" "digit_char 6 = CHR ''6''" "digit_char 7 = CHR ''7''"
  "digit_char 8 = CHR ''8''" "digit_char 9 = CHR ''9''" "digit_char (Suc 0) = CHR ''1''"
  by (simp_all add: digit_char_def char_of_def bit_Suc_0_iff)

lemmas show_eval = show_int_def show_nat.simps digit_chars

subsection \<open>std::stoi\<close>

text \<open>
  \<open>strtol\<close> skips white space, takes an optional sign, for base 16 an optional \<open>0x\<close>
  that a hexadecimal digit follows, and then the longest run of digits; \<open>std::stoi\<close> throws
  \<open>invalid_argument\<close> when that run is empty and \<open>out_of_range\<close> when the value is not
  an \<open>int\<close>. What follows the digits is ignored.
\<close>

definition digit_val :: "nat \<Rightarrow> char \<Rightarrow> nat option" where
  "digit_val base c =
     (let k = (of_char c :: nat);
          v = (if 48 \<le> k \<and> k \<le> 57 then Some (k - 48)
               else if 97 \<le> k \<and> k \<le> 122 then Some (k - 97 + 10)
               else if 65 \<le> k \<and> k \<le> 90 then Some (k - 65 + 10) else None)
      in case v of None \<Rightarrow> None | Some d \<Rightarrow> if d < base then Some d else None)"

definition is_space :: "char \<Rightarrow> bool" where
  "is_space c = (let k = (of_char c :: nat) in k = 32 \<or> (9 \<le> k \<and> k \<le> 13))"

fun read_digits :: "nat \<Rightarrow> nat option \<Rightarrow> string \<Rightarrow> nat option" where
  "read_digits base acc [] = acc"
| "read_digits base acc (c # cs) =
     (case digit_val base c of
        None \<Rightarrow> acc
      | Some d \<Rightarrow> read_digits base (Some ((case acc of None \<Rightarrow> 0 | Some a \<Rightarrow> a) * base + d)) cs)"

definition skip_prefix :: "nat \<Rightarrow> string \<Rightarrow> string" where
  "skip_prefix base s =
     (case s of
        a # b # c # t \<Rightarrow>
          if base = 16 \<and> a = CHR ''0'' \<and> (b = CHR ''x'' \<or> b = CHR ''X'') \<and> digit_val 16 c \<noteq> None
          then c # t else s
      | _ \<Rightarrow> s)"

definition strtol :: "nat \<Rightarrow> string \<Rightarrow> int option" where
  "strtol base s =
     (case dropWhile is_space s of
        [] \<Rightarrow> None
      | c # t \<Rightarrow>
          (if c = CHR ''-'' then map_option (\<lambda>n. - int n) (read_digits base None (skip_prefix base t))
           else if c = CHR ''+'' then map_option int (read_digits base None (skip_prefix base t))
           else map_option int (read_digits base None (skip_prefix base (c # t)))))"

definition stoi_base :: "nat \<Rightarrow> string \<Rightarrow> err + int" where
  "stoi_base base s =
     (case strtol base s of
        None \<Rightarrow> Inl Invalid_Argument
      | Some v \<Rightarrow> if v < - (2 ^ 31) \<or> 2 ^ 31 \<le> v then Inl Out_Of_Range else Inr v)"

definition stoi :: "string \<Rightarrow> err + int" where
  "stoi s = stoi_base 10 s"

lemma digit_val_digit_char [simp]: "d < 10 \<Longrightarrow> digit_val 10 (digit_char d) = Some d"
  by (simp add: digit_val_def digit_char_def)

lemma digit_char_plain:
  assumes "d < 10"
  shows "\<not> is_space (digit_char d)" "digit_char d \<noteq> CHR ''-''" "digit_char d \<noteq> CHR ''+''"
    "digit_char d \<noteq> CHR '' ''" "digit_char d \<noteq> CHR '':''" "digit_char d \<noteq> CHR ''%''"
proof -
  have k: "(of_char (digit_char d) :: nat) = 48 + d" using assms by (simp add: digit_char_def)
  show "\<not> is_space (digit_char d)" using assms k by (simp add: is_space_def)
  show "digit_char d \<noteq> CHR ''-''" "digit_char d \<noteq> CHR ''+''" "digit_char d \<noteq> CHR '' ''"
    "digit_char d \<noteq> CHR '':''" "digit_char d \<noteq> CHR ''%''"
    using assms k by (auto dest: arg_cong [where f = "of_char :: char \<Rightarrow> nat"])
qed

lemma read_digits_append:
  "read_digits b (Some a) (xs @ ys) =
     (if \<exists>x \<in> set xs. digit_val b x = None then read_digits b (Some a) xs
      else read_digits b (read_digits b (Some a) xs) ys)"
  by (induction xs arbitrary: a) (auto split: option.splits)

lemma show_nat_digits:
  "\<forall>c \<in> set (show_nat n). \<exists>d < 10. c = digit_char d"
proof (induction n rule: show_nat.induct)
  case (1 n)
  then show ?case
    by (subst show_nat.simps) (auto, metis mod_less_divisor zero_less_numeral)
qed

lemma show_nat_nonempty [simp]: "show_nat n \<noteq> []"
  by (subst show_nat.simps) simp

lemma read_show_nat_acc: "read_digits 10 (Some 0) (show_nat n) = Some n"
proof (induction n rule: show_nat.induct)
  case (1 n)
  have digits: "\<not> (\<exists>x \<in> set (show_nat (n div 10)). digit_val 10 x = None)"
    using show_nat_digits [of "n div 10"] by fastforce
  show ?case
  proof (cases "n < 10")
    case True
    then show ?thesis by (subst show_nat.simps) simp
  next
    case False
    from "1" False have "read_digits 10 (Some 0) (show_nat (n div 10)) = Some (n div 10)" by simp
    with False digits show ?thesis
      by (subst show_nat.simps) (auto simp: read_digits_append)
  qed
qed

lemma read_digits_start:
  "s \<noteq> [] \<Longrightarrow> digit_val b (hd s) \<noteq> None \<Longrightarrow> read_digits b None s = read_digits b (Some 0) s"
  by (cases s) (auto split: option.splits)

lemma show_nat_hd: "\<exists>d < 10. hd (show_nat n) = digit_char d"
  using show_nat_digits [of n] by (meson hd_in_set show_nat_nonempty)

lemma skip_prefix_10 [simp]: "skip_prefix 10 s = s"
  by (simp add: skip_prefix_def split: list.split)

lemma strtol_show_nat: "strtol 10 (show_nat n) = Some (int n)"
proof -
  obtain c t where ct: "show_nat n = c # t" by (meson neq_Nil_conv show_nat_nonempty)
  obtain d where d: "d < 10" "c = digit_char d" using show_nat_hd [of n] ct by auto
  have "read_digits 10 None (show_nat n) = Some n"
    using read_digits_start [of "show_nat n" 10] read_show_nat_acc [of n] d ct by simp
  then show ?thesis
    using ct d digit_char_plain [OF d(1)]
    by (simp add: strtol_def)
qed

lemma stoi_show_nat: "n < 2 ^ 31 \<Longrightarrow> stoi (show_nat n) = Inr (int n)"
  by (simp add: stoi_def stoi_base_def strtol_show_nat)

end
