(* ===== verification/Codec.thy ===== *)
theory Codec
  imports Cpp_Std
begin

section \<open>Codecs and little-endian integers\<close>

text \<open>
  The contract of an encoder with its decoder (locale \<open>codec\<close>), extended by what the users
  of a text encoding rely on: a fixed alphabet, so that a separator outside it splits a
  concatenation back into its parts (locale \<open>text_codec\<close>), and by a known length of every
  encoding, so that a field can be cut out of a buffer (locale \<open>sized_codec\<close>). Providers: the
  little-endian integers below, the hexadecimal and base64url texts of \<open>Encodings\<close>, and the
  wire format of \<open>E2E\<close>.
\<close>

locale codec =
  fixes enc :: "'a \<Rightarrow> 'c list"
    and dec :: "'c list \<Rightarrow> err + 'a"
    and valid :: "'a \<Rightarrow> bool"
  assumes dec_enc: "valid a \<Longrightarrow> dec (enc a) = Inr a"
begin

lemma enc_inj: "valid a \<Longrightarrow> valid b \<Longrightarrow> enc a = enc b \<Longrightarrow> a = b"
  by (metis dec_enc sum.inject(2))

lemma enc_inj_on: "inj_on enc (Collect valid)"
  by (auto intro: inj_onI enc_inj)

end

locale text_codec = codec +
  fixes alphabet :: "'c set"
  assumes enc_alphabet: "valid a \<Longrightarrow> set (enc a) \<subseteq> alphabet"
begin

lemma sep_fresh: "valid a \<Longrightarrow> sep \<notin> alphabet \<Longrightarrow> sep \<notin> set (enc a)"
  using enc_alphabet by blast

lemma sep_split:
  assumes "valid a" and "sep \<notin> alphabet"
  shows "takeWhile (\<lambda>x. x \<noteq> sep) (enc a @ sep # rest) = enc a \<and>
    dropWhile (\<lambda>x. x \<noteq> sep) (enc a @ sep # rest) = sep # rest"
proof -
  have "\<forall>x \<in> set (enc a). x \<noteq> sep" using sep_fresh [OF assms] by blast
  then show ?thesis by (simp add: takeWhile_append2 dropWhile_append2)
qed

lemma sep_parts_unique:
  assumes "valid a" "valid b" "sep \<notin> alphabet" and "enc a @ sep # r = enc b @ sep # s"
  shows "a = b \<and> r = s"
  using sep_split [OF assms(1,3), of r] sep_split [OF assms(2,3), of s] assms(4)
  by (metis assms(1,2) enc_inj list.inject)

end

locale sized_codec = codec +
  fixes width :: "'a \<Rightarrow> nat"
  assumes length_enc: "valid a \<Longrightarrow> length (enc a) = width a"
begin

lemma dec_take: "valid a \<Longrightarrow> dec (take (width a) (enc a @ rest)) = Inr a"
  by (simp add: dec_enc length_enc)

lemma drop_enc: "valid a \<Longrightarrow> drop (width a) (enc a @ rest) = rest"
  by (simp add: length_enc)

end

subsection \<open>Little-endian integers\<close>

text \<open>
  \<open>memcpy\<close> between an integer object and a byte buffer, on the little-endian targets the
  server is built for: the byte at offset \<open>i\<close> has weight \<open>256 ^ i\<close>.
\<close>

fun le_bytes :: "nat \<Rightarrow> nat \<Rightarrow> bytes" where
  "le_bytes 0 k = []"
| "le_bytes (Suc n) k = word_of_nat k # le_bytes n (k div 256)"

fun le_nat :: "bytes \<Rightarrow> nat" where
  "le_nat [] = 0"
| "le_nat (b # bs) = unat b + 256 * le_nat bs"

definition le_dec :: "nat \<Rightarrow> bytes \<Rightarrow> err + nat" where
  "le_dec n bs =
     (if length bs = n then Inr (le_nat bs) else Inl (Undefined ''memcpy past the end''))"

lemma length_le_bytes [simp]: "length (le_bytes n k) = n"
  by (induction n arbitrary: k) auto

lemma le_nat_le_bytes: "le_nat (le_bytes n k) = k mod 256 ^ n"
proof (induction n arbitrary: k)
  case 0
  then show ?case by simp
next
  case (Suc n)
  have "k mod 256 ^ Suc n = k mod 256 + 256 * (k div 256 mod 256 ^ n)"
    by (simp add: mod_mult2_eq mult.commute)
  with Suc show ?case by (simp add: unat_of_nat)
qed

lemma le_nat_bound: "le_nat bs < 256 ^ length bs"
proof (induction bs)
  case Nil
  then show ?case by simp
next
  case (Cons b bs)
  have "unat b < 256" by (rule byte_less_256)
  moreover from Cons have "le_nat bs + 1 \<le> 256 ^ length bs" by simp
  then have "256 * (le_nat bs + 1) \<le> 256 * 256 ^ length bs" by (rule mult_le_mono2)
  ultimately show ?case by simp
qed

lemma le_bytes_le_nat: "le_bytes (length bs) (le_nat bs) = bs"
proof (induction bs)
  case Nil
  then show ?case by simp
next
  case (Cons b bs)
  have b: "unat b < 256" by (rule byte_less_256)
  then have "(unat b + 256 * le_nat bs) div 256 = le_nat bs" by simp
  moreover have "(word_of_nat (unat b + 256 * le_nat bs) :: byte) = b"
  proof -
    have "(256 :: byte) = 0" by simp
    then have "(256 :: byte) * word_of_nat (le_nat bs) = 0" by (metis mult_zero_left)
    then show ?thesis by simp
  qed
  ultimately show ?case using Cons by simp
qed

interpretation le_codec: sized_codec "le_bytes n" "le_dec n" "\<lambda>k. k < 256 ^ n" "\<lambda>_. n" for n
  by unfold_locales (simp_all add: le_dec_def le_nat_le_bytes)

end
