(* ===== verification/Encodings.thy ===== *)
theory Encodings
  imports Codec
begin

section \<open>Text encodings: hexadecimal and base64url\<close>

text \<open>
  \<open>E2EEncryption::bytes_to_hex\<close> and \<open>hex_to_bytes\<close> (e2e_encryption.cpp) and the
  base64url functions of the token code (http_api.cpp), each with its round trip.
\<close>

subsection \<open>Hexadecimal\<close>

definition hex_digit :: "nat \<Rightarrow> char" where
  "hex_digit d = char_of (if d < 10 then 48 + d else 87 + d)"

definition bytes_to_hex :: "bytes \<Rightarrow> string" where
  "bytes_to_hex bs = concat (map (\<lambda>b. [hex_digit (unat b div 16), hex_digit (unat b mod 16)]) bs)"

text \<open>
  Each two-character piece goes through \<open>std::stoi(piece, nullptr, 16)\<close>, whose exceptions end
  the loop, and is narrowed to \<open>uint8_t\<close>; an odd last character is a piece of its own.
\<close>

fun hex_to_bytes :: "string \<Rightarrow> err + bytes" where
  "hex_to_bytes [] = Inr []"
| "hex_to_bytes [c] =
     (case stoi_base 16 [c] of Inl e \<Rightarrow> Inl e | Inr v \<Rightarrow> Inr [word_of_int v])"
| "hex_to_bytes (c # d # t) =
     (case stoi_base 16 [c, d] of
        Inl e \<Rightarrow> Inl e
      | Inr v \<Rightarrow> (case hex_to_bytes t of Inl e \<Rightarrow> Inl e | Inr bs \<Rightarrow> Inr (word_of_int v # bs)))"

lemma of_char_hex_digit: "d < 16 \<Longrightarrow> (of_char (hex_digit d) :: nat) = (if d < 10 then 48 + d else 87 + d)"
  by (simp add: hex_digit_def)

lemma digit_val_hex: "d < 16 \<Longrightarrow> digit_val 16 (hex_digit d) = Some d"
  by (auto simp: digit_val_def of_char_hex_digit)

lemma hex_digit_plain:
  assumes "d < 16"
  shows "\<not> is_space (hex_digit d)" "hex_digit d \<noteq> CHR ''-''" "hex_digit d \<noteq> CHR ''+''"
proof -
  have k: "(of_char (hex_digit d) :: nat) = (if d < 10 then 48 + d else 87 + d)"
    by (rule of_char_hex_digit [OF assms])
  show "\<not> is_space (hex_digit d)" using k by (auto simp: is_space_def)
  show "hex_digit d \<noteq> CHR ''-''" "hex_digit d \<noteq> CHR ''+''"
    using k by (auto dest: arg_cong [where f = "of_char :: char \<Rightarrow> nat"] split: if_splits)
qed

lemma stoi_hex_pair:
  assumes "a < 16" and "b < 16"
  shows "stoi_base 16 [hex_digit a, hex_digit b] = Inr (int (a * 16 + b))"
proof -
  have "strtol 16 [hex_digit a, hex_digit b] = Some (int (a * 16 + b))"
    using assms hex_digit_plain [OF assms(1)] by (simp add: strtol_def skip_prefix_def digit_val_hex)
  moreover have "a * 16 + b < 256" using assms by simp
  ultimately show ?thesis by (simp add: stoi_base_def)
qed

lemma hex_to_bytes_to_hex: "hex_to_bytes (bytes_to_hex bs) = Inr bs"
proof (induction bs)
  case Nil
  then show ?case by (simp add: bytes_to_hex_def)
next
  case (Cons b bs)
  have "unat b < 256" by (rule byte_less_256)
  then have "stoi_base 16 [hex_digit (unat b div 16), hex_digit (unat b mod 16)] = Inr (int (unat b))"
    by (subst stoi_hex_pair) auto
  with Cons show ?case by (simp add: bytes_to_hex_def)
qed

definition hex_alphabet :: "char set" where
  "hex_alphabet = set ''0123456789abcdef''"

lemma hex_digit_alphabet: "d < 16 \<Longrightarrow> hex_digit d \<in> hex_alphabet"
proof -
  assume "d < 16"
  moreover have "\<forall>d \<in> set [0..<16]. hex_digit d \<in> hex_alphabet" by code_simp
  ultimately show ?thesis by simp
qed

lemma length_bytes_to_hex [simp]: "length (bytes_to_hex bs) = 2 * length bs"
  by (induction bs) (simp_all add: bytes_to_hex_def)

lemma bytes_to_hex_alphabet: "set (bytes_to_hex bs) \<subseteq> hex_alphabet"
proof -
  have "unat b div 16 < 16" for b :: byte
    using byte_less_256 [of b] by (simp add: less_mult_imp_div_less)
  then show ?thesis
    by (auto simp: bytes_to_hex_def intro!: hex_digit_alphabet)
qed

interpretation hex: text_codec bytes_to_hex hex_to_bytes "\<lambda>_. True" hex_alphabet
  by unfold_locales (rule hex_to_bytes_to_hex bytes_to_hex_alphabet)+

interpretation hex_width: sized_codec bytes_to_hex hex_to_bytes "\<lambda>_. True" "\<lambda>bs. 2 * length bs"
  by unfold_locales simp

subsection \<open>base64url: encoding\<close>

text \<open>
  \<open>base64url_encode\<close> works in three passes: groups of three bytes become four characters of
  the standard table, with missing bytes read as 0 and written as \<open>=\<close>; then \<open>+\<close> and
  \<open>/\<close> become \<open>-\<close> and \<open>_\<close>; then every \<open>=\<close> is erased. The four table
  indices are computed on \<open>int\<close>, to which C++ promotes \<open>unsigned char\<close>.
\<close>

definition b64_table :: string where
  "b64_table = ''ABCDEFGHIJKLMNOPQRSTUVWXYZabcdefghijklmnopqrstuvwxyz0123456789+/''"

definition b64_ch :: "int \<Rightarrow> char" where
  "b64_ch i = b64_table ! nat i"

definition sextet1 :: "byte \<Rightarrow> int" where
  "sextet1 b0 = drop_bit 2 (uint b0)"

definition sextet2 :: "byte \<Rightarrow> byte \<Rightarrow> int" where
  "sextet2 b0 b1 = push_bit 4 (uint b0 AND 3) OR drop_bit 4 (uint b1)"

definition sextet3 :: "byte \<Rightarrow> byte \<Rightarrow> int" where
  "sextet3 b1 b2 = push_bit 2 (uint b1 AND 15) OR drop_bit 6 (uint b2)"

definition sextet4 :: "byte \<Rightarrow> int" where
  "sextet4 b2 = uint b2 AND 63"

fun b64_std :: "bytes \<Rightarrow> string" where
  "b64_std [] = []"
| "b64_std [x] = [b64_ch (sextet1 x), b64_ch (sextet2 x 0), CHR ''='', CHR ''='']"
| "b64_std [x, y] =
     [b64_ch (sextet1 x), b64_ch (sextet2 x y), b64_ch (sextet3 y 0), CHR ''='']"
| "b64_std (x # y # z # r) =
     b64_ch (sextet1 x) # b64_ch (sextet2 x y) # b64_ch (sextet3 y z) # b64_ch (sextet4 z)
       # b64_std r"

definition url_safe :: "char \<Rightarrow> char" where
  "url_safe c = (if c = CHR ''+'' then CHR ''-'' else if c = CHR ''/'' then CHR ''_'' else c)"

definition base64url_encode :: "bytes \<Rightarrow> string" where
  "base64url_encode bs = filter (\<lambda>c. c \<noteq> CHR ''='') (map url_safe (b64_std bs))"

subsection \<open>base64url: decoding\<close>

text \<open>
  \<open>base64url_decode_str\<close> undoes the character substitution, pads with \<open>=\<close> to a multiple
  of four and decodes group by group. A character outside the table has the value \<open>-1\<close>: in
  the first two places it ends the loop, in the last two it drops a byte, and the value \<open>-1\<close>
  still enters the third byte's \<open>(v2 & 3) << 6\<close>.
\<close>

definition url_unsafe :: "char \<Rightarrow> char" where
  "url_unsafe c = (if c = CHR ''-'' then CHR ''+'' else if c = CHR ''_'' then CHR ''/'' else c)"

definition b64_val :: "char \<Rightarrow> int" where
  "b64_val c =
     (let k = (of_char c :: int) in
      if 65 \<le> k \<and> k \<le> 90 then k - 65
      else if 97 \<le> k \<and> k \<le> 122 then k - 97 + 26
      else if 48 \<le> k \<and> k \<le> 57 then k - 48 + 52
      else if c = CHR ''+'' then 62
      else if c = CHR ''/'' then 63
      else -1)"

definition char_cast :: "int \<Rightarrow> char" where
  "char_cast i = char_of (nat (i mod 256))"

definition octet1 :: "int \<Rightarrow> int \<Rightarrow> int" where
  "octet1 v0 v1 = push_bit 2 v0 OR drop_bit 4 v1"

definition octet2 :: "int \<Rightarrow> int \<Rightarrow> int" where
  "octet2 v1 v2 = push_bit 4 (v1 AND 15) OR drop_bit 2 v2"

definition octet3 :: "int \<Rightarrow> int \<Rightarrow> int" where
  "octet3 v2 v3 = push_bit 6 (v2 AND 3) OR v3"

fun b64_groups :: "string \<Rightarrow> string" where
  "b64_groups (c0 # c1 # c2 # c3 # t) =
     (let v0 = b64_val c0; v1 = b64_val c1;
          v2 = (if c2 \<noteq> CHR ''='' then b64_val c2 else -1);
          v3 = (if c3 \<noteq> CHR ''='' then b64_val c3 else -1)
      in if v0 < 0 \<or> v1 < 0 then []
         else [char_cast (octet1 v0 v1)]
              @ (if 0 \<le> v2 then [char_cast (octet2 v1 v2)] else [])
              @ (if 0 \<le> v3 then [char_cast (octet3 v2 v3)] else [])
              @ b64_groups t)"
| "b64_groups _ = []"

definition b64_pad :: "string \<Rightarrow> string" where
  "b64_pad s = s @ replicate ((4 - length s mod 4) mod 4) (CHR ''='')"

definition base64url_decode_str :: "string \<Rightarrow> string" where
  "base64url_decode_str s = b64_groups (b64_pad (map url_unsafe s))"

subsection \<open>base64url: the round trip\<close>

lemma or_push_bit: "0 \<le> b \<Longrightarrow> b < 2 ^ n \<Longrightarrow> push_bit n a OR b = a * 2 ^ n + (b :: int)"
proof -
  assume b: "0 \<le> b" "b < 2 ^ n"
  have "concat_bit n b a = take_bit n b OR push_bit n a" by (simp add: concat_bit_def)
  moreover have "concat_bit n b a = take_bit n b + push_bit n a" by (rule concat_bit_eq)
  moreover have "take_bit n b = b" using b by (simp add: take_bit_int_eq_self)
  ultimately show ?thesis by (simp only: push_bit_eq_mult or.commute add.commute)
qed

lemma or_shift:
  "0 \<le> b \<Longrightarrow> b < 4 \<Longrightarrow> push_bit 2 a OR b = a * 4 + (b :: int)"
  "0 \<le> b \<Longrightarrow> b < 16 \<Longrightarrow> push_bit 4 a OR b = a * 16 + (b :: int)"
  "0 \<le> b \<Longrightarrow> b < 64 \<Longrightarrow> push_bit 6 a OR b = a * 64 + (b :: int)"
  using or_push_bit [of b 2 a] or_push_bit [of b 4 a] or_push_bit [of b 6 a] by simp_all

lemma and_masks:
  "(x :: int) AND 3 = x mod 4" "(x :: int) AND 15 = x mod 16" "(x :: int) AND 63 = x mod 64"
  using take_bit_eq_mask [of 2 x] take_bit_eq_mask [of 4 x] take_bit_eq_mask [of 6 x]
  by (simp_all add: take_bit_eq_mod mask_eq_exp_minus_1)

lemma div_small:
  fixes x :: int
  assumes "0 \<le> x" "x < 256"
  shows "0 \<le> x div 4 \<and> x div 4 < 64" "0 \<le> x div 16 \<and> x div 16 < 16" "0 \<le> x div 64 \<and> x div 64 < 4"
  using assms by presburger+

lemma recombine:
  fixes x y z :: int
  assumes "0 \<le> x" "x < 256" "0 \<le> y" "y < 256" "0 \<le> z" "z < 256"
  shows "x div 4 * 4 + (x mod 4 * 16 + y div 16) div 16 = x"
    "(x mod 4 * 16 + y div 16) mod 16 * 16 + (y mod 16 * 4 + z div 64) div 4 = y"
    "(y mod 16 * 4 + z div 64) mod 4 * 64 + z mod 64 = z"
proof -
  have y: "(x mod 4 * 16 + y div 16) div 16 = x mod 4" "(x mod 4 * 16 + y div 16) mod 16 = y div 16"
    using div_small(2) [OF assms(3,4)] by auto
  have z: "(y mod 16 * 4 + z div 64) div 4 = y mod 16" "(y mod 16 * 4 + z div 64) mod 4 = z div 64"
    using div_small(3) [OF assms(5,6)] by auto
  show "x div 4 * 4 + (x mod 4 * 16 + y div 16) div 16 = x"
    "(x mod 4 * 16 + y div 16) mod 16 * 16 + (y mod 16 * 4 + z div 64) div 4 = y"
    "(y mod 16 * 4 + z div 64) mod 4 * 64 + z mod 64 = z"
    by (simp_all only: y z div_mult_mod_eq)
qed

lemma pack_small:
  fixes x y :: int
  assumes "0 \<le> y" "y < 256"
  shows "0 \<le> x mod 4 * 16 + y div 16 \<and> x mod 4 * 16 + y div 16 < 64"
    "0 \<le> x mod 16 * 4 + y div 64 \<and> x mod 16 * 4 + y div 64 < 64"
proof -
  have "0 \<le> x mod 4" "x mod 4 < 4" "0 \<le> x mod 16" "x mod 16 < 16" by simp_all
  then show "0 \<le> x mod 4 * 16 + y div 16 \<and> x mod 4 * 16 + y div 16 < 64"
    "0 \<le> x mod 16 * 4 + y div 64 \<and> x mod 16 * 4 + y div 64 < 64"
    using div_small [OF assms] by linarith+
qed

lemma uint_byte: "0 \<le> uint (b :: byte)" "uint (b :: byte) < 256"
proof -
  have "uint b < 2 ^ LENGTH(8)" by (rule unsigned_less)
  then show "0 \<le> uint b" "uint b < 256" by simp_all
qed

lemma sextet_arith:
  "sextet1 x = uint x div 4"
  "sextet2 x y = uint x mod 4 * 16 + uint y div 16"
  "sextet3 y z = uint y mod 16 * 4 + uint z div 64"
  "sextet4 z = uint z mod 64"
proof -
  note d = div_small [OF uint_byte]
  show "sextet1 x = uint x div 4" "sextet4 z = uint z mod 64"
    by (simp_all add: sextet1_def sextet4_def and_masks drop_bit_eq_div)
  show "sextet2 x y = uint x mod 4 * 16 + uint y div 16"
    using d(2) [of y] by (simp add: sextet2_def and_masks drop_bit_eq_div or_shift)
  show "sextet3 y z = uint y mod 16 * 4 + uint z div 64"
    using d(3) [of z] by (simp add: sextet3_def and_masks drop_bit_eq_div or_shift)
qed

lemma sextet_range:
  "0 \<le> sextet1 x \<and> sextet1 x < 64" "0 \<le> sextet2 x y \<and> sextet2 x y < 64"
  "0 \<le> sextet3 y z \<and> sextet3 y z < 64" "0 \<le> sextet4 z \<and> sextet4 z < 64"
  unfolding sextet_arith using div_small(1) [OF uint_byte [of x]] pack_small [OF uint_byte [of y]]
    pack_small [OF uint_byte [of z]]
  by simp_all

lemma b64_table_scan:
  "map b64_val b64_table = [0..63]"
  "list_all (\<lambda>c. c \<noteq> CHR ''='' \<and> url_unsafe (url_safe c) = c \<and> url_safe c \<noteq> CHR ''='') b64_table"
  by (simp_all add: b64_table_def b64_val_def url_safe_def url_unsafe_def upto.simps)

lemma b64_table_props:
  assumes "0 \<le> i" and "i < 64"
  shows "b64_val (b64_ch i) = i" "b64_ch i \<noteq> CHR ''=''"
    "url_unsafe (url_safe (b64_ch i)) = b64_ch i" "url_safe (b64_ch i) \<noteq> CHR ''=''"
proof -
  have len: "length b64_table = 64" by (simp add: b64_table_def)
  with assms have n: "nat i < length b64_table" by simp
  have "map b64_val b64_table ! nat i = [0..63] ! nat i" by (simp only: b64_table_scan(1))
  with n assms show "b64_val (b64_ch i) = i" by (simp add: b64_ch_def nth_upto)
  have "b64_ch i \<in> set b64_table" using n by (simp add: b64_ch_def)
  then show "b64_ch i \<noteq> CHR ''=''" "url_unsafe (url_safe (b64_ch i)) = b64_ch i"
    "url_safe (b64_ch i) \<noteq> CHR ''=''"
    using b64_table_scan(2) by (auto simp: list_all_iff)
qed

lemmas b64_table_sextet =
  b64_table_props [OF conjunct1 [OF sextet_range(1)] conjunct2 [OF sextet_range(1)]]
  b64_table_props [OF conjunct1 [OF sextet_range(2)] conjunct2 [OF sextet_range(2)]]
  b64_table_props [OF conjunct1 [OF sextet_range(3)] conjunct2 [OF sextet_range(3)]]
  b64_table_props [OF conjunct1 [OF sextet_range(4)] conjunct2 [OF sextet_range(4)]]

lemma decoded_octets:
  "octet1 (sextet1 x) (sextet2 x y) = uint x"
  "octet2 (sextet2 x y) (sextet3 y z) = uint y"
  "octet3 (sextet3 y z) (sextet4 z) = uint z"
proof -
  note r = recombine [OF uint_byte [of x] uint_byte [of y] uint_byte [of z]]
  have "0 \<le> sextet2 x y div 16 \<and> sextet2 x y div 16 < 4"
    using sextet_range(2) [of x y] by presburger
  then have "octet1 (sextet1 x) (sextet2 x y) = sextet1 x * 4 + sextet2 x y div 16"
    by (simp add: octet1_def or_shift drop_bit_eq_div)
  then show "octet1 (sextet1 x) (sextet2 x y) = uint x"
    by (simp only: sextet_arith r)
  have "0 \<le> sextet3 y z div 4 \<and> sextet3 y z div 4 < 16"
    using sextet_range(3) [of y z] by presburger
  then have "octet2 (sextet2 x y) (sextet3 y z) = sextet2 x y mod 16 * 16 + sextet3 y z div 4"
    by (simp add: octet2_def or_shift drop_bit_eq_div and_masks del: push_bit_and)
  then show "octet2 (sextet2 x y) (sextet3 y z) = uint y"
    by (simp only: sextet_arith r)
  have "octet3 (sextet3 y z) (sextet4 z) = sextet3 y z mod 4 * 64 + sextet4 z"
    using sextet_range(4) [of z] by (simp add: octet3_def or_shift and_masks del: push_bit_and)
  then show "octet3 (sextet3 y z) (sextet4 z) = uint z"
    by (simp only: sextet_arith r)
qed

lemma char_cast_uint [simp]: "char_cast (uint b) = char_of_byte b"
  using uint_byte [of b] by (simp add: char_cast_def char_of_byte_def)

lemma sextet_not_neg:
  "\<not> sextet1 x < 0" "\<not> sextet2 x y < 0" "0 \<le> sextet3 y z" "0 \<le> sextet4 z"
  using sextet_range(1) [of x] sextet_range(2) [of x y] sextet_range(3) [of y z]
    sextet_range(4) [of z] by simp_all

lemma b64_val_eq: "b64_val (CHR ''='') = -1"
  by (simp add: b64_val_def)

lemma b64_groups_full:
  "b64_groups (b64_ch (sextet1 x) # b64_ch (sextet2 x y) # b64_ch (sextet3 y z)
       # b64_ch (sextet4 z) # t)
   = char_of_byte x # char_of_byte y # char_of_byte z # b64_groups t"
  by (simp add: b64_table_sextet decoded_octets sextet_not_neg Let_def)

lemma b64_groups_two:
  "b64_groups [b64_ch (sextet1 x), b64_ch (sextet2 x y), b64_ch (sextet3 y z), CHR ''='']
   = [char_of_byte x, char_of_byte y]"
  by (simp add: b64_table_sextet decoded_octets sextet_not_neg Let_def)

lemma b64_groups_one:
  "b64_groups [b64_ch (sextet1 x), b64_ch (sextet2 x y), CHR ''='', CHR ''=''] = [char_of_byte x]"
  by (simp add: b64_table_sextet decoded_octets sextet_not_neg Let_def)

lemma b64_groups_std: "b64_groups (b64_std bs) = string_of bs"
  by (induction bs rule: b64_std.induct)
    (simp_all add: b64_groups_full b64_groups_two b64_groups_one string_of_def
      del: b64_groups.simps(1))

text \<open>What the second and third pass drop, the decoder's padding restores.\<close>

lemma b64_std_core:
  "\<exists>core p. b64_std bs = core @ replicate p (CHR ''='') \<and> p < 3 \<and> 4 dvd length core + p \<and>
     (\<forall>c \<in> set core. url_safe c \<noteq> CHR ''='' \<and> url_unsafe (url_safe c) = c)"
proof (induction bs rule: b64_std.induct)
  case 1
  show ?case by (intro exI [of _ "[]"] exI [of _ 0]) simp
next
  case (2 x)
  show ?case
    by (intro exI [of _ "[b64_ch (sextet1 x), b64_ch (sextet2 x 0)]"] exI [of _ 2])
      (simp add: b64_table_sextet numeral_2_eq_2, presburger)
next
  case (3 x y)
  show ?case
    by (intro exI [of _ "[b64_ch (sextet1 x), b64_ch (sextet2 x y), b64_ch (sextet3 y 0)]"]
        exI [of _ 1]) (simp add: b64_table_sextet, presburger)
next
  case (4 x y z r)
  then obtain core p where c: "b64_std r = core @ replicate p (CHR ''='')" "p < 3"
    "4 dvd length core + p" "\<forall>c \<in> set core. url_safe c \<noteq> CHR ''='' \<and> url_unsafe (url_safe c) = c"
    by blast
  have "4 dvd Suc (Suc (Suc (Suc (length core)))) + p" using c(3) by presburger
  with c show ?case
    by (intro exI [of _ "b64_ch (sextet1 x) # b64_ch (sextet2 x y) # b64_ch (sextet3 y z)
          # b64_ch (sextet4 z) # core"] exI [of _ p]) (simp add: b64_table_sextet)
qed

lemma pad_amount: "p < 3 \<Longrightarrow> 4 dvd n + p \<Longrightarrow> (4 - n mod 4) mod 4 = (p :: nat)"
proof -
  assume "p < 3" "4 dvd n + p"
  then have "(n mod 4 + p) mod 4 = 0" by (simp add: mod_simps)
  moreover have "n mod 4 < 4" by simp
  ultimately show ?thesis using \<open>p < 3\<close> by (cases "n mod 4 + p < 4") (auto simp: le_mod_geq)
qed

lemma base64url_roundtrip: "base64url_decode_str (base64url_encode bs) = string_of bs"
proof -
  obtain core p where c: "b64_std bs = core @ replicate p (CHR ''='')" "p < 3"
    "4 dvd length core + p" "\<forall>c \<in> set core. url_safe c \<noteq> CHR ''='' \<and> url_unsafe (url_safe c) = c"
    using b64_std_core [of bs] by blast
  have "url_safe (CHR ''='') = CHR ''=''" by (simp add: url_safe_def)
  then have enc: "base64url_encode bs = map url_safe core"
    using c(1,4) by (auto simp: base64url_encode_def filter_id_conv)
  have "map url_unsafe (base64url_encode bs) = core"
    using c(4) by (simp add: enc map_idI)
  moreover have "(4 - length core mod 4) mod 4 = p"
    using c(2,3) by (rule pad_amount)
  ultimately have "b64_pad (map url_unsafe (base64url_encode bs)) = b64_std bs"
    by (simp add: b64_pad_def c(1))
  then show ?thesis by (simp add: base64url_decode_str_def b64_groups_std)
qed

definition url_alphabet :: "char set" where
  "url_alphabet = set (map url_safe b64_table)"

lemma b64_std_chars: "set (b64_std bs) \<subseteq> insert (CHR ''='') (set b64_table)"
proof -
  have "length b64_table = 64" by (simp add: b64_table_def)
  then have "b64_ch i \<in> set b64_table" if "0 \<le> i \<and> i < 64" for i
    using that by (simp add: b64_ch_def nat_less_iff)
  then have "b64_ch (sextet1 x) \<in> set b64_table" "b64_ch (sextet2 x y) \<in> set b64_table"
    "b64_ch (sextet3 x y) \<in> set b64_table" "b64_ch (sextet4 x) \<in> set b64_table" for x y
    using sextet_range by blast+
  then show ?thesis by (induction bs rule: b64_std.induct) auto
qed

lemma base64url_alphabet: "set (base64url_encode bs) \<subseteq> url_alphabet"
  using b64_std_chars [of bs]
  by (auto simp: base64url_encode_def url_alphabet_def url_safe_def split: if_splits)

interpretation b64: text_codec base64url_encode
  "\<lambda>s. Inr (bytes_of (base64url_decode_str s))" "\<lambda>_. True" url_alphabet
  by unfold_locales (simp_all add: base64url_roundtrip base64url_alphabet)

lemma dot_not_url: "CHR ''.'' \<notin> url_alphabet"
  by (simp add: url_alphabet_def b64_table_def url_safe_def)

lemma base64url_no_dot [simp]: "CHR ''.'' \<notin> set (base64url_encode bs)"
  by (rule b64.sep_fresh [OF TrueI dot_not_url])

end
