(* ===== verification/External.thy ===== *)
theory External
  imports Cpp_Std
begin

section \<open>What is not under src/: libraries, services and the environment\<close>

text \<open>
  nlohmann::json, libsodium, hiredis with the Redis server behind it, and the clocks are
  parameters of the model: a record of functions each, passed to the definitions that use it.
  Only the JSON values have a definition, as data. The laws a theorem needs of a library are
  named predicates below; \<open>doc_json\<close> and \<open>toy_sodium\<close> are concrete instances used by
  the witnesses.
\<close>

subsection \<open>JSON\<close>

datatype json =
    JNull
  | JBool bool
  | JInt int
  | JStr string
  | JArr "json list"
  | JObj "(string \<times> json) list"

text \<open>
  \<open>json::parse\<close>, \<open>dump\<close>, \<open>value(key, default)\<close> at the types the sources use it,
  \<open>contains\<close> with \<open>operator[]\<close>, and \<open>get<std::string>()\<close>.
\<close>

record json_lib =
  j_parse :: "string \<Rightarrow> err + json"
  j_dump :: "json \<Rightarrow> string"
  j_value_str :: "json \<Rightarrow> string \<Rightarrow> string \<Rightarrow> err + string"
  j_value_bool :: "json \<Rightarrow> string \<Rightarrow> bool \<Rightarrow> err + bool"
  j_value_int :: "json \<Rightarrow> string \<Rightarrow> int \<Rightarrow> err + int"
  j_value_u64 :: "json \<Rightarrow> string \<Rightarrow> u64 \<Rightarrow> err + u64"
  j_field :: "json \<Rightarrow> string \<Rightarrow> json option"
  j_get_str :: "json \<Rightarrow> err + string"

text \<open>
  The documented accessors: \<open>value\<close> needs an object (\<open>type_error.306\<close>), returns the
  default for a missing key, and throws \<open>type_error.302\<close> for a value of another type.
  Parsing and printing stay parameters.
\<close>

definition doc_value :: "(json \<Rightarrow> err + 'a) \<Rightarrow> json \<Rightarrow> string \<Rightarrow> 'a \<Rightarrow> err + 'a" where
  "doc_value conv j k d =
     (case j of JObj kvs \<Rightarrow> (case map_of kvs k of None \<Rightarrow> Inr d | Some v \<Rightarrow> conv v)
      | _ \<Rightarrow> Inl Type_Error)"

definition doc_get_str :: "json \<Rightarrow> err + string" where
  "doc_get_str j = (case j of JStr s \<Rightarrow> Inr s | _ \<Rightarrow> Inl Type_Error)"

definition doc_json :: "(string \<Rightarrow> err + json) \<Rightarrow> (json \<Rightarrow> string) \<Rightarrow> json_lib" where
  "doc_json p d =
     \<lparr> j_parse = p, j_dump = d,
       j_value_str = doc_value doc_get_str,
       j_value_bool = doc_value (\<lambda>j. case j of JBool b \<Rightarrow> Inr b | _ \<Rightarrow> Inl Type_Error),
       j_value_int = doc_value (\<lambda>j. case j of JInt i \<Rightarrow> Inr i | _ \<Rightarrow> Inl Type_Error),
       j_value_u64 = doc_value (\<lambda>j. case j of JInt i \<Rightarrow> Inr (word_of_int i) | _ \<Rightarrow> Inl Type_Error),
       j_field = (\<lambda>j k. case j of JObj kvs \<Rightarrow> map_of kvs k | _ \<Rightarrow> None),
       j_get_str = doc_get_str \<rparr>"

text \<open>What the token code relies on: the accessors are the documented ones and parsing inverts
  printing of the value at hand.\<close>

definition json_accessors_ok :: "json_lib \<Rightarrow> bool" where
  "json_accessors_ok L \<longleftrightarrow>
     j_value_str L = j_value_str (doc_json (j_parse L) (j_dump L)) \<and>
     j_value_bool L = j_value_bool (doc_json (j_parse L) (j_dump L)) \<and>
     j_value_int L = j_value_int (doc_json (j_parse L) (j_dump L)) \<and>
     j_value_u64 L = j_value_u64 (doc_json (j_parse L) (j_dump L)) \<and>
     j_field L = j_field (doc_json (j_parse L) (j_dump L)) \<and>
     j_get_str L = j_get_str (doc_json (j_parse L) (j_dump L))"

definition json_roundtrips :: "json_lib \<Rightarrow> json \<Rightarrow> bool" where
  "json_roundtrips L j \<longleftrightarrow> j_parse L (j_dump L j) = Inr j"

lemma doc_json_accessors [simp]: "json_accessors_ok (doc_json p d)"
  by (simp add: json_accessors_ok_def doc_json_def)

subsection \<open>libsodium\<close>

text \<open>
  Each function is the map from its inputs to its outputs; \<open>None\<close> is a non-zero return
  code. The functions that draw randomness take the number of draws made so far.
  \<open>sign_sk_bytes\<close> and \<open>aead_npub\<close> are the sizes \<open>crypto_sign_SECRETKEYBYTES\<close> and
  \<open>crypto_aead_chacha20poly1305_NPUBBYTES\<close> that the library reads through the pointers it is
  given.
\<close>

datatype pw_limits = Interactive | Sensitive

record sodium =
  sodium_init :: int
  random_bytes :: "nat \<Rightarrow> nat \<Rightarrow> bytes"
  kx_keypair :: "nat \<Rightarrow> bytes \<times> bytes"
  box_keypair :: "nat \<Rightarrow> bytes \<times> bytes"
  sign_sk_bytes :: nat
  sign_detached :: "bytes \<Rightarrow> bytes \<Rightarrow> bytes"
  sign_verify :: "bytes \<Rightarrow> bytes \<Rightarrow> bytes \<Rightarrow> bool"
  scalarmult_base :: "bytes \<Rightarrow> bytes"
  kx_client :: "bytes \<Rightarrow> bytes \<Rightarrow> bytes \<Rightarrow> (bytes \<times> bytes) option"
  pwhash :: "nat \<Rightarrow> bytes \<Rightarrow> bytes \<Rightarrow> pw_limits \<Rightarrow> bytes option"
  aead_npub :: nat
  aead_encrypt :: "bytes \<Rightarrow> bytes \<Rightarrow> bytes \<Rightarrow> bytes"
  aead_decrypt :: "bytes \<Rightarrow> bytes \<Rightarrow> bytes \<Rightarrow> bytes option"
  hmac_sha256 :: "bytes \<Rightarrow> bytes \<Rightarrow> bytes"
  generichash :: "bytes \<Rightarrow> bytes"
  bin2hex :: "bytes \<Rightarrow> string"
  uniform_int :: "nat \<Rightarrow> int \<Rightarrow> int \<Rightarrow> int"

text \<open>
  The documented contract of the AEAD: 16 bytes of tag are appended to the ciphertext, and
  decryption under the same nonce and key gives the plaintext back.
\<close>

definition aead_ok :: "sodium \<Rightarrow> bool" where
  "aead_ok S \<longleftrightarrow>
     (\<forall>p n k. length (aead_encrypt S p n k) = length p + 16 \<and>
              aead_decrypt S (aead_encrypt S p n k) n k = Some p)"

definition hmac_ok :: "sodium \<Rightarrow> bool" where
  "hmac_ok S \<longleftrightarrow> (\<forall>k m. length (hmac_sha256 S k m) = 32)"

text \<open>An instance with these sizes, for witnesses: the cipher adds a tag of 16 zero bytes.\<close>

definition toy_sodium :: sodium where
  "toy_sodium =
     \<lparr> sodium_init = 0,
       random_bytes = (\<lambda>i n. replicate n (word_of_nat i)),
       kx_keypair = (\<lambda>i. (replicate 32 (word_of_nat i), replicate 32 (word_of_nat (Suc i)))),
       box_keypair = (\<lambda>i. (replicate 32 (word_of_nat i), replicate 32 (word_of_nat (Suc i)))),
       sign_sk_bytes = 64,
       sign_detached = (\<lambda>m k. replicate 64 0),
       sign_verify = (\<lambda>s m k. s = replicate 64 0),
       scalarmult_base = (\<lambda>sk. map (\<lambda>b. b + 1) sk),
       kx_client = (\<lambda>pk sk peer. Some (pk, peer)),
       pwhash = (\<lambda>n pw salt l. Some (take n (salt @ replicate n 0))),
       aead_npub = 8,
       aead_encrypt = (\<lambda>p n k. p @ replicate 16 0),
       aead_decrypt = (\<lambda>c n k. if drop (length c - 16) c = replicate 16 0
                                then Some (take (length c - 16) c) else None),
       hmac_sha256 = (\<lambda>k m. take 32 (k @ m @ replicate 32 0)),
       generichash = (\<lambda>m. take 32 (m @ replicate 32 0)),
       bin2hex = (\<lambda>bs. map char_of_byte bs),
       uniform_int = (\<lambda>i a b. a) \<rparr>"

lemma toy_sodium_ok [simp]: "aead_ok toy_sodium" "hmac_ok toy_sodium"
  by (simp_all add: aead_ok_def hmac_ok_def toy_sodium_def min_def)

subsection \<open>Clocks\<close>

text \<open>
  \<open>std::time(nullptr)\<close> and \<open>system_clock::now().time_since_epoch().count()\<close>: the value of
  the n-th reading. The state counts the readings.
\<close>

record clock =
  unix_time :: "nat \<Rightarrow> int"
  sys_clock :: "nat \<Rightarrow> u64"

subsection \<open>hiredis\<close>

text \<open>
  The replies of \<open>redisCommand\<close>, and the client library over a Redis server in state
  \<open>'r\<close>. A connection context is a number; \<open>h_command\<close> takes the format string and the
  arguments of its \<open>%\<close> directives.
\<close>

datatype reply =
    R_String string
  | R_Status string
  | R_Integer int
  | R_Array "reply list"
  | R_Nil
  | R_Error string

record 'r hiredis =
  h_connect :: "string \<Rightarrow> int \<Rightarrow> 'r \<Rightarrow> nat option \<times> 'r"
  h_err :: "nat \<Rightarrow> 'r \<Rightarrow> bool"
  h_free :: "nat \<Rightarrow> 'r \<Rightarrow> 'r"
  h_command :: "nat \<Rightarrow> string \<Rightarrow> string list \<Rightarrow> 'r \<Rightarrow> reply option \<times> 'r"

end
