(* ===== verification/E2E.thy ===== *)
theory E2E
  imports Encodings External
begin

section \<open>End-to-end encryption (e2e_encryption.cpp)\<close>

text \<open>
  Key pairs, AEAD encryption, the wire format of an encrypted message, session keys and the
  ratchet. \<open>crypto\<close> is the module's state: the flag \<open>sodium_initialized_\<close> and the number
  of random draws made. An array of the source that is not initialised takes its bytes from an
  argument \<open>junk\<close>.
\<close>

subsection \<open>State and initialisation\<close>

record crypto =
  sodium_initialized :: bool
  draws :: nat

record key_pair =
  public_key :: bytes
  private_key :: bytes

definition initialize :: "sodium \<Rightarrow> (crypto, bool) em" where
  "initialize S =
     and_then (get_st sodium_initialized) (\<lambda>b.
       if b then ret True
       else if sodium_init S < 0 then raise (Runtime_Error ''Failed to initialize libsodium'')
       else and_then (mod_st (\<lambda>c. c\<lparr>sodium_initialized := True\<rparr>)) (\<lambda>_. ret True))"

text \<open>\<open>if (!sodium_initialized_) initialize();\<close>, the first line of every operation.\<close>

definition ensure_init :: "sodium \<Rightarrow> (crypto, unit) em" where
  "ensure_init S =
     and_then (get_st sodium_initialized) (\<lambda>b.
       if b then ret () else and_then (initialize S) (\<lambda>_. ret ()))"

definition draw :: "(nat \<Rightarrow> 'a) \<Rightarrow> (crypto, 'a) em" where
  "draw f =
     and_then (get_st draws) (\<lambda>n.
       and_then (mod_st (\<lambda>c. c\<lparr>draws := Suc n\<rparr>)) (\<lambda>_. ret (f n)))"

text \<open>
  A C function that reads \<open>n\<close> bytes through a pointer to a shorter buffer has undefined
  behaviour; \<open>memcpy\<close> of \<open>n\<close> bytes overwrites the front of its target.
\<close>

definition c_read :: "nat \<Rightarrow> bytes \<Rightarrow> err + bytes" where
  "c_read n buf =
     (if n \<le> length buf then Inr (take n buf) else Inl (Undefined ''read past the end''))"

definition memcpy :: "bytes \<Rightarrow> bytes \<Rightarrow> nat \<Rightarrow> bytes" where
  "memcpy dst src n = take n src @ drop n dst"

definition generate_keypair :: "sodium \<Rightarrow> (crypto, key_pair) em" where
  "generate_keypair S =
     and_then (ensure_init S) (\<lambda>_.
     and_then (draw (kx_keypair S)) (\<lambda>(pk, sk).
       ret \<lparr>public_key = take 32 pk, private_key = take 32 sk\<rparr>))"

definition sign_message :: "sodium \<Rightarrow> bytes \<Rightarrow> bytes \<Rightarrow> (crypto, bytes) em" where
  "sign_message S message signing_key =
     and_then (ensure_init S) (\<lambda>_.
     and_then (lift_sum (c_read (sign_sk_bytes S) signing_key)) (\<lambda>sk.
       ret (sign_detached S message sk)))"

definition verify_signature :: "sodium \<Rightarrow> bytes \<Rightarrow> bytes \<Rightarrow> bytes \<Rightarrow> (crypto, bool) em" where
  "verify_signature S message signature verifying_key =
     and_then (ensure_init S) (\<lambda>_. ret (sign_verify S signature message verifying_key))"

definition compute_shared_secret :: "sodium \<Rightarrow> bytes \<Rightarrow> bytes \<Rightarrow> (crypto, bytes) em" where
  "compute_shared_secret S priv peer_public =
     and_then (ensure_init S) (\<lambda>_.
       (case kx_client S (scalarmult_base S priv) priv peer_public of
          None \<Rightarrow> raise (Runtime_Error ''Shared secret computation failed'')
        | Some (rx, tx) \<Rightarrow> ret (take 32 rx)))"

definition kp_public_key_hex :: "key_pair \<Rightarrow> string" where
  "kp_public_key_hex kp = bytes_to_hex (public_key kp)"

definition kp_from_hex :: "key_pair \<Rightarrow> string \<Rightarrow> string \<Rightarrow> err + key_pair" where
  "kp_from_hex junk public_hex private_hex =
     (case hex_to_bytes public_hex of
        Inl e \<Rightarrow> Inl e
      | Inr pub \<Rightarrow>
          (case hex_to_bytes private_hex of
             Inl e \<Rightarrow> Inl e
           | Inr priv \<Rightarrow>
               Inr \<lparr>public_key = memcpy (public_key junk) pub (min (length pub) 32),
                    private_key = memcpy (private_key junk) priv (min (length priv) 32)\<rparr>))"

subsection \<open>Encrypted messages\<close>

record encrypted_message =
  ciphertext :: bytes
  nonce :: bytes
  auth_tag :: bytes
  message_id :: u64
  timestamp :: u64

text \<open>
  \<open>encrypt\<close>: the nonce is the counter's eight bytes and four random ones; the cipher reads
  \<open>aead_npub\<close> bytes of it and writes ciphertext and tag into one zero-filled buffer, whose last
  16 bytes are then moved to \<open>auth_tag\<close>.
\<close>

definition nonce_of :: "u64 \<Rightarrow> bytes \<Rightarrow> bytes" where
  "nonce_of counter rnd = le_bytes 8 (unat counter) @ rnd"

definition write_into :: "bytes \<Rightarrow> bytes \<Rightarrow> err + bytes" where
  "write_into buf out =
     (if length out \<le> length buf then Inr (memcpy buf out (length out))
      else Inl (Undefined ''write past the end''))"

definition encrypt :: "sodium \<Rightarrow> u64 \<Rightarrow> bytes \<Rightarrow> bytes \<Rightarrow> u64 \<Rightarrow> (crypto, encrypted_message) em" where
  "encrypt S now plaintext key counter =
     and_then (ensure_init S) (\<lambda>_.
     and_then (draw (\<lambda>n. random_bytes S n 4)) (\<lambda>rnd.
     and_then (lift_sum (c_read (aead_npub S) (nonce_of counter rnd))) (\<lambda>npub.
     and_then (lift_sum (write_into (replicate (length plaintext + 16) 0)
                          (aead_encrypt S plaintext npub key))) (\<lambda>buf.
       ret \<lparr>ciphertext = take (length buf - 16) buf,
            nonce = nonce_of counter rnd,
            auth_tag = drop (length buf - 16) buf,
            message_id = counter,
            timestamp = now\<rparr>))))"

definition decrypt :: "sodium \<Rightarrow> encrypted_message \<Rightarrow> bytes \<Rightarrow> u64 \<Rightarrow> (crypto, bytes) em" where
  "decrypt S encrypted key expected_counter =
     and_then (ensure_init S) (\<lambda>_.
     and_then (lift_sum (c_read (aead_npub S) (nonce encrypted))) (\<lambda>npub.
       let with_tag = ciphertext encrypted @ auth_tag encrypted in
       (case aead_decrypt S with_tag npub key of
          None \<Rightarrow> raise (Runtime_Error ''Decryption failed - authentication tag verification failed'')
        | Some p \<Rightarrow> lift_sum (write_into (replicate (length with_tag - 16) 0) p))))"

subsection \<open>Wire format\<close>

definition serialize :: "encrypted_message \<Rightarrow> bytes" where
  "serialize m =
     le_bytes 8 (unat (message_id m)) @ le_bytes 8 (unat (timestamp m)) @ nonce m
     @ le_bytes 4 (unat (word_of_nat (length (ciphertext m)) :: u32))
     @ ciphertext m @ auth_tag m"

definition deserialize :: "bytes \<Rightarrow> err + encrypted_message" where
  "deserialize data =
     (if length data < 32 then Inl (Runtime_Error ''Invalid serialized message format'')
      else
        let cipher_len = le_nat (take 4 (drop 28 data)); offset = 32 + cipher_len in
        if length data < offset then Inl (Undefined ''iterator past the end'')
        else if length data < offset + 16 then Inl (Undefined ''memcpy past the end'')
        else Inr \<lparr>ciphertext = take cipher_len (drop 32 data),
                  nonce = take 12 (drop 16 data),
                  auth_tag = take 16 (drop offset data),
                  message_id = word_of_nat (le_nat (take 8 data)),
                  timestamp = word_of_nat (le_nat (take 8 (drop 8 data)))\<rparr>)"

subsection \<open>Session keys\<close>

record session_keys =
  send_key :: bytes
  recv_key :: bytes
  header_key :: bytes
  send_counter :: u64
  recv_counter :: u64

definition salt_block :: "string \<Rightarrow> bytes" where
  "salt_block salt = memcpy (replicate 16 0) (bytes_of salt) (min (length salt) 16)"

definition flip_first :: "bytes \<Rightarrow> bytes" where
  "flip_first bs = bs[0 := (bs ! 0) XOR 0xFF]"

definition pwhash_or_throw ::
    "sodium \<Rightarrow> nat \<Rightarrow> bytes \<Rightarrow> bytes \<Rightarrow> pw_limits \<Rightarrow> (crypto, bytes) em" where
  "pwhash_or_throw S n pw salt l =
     (case pwhash S n pw salt l of
        None \<Rightarrow> raise (Runtime_Error ''Key derivation failed'')
      | Some k \<Rightarrow> ret k)"

definition derive_session_keys :: "sodium \<Rightarrow> bytes \<Rightarrow> string \<Rightarrow> (crypto, session_keys) em" where
  "derive_session_keys S shared_secret salt =
     and_then (ensure_init S) (\<lambda>_.
     and_then (pwhash_or_throw S 32 shared_secret (salt_block salt) Sensitive) (\<lambda>send.
     and_then (pwhash_or_throw S 32 shared_secret (flip_first (salt_block salt)) Sensitive) (\<lambda>recv.
       ret \<lparr>send_key = send, recv_key = recv, header_key = replicate 32 0,
            send_counter = 0, recv_counter = 0\<rparr>)))"

text \<open>\<open>derive_key\<close>: a salt shorter than 16 bytes leaves the tail of \<open>salt_bytes\<close>
  uninitialised.\<close>

definition derive_key :: "sodium \<Rightarrow> bytes \<Rightarrow> string \<Rightarrow> bytes \<Rightarrow> nat \<Rightarrow> (crypto, bytes) em" where
  "derive_key S junk password salt key_length =
     and_then (ensure_init S) (\<lambda>_.
       pwhash_or_throw S key_length (bytes_of password)
         (memcpy junk salt (min (length salt) 16)) Interactive)"

subsection \<open>Ratchet\<close>

record double_ratchet =
  root_key :: bytes
  dh_send_private :: bytes
  dh_send_public :: bytes
  dh_recv_public :: bytes
  chain_counter :: u32

definition ratchet_new :: "sodium \<Rightarrow> bytes \<Rightarrow> bytes \<Rightarrow> (crypto, double_ratchet) em" where
  "ratchet_new S junk initial_secret =
     and_then (generate_keypair S) (\<lambda>kp.
       ret \<lparr>root_key = initial_secret, dh_send_private = private_key kp,
            dh_send_public = public_key kp, dh_recv_public = junk, chain_counter = 0\<rparr>)"

text \<open>
  The member functions change the object in place: their state is the module's and the object's,
  and what they wrote before a throw stays written.
\<close>

definition in_module :: "(crypto, 'a) em \<Rightarrow> (crypto \<times> double_ratchet, 'a) em" where
  "in_module = zoom fst (\<lambda>c s. (c, snd s))"

definition this_mod :: "(double_ratchet \<Rightarrow> double_ratchet) \<Rightarrow> (crypto \<times> double_ratchet, unit) em" where
  "this_mod f = mod_st (\<lambda>s. (fst s, f (snd s)))"

definition this_get :: "(double_ratchet \<Rightarrow> 'a) \<Rightarrow> (crypto \<times> double_ratchet, 'a) em" where
  "this_get f = get_st (\<lambda>s. f (snd s))"

definition ratchet_forward :: "sodium \<Rightarrow> bytes \<Rightarrow> (crypto \<times> double_ratchet, session_keys) em" where
  "ratchet_forward S junk =
     and_then (this_mod (\<lambda>r. r\<lparr>chain_counter := chain_counter r + 1\<rparr>)) (\<lambda>_.
     and_then (this_get root_key) (\<lambda>root.
     and_then (in_module (derive_key S junk ''root_ratchet'' root 32)) (\<lambda>new_root.
     and_then (lift_sum (c_read 32 new_root)) (\<lambda>new_root32.
     and_then (this_mod (\<lambda>r. r\<lparr>root_key := memcpy (root_key r) new_root32 32\<rparr>)) (\<lambda>_.
     and_then (this_get root_key) (\<lambda>root'.
       in_module (derive_session_keys S root' [])))))))"

definition get_current_keys :: "sodium \<Rightarrow> (crypto \<times> double_ratchet, session_keys) em" where
  "get_current_keys S =
     and_then (this_get root_key) (\<lambda>root. in_module (derive_session_keys S root []))"

definition update_with_peer_key :: "sodium \<Rightarrow> bytes \<Rightarrow> bytes \<Rightarrow> (crypto \<times> double_ratchet, unit) em" where
  "update_with_peer_key S junk peer_key =
     and_then (this_get dh_send_private) (\<lambda>priv.
     and_then (in_module (compute_shared_secret S priv peer_key)) (\<lambda>new_secret.
     and_then (in_module (derive_key S junk ''dh_ratchet'' new_secret 32)) (\<lambda>new_root.
     and_then (lift_sum (c_read 32 new_root)) (\<lambda>new_root32.
     and_then (this_mod (\<lambda>r. r\<lparr>root_key := memcpy (root_key r) new_root32 32\<rparr>)) (\<lambda>_.
     and_then (this_mod (\<lambda>r. r\<lparr>dh_recv_public := memcpy (dh_recv_public r) peer_key 32\<rparr>)) (\<lambda>_.
       this_mod (\<lambda>r. r\<lparr>chain_counter := 0\<rparr>)))))))"

subsection \<open>Initialisation and buffers\<close>

definition sodium_ready :: "sodium \<Rightarrow> crypto \<Rightarrow> bool" where
  "sodium_ready S c \<longleftrightarrow> sodium_initialized c \<or> 0 \<le> sodium_init S"

lemma ensure_init_ready [em_simps]:
  "sodium_ready S c \<Longrightarrow> ensure_init S c = (Inr (), c\<lparr>sodium_initialized := True\<rparr>)"
  by (cases c) (auto simp: ensure_init_def initialize_def sodium_ready_def em_simps)

lemma ensure_init_not_ready [em_simps]:
  "\<not> sodium_ready S c \<Longrightarrow>
   ensure_init S c = (Inl (Runtime_Error ''Failed to initialize libsodium''), c)"
  by (auto simp: ensure_init_def initialize_def sodium_ready_def em_simps)

lemma sodium_ready_initialized [simp]: "sodium_initialized c \<Longrightarrow> sodium_ready S c"
  by (simp add: sodium_ready_def)

lemma draw_run [em_simps]: "draw f c = (Inr (f (draws c)), c\<lparr>draws := Suc (draws c)\<rparr>)"
  by (simp add: draw_def em_simps)

lemma c_read_ok: "n \<le> length buf \<Longrightarrow> c_read n buf = Inr (take n buf)"
  by (simp add: c_read_def)

lemma write_into_exact: "length out = length buf \<Longrightarrow> write_into buf out = Inr out"
  by (simp add: write_into_def memcpy_def)

lemma memcpy_exact: "length src = length dst \<Longrightarrow> memcpy dst src (length dst) = src"
  by (simp add: memcpy_def)

lemma length_nonce_of [simp]: "length (nonce_of c rnd) = 8 + length rnd"
  by (simp add: nonce_of_def)

subsection \<open>Encryption and decryption\<close>

text \<open>The nonce the cipher actually reads: a prefix of at most 12 bytes.\<close>

lemma encrypt_run:
  assumes "sodium_ready S c" and "aead_ok S" and "length (random_bytes S (draws c) 4) = 4"
    and "aead_npub S \<le> 12"
  shows "encrypt S now p k cnt c =
    (let n = nonce_of cnt (random_bytes S (draws c) 4);
         out = aead_encrypt S p (take (aead_npub S) n) k
     in (Inr \<lparr>ciphertext = take (length p) out, nonce = n, auth_tag = drop (length p) out,
               message_id = cnt, timestamp = now\<rparr>,
         c\<lparr>sodium_initialized := True, draws := Suc (draws c)\<rparr>))"
proof -
  have len: "length (aead_encrypt S p n k) = length p + 16" for n
    using assms(2) by (simp add: aead_ok_def)
  show ?thesis
    using assms by (simp add: encrypt_def em_simps c_read_ok write_into_exact len Let_def)
qed

lemma decrypt_run:
  assumes "sodium_ready S c" and "aead_npub S \<le> length (nonce m)"
    and "aead_decrypt S (ciphertext m @ auth_tag m) (take (aead_npub S) (nonce m)) k = Some p"
    and "length p + 16 = length (ciphertext m @ auth_tag m)"
  shows "decrypt S m k e c = (Inr p, c\<lparr>sodium_initialized := True\<rparr>)"
proof -
  have "length p = length (ciphertext m @ auth_tag m) - 16" using assms(4) by simp
  then show ?thesis
    using assms(1-3) by (simp add: decrypt_def em_simps c_read_ok write_into_exact Let_def)
qed

subsection \<open>The wire format\<close>

definition wire_ok :: "encrypted_message \<Rightarrow> bool" where
  "wire_ok m \<longleftrightarrow>
     length (nonce m) = 12 \<and> length (auth_tag m) = 16 \<and> length (ciphertext m) < 2 ^ 32"

lemma length_serialize: "wire_ok m \<Longrightarrow> length (serialize m) = 48 + length (ciphertext m)"
  by (simp add: serialize_def wire_ok_def)

lemma le_nat_u64: "le_nat (le_bytes 8 (unat (w :: u64))) = unat w"
proof -
  have "unat w < 2 ^ LENGTH(64)" by (rule unsigned_less)
  then show ?thesis by (simp add: le_nat_le_bytes)
qed

lemma serialize_fields:
  assumes "wire_ok m"
  shows "take 8 (serialize m @ rest) = le_bytes 8 (unat (message_id m))"
    "take 8 (drop 8 (serialize m @ rest)) = le_bytes 8 (unat (timestamp m))"
    "take 12 (drop 16 (serialize m @ rest)) = nonce m"
    "take 4 (drop 28 (serialize m @ rest)) = le_bytes 4 (length (ciphertext m))"
    "drop 32 (serialize m @ rest) = ciphertext m @ auth_tag m @ rest"
  using assms by (simp_all add: serialize_def wire_ok_def unat_of_nat)

lemma deserialize_serialize_rest:
  assumes "wire_ok m"
  shows "deserialize (serialize m @ rest) = Inr m"
proof -
  have n: "le_nat (take 4 (drop 28 (serialize m @ rest))) = length (ciphertext m)"
    unfolding serialize_fields(4) [OF assms] using assms by (simp add: le_nat_le_bytes wire_ok_def)
  have "drop (32 + length (ciphertext m)) (serialize m @ rest) = auth_tag m @ rest"
    using serialize_fields(5) [OF assms, of rest]
    by (metis append_eq_conv_conj drop_drop add.commute)
  with assms n show ?thesis
    by (simp only: deserialize_def Let_def serialize_fields)
      (simp add: length_serialize le_nat_u64 wire_ok_def)
qed

interpretation wire: sized_codec serialize deserialize wire_ok "\<lambda>m. 48 + length (ciphertext m)"
  using deserialize_serialize_rest [where rest = "[]"]
  by unfold_locales (simp_all add: length_serialize)

subsection \<open>Ratchet steps\<close>

lemma derive_key_long_salt:
  assumes "16 \<le> length salt" and "length junk = 16" and "sodium_ready S c"
  shows "derive_key S junk pw salt n c =
    (case pwhash S n (bytes_of pw) (take 16 salt) Interactive of
       None \<Rightarrow> (Inl (Runtime_Error ''Key derivation failed''), c\<lparr>sodium_initialized := True\<rparr>)
     | Some k \<Rightarrow> (Inr k, c\<lparr>sodium_initialized := True\<rparr>))"
  using assms
  by (simp add: derive_key_def em_simps memcpy_def pwhash_or_throw_def split: option.split)

lemma in_module_run [em_simps]:
  "in_module m (c, r) = (case m c of (res, c') \<Rightarrow> (res, (c', r)))"
  by (simp add: in_module_def zoom_def)

lemma this_run [em_simps]:
  "this_mod f (c, r) = (Inr (), (c, f r))" "this_get g (c, r) = (Inr (g r), (c, r))"
  by (simp_all add: this_mod_def this_get_def em_simps)

lemma derive_session_keys_init:
  "snd (derive_session_keys S k salt (c\<lparr>sodium_initialized := True\<rparr>)) = c\<lparr>sodium_initialized := True\<rparr>"
  by (auto simp: derive_session_keys_def pwhash_or_throw_def em_simps split: option.split)

text \<open>One ratchet step as a function of the first 16 bytes of the root key.\<close>

lemma ratchet_forward_run:
  assumes "length (root_key r) = 32" and "length junk = 16" and "sodium_ready S c"
    and new: "pwhash S 32 (bytes_of ''root_ratchet'') (take 16 (root_key r)) Interactive = Some new"
    and "length new = 32"
  shows "ratchet_forward S junk (c, r) =
    (fst (derive_session_keys S new [] (c\<lparr>sodium_initialized := True\<rparr>)),
     (c\<lparr>sodium_initialized := True\<rparr>,
      r\<lparr>chain_counter := chain_counter r + 1, root_key := new\<rparr>))"
proof -
  have "memcpy (root_key r) new 32 = new"
    using assms(1,5) memcpy_exact [of new "root_key r"] by simp
  then show ?thesis
    using assms
    by (simp add: ratchet_forward_def em_simps derive_key_long_salt c_read_ok
        derive_session_keys_init split: prod.split)
      (metis derive_session_keys_init snd_conv)
qed

lemma ratchet_forward_fails:
  assumes "length (root_key r) = 32" and "length junk = 16" and "sodium_ready S c"
    and "pwhash S 32 (bytes_of ''root_ratchet'') (take 16 (root_key r)) Interactive = None"
  shows "ratchet_forward S junk (c, r) =
    (Inl (Runtime_Error ''Key derivation failed''),
     (c\<lparr>sodium_initialized := True\<rparr>, r\<lparr>chain_counter := chain_counter r + 1\<rparr>))"
  using assms by (simp add: ratchet_forward_def em_simps derive_key_long_salt)

section \<open>Properties of the encryption module\<close>

text \<open>C18: What \<open>encrypt\<close> produces, serialized, followed by anything, deserialized and
  decrypted with the same key gives the plaintext back, and the ciphertext has the plaintext's
  length. The AEAD is only assumed correct; it may read up to 12 bytes of nonce.\<close>

theorem encrypted_channel:
  assumes "sodium_ready S c" and "sodium_ready S c'" and "aead_ok S" and "aead_npub S \<le> 12"
    and "length (random_bytes S (draws c) 4) = 4" and "length p < 2 ^ 32"
  shows "\<exists>m c1. encrypt S now p k cnt c = (Inr m, c1) \<and>
    message_id m = cnt \<and> length (ciphertext m) = length p \<and>
    deserialize (serialize m @ rest) = Inr m \<and>
    decrypt S m k e c' = (Inr p, c'\<lparr>sodium_initialized := True\<rparr>)"
proof -
  define n where "n = nonce_of cnt (random_bytes S (draws c) 4)"
  define out where "out = aead_encrypt S p (take (aead_npub S) n) k"
  define m where "m = \<lparr>ciphertext = take (length p) out, nonce = n, auth_tag = drop (length p) out,
    message_id = cnt, timestamp = now\<rparr>"
  have out: "length out = length p + 16"
    "aead_decrypt S out (take (aead_npub S) n) k = Some p"
    using assms(3) by (simp_all add: out_def aead_ok_def)
  have n: "length n = 12" using assms(5) by (simp add: n_def)
  have "wire_ok m" using out(1) n assms(6) by (simp add: m_def wire_ok_def)
  moreover have "decrypt S m k e c' = (Inr p, c'\<lparr>sodium_initialized := True\<rparr>)"
    using out n assms(2,4) by (intro decrypt_run) (simp_all add: m_def)
  moreover have "encrypt S now p k cnt c =
    (Inr m, c\<lparr>sodium_initialized := True, draws := Suc (draws c)\<rparr>)"
    using encrypt_run [OF assms(1,3,5,4)] by (simp add: m_def n_def out_def Let_def)
  ultimately show ?thesis
    using deserialize_serialize_rest [of m rest] out(1) by (simp add: m_def)
qed

theorem encrypted_channel_witness:
  "\<exists>m c1. encrypt toy_sodium 7 [1, 2, 3] [9] 5 \<lparr>sodium_initialized = False, draws = 0\<rparr> = (Inr m, c1) \<and>
    message_id m = 5 \<and> length (ciphertext m) = length [1 :: byte, 2, 3] \<and>
    deserialize (serialize m @ [0]) = Inr m \<and>
    decrypt toy_sodium m [9] 0 \<lparr>sodium_initialized = True, draws = 0\<rparr>
      = (Inr [1, 2, 3], \<lparr>sodium_initialized = True, draws = 0\<rparr>\<lparr>sodium_initialized := True\<rparr>)"
  by (rule encrypted_channel) (simp_all add: sodium_ready_def toy_sodium_def aead_ok_def)

text \<open>C38: \<open>deserialize\<close> rejects buffers under 32 bytes, but a buffer of 32 bytes or more
  that is shorter than the 48 bytes of fixed fields plus the length its own header claims is read
  past its end; every other buffer is decoded.\<close>

theorem deserialize_outcomes:
  "(deserialize data = Inl (Runtime_Error ''Invalid serialized message format'')
      \<longleftrightarrow> length data < 32) \<and>
   ((\<exists>w. deserialize data = Inl (Undefined w))
      \<longleftrightarrow> 32 \<le> length data \<and> length data < 48 + le_nat (take 4 (drop 28 data))) \<and>
   ((\<exists>m. deserialize data = Inr m \<and> wire_ok m)
      \<longleftrightarrow> 48 + le_nat (take 4 (drop 28 data)) \<le> length data)"
proof -
  define n where "n = le_nat (take 4 (drop 28 data))"
  have n: "n < 2 ^ 32" if "32 \<le> length data"
  proof -
    have "length (take 4 (drop 28 data)) = 4" using that by simp
    then show ?thesis using le_nat_bound [of "take 4 (drop 28 data)"] by (simp add: n_def)
  qed
  consider "length data < 32" | "32 \<le> length data" "length data < 32 + n"
    | "32 + n \<le> length data" "length data < 48 + n" | "48 + n \<le> length data"
    by linarith
  then show ?thesis
    using n by cases (simp_all add: deserialize_def Let_def wire_ok_def flip: n_def)
qed

text \<open>With the eight-byte nonce that \<open>crypto_aead_chacha20poly1305\<close> reads
  (\<open>NPUBBYTES = 8\<close>), the four random bytes \<open>encrypt\<close> puts into the nonce never reach the
  cipher: two encryptions of the same plaintext under the same key and counter give the same
  ciphertext and tag, whatever was drawn.\<close>

theorem random_nonce_bytes_unused:
  assumes "aead_npub S = 8" and "aead_ok S" and "sodium_ready S c1" and "sodium_ready S c2"
    and "\<And>n. length (random_bytes S n 4) = 4"
    and "encrypt S t1 p k cnt c1 = (Inr m1, d1)" and "encrypt S t2 p k cnt c2 = (Inr m2, d2)"
  shows "ciphertext m1 = ciphertext m2 \<and> auth_tag m1 = auth_tag m2"
proof -
  have eight: "take 8 (nonce_of cnt r) = le_bytes 8 (unat cnt)" for r
    by (simp add: nonce_of_def)
  show ?thesis
    using encrypt_run [OF assms(3,2,5), of t1 p k cnt] encrypt_run [OF assms(4,2,5), of t2 p k cnt]
      assms(1,6,7)
    by (auto simp: Let_def eight)
qed

theorem random_nonce_bytes_unused_witness:
  "\<exists>m1 m2 d1 d2.
    encrypt toy_sodium 1 [7] [9] 5 \<lparr>sodium_initialized = True, draws = 0\<rparr> = (Inr m1, d1) \<and>
    encrypt toy_sodium 2 [7] [9] 5 \<lparr>sodium_initialized = True, draws = 3\<rparr> = (Inr m2, d2) \<and>
    nonce m1 \<noteq> nonce m2 \<and> ciphertext m1 = ciphertext m2 \<and> auth_tag m1 = auth_tag m2"
proof -
  define c1 :: crypto where "c1 = \<lparr>sodium_initialized = True, draws = 0\<rparr>"
  define c2 :: crypto where "c2 = \<lparr>sodium_initialized = True, draws = 3\<rparr>"
  have r: "length (random_bytes toy_sodium n 4) = 4" for n by (simp add: toy_sodium_def)
  have "sodium_ready toy_sodium c1" "sodium_ready toy_sodium c2" by (simp_all add: c1_def c2_def)
  note runs = encrypt_run [OF this(1) toy_sodium_ok(1) r, of 1 "[7]" "[9]" 5]
    encrypt_run [OF this(2) toy_sodium_ok(1) r, of 2 "[7]" "[9]" 5]
  have npub: "aead_npub toy_sodium = 8" by (simp add: toy_sodium_def)
  with runs obtain m1 d1 m2 d2 where m: "encrypt toy_sodium 1 [7] [9] 5 c1 = (Inr m1, d1)"
      "encrypt toy_sodium 2 [7] [9] 5 c2 = (Inr m2, d2)" "nonce m1 \<noteq> nonce m2"
    by (auto simp: Let_def nonce_of_def toy_sodium_def c1_def c2_def)
  moreover have "ciphertext m1 = ciphertext m2 \<and> auth_tag m1 = auth_tag m2"
    by (rule random_nonce_bytes_unused [OF npub toy_sodium_ok(1) _ _ r m(1,2)])
      (simp_all add: c1_def c2_def)
  ultimately show ?thesis unfolding c1_def c2_def by blast
qed

text \<open>A ratchet step keeps only half of the root key: two ratchets whose 32-byte root keys
  agree in their first 16 bytes take the same step, to the same session keys and the same next
  root key, and each counts one step.\<close>

theorem ratchet_uses_half_the_root:
  assumes "length (root_key r1) = 32" and "length (root_key r2) = 32" and "length junk = 16"
    and "sodium_ready S c" and "take 16 (root_key r1) = take 16 (root_key r2)"
    and "\<And>n pw salt l k. pwhash S n pw salt l = Some k \<Longrightarrow> length k = n"
    and "ratchet_forward S junk (c, r1) = (Inr keys, (c1, s1))"
  shows "\<exists>s2. ratchet_forward S junk (c, r2) = (Inr keys, (c1, s2)) \<and> root_key s1 = root_key s2 \<and>
    chain_counter s1 = chain_counter r1 + 1 \<and> chain_counter s2 = chain_counter r2 + 1"
proof (cases "pwhash S 32 (bytes_of ''root_ratchet'') (take 16 (root_key r1)) Interactive")
  case None
  then show ?thesis using ratchet_forward_fails [OF assms(1,3,4)] assms(7) by simp
next
  case (Some new)
  then have "length new = 32" by (rule assms(6))
  with Some assms show ?thesis
    using ratchet_forward_run [OF assms(1,3,4), of new] ratchet_forward_run [OF assms(2,3,4), of new]
    by auto
qed

theorem ratchet_uses_half_the_root_witness:
  "\<exists>keys c1 s1 s2.
    ratchet_forward toy_sodium (replicate 16 0) (\<lparr>sodium_initialized = True, draws = 0\<rparr>,
      \<lparr>root_key = replicate 32 1, dh_send_private = [], dh_send_public = [],
       dh_recv_public = [], chain_counter = 0\<rparr>) = (Inr keys, (c1, s1)) \<and>
    ratchet_forward toy_sodium (replicate 16 0) (\<lparr>sodium_initialized = True, draws = 0\<rparr>,
      \<lparr>root_key = replicate 16 1 @ replicate 16 2, dh_send_private = [], dh_send_public = [],
       dh_recv_public = [], chain_counter = 4\<rparr>) = (Inr keys, (c1, s2)) \<and>
    root_key s1 = root_key s2 \<and> chain_counter s1 = 0 + 1 \<and> chain_counter s2 = 4 + 1"
proof -
  let ?c = "\<lparr>sodium_initialized = True, draws = 0\<rparr>"
  let ?r1 = "\<lparr>root_key = replicate 32 1, dh_send_private = [], dh_send_public = [],
       dh_recv_public = [], chain_counter = 0\<rparr>"
  let ?r2 = "\<lparr>root_key = replicate 16 1 @ replicate 16 2, dh_send_private = [], dh_send_public = [],
       dh_recv_public = [], chain_counter = 4\<rparr>"
  have len: "length k = n" if "pwhash toy_sodium n pw salt l = Some k" for n pw salt l k
    using that by (auto simp: toy_sodium_def min_def)
  have "\<exists>keys c1 s1. ratchet_forward toy_sodium (replicate 16 0) (?c, ?r1) = (Inr keys, (c1, s1))"
    by (subst ratchet_forward_run [where new = "replicate 16 1 @ replicate 16 0"])
      (simp_all add: toy_sodium_def derive_session_keys_def pwhash_or_throw_def em_simps
        numeral_eq_Suc)
  then obtain keys c1 s1 where
    run: "ratchet_forward toy_sodium (replicate 16 0) (?c, ?r1) = (Inr keys, (c1, s1))" by blast
  have "take 16 (root_key ?r1) = take 16 (root_key ?r2)" by simp
  from ratchet_uses_half_the_root [OF _ _ _ _ this len run]
  show ?thesis using run by fastforce
qed

text \<open>\<open>update_with_peer_key\<close> with a working key exchange and derivation replaces the root
  key by one derived from the exchanged secret, stores the peer's key, resets the counter and
  leaves the own key pair alone.\<close>

theorem peer_key_update:
  assumes "sodium_ready S c" and "length junk = 16" and "length peer = 32"
    and "length (root_key r) = 32" and "length (dh_recv_public r) = 32"
    and "kx_client S (scalarmult_base S (dh_send_private r)) (dh_send_private r) peer = Some (rx, tx)"
    and "length rx = 32"
    and "pwhash S 32 (bytes_of ''dh_ratchet'') (take 16 rx) Interactive = Some new" and "length new = 32"
  shows "update_with_peer_key S junk peer (c, r) =
    (Inr (), (c\<lparr>sodium_initialized := True\<rparr>,
      r\<lparr>root_key := new, dh_recv_public := peer, chain_counter := 0\<rparr>))"
proof -
  have "memcpy (root_key r) new 32 = new" "memcpy (dh_recv_public r) peer 32 = peer"
    using assms memcpy_exact [of new "root_key r"] memcpy_exact [of peer "dh_recv_public r"]
    by simp_all
  moreover have "compute_shared_secret S (dh_send_private r) peer c =
      (Inr rx, c\<lparr>sodium_initialized := True\<rparr>)"
    using assms by (simp add: compute_shared_secret_def em_simps)
  ultimately show ?thesis
    using assms by (simp add: update_with_peer_key_def em_simps derive_key_long_salt c_read_ok)
qed

theorem peer_key_update_witness:
  "update_with_peer_key toy_sodium (replicate 16 0) (replicate 32 7)
     (\<lparr>sodium_initialized = True, draws = 0\<rparr>,
      \<lparr>root_key = replicate 32 1, dh_send_private = replicate 32 3, dh_send_public = [],
       dh_recv_public = replicate 32 0, chain_counter = 9\<rparr>) =
   (Inr (), (\<lparr>sodium_initialized = True, draws = 0\<rparr>\<lparr>sodium_initialized := True\<rparr>,
      \<lparr>root_key = replicate 32 1, dh_send_private = replicate 32 3, dh_send_public = [],
       dh_recv_public = replicate 32 0, chain_counter = 9\<rparr>
      \<lparr>root_key := replicate 16 4 @ replicate 16 0, dh_recv_public := replicate 32 7,
       chain_counter := 0\<rparr>))"
  by (rule peer_key_update [where rx = "replicate 32 4" and tx = "replicate 32 7"])
    (simp_all add: toy_sodium_def)

text \<open>\<open>sign_message\<close> takes a 32-byte signing key where the library reads
  \<open>crypto_sign_SECRETKEYBYTES = 64\<close> bytes: every call reads past the end of the key.\<close>

theorem sign_message_overreads:
  assumes "sign_sk_bytes S = 64" and "length key = 32" and "sodium_ready S c"
  shows "fst (sign_message S msg key c) = Inl (Undefined ''read past the end'')"
  using assms by (simp add: sign_message_def em_simps c_read_def)

theorem sign_message_overreads_witness:
  "fst (sign_message toy_sodium [1] (replicate 32 0) \<lparr>sodium_initialized = True, draws = 0\<rparr>)
     = Inl (Undefined ''read past the end'')"
  by (rule sign_message_overreads) (simp_all add: toy_sodium_def)

end
