(* ===== verification/Jwt.thy ===== *)
theory Jwt
  imports Encodings External
begin

section \<open>Tokens and one-time codes (JwtHelper and OtpHelper of http_api.cpp)\<close>

text \<open>
  \<open>JwtHelper::create\<close> and \<open>verify\<close> over the HMAC and the JSON library, with the clock
  reading, in seconds, as an argument; \<open>OtpHelper::generate\<close> and \<open>hash\<close>. The lemmas
  follow \<open>verify\<close> through its cases; the properties at the end say what a verified token
  is and that exactly the tokens made with the same secret in the last 30 days verify.
\<close>

definition jwt_header :: string where
  \<open>jwt_header = ''{"alg":"HS256","typ":"JWT"}''\<close>

definition jwt_lifetime :: int where
  "jwt_lifetime = 30 * 24 * 3600"

definition jwt_payload :: "int \<Rightarrow> string \<Rightarrow> json" where
  "jwt_payload now user =
     JObj [(''exp'', JInt (now + jwt_lifetime)), (''iat'', JInt now), (''sub'', JStr user)]"

definition jwt_hp :: "json_lib \<Rightarrow> int \<Rightarrow> string \<Rightarrow> string" where
  "jwt_hp L now user =
     base64url_encode (bytes_of jwt_header) @ ''.'' @
     base64url_encode (bytes_of (j_dump L (jwt_payload now user)))"

definition jwt_mac :: "sodium \<Rightarrow> string \<Rightarrow> string \<Rightarrow> bytes" where
  "jwt_mac S secret hp = hmac_sha256 S (bytes_of secret) (bytes_of hp)"

definition jwt_create :: "sodium \<Rightarrow> json_lib \<Rightarrow> int \<Rightarrow> string \<Rightarrow> string \<Rightarrow> string" where
  "jwt_create S L now user secret =
     (let hp = jwt_hp L now user in hp @ ''.'' @ base64url_encode (jwt_mac S secret hp))"

text \<open>The \<open>try\<close> block of \<open>verify\<close>, and \<open>verify\<close> itself: the empty string is failure.\<close>

definition jwt_claims :: "json_lib \<Rightarrow> int \<Rightarrow> string \<Rightarrow> err + string" where
  "jwt_claims L now payload_str =
     (case j_parse L payload_str of
        Inl e \<Rightarrow> Inl e
      | Inr pl \<Rightarrow>
          (case j_value_int L pl ''exp'' 0 of
             Inl e \<Rightarrow> Inl e
           | Inr expiry \<Rightarrow> if expiry < now then Inr [] else j_value_str L pl ''sub'' []))"

definition jwt_verify :: "sodium \<Rightarrow> json_lib \<Rightarrow> int \<Rightarrow> string \<Rightarrow> string \<Rightarrow> string" where
  "jwt_verify S L now token secret =
     (case find_ch (CHR ''.'') token of
        None \<Rightarrow> []
      | Some dot1 \<Rightarrow>
          (case find_ch_from (CHR ''.'') token (dot1 + 1) of
             None \<Rightarrow> []
           | Some dot2 \<Rightarrow>
               (let hp = take dot2 token;
                    sig_raw = base64url_decode_str (drop (dot2 + 1) token)
                in if length sig_raw \<noteq> 32 then []
                   else if jwt_mac S secret hp \<noteq> bytes_of sig_raw then []
                   else (case jwt_claims L now
                               (base64url_decode_str (take (dot2 - dot1 - 1) (drop (dot1 + 1) token))) of
                           Inl _ \<Rightarrow> []
                         | Inr user \<Rightarrow> user))))"

subsection \<open>Three dot-separated parts\<close>

lemma two_dots:
  assumes "CHR ''.'' \<notin> set h" and "CHR ''.'' \<notin> set p"
  shows "find_ch (CHR ''.'') (h @ ''.'' @ p @ ''.'' @ s) = Some (length h)"
    "find_ch_from (CHR ''.'') (h @ ''.'' @ p @ ''.'' @ s) (length h + 1) =
      Some (length h + 1 + length p)"
  using find_ch_first [OF assms(1)] find_ch_first [OF assms(2)]
  by (simp_all add: find_ch_from_def)

lemma jwt_verify_parts:
  assumes "CHR ''.'' \<notin> set h" and "CHR ''.'' \<notin> set p"
  shows "jwt_verify S L now (h @ ''.'' @ p @ ''.'' @ s) secret =
    (if length (base64url_decode_str s) \<noteq> 32 \<or>
        jwt_mac S secret (h @ ''.'' @ p) \<noteq> bytes_of (base64url_decode_str s) then []
     else (case jwt_claims L now (base64url_decode_str p) of Inl _ \<Rightarrow> [] | Inr user \<Rightarrow> user))"
  using two_dots [OF assms, of s] by (simp add: jwt_verify_def Let_def)

lemma jwt_verify_split:
  assumes "jwt_verify S L now token secret \<noteq> []"
  obtains h p s where "token = h @ ''.'' @ p @ ''.'' @ s" "CHR ''.'' \<notin> set h" "CHR ''.'' \<notin> set p"
proof -
  obtain d1 where d1: "find_ch (CHR ''.'') token = Some d1"
    using assms by (auto simp: jwt_verify_def split: option.splits)
  obtain d2 where d2: "find_ch_from (CHR ''.'') token (d1 + 1) = Some d2"
    using assms d1 by (auto simp: jwt_verify_def split: option.splits)
  define rest where "rest = drop (d1 + 1) token"
  obtain i where i: "find_ch (CHR ''.'') rest = Some i"
    using d2 by (auto simp: find_ch_from_def rest_def)
  have "token = take d1 token @ CHR ''.'' # rest"
    using find_ch_split [OF d1] by (simp add: rest_def)
  moreover have "rest = take i rest @ CHR ''.'' # drop (Suc i) rest"
    by (rule find_ch_split [OF i])
  ultimately have "token = take d1 token @ ''.'' @ take i rest @ ''.'' @ drop (Suc i) rest"
    by simp
  then show thesis using that find_ch_Some [OF d1] find_ch_Some [OF i] by blast
qed

lemma jwt_payload_claims:
  assumes "json_accessors_ok L" and "json_roundtrips L (jwt_payload now user)"
  shows "jwt_claims L now' (j_dump L (jwt_payload now user)) =
    Inr (if now' \<le> now + jwt_lifetime then user else [])"
proof -
  have "j_parse L (j_dump L (jwt_payload now user)) = Inr (jwt_payload now user)"
    using assms(2) by (simp add: json_roundtrips_def)
  then show ?thesis
    using assms(1)
    by (simp add: jwt_claims_def jwt_payload_def json_accessors_ok_def doc_json_def doc_value_def
        doc_get_str_def)
qed

lemma jwt_verify_created:
  assumes "hmac_ok S" and "json_accessors_ok L" and "json_roundtrips L (jwt_payload now user)"
  shows "jwt_verify S L now' (jwt_create S L now user secret) secret' =
    (if jwt_mac S secret' (jwt_hp L now user) = jwt_mac S secret (jwt_hp L now user) \<and>
        now' \<le> now + 2592000 then user else [])"
proof -
  define h where "h = base64url_encode (bytes_of jwt_header)"
  define p where "p = base64url_encode (bytes_of (j_dump L (jwt_payload now user)))"
  have len: "length (jwt_mac S secret hp) = 32" for hp
    using assms(1) by (simp add: hmac_ok_def jwt_mac_def)
  have hp: "jwt_hp L now user = h @ ''.'' @ p" by (simp add: jwt_hp_def h_def p_def)
  have tok: "jwt_create S L now user secret =
      h @ ''.'' @ p @ ''.'' @ base64url_encode (jwt_mac S secret (jwt_hp L now user))"
    by (simp add: jwt_create_def Let_def hp)
  have dots: "CHR ''.'' \<notin> set h" "CHR ''.'' \<notin> set p" by (simp_all add: h_def p_def)
  have "jwt_claims L now' (base64url_decode_str p) = Inr (if now' \<le> now + 2592000 then user else [])"
    using jwt_payload_claims [OF assms(2,3)] by (simp add: p_def base64url_roundtrip jwt_lifetime_def)
  then show ?thesis
    by (simp only: tok jwt_verify_parts [OF dots] base64url_roundtrip len bytes_of_string_of
        length_string_of hp [symmetric] sum.case) simp
qed

text \<open>A library for the witnesses, which knows one text.\<close>

definition toy_json :: json_lib where
  "toy_json =
     doc_json (\<lambda>s. if s = ''p'' then Inr (jwt_payload 100 ''u1'') else Inl Parse_Error) (\<lambda>j. ''p'')"

lemma toy_json_ok: "json_accessors_ok toy_json" "json_roundtrips toy_json (jwt_payload 100 ''u1'')"
  by (simp_all add: toy_json_def json_roundtrips_def) (simp add: doc_json_def)

subsection \<open>One-time codes\<close>

definition otp_generate :: "sodium \<Rightarrow> nat \<Rightarrow> string" where
  "otp_generate S n = show_int (uniform_int S n 100000 999999)"

definition otp_hash :: "sodium \<Rightarrow> string \<Rightarrow> string" where
  "otp_hash S code = bin2hex S (generichash S (bytes_of code))"

lemma length_show_nat:
  "0 < k \<Longrightarrow> 10 ^ (k - 1) \<le> n \<Longrightarrow> n < 10 ^ k \<Longrightarrow> length (show_nat n) = k"
proof (induction k arbitrary: n)
  case 0
  then show ?case by simp
next
  case (Suc k)
  show ?case
  proof (cases "k = 0")
    case True
    then show ?thesis using Suc.prems by (subst show_nat.simps) simp
  next
    case False
    then obtain j where j: "k = Suc j" by (cases k) auto
    have "10 ^ j \<le> n div 10" "n div 10 < 10 ^ k"
      using Suc.prems by (auto simp: j less_mult_imp_div_less less_eq_div_iff_mult_less_eq)
    then have "length (show_nat (n div 10)) = k" using Suc.IH [of "n div 10"] j by simp
    moreover have "\<not> n < 10"
    proof -
      have "1 \<le> (10::nat) ^ j" by simp
      moreover have "10 * 10 ^ j \<le> n" using Suc.prems by (simp add: j)
      ultimately show ?thesis by linarith
    qed
    ultimately show ?thesis by (subst show_nat.simps) simp
  qed
qed

section \<open>Properties of tokens and codes\<close>

text \<open>C21: A token made by \<open>create\<close> verifies, to the user it was made for, exactly when the
  verifier's secret gives the same MAC as the creator's and the clock has not passed the expiry,
  30 days after the creation; otherwise \<open>verify\<close> returns the empty string.\<close>

theorem jwt_roundtrip:
  assumes "hmac_ok S" and "json_accessors_ok L" and "json_roundtrips L (jwt_payload now user)"
  shows "jwt_verify S L now' (jwt_create S L now user secret) secret' =
    (if jwt_mac S secret' (jwt_hp L now user) = jwt_mac S secret (jwt_hp L now user) \<and>
        now' \<le> now + 2592000 then user else [])"
  by (rule jwt_verify_created [OF assms])

theorem jwt_roundtrip_witness:
  "jwt_verify toy_sodium toy_json 2592100 (jwt_create toy_sodium toy_json 100 ''u1'' ''key'') ''key'' = ''u1'' \<and>
   jwt_verify toy_sodium toy_json 2592101 (jwt_create toy_sodium toy_json 100 ''u1'' ''key'') ''key'' = [] \<and>
   jwt_verify toy_sodium toy_json 100 (jwt_create toy_sodium toy_json 100 ''u1'' ''key'') ''kez'' = []"
proof -
  have "jwt_mac toy_sodium ''kez'' hp \<noteq> jwt_mac toy_sodium ''key'' hp" for hp
    by (simp add: jwt_mac_def toy_sodium_def bytes_of_def byte_of_char_def numeral_eq_Suc)
  then show ?thesis
    using jwt_roundtrip [OF toy_sodium_ok(2) toy_json_ok] by simp
qed

text \<open>C19: Whatever \<open>verify\<close> accepts is signed and fresh: the token has three dot-separated
  parts, the third decodes to the MAC of the first two under the secret, and the second decodes to
  claims that name the returned user and an expiry not before now.\<close>

theorem jwt_verify_sound:
  assumes "jwt_verify S L now token secret = user" and "user \<noteq> []"
  shows "\<exists>h p s pl expiry. token = h @ ''.'' @ p @ ''.'' @ s \<and> CHR ''.'' \<notin> set (h @ p) \<and>
    bytes_of (base64url_decode_str s) = jwt_mac S secret (h @ ''.'' @ p) \<and>
    j_parse L (base64url_decode_str p) = Inr pl \<and>
    j_value_int L pl ''exp'' 0 = Inr expiry \<and> now \<le> expiry \<and> j_value_str L pl ''sub'' [] = Inr user"
proof -
  obtain h p s where parts: "token = h @ ''.'' @ p @ ''.'' @ s" "CHR ''.'' \<notin> set h" "CHR ''.'' \<notin> set p"
    using jwt_verify_split assms by metis
  have mac: "jwt_mac S secret (h @ ''.'' @ p) = bytes_of (base64url_decode_str s)"
    and claims: "jwt_claims L now (base64url_decode_str p) = Inr user"
    using assms unfolding parts(1) jwt_verify_parts [OF parts(2,3)]
    by (auto split: if_splits sum.splits)
  from claims assms(2) obtain pl expiry where "j_parse L (base64url_decode_str p) = Inr pl"
    "j_value_int L pl ''exp'' 0 = Inr expiry" "now \<le> expiry" "j_value_str L pl ''sub'' [] = Inr user"
    by (auto simp: jwt_claims_def split: sum.splits if_splits)
  with parts mac show ?thesis by (metis UnE set_append)
qed

theorem jwt_verify_sound_witness:
  "\<exists>token h p s pl expiry. jwt_verify toy_sodium toy_json 200 token ''key'' = ''u1'' \<and>
    token = h @ ''.'' @ p @ ''.'' @ s \<and> CHR ''.'' \<notin> set (h @ p) \<and>
    bytes_of (base64url_decode_str s) = jwt_mac toy_sodium ''key'' (h @ ''.'' @ p) \<and>
    j_parse toy_json (base64url_decode_str p) = Inr pl \<and>
    j_value_int toy_json pl ''exp'' 0 = Inr expiry \<and> 200 \<le> expiry \<and>
    j_value_str toy_json pl ''sub'' [] = Inr ''u1''"
proof -
  have ok: "jwt_verify toy_sodium toy_json 200 (jwt_create toy_sodium toy_json 100 ''u1'' ''key'') ''key'' = ''u1''"
    by (simp add: jwt_verify_created [OF toy_sodium_ok(2) toy_json_ok])
  then show ?thesis using jwt_verify_sound [OF ok] by blast
qed

text \<open>\<open>OtpHelper::generate\<close> always gives a code of six decimal digits with no leading
  zero, if the distribution stays in its range.\<close>

theorem otp_six_digits:
  assumes "100000 \<le> uniform_int S n 100000 999999" and "uniform_int S n 100000 999999 \<le> 999999"
  shows "length (otp_generate S n) = 6 \<and> (\<forall>c \<in> set (otp_generate S n). \<exists>d < 10. c = digit_char d) \<and>
    stoi (otp_generate S n) = Inr (uniform_int S n 100000 999999)"
proof -
  define v where "v = nat (uniform_int S n 100000 999999)"
  have v: "100000 \<le> v" "v < 1000000" using assms by (simp_all add: v_def nat_less_iff le_nat_iff)
  have gen: "otp_generate S n = show_nat v"
    using assms by (simp add: otp_generate_def show_int_def v_def)
  have "length (show_nat v) = 6" using v by (intro length_show_nat) simp_all
  moreover have "stoi (show_nat v) = Inr (int v)" using v by (intro stoi_show_nat) simp
  ultimately show ?thesis using show_nat_digits [of v] assms by (simp add: gen v_def)
qed

theorem otp_six_digits_witness:
  "length (otp_generate toy_sodium 3) = 6 \<and>
   stoi (otp_generate toy_sodium 3) = Inr (uniform_int toy_sodium 3 100000 999999)"
proof -
  have "100000 \<le> uniform_int toy_sodium 3 100000 999999" "uniform_int toy_sodium 3 100000 999999 \<le> 999999"
    by (simp_all add: toy_sodium_def)
  then show ?thesis using otp_six_digits by blast
qed

end
