(* ===== verification/Std_Map.thy ===== *)
theory Std_Map
  imports Cpp_Std
begin

section \<open>std::map\<close>

text \<open>
  The contract of an ordered map with unique keys (locale \<open>finite_map\<close>) and its
  provider: the list of pairs in increasing key order, which is what iterating a
  \<open>std::map\<close> yields. \<open>sm_put\<close> is \<open>m[k] = v\<close>, \<open>sm_del\<close> is \<open>m.erase(k)\<close>,
  \<open>map_of m k\<close> is \<open>m.find(k)\<close> and \<open>length m\<close> is \<open>m.size()\<close>.
\<close>

locale finite_map =
  fixes look :: "'m \<Rightarrow> 'k \<Rightarrow> 'v option"
    and put :: "'k \<Rightarrow> 'v \<Rightarrow> 'm \<Rightarrow> 'm"
    and del :: "'k \<Rightarrow> 'm \<Rightarrow> 'm"
    and entries :: "'m \<Rightarrow> ('k \<times> 'v) list"
    and wf_map :: "'m \<Rightarrow> bool"
  assumes look_put: "look (put k v m) = (look m)(k \<mapsto> v)"
    and look_del: "look (del k m) = (look m)(k := None)"
    and wf_put: "wf_map m \<Longrightarrow> wf_map (put k v m)"
    and wf_del: "wf_map m \<Longrightarrow> wf_map (del k m)"
    and entries_look: "wf_map m \<Longrightarrow> (k, v) \<in> set (entries m) \<longleftrightarrow> look m k = Some v"
    and entries_distinct: "wf_map m \<Longrightarrow> distinct (map fst (entries m))"
    and map_ext: "wf_map m \<Longrightarrow> wf_map n \<Longrightarrow> look m = look n \<Longrightarrow> m = n"
begin

lemma put_put_same: "wf_map m \<Longrightarrow> put k w (put k v m) = put k w m"
  by (intro map_ext) (simp_all add: look_put wf_put)

lemma put_commute: "wf_map m \<Longrightarrow> k \<noteq> l \<Longrightarrow> put k v (put l w m) = put l w (put k v m)"
  by (intro map_ext) (auto simp: look_put wf_put fun_upd_twist)

lemma put_absorb: "wf_map m \<Longrightarrow> look m k = Some v \<Longrightarrow> put k v m = m"
  by (intro map_ext) (auto simp: look_put wf_put fun_eq_iff)

lemma del_put_fresh: "wf_map m \<Longrightarrow> look m k = None \<Longrightarrow> del k (put k v m) = m"
  by (intro map_ext) (auto simp: look_put look_del wf_put wf_del fun_eq_iff)

lemma del_absent: "wf_map m \<Longrightarrow> look m k = None \<Longrightarrow> del k m = m"
  by (intro map_ext) (auto simp: look_del wf_del fun_eq_iff)

lemma dom_entries: "wf_map m \<Longrightarrow> dom (look m) = fst ` set (entries m)"
  using entries_look by (force simp: dom_def image_iff)

lemma size_dom: "wf_map m \<Longrightarrow> length (entries m) = card (dom (look m))"
  using entries_distinct [of m]
  by (metis dom_entries distinct_card length_map list.set_map)

lemma finite_dom_look: "wf_map m \<Longrightarrow> finite (dom (look m))"
  by (simp add: dom_entries)

lemma size_put:
  "wf_map m \<Longrightarrow>
   length (entries (put k v m)) =
     (if look m k = None then Suc (length (entries m)) else length (entries m))"
  by (auto simp: size_dom wf_put look_put finite_dom_look card_insert_if domIff)

lemma size_del_le: "wf_map m \<Longrightarrow> length (entries (del k m)) \<le> length (entries m)"
  by (simp add: size_dom wf_del look_del finite_dom_look card_mono)

lemma look_del_all: "look (fold del ks m) = (look m) |` (- set ks)"
proof (induction ks arbitrary: m)
  case Nil
  then show ?case by simp
next
  case (Cons k ks)
  then show ?case by (auto simp: look_del restrict_map_def fun_eq_iff)
qed

lemma wf_del_all: "wf_map m \<Longrightarrow> wf_map (fold del ks m)"
  by (induction ks arbitrary: m) (simp_all add: wf_del)

end

subsection \<open>The sorted list of pairs\<close>

fun sm_put :: "'k::linorder \<Rightarrow> 'v \<Rightarrow> ('k \<times> 'v) list \<Rightarrow> ('k \<times> 'v) list" where
  "sm_put k v [] = [(k, v)]"
| "sm_put k v ((l, w) # m) =
     (if k < l then (k, v) # (l, w) # m
      else if k = l then (k, v) # m
      else (l, w) # sm_put k v m)"

definition sm_del :: "'k \<Rightarrow> ('k \<times> 'v) list \<Rightarrow> ('k \<times> 'v) list" where
  "sm_del k m = filter (\<lambda>p. fst p \<noteq> k) m"

definition sm_ok :: "('k::linorder \<times> 'v) list \<Rightarrow> bool" where
  "sm_ok m \<longleftrightarrow> sorted_wrt (<) (map fst m)"

lemma map_of_sm_put: "map_of (sm_put k v m) = (map_of m)(k \<mapsto> v)"
  by (induction k v m rule: sm_put.induct) auto

lemma map_of_sm_del: "map_of (sm_del k m) = (map_of m)(k := None)"
  by (induction m) (auto simp: sm_del_def)

lemma keys_sm_put: "fst ` set (sm_put k v m) = insert k (fst ` set m)"
  by (induction k v m rule: sm_put.induct) auto

lemma sm_ok_Cons: "sm_ok (p # m) \<longleftrightarrow> (\<forall>k \<in> fst ` set m. fst p < k) \<and> sm_ok m"
  by (auto simp: sm_ok_def)

lemma sm_ok_put: "sm_ok m \<Longrightarrow> sm_ok (sm_put k v m)"
  by (induction k v m rule: sm_put.induct) (auto simp: sm_ok_Cons keys_sm_put sm_ok_def)

lemma sm_ok_del: "sm_ok m \<Longrightarrow> sm_ok (sm_del k m)"
  by (induction m) (auto simp: sm_ok_Cons sm_del_def)

lemma sm_ok_distinct: "sm_ok m \<Longrightarrow> distinct (map fst m)"
  by (simp add: sm_ok_def strict_sorted_iff)

lemma sm_ok_entries: "sm_ok m \<Longrightarrow> (k, v) \<in> set m \<longleftrightarrow> map_of m k = Some v"
  by (simp add: map_of_eq_Some_iff sm_ok_distinct)

lemma sm_ok_ext:
  assumes "sm_ok m" and "sm_ok n" and eq: "map_of m = map_of n"
  shows "m = n"
proof -
  have "p \<in> set m \<longleftrightarrow> p \<in> set n" for p
    using assms by (cases p) (simp add: sm_ok_entries)
  then have "set m = set n" by blast
  moreover have "sorted (map fst m)" "sorted (map fst n)"
    using assms by (simp_all add: sm_ok_def strict_sorted_imp_sorted)
  moreover have "distinct (map fst m)" "distinct (map fst n)"
    using assms by (simp_all add: sm_ok_distinct)
  moreover from \<open>distinct (map fst m)\<close> \<open>set m = set n\<close> have "inj_on fst (set m \<union> set n)"
    by (simp add: distinct_map)
  ultimately show ?thesis
    by (blast intro: map_sorted_distinct_set_unique)
qed

interpretation smap: finite_map map_of sm_put sm_del "\<lambda>m. m" sm_ok
  by unfold_locales
    (rule map_of_sm_put map_of_sm_del sm_ok_put sm_ok_del sm_ok_distinct sm_ok_ext
      sm_ok_entries | assumption)+

lemmas sm_simps = map_of_sm_put map_of_sm_del sm_ok_put sm_ok_del

end
