(* ===== verification/Connections.thy ===== *)
theory Connections
  imports Std_Map External
begin

section \<open>WebSocket connections and the connection pool (websocket_connection.cpp)\<close>

text \<open>
  \<open>WebSocketConnection\<close> is the record \<open>connection\<close>, \<open>ConnectionPool\<close> the record
  \<open>pool\<close>. The pool's map holds \<open>shared_ptr\<close>s, so an entry may be null: \<open>None\<close> inside
  the value. The operations of an object reached through the pool are applied with
  \<open>update_conn\<close>. A reading of \<open>system_clock\<close> is an argument \<open>now\<close>, in clock ticks.
\<close>

subsection \<open>A connection\<close>

record ws_message =
  msg_type :: string
  payload :: json
  msg_timestamp :: u64
  requires_ack :: bool

record connection =
  connection_id :: int
  user_id :: string
  session_id :: string
  authenticated :: bool
  connected :: bool
  is_typing :: bool
  created_at :: u64
  last_activity :: u64
  outgoing_queue :: "ws_message list"

definition conn_new :: "int \<Rightarrow> u64 \<Rightarrow> connection" where
  "conn_new cid now =
     \<lparr>connection_id = cid, user_id = [], session_id = [], authenticated = False,
      connected = False, is_typing = False, created_at = now, last_activity = now,
      outgoing_queue = []\<rparr>"

definition set_user_id :: "string \<Rightarrow> connection \<Rightarrow> connection" where
  "set_user_id u c = c\<lparr>user_id := u\<rparr>"

definition set_session_id :: "string \<Rightarrow> connection \<Rightarrow> connection" where
  "set_session_id sid c = c\<lparr>session_id := sid\<rparr>"

definition update_activity :: "u64 \<Rightarrow> connection \<Rightarrow> connection" where
  "update_activity now c = c\<lparr>last_activity := now\<rparr>"

definition mark_authenticated :: "u64 \<Rightarrow> connection \<Rightarrow> connection" where
  "mark_authenticated now c = update_activity now (c\<lparr>authenticated := True\<rparr>)"

definition mark_connected :: "u64 \<Rightarrow> connection \<Rightarrow> connection" where
  "mark_connected now c = update_activity now (c\<lparr>connected := True\<rparr>)"

definition mark_disconnected :: "connection \<Rightarrow> connection" where
  "mark_disconnected c = c\<lparr>connected := False\<rparr>"

definition set_typing :: "bool \<Rightarrow> connection \<Rightarrow> connection" where
  "set_typing b c = c\<lparr>is_typing := b\<rparr>"

definition queue_message :: "ws_message \<Rightarrow> connection \<Rightarrow> connection" where
  "queue_message m c = c\<lparr>outgoing_queue := outgoing_queue c @ [m]\<rparr>"

definition dequeue_message :: "connection \<Rightarrow> ws_message option \<times> connection" where
  "dequeue_message c =
     (case outgoing_queue c of
        [] \<Rightarrow> (None, c)
      | m # ms \<Rightarrow> (Some m, c\<lparr>outgoing_queue := ms\<rparr>))"

definition pending_messages :: "connection \<Rightarrow> nat" where
  "pending_messages c = length (outgoing_queue c)"

lemmas conn_defs = conn_new_def set_user_id_def set_session_id_def update_activity_def
  mark_authenticated_def mark_connected_def mark_disconnected_def set_typing_def queue_message_def

subsection \<open>The pool\<close>

record pool =
  connections :: "(int \<times> connection option) list"
  user_to_connection :: "(string \<times> int) list"

definition MAX_CONNECTIONS :: nat where
  "MAX_CONNECTIONS = 100000"

definition pool_empty :: pool where
  "pool_empty = \<lparr>connections = [], user_to_connection = []\<rparr>"

text \<open>The result of \<open>create_connection\<close> says whether the returned pointer is non-null.\<close>

definition create_connection :: "int \<Rightarrow> u64 \<Rightarrow> pool \<Rightarrow> bool \<times> pool" where
  "create_connection cid now p =
     (if MAX_CONNECTIONS \<le> length (connections p) then (False, p)
      else (True, p\<lparr>connections := sm_put cid (Some (conn_new cid now)) (connections p)\<rparr>))"

definition drop_user :: "string \<Rightarrow> pool \<Rightarrow> pool" where
  "drop_user u p =
     (if u \<noteq> [] then p\<lparr>user_to_connection := sm_del u (user_to_connection p)\<rparr> else p)"

definition remove_connection :: "int \<Rightarrow> (pool, bool) em" where
  "remove_connection cid = (\<lambda>p.
     case map_of (connections p) cid of
       None \<Rightarrow> (Inr False, p)
     | Some None \<Rightarrow> (Inl (Undefined ''null connection''), p)
     | Some (Some c) \<Rightarrow>
         (Inr True, drop_user (user_id c) (p\<lparr>connections := sm_del cid (connections p)\<rparr>)))"

definition get_connection :: "int \<Rightarrow> pool \<Rightarrow> connection option" where
  "get_connection cid p =
     (case map_of (connections p) cid of Some (Some c) \<Rightarrow> Some c | _ \<Rightarrow> None)"

definition register_user :: "string \<Rightarrow> int \<Rightarrow> pool \<Rightarrow> pool" where
  "register_user u cid p = p\<lparr>user_to_connection := sm_put u cid (user_to_connection p)\<rparr>"

text \<open>
  \<open>find_by_user\<close> indexes \<open>connections_[it->second]\<close>, which inserts a null pointer when the
  id is gone. The pointer it returns is given as the id of the entry it points to.
\<close>

definition find_by_user :: "string \<Rightarrow> pool \<Rightarrow> int option \<times> pool" where
  "find_by_user u p =
     (case map_of (user_to_connection p) u of
        None \<Rightarrow> (None, p)
      | Some cid \<Rightarrow>
          (case map_of (connections p) cid of
             None \<Rightarrow> (None, p\<lparr>connections := sm_put cid None (connections p)\<rparr>)
           | Some None \<Rightarrow> (None, p)
           | Some (Some c) \<Rightarrow> (Some cid, p)))"

definition update_conn :: "int \<Rightarrow> (connection \<Rightarrow> connection) \<Rightarrow> pool \<Rightarrow> pool" where
  "update_conn cid f p =
     (case map_of (connections p) cid of
        Some (Some c) \<Rightarrow> p\<lparr>connections := sm_put cid (Some (f c)) (connections p)\<rparr>
      | _ \<Rightarrow> p)"

definition broadcast_to_user :: "string \<Rightarrow> ws_message \<Rightarrow> pool \<Rightarrow> pool" where
  "broadcast_to_user u m p =
     (case find_by_user u p of
        (None, p') \<Rightarrow> p'
      | (Some cid, p') \<Rightarrow>
          (case get_connection cid p' of
             Some c \<Rightarrow> if connected c then update_conn cid (queue_message m) p' else p'
           | None \<Rightarrow> p'))"

fun broadcast_entries ::
    "int \<Rightarrow> ws_message \<Rightarrow> (int \<times> connection option) list \<Rightarrow> err + (int \<times> connection option) list" where
  "broadcast_entries ex m [] = Inr []"
| "broadcast_entries ex m ((cid, None) # es) =
     (if cid \<noteq> ex then Inl (Undefined ''null connection'')
      else (case broadcast_entries ex m es of Inl e \<Rightarrow> Inl e | Inr r \<Rightarrow> Inr ((cid, None) # r)))"
| "broadcast_entries ex m ((cid, Some c) # es) =
     (case broadcast_entries ex m es of
        Inl e \<Rightarrow> Inl e
      | Inr r \<Rightarrow>
          Inr ((cid, Some (if cid \<noteq> ex \<and> connected c then queue_message m c else c)) # r))"

definition broadcast_except :: "int \<Rightarrow> ws_message \<Rightarrow> (pool, unit) em" where
  "broadcast_except ex m = (\<lambda>p.
     case broadcast_entries ex m (connections p) of
       Inl e \<Rightarrow> (Inl e, p)
     | Inr es \<Rightarrow> (Inr (), p\<lparr>connections := es\<rparr>))"

definition get_total_connections :: "pool \<Rightarrow> nat" where
  "get_total_connections p = length (connections p)"

definition get_online_users :: "pool \<Rightarrow> string list" where
  "get_online_users p = map fst (user_to_connection p)"

text \<open>
  \<open>cleanup_inactive\<close> first collects the ids whose age, a 64-bit difference of clock ticks,
  exceeds the argument, then removes them one by one.
\<close>

definition inactive :: "u64 \<Rightarrow> u64 \<Rightarrow> connection \<Rightarrow> bool" where
  "inactive now timeout c \<longleftrightarrow> timeout < now - last_activity c"

fun collect_inactive :: "u64 \<Rightarrow> u64 \<Rightarrow> (int \<times> connection option) list \<Rightarrow> err + int list" where
  "collect_inactive now timeout [] = Inr []"
| "collect_inactive now timeout ((cid, None) # es) = Inl (Undefined ''null connection'')"
| "collect_inactive now timeout ((cid, Some c) # es) =
     (case collect_inactive now timeout es of
        Inl e \<Rightarrow> Inl e
      | Inr ids \<Rightarrow> Inr (if inactive now timeout c then cid # ids else ids))"

definition remove_one :: "int \<Rightarrow> pool \<Rightarrow> pool" where
  "remove_one cid p =
     (case map_of (connections p) cid of
        Some (Some c) \<Rightarrow> drop_user (user_id c) (p\<lparr>connections := sm_del cid (connections p)\<rparr>)
      | _ \<Rightarrow> p)"

definition cleanup_inactive :: "u64 \<Rightarrow> u64 \<Rightarrow> (pool, unit) em" where
  "cleanup_inactive now timeout = (\<lambda>p.
     case collect_inactive now timeout (connections p) of
       Inl e \<Rightarrow> (Inl e, p)
     | Inr ids \<Rightarrow> (Inr (), fold remove_one ids p))"

subsection \<open>The outgoing queue is a FIFO\<close>

locale fifo =
  fixes enq :: "'m \<Rightarrow> 'q \<Rightarrow> 'q"
    and deq :: "'q \<Rightarrow> 'm option \<times> 'q"
    and items :: "'q \<Rightarrow> 'm list"
  assumes items_enq: "items (enq x q) = items q @ [x]"
    and deq_empty: "items q = [] \<Longrightarrow> deq q = (None, q)"
    and deq_front: "items q = x # xs \<Longrightarrow> fst (deq q) = Some x \<and> items (snd (deq q)) = xs"
begin

lemma items_enq_all: "items (fold enq xs q) = items q @ xs"
  by (induction xs arbitrary: q) (simp_all add: items_enq)

lemma deq_None_iff: "fst (deq q) = None \<longleftrightarrow> items q = []"
  using deq_empty deq_front by (cases "items q") auto

lemma deq_enq_front: "items q \<noteq> [] \<Longrightarrow> fst (deq (enq x q)) = fst (deq q)"
  using deq_front [of q] deq_front [of "enq x q"] items_enq [of x q] by (cases "items q") auto

lemma items_deq_shorter: "fst (deq q) = Some x \<Longrightarrow> items q = x # items (snd (deq q))"
  using deq_empty [of q] deq_front [of q] by (cases "items q") auto

end

interpretation outq: fifo queue_message dequeue_message outgoing_queue
  by unfold_locales (simp_all add: queue_message_def dequeue_message_def)

text \<open>
  The flush loop of the WebSocket route, \<open>while (ws_conn->dequeue_message(msg))\<close>: the
  messages in the order they are sent, and the connection afterwards.
\<close>

function flush_queue :: "connection \<Rightarrow> ws_message list \<times> connection" where
  "flush_queue c =
     (case dequeue_message c of
        (None, c') \<Rightarrow> ([], c')
      | (Some m, c') \<Rightarrow> (case flush_queue c' of (ms, c'') \<Rightarrow> (m # ms, c'')))"
  by pat_completeness auto
termination
  by (relation "measure (\<lambda>c. length (outgoing_queue c))")
    (auto simp: dequeue_message_def split: list.splits)

declare flush_queue.simps [simp del]

lemma flush_queue_all: "flush_queue c = (outgoing_queue c, c\<lparr>outgoing_queue := []\<rparr>)"
proof (induction c rule: flush_queue.induct)
  case (1 c)
  show ?case
  proof (cases "outgoing_queue c")
    case Nil
    then show ?thesis by (subst flush_queue.simps) (simp add: dequeue_message_def)
  next
    case (Cons m ms)
    with "1" show ?thesis by (subst flush_queue.simps) (simp add: dequeue_message_def)
  qed
qed

subsection \<open>Well-formed pools\<close>

definition pool_wf :: "pool \<Rightarrow> bool" where
  "pool_wf p \<longleftrightarrow> sm_ok (connections p) \<and> sm_ok (user_to_connection p)"

text \<open>The entries that hold a connection, and not a null pointer.\<close>

definition live :: "pool \<Rightarrow> (int \<times> connection option) list" where
  "live p = filter (\<lambda>e. snd e \<noteq> None) (connections p)"

named_theorems pool_simps \<open>what the pool operations do to the two maps\<close>

lemma conns_create [pool_simps]:
  "map_of (connections (snd (create_connection cid now p))) =
     (if length (connections p) < MAX_CONNECTIONS
      then (map_of (connections p))(cid \<mapsto> Some (conn_new cid now)) else map_of (connections p))"
  "user_to_connection (snd (create_connection cid now p)) = user_to_connection p"
  by (auto simp: create_connection_def sm_simps)

lemma conns_drop_user [pool_simps]:
  "connections (drop_user u p) = connections p"
  "map_of (user_to_connection (drop_user u p)) =
     (if u = [] then map_of (user_to_connection p) else (map_of (user_to_connection p))(u := None))"
  by (auto simp: drop_user_def sm_simps)

lemma conns_register [pool_simps]:
  "connections (register_user u cid p) = connections p"
  "map_of (user_to_connection (register_user u cid p)) = (map_of (user_to_connection p))(u \<mapsto> cid)"
  by (simp_all add: register_user_def sm_simps)

lemma conns_update [pool_simps]:
  "map_of (connections (update_conn cid f p)) =
     (case map_of (connections p) cid of
        Some (Some c) \<Rightarrow> (map_of (connections p))(cid \<mapsto> Some (f c))
      | _ \<Rightarrow> map_of (connections p))"
  "user_to_connection (update_conn cid f p) = user_to_connection p"
  by (auto simp: update_conn_def sm_simps split: option.split)

lemma conns_remove_one [pool_simps]:
  "map_of (connections (remove_one cid p)) =
     (case map_of (connections p) cid of
        Some (Some c) \<Rightarrow> (map_of (connections p))(cid := None)
      | _ \<Rightarrow> map_of (connections p))"
  "map_of (user_to_connection (remove_one cid p)) =
     (case map_of (connections p) cid of
        Some (Some c) \<Rightarrow> (if user_id c = [] then map_of (user_to_connection p)
                          else (map_of (user_to_connection p))(user_id c := None))
      | _ \<Rightarrow> map_of (user_to_connection p))"
  by (auto simp: remove_one_def pool_simps sm_simps split: option.split)

lemma remove_connection_state: "snd (remove_connection cid p) = remove_one cid p"
  by (auto simp: remove_connection_def remove_one_def split: option.split)

lemma get_connection_update [pool_simps]:
  "get_connection cid (update_conn cid' f p) =
     (if cid = cid' then map_option f (get_connection cid p) else get_connection cid p)"
  by (auto simp: get_connection_def pool_simps split: option.split)

lemma get_connection_register [pool_simps]:
  "get_connection cid (register_user u cid' p) = get_connection cid p"
  by (simp add: get_connection_def pool_simps)

lemma pool_wf_ops:
  assumes "pool_wf p"
  shows "pool_wf (snd (create_connection cid now p))" "pool_wf (drop_user u p)"
    "pool_wf (register_user u cid p)" "pool_wf (update_conn cid f p)" "pool_wf (remove_one cid p)"
    "pool_wf (snd (find_by_user u p))" "pool_wf (p\<lparr>connections := sm_del cid (connections p)\<rparr>)"
  using assms
  by (auto simp: pool_wf_def create_connection_def drop_user_def register_user_def update_conn_def
      remove_one_def find_by_user_def sm_simps split: option.split)

lemma pool_wf_remove_all: "pool_wf p \<Longrightarrow> pool_wf (fold remove_one ids p)"
  by (induction ids arbitrary: p) (simp_all add: pool_wf_ops)

subsection \<open>Broadcasts and clean-up, entry by entry\<close>

lemma broadcast_entries_None:
  "(\<exists>w. broadcast_entries ex m es = Inl w) \<longleftrightarrow> (\<exists>cid. (cid, None) \<in> set es \<and> cid \<noteq> ex)"
  by (induction ex m es rule: broadcast_entries.induct) (auto split: sum.splits)

lemma broadcast_entries_map:
  "broadcast_entries ex m es = Inr r \<Longrightarrow>
   r = map (\<lambda>(cid, v). (cid, map_option (\<lambda>c. if cid \<noteq> ex \<and> connected c then queue_message m c else c) v)) es"
  by (induction ex m es arbitrary: r rule: broadcast_entries.induct)
    (auto split: sum.splits if_splits)

lemma broadcast_entries_look:
  assumes "broadcast_entries ex m es = Inr r"
  shows "map_of r cid =
    map_option (map_option (\<lambda>c. if cid \<noteq> ex \<and> connected c then queue_message m c else c)) (map_of es cid)"
  unfolding broadcast_entries_map [OF assms] by (induction es) auto

lemma broadcast_keys:
  "broadcast_entries ex m es = Inr r \<Longrightarrow> map fst r = map fst es"
  by (drule broadcast_entries_map) (simp add: o_def split_def)

lemma collect_inactive_None:
  "(\<exists>w. collect_inactive now t es = Inl w) \<longleftrightarrow> (\<exists>cid. (cid, None) \<in> set es)"
  by (induction now t es rule: collect_inactive.induct) (auto split: sum.splits)

lemma collect_inactive_set:
  "collect_inactive now t es = Inr ids \<Longrightarrow>
   set ids = {cid. \<exists>c. (cid, Some c) \<in> set es \<and> inactive now t c}"
  by (induction now t es arbitrary: ids rule: collect_inactive.induct)
    (auto split: sum.splits if_splits)

lemma collect_inactive_distinct:
  "collect_inactive now t es = Inr ids \<Longrightarrow> distinct (map fst es) \<Longrightarrow> distinct ids"
proof (induction now t es arbitrary: ids rule: collect_inactive.induct)
  case (3 now t cid c es)
  then show ?case
    by (auto split: sum.splits if_splits dest!: collect_inactive_set) (metis fst_conv image_eqI)
qed auto

lemma fold_remove_one_look:
  "\<forall>cid \<in> set ids. \<exists>c. map_of (connections p) cid = Some (Some c) \<Longrightarrow> distinct ids \<Longrightarrow>
   map_of (connections (fold remove_one ids p)) = (map_of (connections p)) |` (- set ids)"
proof (induction ids arbitrary: p)
  case Nil
  then show ?case by simp
next
  case (Cons a ids)
  then obtain c where c: "map_of (connections p) a = Some (Some c)" by auto
  have step: "map_of (connections (remove_one a p)) = (map_of (connections p))(a := None)"
    by (simp add: pool_simps c)
  have "map_of (connections (fold remove_one ids (remove_one a p)))
      = (map_of (connections (remove_one a p))) |` (- set ids)"
    using Cons.prems by (intro Cons.IH) (auto simp: step)
  then show ?case by (auto simp: step restrict_map_def fun_eq_iff)
qed

text \<open>A removal keeps the index entry of every user without a removed connection.\<close>

lemma fold_remove_one_users:
  "\<forall>cid \<in> set ids. \<exists>c. map_of (connections p) cid = Some (Some c) \<Longrightarrow> distinct ids \<Longrightarrow>
   map_of (user_to_connection (fold remove_one ids p)) =
     (map_of (user_to_connection p)) |`
       {u. u = [] \<or> (\<forall>cid c. cid \<in> set ids \<longrightarrow> map_of (connections p) cid = Some (Some c) \<longrightarrow> user_id c \<noteq> u)}"
proof (induction ids arbitrary: p)
  case Nil
  then show ?case by (simp add: restrict_map_def)
next
  case (Cons a ids)
  then obtain c where c: "map_of (connections p) a = Some (Some c)" by auto
  have step: "map_of (connections (remove_one a p)) = (map_of (connections p))(a := None)"
    by (simp add: pool_simps c)
  have "map_of (user_to_connection (fold remove_one ids (remove_one a p)))
      = (map_of (user_to_connection (remove_one a p))) |`
         {u. u = [] \<or> (\<forall>cid c. cid \<in> set ids \<longrightarrow>
            map_of (connections (remove_one a p)) cid = Some (Some c) \<longrightarrow> user_id c \<noteq> u)}"
    using Cons.prems by (intro Cons.IH) (auto simp: step)
  with Cons.prems(2) show ?case
    by (auto simp: step c conns_remove_one(2) restrict_map_def fun_eq_iff)
qed

end
