(* ===== verification/Pool_Props.thy ===== *)
theory Pool_Props
  imports Connections
begin

section \<open>What the connection pool guarantees\<close>

text \<open>
  The pool's operations as a step relation, the bound on live connections that every reachable
  pool satisfies, the agreement of the user index with the connections under the discipline of
  one login per connection and one connection per user, and what happens outside it.
\<close>

subsection \<open>Steps\<close>

inductive pool_step :: "pool \<Rightarrow> pool \<Rightarrow> bool" where
  p_create: "pool_step p (snd (create_connection cid now p))"
| p_remove: "pool_step p (snd (remove_connection cid p))"
| p_find: "pool_step p (snd (find_by_user u p))"
| p_register: "pool_step p (register_user u cid p)"
| p_update: "pool_step p (update_conn cid f p)"
| p_to_user: "pool_step p (broadcast_to_user u m p)"
| p_broadcast: "pool_step p (snd (broadcast_except ex m p))"
| p_cleanup: "pool_step p (snd (cleanup_inactive now timeout p))"

inductive_cases pool_stepE: "pool_step p q"

definition live_ids :: "pool \<Rightarrow> int set" where
  "live_ids p = {cid. \<exists>c. map_of (connections p) cid = Some (Some c)}"

lemma live_ids_finite: "finite (live_ids p)"
proof -
  have "live_ids p \<subseteq> dom (map_of (connections p))" by (auto simp: live_ids_def)
  then show ?thesis by (rule finite_subset) (rule finite_dom_map_of)
qed

lemma length_live: "pool_wf p \<Longrightarrow> length (live p) = card (live_ids p)"
proof -
  assume wf: "pool_wf p"
  then have d: "distinct (map fst (connections p))" by (simp add: pool_wf_def sm_ok_distinct)
  have "distinct (map fst (live p))"
    using d by (simp add: live_def distinct_map_filter)
  moreover have "fst ` set (live p) = live_ids p"
    using wf by (force simp: live_def live_ids_def pool_wf_def sm_ok_entries image_iff)
  ultimately show ?thesis by (metis distinct_card length_map list.set_map)
qed

definition cap_inv :: "pool \<Rightarrow> bool" where
  "cap_inv p \<longleftrightarrow> pool_wf p \<and> card (live_ids p) \<le> MAX_CONNECTIONS"

lemma live_ids_mono: "live_ids q \<subseteq> live_ids p \<Longrightarrow> card (live_ids p) \<le> n \<Longrightarrow> card (live_ids q) \<le> n"
  by (meson card_mono le_trans live_ids_finite)

lemma live_ids_ops:
  "live_ids (register_user u cid p) = live_ids p"
  "live_ids (snd (find_by_user u p)) = live_ids p"
  "live_ids (update_conn cid f p) = live_ids p"
  "live_ids (remove_one cid p) \<subseteq> live_ids p"
  by (auto simp: live_ids_def pool_simps find_by_user_def sm_simps split: option.splits if_splits)

lemma live_ids_remove_all: "live_ids (fold remove_one ids p) \<subseteq> live_ids p"
  by (induction ids arbitrary: p) (auto dest: subsetD [OF live_ids_ops(4)])

lemma broadcast_to_user_cases:
  "broadcast_to_user u m p = snd (find_by_user u p) \<or>
   (\<exists>cid. broadcast_to_user u m p = update_conn cid (queue_message m) (snd (find_by_user u p)))"
  by (auto simp: broadcast_to_user_def split: prod.split option.split)

lemma broadcast_entries_live:
  assumes "broadcast_entries ex m es = Inr r"
  shows "(\<exists>d. map_of r cid = Some (Some d) \<and> user_id d \<in> U) \<longleftrightarrow>
      (\<exists>c. map_of es cid = Some (Some c) \<and> user_id c \<in> U)"
    and "map_of r cid = Some None \<longleftrightarrow> map_of es cid = Some None"
proof -
  show "(\<exists>d. map_of r cid = Some (Some d) \<and> user_id d \<in> U) \<longleftrightarrow>
      (\<exists>c. map_of es cid = Some (Some c) \<and> user_id c \<in> U)"
    unfolding broadcast_entries_look [OF assms]
    by (cases "map_of es cid"; cases "the (map_of es cid)")
      (simp_all add: queue_message_def)
  show "map_of r cid = Some None \<longleftrightarrow> map_of es cid = Some None"
    unfolding broadcast_entries_look [OF assms]
    by (cases "map_of es cid"; cases "the (map_of es cid)") simp_all
qed

lemma broadcast_except_inv:
  assumes "pool_wf p"
  shows "pool_wf (snd (broadcast_except ex m p)) \<and>
    live_ids (snd (broadcast_except ex m p)) = live_ids p"
proof (cases "broadcast_entries ex m (connections p)")
  case (Inl e)
  then show ?thesis using assms by (simp add: broadcast_except_def)
next
  case (Inr es)
  then show ?thesis
    using assms broadcast_keys [OF Inr]
    using broadcast_entries_live(1) [OF Inr, where U = UNIV]
    by (simp add: broadcast_except_def pool_wf_def sm_ok_def live_ids_def)
qed

lemma create_live:
  assumes "pool_wf p" and "card (live_ids p) \<le> MAX_CONNECTIONS"
  shows "card (live_ids (snd (create_connection cid now p))) \<le> MAX_CONNECTIONS"
proof (cases "length (connections p) < MAX_CONNECTIONS")
  case True
  have "live_ids (snd (create_connection cid now p)) = insert cid (live_ids p)"
    using True by (auto simp: live_ids_def pool_simps)
  moreover have "length (live p) \<le> length (connections p)" by (simp add: live_def)
  ultimately show ?thesis
    using True length_live [OF assms(1)] by (simp add: card_insert_if live_ids_finite)
next
  case False
  then show ?thesis using assms(2) by (simp add: create_connection_def)
qed

lemma cap_inv_step: "pool_step p q \<Longrightarrow> cap_inv p \<Longrightarrow> cap_inv q"
proof (induction rule: pool_step.induct)
  case (p_to_user p u m)
  then show ?case
    using broadcast_to_user_cases [of u m p]
    by (auto simp: cap_inv_def pool_wf_ops live_ids_ops)
next
  case (p_cleanup p now timeout)
  then show ?case
    using live_ids_mono [OF live_ids_remove_all]
    by (auto simp: cap_inv_def cleanup_inactive_def pool_wf_remove_all split: sum.split)
qed (auto simp: cap_inv_def pool_wf_ops live_ids_ops create_live broadcast_except_inv
      remove_connection_state intro: live_ids_mono [OF live_ids_ops(4)])

lemma cap_inv_empty: "cap_inv pool_empty"
  by (simp add: cap_inv_def pool_wf_def pool_empty_def sm_ok_def live_ids_def)

interpretation pool_system: invariant_system "\<lambda>p. p = pool_empty" pool_step cap_inv
  by unfold_locales (auto simp: cap_inv_empty intro: cap_inv_step)

subsection \<open>The index under the login discipline\<close>

text \<open>
  \<open>index_ok\<close>: the user index maps exactly the users of the connections, each to its own
  connection, and no entry is null.
\<close>

definition index_ok :: "pool \<Rightarrow> bool" where
  "index_ok p \<longleftrightarrow> pool_wf p \<and>
     (\<forall>cid. map_of (connections p) cid \<noteq> Some None) \<and>
     (\<forall>u cid. map_of (user_to_connection p) u = Some cid \<longleftrightarrow>
        u \<noteq> [] \<and> (\<exists>c. map_of (connections p) cid = Some (Some c) \<and> user_id c = u))"

text \<open>
  The discipline: a new connection has a fresh id, and a login gives a user who is not yet
  indexed to a connection that has none.
\<close>

inductive disciplined :: "pool \<Rightarrow> pool \<Rightarrow> bool" where
  d_create: "map_of (connections p) cid = None \<Longrightarrow>
     disciplined p (snd (create_connection cid now p))"
| d_login: "get_connection cid p = Some c \<Longrightarrow> user_id c = [] \<Longrightarrow> u \<noteq> [] \<Longrightarrow>
     map_of (user_to_connection p) u = None \<Longrightarrow>
     disciplined p (register_user u cid (update_conn cid (set_user_id u) p))"
| d_update: "(\<And>c. user_id (f c) = user_id c) \<Longrightarrow> disciplined p (update_conn cid f p)"
| d_remove: "disciplined p (snd (remove_connection cid p))"
| d_find: "disciplined p (snd (find_by_user u p))"
| d_broadcast: "disciplined p (snd (broadcast_except ex m p))"
| d_cleanup: "disciplined p (snd (cleanup_inactive now timeout p))"

lemma index_okD:
  assumes "index_ok p"
  shows "pool_wf p" "map_of (connections p) cid \<noteq> Some None"
    "map_of (user_to_connection p) u = Some cid \<longleftrightarrow>
      u \<noteq> [] \<and> (\<exists>c. map_of (connections p) cid = Some (Some c) \<and> user_id c = u)"
  using assms by (auto simp: index_ok_def)

lemma index_ok_find: "index_ok p \<Longrightarrow> find_by_user u p = (map_of (user_to_connection p) u, p)"
proof (cases "map_of (user_to_connection p) u")
  case (Some cid)
  assume "index_ok p"
  with Some show ?thesis
    using index_okD(3) [of p u cid] by (auto simp: find_by_user_def)
qed (simp add: find_by_user_def)

lemma index_ok_unique:
  assumes "index_ok p" and "map_of (connections p) a = Some (Some c)"
    and "map_of (connections p) b = Some (Some d)" and "user_id c = user_id d" and "user_id c \<noteq> []"
  shows "a = b"
  using assms index_okD(3) [OF assms(1), of "user_id c" a] index_okD(3) [OF assms(1), of "user_id c" b]
  by force

lemma index_ok_create:
  assumes "index_ok p" and "map_of (connections p) cid = None"
  shows "index_ok (snd (create_connection cid now p))"
  using assms by (auto simp: index_ok_def pool_wf_ops pool_simps conn_new_def)

lemma index_ok_login:
  assumes ok: "index_ok p" and c: "get_connection cid p = Some c" "user_id c = []" and "u \<noteq> []"
    and fresh: "map_of (user_to_connection p) u = None"
  shows "index_ok (register_user u cid (update_conn cid (set_user_id u) p))"
proof -
  have look: "map_of (connections p) cid = Some (Some c)"
    using c(1) by (auto simp: get_connection_def split: option.splits)
  have "user_id d \<noteq> u" if "map_of (connections p) cid' = Some (Some d)" for cid' d
    using that fresh \<open>u \<noteq> []\<close> index_okD(3) [OF ok, of u cid'] by auto
  with look assms show ?thesis
    by (auto simp: index_ok_def pool_wf_ops pool_simps set_user_id_def)
qed

lemma index_ok_update:
  assumes "index_ok p" and "\<And>c. user_id (f c) = user_id c"
  shows "index_ok (update_conn cid f p)"
  using assms by (auto simp: index_ok_def pool_wf_ops pool_simps split: option.split)

lemma index_ok_remove_one:
  assumes ok: "index_ok p"
  shows "index_ok (remove_one cid p)"
proof (cases "map_of (connections p) cid")
  case None
  then show ?thesis using ok by (simp add: remove_one_def)
next
  case (Some v)
  then obtain c where c: "map_of (connections p) cid = Some (Some c)"
    using index_okD(2) [OF ok, of cid] by (cases v) auto
  have other: "user_id d \<noteq> user_id c"
    if "map_of (connections p) b = Some (Some d)" "b \<noteq> cid" "user_id d \<noteq> []" for b d
    using index_ok_unique [OF ok that(1) c] that by auto
  have conns: "map_of (connections (remove_one cid p)) = (map_of (connections p))(cid := None)"
    and users: "map_of (user_to_connection (remove_one cid p)) =
      (if user_id c = [] then map_of (user_to_connection p)
       else (map_of (user_to_connection p))(user_id c := None))"
    by (simp_all add: conns_remove_one c)
  show ?thesis
    unfolding index_ok_def
  proof (intro conjI allI)
    show "pool_wf (remove_one cid p)" by (rule pool_wf_ops(5) [OF index_okD(1) [OF ok]])
  next
    fix b show "map_of (connections (remove_one cid p)) b \<noteq> Some None"
      using index_okD(2) [OF ok] by (simp add: conns)
  next
    fix u b
    show "map_of (user_to_connection (remove_one cid p)) u = Some b \<longleftrightarrow> u \<noteq> [] \<and>
        (\<exists>d. map_of (connections (remove_one cid p)) b = Some (Some d) \<and> user_id d = u)"
      using index_okD(3) [OF ok, of u b] other [of b] c by (auto simp: conns users)
  qed
qed

lemma index_ok_remove_all: "index_ok p \<Longrightarrow> index_ok (fold remove_one ids p)"
  by (induction ids arbitrary: p) (simp_all add: index_ok_remove_one)

lemma index_ok_broadcast:
  assumes "index_ok p"
  shows "index_ok (snd (broadcast_except ex m p))"
proof (cases "broadcast_entries ex m (connections p)")
  case (Inl e)
  then show ?thesis using assms by (simp add: broadcast_except_def)
next
  case (Inr es)
  then show ?thesis
    using assms broadcast_except_inv [OF index_okD(1) [OF assms], of ex m]
      broadcast_entries_live(1) [OF Inr, where U = "{u}" for u] broadcast_entries_live(2) [OF Inr]
    by (simp add: index_ok_def broadcast_except_def)
qed

lemma index_ok_step: "disciplined p q \<Longrightarrow> index_ok p \<Longrightarrow> index_ok q"
proof (induction rule: disciplined.induct)
  case (d_cleanup p now timeout)
  then show ?case
    by (auto simp: cleanup_inactive_def index_ok_remove_all split: sum.split)
qed (simp_all add: index_ok_create index_ok_login index_ok_update index_ok_remove_one
      index_ok_broadcast index_ok_find remove_connection_state)

lemma index_ok_empty: "index_ok pool_empty"
  by (simp add: index_ok_def pool_wf_def pool_empty_def sm_ok_def)

interpretation login_system: invariant_system "\<lambda>p. p = pool_empty" disciplined index_ok
  by unfold_locales (auto simp: index_ok_empty intro: index_ok_step)

section \<open>Properties of the pool\<close>

text \<open>A message for the witnesses.\<close>

definition note_message :: ws_message where
  "note_message = \<lparr>msg_type = ''note'', payload = JNull, msg_timestamp = 0, requires_ack = False\<rparr>"

text \<open>However the pool's operations are interleaved, starting from an empty pool, it never
  holds more than \<open>MAX_CONNECTIONS\<close> connections (null entries not counted), its two maps
  stay ordered with unique keys, and at that size \<open>create_connection\<close> returns a null pointer
  and changes nothing.\<close>

theorem pool_capacity:
  assumes "pool_step\<^sup>*\<^sup>* pool_empty p"
  shows "length (live p) \<le> MAX_CONNECTIONS \<and> pool_wf p \<and>
    (length (live p) = MAX_CONNECTIONS \<longrightarrow> create_connection cid now p = (False, p))"
proof -
  have inv: "cap_inv p" using pool_system.reach_inv assms by blast
  have "length (live p) \<le> length (connections p)" by (simp add: live_def)
  with inv show ?thesis
    by (auto simp: cap_inv_def length_live create_connection_def)
qed

theorem pool_capacity_witness:
  "length (live (snd (create_connection 4 9 pool_empty))) \<le> MAX_CONNECTIONS \<and>
   pool_wf (snd (create_connection 4 9 pool_empty))"
proof -
  have "pool_step\<^sup>*\<^sup>* pool_empty (snd (create_connection 4 9 pool_empty))"
    by (rule r_into_rtranclp, rule p_create)
  then show ?thesis using pool_capacity by blast
qed

text \<open>C27: While every connection logs in once and no user logs in on two connections,
  \<open>find_by_user\<close> returns exactly the connection of the user, null when there is none, changes
  nothing, and \<open>broadcast_to_user\<close> queues the message on that connection only.\<close>

theorem find_by_user_exact:
  assumes "disciplined\<^sup>*\<^sup>* pool_empty p" and "u \<noteq> []"
  shows "snd (find_by_user u p) = p \<and>
    (fst (find_by_user u p) = Some cid \<longleftrightarrow>
       (\<exists>c. get_connection cid p = Some c \<and> user_id c = u)) \<and>
    get_connection cid (broadcast_to_user u m p) =
      (case get_connection cid p of
         None \<Rightarrow> None
       | Some c \<Rightarrow> Some (if user_id c = u \<and> connected c then queue_message m c else c))"
proof -
  have ok: "index_ok p" using login_system.reach_inv assms(1) by blast
  have get: "get_connection b p = Some c \<longleftrightarrow> map_of (connections p) b = Some (Some c)" for b c
    by (auto simp: get_connection_def split: option.splits)
  have index: "map_of (user_to_connection p) u = Some b \<longleftrightarrow>
      (\<exists>c. get_connection b p = Some c \<and> user_id c = u)" for b
    using index_okD(3) [OF ok, of u b] assms(2) by (auto simp: get)
  have "get_connection cid (broadcast_to_user u m p) =
      (case get_connection cid p of None \<Rightarrow> None
       | Some c \<Rightarrow> Some (if user_id c = u \<and> connected c then queue_message m c else c))"
  proof (cases "map_of (user_to_connection p) u")
    case None
    then show ?thesis
      using index by (auto simp: broadcast_to_user_def index_ok_find [OF ok] split: option.split)
  next
    case (Some b)
    then obtain c where c: "get_connection b p = Some c" "user_id c = u" using index by auto
    have run: "broadcast_to_user u m p = (if connected c then update_conn b (queue_message m) p else p)"
      using Some c(1) by (simp add: broadcast_to_user_def index_ok_find [OF ok])
    have only: "b = cid" if "get_connection cid p = Some d" "user_id d = u" for d
      using that index [of cid] Some by auto
    show ?thesis
    proof (cases "b = cid")
      case True
      then show ?thesis using c by (simp add: run get_connection_update)
    next
      case False
      then have "get_connection cid (broadcast_to_user u m p) = get_connection cid p"
        by (simp add: run get_connection_update)
      then show ?thesis using False only by (auto split: option.split)
    qed
  qed
  then show ?thesis using index [of cid] by (simp add: index_ok_find [OF ok])
qed

theorem find_by_user_exact_witness:
  "let p = register_user ''ann'' 4 (update_conn 4 (set_user_id ''ann'')
             (snd (create_connection 4 9 pool_empty)))
   in snd (find_by_user ''ann'' p) = p \<and>
     (fst (find_by_user ''ann'' p) = Some 4 \<longleftrightarrow>
       (\<exists>c. get_connection 4 p = Some c \<and> user_id c = ''ann'')) \<and>
     get_connection 4 (broadcast_to_user ''ann'' note_message p) =
      (case get_connection 4 p of
         None \<Rightarrow> None
       | Some c \<Rightarrow> Some (if user_id c = ''ann'' \<and> connected c then queue_message note_message c else c))"
proof -
  let ?q = "snd (create_connection 4 9 pool_empty)"
  have "disciplined pool_empty ?q" by (rule d_create) (simp add: pool_empty_def)
  moreover have "disciplined ?q (register_user ''ann'' 4 (update_conn 4 (set_user_id ''ann'') ?q))"
    by (rule d_login [where c = "conn_new 4 9"])
      (simp_all add: get_connection_def pool_simps MAX_CONNECTIONS_def pool_empty_def conn_new_def)
  ultimately have "disciplined\<^sup>*\<^sup>* pool_empty
      (register_user ''ann'' 4 (update_conn 4 (set_user_id ''ann'') ?q))"
    by (meson converse_rtranclp_into_rtranclp rtranclp.rtrancl_refl)
  from find_by_user_exact [OF this, of "''ann''" 4 note_message] show ?thesis by (simp add: Let_def)
qed

text \<open>Two connections of one user: removing the older one also unregisters the newer one,
  which stays connected in the pool but is no longer found, and messages for the user are
  dropped.\<close>

theorem older_login_removal:
  assumes "get_connection a p = Some c" and "get_connection b p = Some d" and "a \<noteq> b"
    and "user_id c = u" and "user_id d = u" and "u \<noteq> []"
  shows "let p' = remove_one a (register_user u b p) in
    fst (find_by_user u (register_user u b p)) = Some b \<and>
    remove_connection a (register_user u b p) = (Inr True, p') \<and>
    get_connection b p' = Some d \<and> fst (find_by_user u p') = None \<and>
    broadcast_to_user u m p' = p'"
proof -
  have look: "map_of (connections p) a = Some (Some c)" "map_of (connections p) b = Some (Some d)"
    using assms(1,2) by (auto simp: get_connection_def split: option.splits)
  define q where "q = register_user u b p"
  have q: "map_of (connections q) a = Some (Some c)" "map_of (connections q) b = Some (Some d)"
    "map_of (user_to_connection q) u = Some b"
    using look by (simp_all add: q_def pool_simps)
  have r: "map_of (user_to_connection (remove_one a q)) u = None"
    "map_of (connections (remove_one a q)) b = Some (Some d)"
    using q assms(3-6) by (simp_all add: pool_simps)
  have "remove_connection a q = (Inr True, remove_one a q)"
    using q(1) by (simp add: remove_connection_def remove_one_def)
  then show ?thesis
    using q r by (simp add: Let_def find_by_user_def get_connection_def broadcast_to_user_def
        flip: q_def)
qed

theorem older_login_removal_witness:
  "let p = update_conn 2 (set_user_id ''ann'') (update_conn 1 (set_user_id ''ann'')
        (snd (create_connection 2 0 (snd (create_connection 1 0 pool_empty)))));
       c = set_user_id ''ann'' (conn_new 1 0); d = set_user_id ''ann'' (conn_new 2 0);
       p' = remove_one 1 (register_user ''ann'' 2 p) in
    fst (find_by_user ''ann'' (register_user ''ann'' 2 p)) = Some 2 \<and>
    remove_connection 1 (register_user ''ann'' 2 p) = (Inr True, p') \<and>
    get_connection 2 p' = Some d \<and> fst (find_by_user ''ann'' p') = None \<and>
    broadcast_to_user ''ann'' note_message p' = p'"
proof -
  let ?p = "update_conn 2 (set_user_id ''ann'') (update_conn 1 (set_user_id ''ann'')
        (snd (create_connection 2 0 (snd (create_connection 1 0 pool_empty)))))"
  have "get_connection 1 ?p = Some (set_user_id ''ann'' (conn_new 1 0))"
    "get_connection 2 ?p = Some (set_user_id ''ann'' (conn_new 2 0))"
    by (simp_all add: create_connection_def pool_empty_def MAX_CONNECTIONS_def update_conn_def
        get_connection_def)
  from older_login_removal [OF this, of "''ann''" note_message] show ?thesis
    by (simp add: Let_def set_user_id_def)
qed

text \<open>A connection that logs in again as another user leaves the first user's index entry
  behind when it is removed: looking that user up returns null and inserts a null entry, and from
  then on \<open>broadcast_except\<close>, \<open>cleanup_inactive\<close> and the removal of that id dereference a
  null pointer.\<close>

theorem stale_index_null_entry:
  assumes "get_connection a p = Some c" and "user_id c = v" and "u \<noteq> v"
    and "map_of (user_to_connection p) u = Some a"
  shows "let p1 = remove_one a p; p2 = snd (find_by_user u p1) in
    remove_connection a p = (Inr True, p1) \<and> fst (find_by_user u p1) = None \<and>
    map_of (connections p2) a = Some None \<and>
    fst (remove_connection a p2) = Inl (Undefined ''null connection'') \<and>
    (\<exists>w. fst (cleanup_inactive now timeout p2) = Inl w) \<and>
    (ex \<noteq> a \<longrightarrow> (\<exists>w. fst (broadcast_except ex m p2) = Inl w))"
proof -
  have look: "map_of (connections p) a = Some (Some c)"
    using assms(1) by (auto simp: get_connection_def split: option.splits)
  define p1 where "p1 = remove_one a p"
  have p1: "map_of (connections p1) a = None" "map_of (user_to_connection p1) u = Some a"
    using look assms by (simp_all add: p1_def pool_simps)
  define p2 where "p2 = snd (find_by_user u p1)"
  have p2: "map_of (connections p2) a = Some None" "fst (find_by_user u p1) = None"
    using p1 by (simp_all add: p2_def find_by_user_def sm_simps)
  have null: "(a, None) \<in> set (connections p2)" using p2(1) by (rule map_of_SomeD)
  then obtain w where "collect_inactive now timeout (connections p2) = Inl w"
    using collect_inactive_None by blast
  moreover have "\<exists>w. broadcast_entries ex m (connections p2) = Inl w" if "ex \<noteq> a"
    using null that broadcast_entries_None by metis
  moreover have "remove_connection a p = (Inr True, p1)"
    using look by (simp add: p1_def remove_connection_def remove_one_def)
  ultimately show ?thesis
    unfolding Let_def p1_def [symmetric] p2_def [symmetric]
    using p2 by (auto simp: remove_connection_def cleanup_inactive_def broadcast_except_def)
qed

theorem stale_index_null_entry_witness:
  "let p = register_user ''ann'' 7 (update_conn 7 (set_user_id ''bob'')
        (snd (create_connection 7 0 pool_empty)));
       p1 = remove_one 7 p; p2 = snd (find_by_user ''ann'' p1) in
    remove_connection 7 p = (Inr True, p1) \<and> fst (find_by_user ''ann'' p1) = None \<and>
    map_of (connections p2) 7 = Some None \<and>
    fst (remove_connection 7 p2) = Inl (Undefined ''null connection'') \<and>
    (\<exists>w. fst (cleanup_inactive 100 10 p2) = Inl w) \<and>
    (\<exists>w. fst (broadcast_except 3 note_message p2) = Inl w)"
proof -
  let ?p = "register_user ''ann'' 7 (update_conn 7 (set_user_id ''bob'')
        (snd (create_connection 7 0 pool_empty)))"
  have "get_connection 7 ?p = Some (set_user_id ''bob'' (conn_new 7 0))"
    "map_of (user_to_connection ?p) ''ann'' = Some 7"
    by (simp_all add: create_connection_def pool_empty_def MAX_CONNECTIONS_def update_conn_def
        get_connection_def register_user_def)
  from stale_index_null_entry [OF this(1) _ _ this(2), of "''bob''" 100 10 3 note_message]
  show ?thesis by (simp add: Let_def set_user_id_def)
qed

text \<open>A clean-up of a pool without null entries removes exactly the connections whose last
  activity lies more than \<open>timeout\<close> clock ticks back (a 64-bit difference), keeps the others
  as they are, and forgets exactly the users who had a removed connection.\<close>

theorem cleanup_inactive_exact:
  assumes "pool_wf p" and "\<forall>cid. map_of (connections p) cid \<noteq> Some None"
  shows "fst (cleanup_inactive now timeout p) = Inr () \<and>
    (let q = snd (cleanup_inactive now timeout p) in
     (\<forall>cid. get_connection cid q =
        (case get_connection cid p of
           None \<Rightarrow> None
         | Some c \<Rightarrow> if timeout < now - last_activity c then None else Some c)) \<and>
     (\<forall>u. map_of (user_to_connection q) u =
        (if u \<noteq> [] \<and> (\<exists>cid c. get_connection cid p = Some c \<and> user_id c = u \<and>
                            timeout < now - last_activity c)
         then None else map_of (user_to_connection p) u)))"
proof -
  have entries: "(cid, v) \<in> set (connections p) \<longleftrightarrow> map_of (connections p) cid = Some v" for cid v
    using assms(1) by (simp add: pool_wf_def sm_ok_entries)
  have "\<not> (\<exists>w. collect_inactive now timeout (connections p) = Inl w)"
    using assms(2) by (simp add: collect_inactive_None entries)
  then obtain ids where ids: "collect_inactive now timeout (connections p) = Inr ids"
    by (cases "collect_inactive now timeout (connections p)") auto
  have get: "get_connection b q = Some c \<longleftrightarrow> map_of (connections q) b = Some (Some c)" for b c q
    by (auto simp: get_connection_def split: option.splits)
  have set: "b \<in> set ids \<longleftrightarrow>
      (\<exists>c. map_of (connections p) b = Some (Some c) \<and> timeout < now - last_activity c)" for b
    using collect_inactive_set [OF ids] by (auto simp: entries inactive_def)
  have found: "\<forall>b \<in> set ids. \<exists>c. map_of (connections p) b = Some (Some c)" using set by blast
  have dist: "distinct ids"
    using collect_inactive_distinct [OF ids] assms(1) by (simp add: pool_wf_def sm_ok_distinct)
  define q where "q = fold remove_one ids p"
  have conns: "map_of (connections q) = (map_of (connections p)) |` (- set ids)"
    unfolding q_def by (rule fold_remove_one_look [OF found dist])
  have "get_connection cid q = (case get_connection cid p of None \<Rightarrow> None
         | Some c \<Rightarrow> if timeout < now - last_activity c then None else Some c)" for cid
    using set [of cid] by (auto simp: get_connection_def conns restrict_map_def split: option.splits)
  moreover have "map_of (user_to_connection q) u =
      (if u \<noteq> [] \<and> (\<exists>cid c. get_connection cid p = Some c \<and> user_id c = u \<and>
                            timeout < now - last_activity c)
       then None else map_of (user_to_connection p) u)" for u
    unfolding q_def fold_remove_one_users [OF found dist] get restrict_map_def
    using set by auto
  ultimately show ?thesis by (simp add: cleanup_inactive_def ids Let_def flip: q_def)
qed

text \<open>The witness also shows the units: the caller's \<open>timeout_ms\<close> of five minutes, 300000, is
  compared with clock ticks, so with a nanosecond clock a connection idle for 0.4 ms is
  removed.\<close>

theorem cleanup_inactive_exact_witness:
  "let p = snd (create_connection 7 1000000 pool_empty); q = snd (cleanup_inactive 1400000 300000 p) in
   get_connection 7 p = Some (conn_new 7 1000000) \<and> get_connection 7 q = None \<and>
   fst (cleanup_inactive 1400000 300000 p) = Inr ()"
proof -
  let ?p = "snd (create_connection 7 1000000 pool_empty)"
  have p: "?p = \<lparr>connections = [(7, Some (conn_new 7 1000000))], user_to_connection = []\<rparr>"
    by (simp add: create_connection_def pool_empty_def MAX_CONNECTIONS_def)
  then have "pool_wf ?p" "\<forall>cid. map_of (connections ?p) cid \<noteq> Some None"
    by (simp_all add: pool_wf_def sm_ok_def)
  from cleanup_inactive_exact [OF this, of 1400000 300000] show ?thesis
    by (simp add: p Let_def get_connection_def conn_new_def)
qed

text \<open>Messages leave a connection in the order they were queued, each once: queueing
  \<open>ms\<close> and flushing yields what was pending followed by \<open>ms\<close> and leaves the queue empty, and
  nothing else of the connection changes.\<close>

theorem flush_fifo:
  "flush_queue (fold queue_message ms c) = (outgoing_queue c @ ms, c\<lparr>outgoing_queue := []\<rparr>) \<and>
   pending_messages (fold queue_message ms c) = pending_messages c + length ms"
proof -
  have "fold queue_message ms c = c\<lparr>outgoing_queue := outgoing_queue c @ ms\<rparr>"
    by (induction ms arbitrary: c) (simp_all add: queue_message_def)
  then show ?thesis
    using outq.items_enq_all [of ms c] by (simp add: flush_queue_all pending_messages_def)
qed

end
