(* ===== verification/Redis.thy ===== *)
theory Redis
  imports Std_Map External
begin

section \<open>The Redis client (redis_client.cpp)\<close>

text \<open>
  \<open>RedisClient\<close> over hiredis, which is a parameter. The state keeps the connection pool, the
  flags, the subscriber table and the server behind the library; \<open>pool_locked\<close> is
  \<open>pool_mutex_\<close> held by a caller, so that locking it again is the outcome \<open>Deadlock\<close>.
  Command strings are handed to \<open>redisCommand\<close> as its format argument, as the code does.
\<close>

subsection \<open>State\<close>

record redis_config =
  host :: string
  port :: int
  password :: string
  pool_size :: int
  max_retries :: int

record redis_connection =
  ctx :: "nat option"
  in_use :: bool

record 'r redis_client =
  conns :: "redis_connection list"
  running :: bool
  subscriber_joinable :: bool
  subscribers :: "(string \<times> nat) list"
  error_callback :: bool
  reported :: "string list"
  last_error :: string
  pool_locked :: bool
  server :: 'r

text \<open>The constructor: \<open>pool_size\<close> unconnected entries.\<close>

definition redis_new :: "redis_config \<Rightarrow> 'r \<Rightarrow> 'r redis_client" where
  "redis_new cfg r =
     \<lparr>conns = replicate (nat (pool_size cfg)) \<lparr>ctx = None, in_use = False\<rparr>, running = False,
      subscriber_joinable = False, subscribers = [], error_callback = False, reported = [],
      last_error = [], pool_locked = False, server = r\<rparr>"

definition set_error_callback :: "'r redis_client \<Rightarrow> 'r redis_client" where
  "set_error_callback s = s\<lparr>error_callback := True\<rparr>"

definition report :: "string \<Rightarrow> ('r redis_client, unit) em" where
  "report msg = mod_st (\<lambda>s. s\<lparr>last_error := msg,
     reported := (if error_callback s then reported s @ [msg] else reported s)\<rparr>)"

text \<open>A \<open>std::lock_guard\<close> on \<open>pool_mutex_\<close> around a body.\<close>

definition with_pool_lock :: "('r redis_client, 'a) em \<Rightarrow> ('r redis_client, 'a) em" where
  "with_pool_lock m = (\<lambda>s.
     if pool_locked s then (Inl (Deadlock ''pool_mutex_''), s)
     else (case m (s\<lparr>pool_locked := True\<rparr>) of
             (Inl e, s') \<Rightarrow> (Inl e, if catchable e then s'\<lparr>pool_locked := False\<rparr> else s')
           | (Inr x, s') \<Rightarrow> (Inr x, s'\<lparr>pool_locked := False\<rparr>)))"

subsection \<open>Calls into hiredis\<close>

definition set_context :: "nat \<Rightarrow> nat option \<Rightarrow> 'r redis_client \<Rightarrow> 'r redis_client" where
  "set_context i c s = s\<lparr>conns := (conns s)[i := (conns s ! i)\<lparr>ctx := c\<rparr>]\<rparr>"

text \<open>\<open>if (context) { redisFree(context); context = nullptr; }\<close>\<close>

definition free_context :: "'r hiredis \<Rightarrow> nat \<Rightarrow> ('r redis_client, unit) em" where
  "free_context h i = mod_st (\<lambda>s.
     case ctx (conns s ! i) of
       None \<Rightarrow> s
     | Some c \<Rightarrow> set_context i None (s\<lparr>server := h_free h c (server s)\<rparr>))"

text \<open>
  The conversions in a format string that read an argument; with fewer arguments than those,
  \<open>redisCommand\<close> reads past its variable arguments.
\<close>

fun arg_directives :: "string \<Rightarrow> nat" where
  "arg_directives (a # b # s) =
     (if a = CHR ''%'' then (if b \<in> set ''sbdiouxXeEfFgGaA'' then 1 else 0) + arg_directives s
      else arg_directives (b # s))"
| "arg_directives _ = 0"

definition redis_command ::
    "'r hiredis \<Rightarrow> nat \<Rightarrow> string \<Rightarrow> string list \<Rightarrow> ('r redis_client, reply option) em" where
  "redis_command h i fmt args = (\<lambda>s.
     case ctx (conns s ! i) of
       None \<Rightarrow> (Inl (Undefined ''null redis context''), s)
     | Some c \<Rightarrow>
         if length args < arg_directives (c_str fmt) then (Inl (Undefined ''missing format argument''), s)
         else (case h_command h c (c_str fmt) (map c_str args) (server s) of
                 (r, w) \<Rightarrow> (Inr r, s\<lparr>server := w\<rparr>)))"

definition context_err :: "'r hiredis \<Rightarrow> nat \<Rightarrow> 'r redis_client \<Rightarrow> bool" where
  "context_err h i s =
     (case ctx (conns s ! i) of None \<Rightarrow> False | Some c \<Rightarrow> h_err h c (server s))"

subsection \<open>Connecting\<close>

definition disconnect :: "'r hiredis \<Rightarrow> ('r redis_client, unit) em" where
  "disconnect h =
     and_then (mod_st (\<lambda>s. s\<lparr>running := False, subscriber_joinable := False\<rparr>)) (\<lambda>_.
     with_pool_lock (\<lambda>s. for_each [0 ..< length (conns s)] (free_context h) s))"

definition is_status :: "string \<Rightarrow> reply option \<Rightarrow> bool" where
  "is_status t r = (case r of Some (R_Status s) \<Rightarrow> c_str s = t | _ \<Rightarrow> False)"

text \<open>\<open>connection->context = redisConnectWithTimeout(...)\<close>\<close>

definition open_context :: "'r hiredis \<Rightarrow> redis_config \<Rightarrow> nat \<Rightarrow> ('r redis_client, unit) em" where
  "open_context h cfg i = mod_st (\<lambda>s.
     case h_connect h (c_str (host cfg)) (port cfg) (server s) of
       (c, w) \<Rightarrow> set_context i c (s\<lparr>server := w\<rparr>))"

text \<open>One turn of the loop over the pool: whether to go on (\<open>ok\<close>).\<close>

definition connect_one :: "'r hiredis \<Rightarrow> redis_config \<Rightarrow> nat \<Rightarrow> ('r redis_client, bool) em" where
  "connect_one h cfg i =
     and_then (free_context h i) (\<lambda>_.
     and_then (open_context h cfg i) (\<lambda>_.
     and_then (get_st (\<lambda>s. ctx (conns s ! i) = None \<or> context_err h i s)) (\<lambda>bad.
     if bad then and_then (free_context h i) (\<lambda>_. ret False)
     else
     and_then (if password cfg = [] then ret True
               else and_then (redis_command h i ''AUTH %s'' [password cfg]) (\<lambda>r. ret (is_status ''OK'' r)))
       (\<lambda>auth_ok.
     if \<not> auth_ok then and_then (free_context h i) (\<lambda>_. ret False)
     else and_then (redis_command h i ''PING'' []) (\<lambda>r. ret (is_status ''PONG'' r))))))"

fun connect_each :: "'r hiredis \<Rightarrow> redis_config \<Rightarrow> nat list \<Rightarrow> ('r redis_client, bool) em" where
  "connect_each h cfg [] = ret True"
| "connect_each h cfg (i # is) =
     and_then (connect_one h cfg i) (\<lambda>ok. if ok then connect_each h cfg is else ret False)"

text \<open>
  The retry loop; the first argument is the number of attempts left, \<open>max_retries - attempt\<close>.
\<close>

fun connect_loop :: "'r hiredis \<Rightarrow> redis_config \<Rightarrow> nat \<Rightarrow> int \<Rightarrow> ('r redis_client, bool) em" where
  "connect_loop h cfg 0 attempt =
     and_then (report (''Failed to connect to Redis after '' @ show_int (max_retries cfg) @ '' attempts''))
       (\<lambda>_. ret False)"
| "connect_loop h cfg (Suc n) attempt =
     and_then (\<lambda>s. connect_each h cfg [0 ..< length (conns s)] s) (\<lambda>ok.
     if ok then and_then (mod_st (\<lambda>s. s\<lparr>running := True, subscriber_joinable := True\<rparr>)) (\<lambda>_. ret True)
     else
       and_then (disconnect h) (\<lambda>_.
       and_then (report (''Failed to connect to Redis (attempt '' @ show_int (attempt + 1) @ '')'')) (\<lambda>_.
       connect_loop h cfg n (attempt + 1))))"

definition connect :: "'r hiredis \<Rightarrow> redis_config \<Rightarrow> ('r redis_client, bool) em" where
  "connect h cfg = with_pool_lock (\<lambda>s.
     if running s then (Inr True, s) else connect_loop h cfg (nat (max_retries cfg)) 0 s)"

definition reconnect :: "'r hiredis \<Rightarrow> redis_config \<Rightarrow> ('r redis_client, bool) em" where
  "reconnect h cfg = and_then (disconnect h) (\<lambda>_. connect h cfg)"

definition is_connected :: "'r redis_client \<Rightarrow> bool" where
  "is_connected s = running s"

subsection \<open>The pool of connections\<close>

definition first_free :: "redis_connection list \<Rightarrow> nat option" where
  "first_free cs =
     (let n = length (takeWhile in_use cs) in if n < length cs then Some n else None)"

definition set_in_use :: "nat \<Rightarrow> bool \<Rightarrow> 'r redis_client \<Rightarrow> 'r redis_client" where
  "set_in_use i b s = s\<lparr>conns := (conns s)[i := (conns s ! i)\<lparr>in_use := b\<rparr>]\<rparr>"

definition acquire_connection :: "('r redis_client, nat option) em" where
  "acquire_connection = with_pool_lock (\<lambda>s.
     case first_free (conns s) of
       None \<Rightarrow> (Inr None, s)
     | Some i \<Rightarrow> (Inr (Some i), set_in_use i True s))"

text \<open>
  The connection a command uses for its duration: the deleter of the shared pointer releases it
  when the function returns or throws. \<open>dflt\<close> is what the command returns with no free
  connection.
\<close>

definition with_connection :: "'a \<Rightarrow> (nat \<Rightarrow> ('r redis_client, 'a) em) \<Rightarrow> ('r redis_client, 'a) em" where
  "with_connection dflt body =
     and_then acquire_connection (\<lambda>c.
     case c of
       None \<Rightarrow> ret dflt
     | Some i \<Rightarrow> (\<lambda>s. case body i s of
           (Inl e, s') \<Rightarrow> (Inl e, if catchable e then set_in_use i False s' else s')
         | (Inr x, s') \<Rightarrow> (Inr x, set_in_use i False s')))"

subsection \<open>Commands\<close>

text \<open>\<open>redisCommand\<close> with one reconnection, as \<open>send_command\<close> and the list readers do.\<close>

definition command_retry ::
    "'r hiredis \<Rightarrow> redis_config \<Rightarrow> string \<Rightarrow> nat \<Rightarrow> string \<Rightarrow> string list \<Rightarrow> ('r redis_client, reply option) em" where
  "command_retry h cfg what i fmt args =
     and_then (redis_command h i fmt args) (\<lambda>r.
     and_then (get_st (\<lambda>s. r = None \<and> context_err h i s)) (\<lambda>retry.
     if retry then
       and_then (report (''Redis '' @ what @ '' failed, trying reconnect'')) (\<lambda>_.
       and_then (reconnect h cfg) (\<lambda>ok. if ok then redis_command h i fmt args else ret r))
     else ret r))"

fun reply_str :: "reply \<Rightarrow> string option" where
  "reply_str (R_String s) = Some (c_str s)"
| "reply_str (R_Status s) = Some (c_str s)"
| "reply_str (R_Error s) = Some (c_str s)"
| "reply_str _ = None"

fun reply_text :: "reply \<Rightarrow> string" where
  "reply_text (R_String s) = c_str s"
| "reply_text (R_Status s) = c_str s"
| "reply_text (R_Integer i) = show_int i"
| "reply_text (R_Array rs) =
     (case rs of [] \<Rightarrow> [] | r # _ \<Rightarrow> (case reply_str r of None \<Rightarrow> [] | Some s \<Rightarrow> s))"
| "reply_text _ = []"

definition send_command ::
    "'r hiredis \<Rightarrow> redis_config \<Rightarrow> nat \<Rightarrow> string \<Rightarrow> ('r redis_client, string) em" where
  "send_command h cfg i cmd =
     and_then (command_retry h cfg ''command'' i cmd [])
       (\<lambda>r. ret (case r of None \<Rightarrow> [] | Some rep \<Rightarrow> reply_text rep))"

definition run_command ::
    "'r hiredis \<Rightarrow> redis_config \<Rightarrow> 'a \<Rightarrow> string \<Rightarrow> (string \<Rightarrow> err + 'a) \<Rightarrow> ('r redis_client, 'a) em" where
  "run_command h cfg dflt cmd k =
     with_connection dflt (\<lambda>i. and_then (send_command h cfg i cmd) (\<lambda>r. lift_sum (k r)))"

abbreviation sp :: string where "sp \<equiv> '' ''"

definition set_cmd :: "string \<Rightarrow> string \<Rightarrow> int \<Rightarrow> string" where
  "set_cmd key value ttl =
     ''SET '' @ key @ sp @ value @ (if 0 < ttl then '' EX '' @ show_int ttl else [])"

definition redis_set :: "'r hiredis \<Rightarrow> redis_config \<Rightarrow> string \<Rightarrow> string \<Rightarrow> int \<Rightarrow> ('r redis_client, bool) em" where
  "redis_set h cfg key value ttl =
     run_command h cfg False (set_cmd key value ttl) (\<lambda>r. Inr (r = ''OK''))"

definition redis_get :: "'r hiredis \<Rightarrow> redis_config \<Rightarrow> string \<Rightarrow> ('r redis_client, string) em" where
  "redis_get h cfg key = run_command h cfg [] (''GET '' @ key) Inr"

definition redis_exists :: "'r hiredis \<Rightarrow> redis_config \<Rightarrow> string \<Rightarrow> ('r redis_client, bool) em" where
  "redis_exists h cfg key = run_command h cfg False (''EXISTS '' @ key) (\<lambda>r. Inr (r = ''1''))"

definition redis_del :: "'r hiredis \<Rightarrow> redis_config \<Rightarrow> string \<Rightarrow> ('r redis_client, bool) em" where
  "redis_del h cfg key = run_command h cfg False (''DEL '' @ key) (\<lambda>r. Inr (r \<noteq> ''0''))"

definition redis_expire :: "'r hiredis \<Rightarrow> redis_config \<Rightarrow> string \<Rightarrow> int \<Rightarrow> ('r redis_client, bool) em" where
  "redis_expire h cfg key secs =
     run_command h cfg False (''EXPIRE '' @ key @ sp @ show_int secs) (\<lambda>r. Inr (r = ''1''))"

definition words_after :: "string \<Rightarrow> string list \<Rightarrow> string" where
  "words_after cmd vals = cmd @ concat (map (\<lambda>v. sp @ v) vals)"

definition redis_lpush :: "'r hiredis \<Rightarrow> redis_config \<Rightarrow> string \<Rightarrow> string list \<Rightarrow> ('r redis_client, bool) em" where
  "redis_lpush h cfg key vals =
     run_command h cfg False (words_after (''LPUSH '' @ key) vals) (\<lambda>_. Inr True)"

definition redis_llen :: "'r hiredis \<Rightarrow> redis_config \<Rightarrow> string \<Rightarrow> ('r redis_client, int) em" where
  "redis_llen h cfg key = run_command h cfg 0 (''LLEN '' @ key) stoi"

definition redis_sadd :: "'r hiredis \<Rightarrow> redis_config \<Rightarrow> string \<Rightarrow> string list \<Rightarrow> ('r redis_client, bool) em" where
  "redis_sadd h cfg key members =
     run_command h cfg False (words_after (''SADD '' @ key) members) (\<lambda>_. Inr True)"

definition redis_sismember :: "'r hiredis \<Rightarrow> redis_config \<Rightarrow> string \<Rightarrow> string \<Rightarrow> ('r redis_client, bool) em" where
  "redis_sismember h cfg key m =
     run_command h cfg False (''SISMEMBER '' @ key @ sp @ m) (\<lambda>r. Inr (r = ''1''))"

definition redis_srem :: "'r hiredis \<Rightarrow> redis_config \<Rightarrow> string \<Rightarrow> string \<Rightarrow> ('r redis_client, bool) em" where
  "redis_srem h cfg key m =
     run_command h cfg False (''SREM '' @ key @ sp @ m) (\<lambda>r. Inr (r \<noteq> ''0''))"

definition redis_hset :: "'r hiredis \<Rightarrow> redis_config \<Rightarrow> string \<Rightarrow> string \<Rightarrow> string \<Rightarrow> ('r redis_client, bool) em" where
  "redis_hset h cfg key field value =
     run_command h cfg False (''HSET '' @ key @ sp @ field @ sp @ value) (\<lambda>r. Inr (r \<noteq> ''0''))"

definition redis_hget :: "'r hiredis \<Rightarrow> redis_config \<Rightarrow> string \<Rightarrow> string \<Rightarrow> ('r redis_client, string) em" where
  "redis_hget h cfg key field = run_command h cfg [] (''HGET '' @ key @ sp @ field) Inr"

definition redis_hdel :: "'r hiredis \<Rightarrow> redis_config \<Rightarrow> string \<Rightarrow> string \<Rightarrow> ('r redis_client, bool) em" where
  "redis_hdel h cfg key field =
     run_command h cfg False (''HDEL '' @ key @ sp @ field) (\<lambda>r. Inr (r \<noteq> ''0''))"

definition redis_publish :: "'r hiredis \<Rightarrow> redis_config \<Rightarrow> string \<Rightarrow> string \<Rightarrow> ('r redis_client, bool) em" where
  "redis_publish h cfg channel msg =
     run_command h cfg False (''PUBLISH '' @ channel @ sp @ msg) (\<lambda>_. Inr True)"

definition redis_ping :: "'r hiredis \<Rightarrow> redis_config \<Rightarrow> ('r redis_client, string) em" where
  "redis_ping h cfg = run_command h cfg [] ''PING'' Inr"

definition redis_info :: "'r hiredis \<Rightarrow> redis_config \<Rightarrow> string \<Rightarrow> ('r redis_client, string) em" where
  "redis_info h cfg section = run_command h cfg [] (''INFO '' @ section) Inr"

text \<open>The readers of whole lists pass the key as an argument of the format.\<close>

definition string_elements :: "reply option \<Rightarrow> string list" where
  "string_elements r =
     (case r of Some (R_Array rs) \<Rightarrow> List.map_filter reply_str rs | _ \<Rightarrow> [])"

fun pair_elements :: "reply list \<Rightarrow> err + (string \<times> string) list" where
  "pair_elements [] = Inr []"
| "pair_elements [r] =
     (if reply_str r = None then Inr [] else Inl (Undefined ''element past the end''))"
| "pair_elements (a # b # rs) =
     (case pair_elements rs of
        Inl e \<Rightarrow> Inl e
      | Inr ps \<Rightarrow>
          Inr (case (reply_str a, reply_str b) of (Some x, Some y) \<Rightarrow> (x, y) # ps | _ \<Rightarrow> ps))"

definition redis_lrange ::
    "'r hiredis \<Rightarrow> redis_config \<Rightarrow> string \<Rightarrow> int \<Rightarrow> int \<Rightarrow> ('r redis_client, string list) em" where
  "redis_lrange h cfg key start stop =
     with_connection [] (\<lambda>i.
       and_then (command_retry h cfg ''LRANGE'' i ''LRANGE %s %d %d'' [key, show_int start, show_int stop])
         (\<lambda>r. ret (string_elements r)))"

definition redis_smembers :: "'r hiredis \<Rightarrow> redis_config \<Rightarrow> string \<Rightarrow> ('r redis_client, string list) em" where
  "redis_smembers h cfg key =
     with_connection [] (\<lambda>i.
       and_then (command_retry h cfg ''SMEMBERS'' i ''SMEMBERS %s'' [key]) (\<lambda>r. ret (string_elements r)))"

definition redis_hgetall ::
    "'r hiredis \<Rightarrow> redis_config \<Rightarrow> string \<Rightarrow> ('r redis_client, (string \<times> string) list) em" where
  "redis_hgetall h cfg key =
     with_connection [] (\<lambda>i.
       and_then (command_retry h cfg ''HGETALL'' i ''HGETALL %s'' [key])
         (\<lambda>r. lift_sum (case r of Some (R_Array rs) \<Rightarrow> pair_elements rs | _ \<Rightarrow> Inr [])))"

subsection \<open>Subscribers\<close>

text \<open>A callback is named by a number; nothing in the client ever calls one.\<close>

definition redis_subscribe :: "string \<Rightarrow> nat \<Rightarrow> 'r redis_client \<Rightarrow> bool \<times> 'r redis_client" where
  "redis_subscribe ch cb s = (True, s\<lparr>subscribers := sm_put ch cb (subscribers s)\<rparr>)"

definition redis_unsubscribe :: "string \<Rightarrow> 'r redis_client \<Rightarrow> bool \<times> 'r redis_client" where
  "redis_unsubscribe ch s = (True, s\<lparr>subscribers := sm_del ch (subscribers s)\<rparr>)"

definition get_subscription_count :: "string \<Rightarrow> 'r redis_client \<Rightarrow> int" where
  "get_subscription_count ch s = (if map_of (subscribers s) ch = None then 0 else 1)"

text \<open>Transactions are stubs.\<close>

definition multi_start :: "bool" where "multi_start = False"

definition queue_command :: "string \<Rightarrow> bool" where "queue_command cmd = False"

definition redis_exec :: "string list" where "redis_exec = []"

end
