(* ===== verification/Redis_Props.thy ===== *)
theory Redis_Props
  imports Redis
begin

section \<open>What the Redis client guarantees\<close>

text \<open>
  Exclusive use of the pooled connections as an invariant of acquiring, releasing and sending;
  the two outcomes of \<open>connect\<close>; the behaviour of a client that is not connected; and what
  building commands by concatenation means for values with spaces and percent signs.
\<close>

subsection \<open>What the helpers leave alone\<close>

abbreviation flags :: "'r redis_client \<Rightarrow> bool list" where
  "flags s \<equiv> map in_use (conns s)"

lemma map_in_use_set_context [simp]: "flags (set_context i c s) = flags s"
  by (cases "i < length (conns s)") (simp_all add: set_context_def map_update list_update_beyond
      list_update_same_conv [THEN iffD2])

lemma set_context_simps [simp]:
  "running (set_context i c s) = running s" "pool_locked (set_context i c s) = pool_locked s"
  "length (conns (set_context i c s)) = length (conns s)"
  "subscriber_joinable (set_context i c s) = subscriber_joinable s"
  "server (set_context i c s) = server s"
  by (simp_all add: set_context_def)

lemma set_in_use_simps [simp]:
  "running (set_in_use i b s) = running s" "pool_locked (set_in_use i b s) = pool_locked s"
  "length (conns (set_in_use i b s)) = length (conns s)" "server (set_in_use i b s) = server s"
  by (simp_all add: set_in_use_def)

lemma flags_set_in_use: "i < length (conns s) \<Longrightarrow> flags (set_in_use i b s) = (flags s)[i := b]"
  by (simp add: set_in_use_def map_update)

lemma ctx_set_in_use [simp]: "i < length (conns s) \<Longrightarrow> ctx (conns (set_in_use i b s) ! j) = ctx (conns s ! j)"
  by (cases "i = j") (simp_all add: set_in_use_def)

lemma keeps_with_pool_lock:
  assumes "keeps f m" and "\<And>s b. f (s\<lparr>pool_locked := b\<rparr>) = f s"
  shows "keeps f (with_pool_lock m)"
  using assms by (auto simp: keeps_def with_pool_lock_def split: prod.split sum.split)
    (metis snd_conv)+

lemma keeps_free_context:
  "(\<And>s i c. f (set_context i c s) = f s) \<Longrightarrow> (\<And>s w. f (s\<lparr>server := w\<rparr>) = f s) \<Longrightarrow>
   keeps f (free_context h i)"
  by (simp add: free_context_def keeps_def mod_st_run split: option.split)

lemma keeps_redis_command:
  "(\<And>s w. f (s\<lparr>server := w\<rparr>) = f s) \<Longrightarrow> keeps f (redis_command h i fmt args)"
  by (simp add: redis_command_def keeps_def split: option.split prod.split)

lemma keeps_state_dependent: "(\<And>x. keeps f (m x)) \<Longrightarrow> keeps f (\<lambda>s. m (g s) s)"
  by (simp add: keeps_def)

text \<open>The flags that say which connections are in use survive everything but acquire/release.\<close>

named_theorems flag_intros \<open>computations that keep the in-use flags\<close>

lemma keeps_flags_basic [flag_intros]:
  "keeps flags (report msg)" "keeps flags (free_context h i)" "keeps flags (open_context h cfg i)"
  "keeps flags (redis_command h i fmt args)"
  by (simp_all add: report_def open_context_def keeps_mod keeps_free_context keeps_redis_command
      split: prod.split)

lemma keeps_flags_disconnect [flag_intros]: "keeps flags (disconnect h)"
proof -
  have "keeps flags (\<lambda>s. for_each [0 ..< length (conns s)] (free_context h) s)"
    by (rule keeps_state_dependent) (intro keeps_for_each flag_intros)
  then show ?thesis
    unfolding disconnect_def by (intro keeps_and_then keeps_mod keeps_with_pool_lock) simp_all
qed

lemma keeps_flags_connect_one: "keeps flags (connect_one h cfg i)"
  unfolding connect_one_def by (intro frame_intros flag_intros)

lemma keeps_flags_connect_each: "keeps flags (connect_each h cfg is)"
  by (induction h cfg "is" rule: connect_each.induct)
    (simp_all add: keeps_ret keeps_and_then keeps_flags_connect_one)

lemma keeps_flags_connect_loop: "keeps flags (connect_loop h cfg n k)"
proof (induction n arbitrary: k)
  case 0
  show ?case by (simp add: keeps_and_then flag_intros keeps_ret)
next
  case (Suc n)
  have "keeps flags (\<lambda>s. connect_each h cfg [0 ..< length (conns s)] s)"
    by (rule keeps_state_dependent) (rule keeps_flags_connect_each)
  moreover have "keeps flags (mod_st (\<lambda>s. s\<lparr>running := True, subscriber_joinable := True\<rparr>))"
    by (rule keeps_mod) simp
  ultimately show ?case
    unfolding connect_loop.simps by (intro frame_intros flag_intros Suc.IH)
qed

lemma keeps_flags_connect [flag_intros]: "keeps flags (connect h cfg)"
proof -
  have "keeps flags (\<lambda>s. if running s then (Inr True, s)
      else connect_loop h cfg (nat (max_retries cfg)) 0 s)"
    using keeps_flags_connect_loop [of h cfg "nat (max_retries cfg)" 0] by (simp add: keeps_def)
  then show ?thesis unfolding connect_def by (rule keeps_with_pool_lock) simp
qed

lemma keeps_flags_send_command: "keeps flags (send_command h cfg i cmd)"
  unfolding send_command_def command_retry_def reconnect_def by (intro frame_intros flag_intros)

subsection \<open>Acquiring and releasing\<close>

lemma first_free_simps [simp]:
  "first_free [] = None"
  "first_free (c # cs) = (if in_use c then map_option Suc (first_free cs) else Some 0)"
  by (simp_all add: first_free_def Let_def)

lemma first_free_Some: "first_free cs = Some i \<Longrightarrow> i < length cs \<and> \<not> in_use (cs ! i)"
  by (induction cs arbitrary: i) (auto split: if_splits)

lemma first_free_None: "first_free cs = None \<longleftrightarrow> (\<forall>c \<in> set cs. in_use c)"
  by (induction cs) auto

lemma acquire_run:
  "\<not> pool_locked s \<Longrightarrow> acquire_connection s =
    (case first_free (conns s) of None \<Rightarrow> (Inr None, s) | Some i \<Rightarrow> (Inr (Some i), set_in_use i True s))"
  by (simp add: acquire_connection_def with_pool_lock_def set_in_use_def split: option.split)

lemma acquire_locked: "pool_locked s \<Longrightarrow> acquire_connection s = (Inl (Deadlock ''pool_mutex_''), s)"
  by (simp add: acquire_connection_def with_pool_lock_def)

text \<open>
  Threads use the pool by acquiring, sending on what they hold, and releasing it; \<open>held\<close> lists
  the indexes of the connections held, across all threads.
\<close>

inductive use_step :: "'r redis_client \<times> nat list \<Rightarrow> 'r redis_client \<times> nat list \<Rightarrow> bool" where
  u_acquire: "acquire_connection s = (Inr (Some i), s') \<Longrightarrow> use_step (s, held) (s', i # held)"
| u_refused: "acquire_connection s = (Inr None, s') \<Longrightarrow> use_step (s, held) (s', held)"
| u_command: "i \<in> set held \<Longrightarrow> send_command h cfg i cmd s = (r, s') \<Longrightarrow> use_step (s, held) (s', held)"
| u_release: "i \<in> set held \<Longrightarrow> use_step (s, held) (set_in_use i False s, remove1 i held)"

inductive_cases use_stepE: "use_step (s, held) (s', held')"

definition use_inv :: "nat \<Rightarrow> 'r redis_client \<times> nat list \<Rightarrow> bool" where
  "use_inv n = (\<lambda>(s, held). distinct held \<and> length (conns s) = n \<and>
     set held = {i. i < n \<and> flags s ! i})"

lemma use_inv_acquire:
  assumes "use_inv n (s, held)" and "acquire_connection s = (Inr (Some i), s')"
  shows "use_inv n (s', i # held) \<and> i \<notin> set held \<and> i < n"
proof -
  have "\<not> pool_locked s" using assms(2) by (auto simp: acquire_locked)
  then have free: "first_free (conns s) = Some i" "s' = set_in_use i True s"
    using assms(2) by (auto simp: acquire_run split: option.splits)
  then show ?thesis
    using assms(1) first_free_Some [OF free(1)]
    by (auto simp: use_inv_def flags_set_in_use nth_list_update)
qed

lemma use_inv_step: "use_step x y \<Longrightarrow> use_inv n x \<Longrightarrow> use_inv n y"
proof (induction rule: use_step.induct)
  case (u_acquire s i s' held)
  then show ?case using use_inv_acquire by blast
next
  case (u_refused s s' held)
  then show ?case
    by (cases "pool_locked s") (auto simp: acquire_run acquire_locked split: option.splits)
next
  case (u_command i held h cfg cmd s r s')
  then have "flags s' = flags s"
    using keepsD [OF keeps_flags_send_command, of h cfg i cmd s] by simp
  moreover from this have "length (conns s') = length (conns s)" by (metis length_map)
  ultimately show ?case using u_command.prems by (simp add: use_inv_def)
next
  case (u_release i held s)
  then show ?case
    by (auto simp: use_inv_def flags_set_in_use nth_list_update)
qed

interpretation pool_use: invariant_system
  "\<lambda>x. snd x = [] \<and> length (conns (fst x)) = n \<and> (\<forall>c \<in> set (conns (fst x)). \<not> in_use c)"
  use_step "use_inv n" for n
proof unfold_locales
  fix x :: "'r redis_client \<times> nat list"
  assume "snd x = [] \<and> length (conns (fst x)) = n \<and> (\<forall>c \<in> set (conns (fst x)). \<not> in_use c)"
  then show "use_inv n x" by (cases x) (simp add: use_inv_def)
qed (rule use_inv_step)

subsection \<open>Connecting, case by case\<close>

lemma ctx_set_context:
  "i < length (conns s) \<Longrightarrow> ctx (conns (set_context i c s) ! j) = (if j = i then c else ctx (conns s ! j))"
  by (simp add: set_context_def nth_list_update)

lemma free_context_run:
  "i < length (conns s) \<Longrightarrow> \<exists>s'. free_context h i s = (Inr (), s') \<and> ctx (conns s' ! i) = None \<and>
     (\<forall>j. j \<noteq> i \<longrightarrow> ctx (conns s' ! j) = ctx (conns s ! j)) \<and> length (conns s') = length (conns s) \<and>
     pool_locked s' = pool_locked s \<and> running s' = running s"
  by (auto simp: free_context_def mod_st_run ctx_set_context split: option.split)

lemma open_context_run:
  "i < length (conns s) \<Longrightarrow> \<exists>s'. open_context h cfg i s = (Inr (), s') \<and>
     (\<forall>j. j \<noteq> i \<longrightarrow> ctx (conns s' ! j) = ctx (conns s ! j)) \<and> length (conns s') = length (conns s) \<and>
     pool_locked s' = pool_locked s \<and> running s' = running s"
  by (auto simp: open_context_def mod_st_run ctx_set_context split: prod.split)

lemma redis_command_connected:
  "ctx (conns s ! i) = Some c \<Longrightarrow> arg_directives (c_str fmt) \<le> length args \<Longrightarrow>
   redis_command h i fmt args s =
     (Inr (fst (h_command h c (c_str fmt) (map c_str args) (server s))),
      s\<lparr>server := snd (h_command h c (c_str fmt) (map c_str args) (server s))\<rparr>)"
  by (simp add: redis_command_def split: prod.split)

lemma connect_formats:
  "arg_directives (c_str ''AUTH %s'') = 1" "arg_directives (c_str ''PING'') = 0"
  by (simp_all add: c_str_def)

lemma connect_one_run:
  assumes "i < length (conns s)"
  shows "\<exists>b s'. connect_one h cfg i s = (Inr b, s') \<and> (b \<longrightarrow> ctx (conns s' ! i) \<noteq> None) \<and>
     (\<forall>j. j \<noteq> i \<longrightarrow> ctx (conns s' ! j) = ctx (conns s ! j)) \<and> length (conns s') = length (conns s) \<and>
     pool_locked s' = pool_locked s \<and> running s' = running s"
proof -
  obtain s1 where s1: "free_context h i s = (Inr (), s1)"
    "\<forall>j. j \<noteq> i \<longrightarrow> ctx (conns s1 ! j) = ctx (conns s ! j)" "length (conns s1) = length (conns s)"
    "pool_locked s1 = pool_locked s" "running s1 = running s"
    using free_context_run [OF assms, of h] by blast
  obtain s2 where s2: "open_context h cfg i s1 = (Inr (), s2)"
    "\<forall>j. j \<noteq> i \<longrightarrow> ctx (conns s2 ! j) = ctx (conns s ! j)" "length (conns s2) = length (conns s)"
    "pool_locked s2 = pool_locked s" "running s2 = running s"
    using open_context_run [of i s1 h cfg] s1 assms by auto
  show ?thesis
  proof (cases "ctx (conns s2 ! i)")
    case None
    with s1(1) s2 free_context_run [of i s2 h] assms show ?thesis
      by (fastforce simp: connect_one_def em_simps)
  next
    case (Some c)
    have freed: "\<exists>s'. free_context h i t = (Inr (), s') \<and>
        (\<forall>j. j \<noteq> i \<longrightarrow> ctx (conns s' ! j) = ctx (conns s ! j)) \<and> length (conns s') = length (conns s) \<and>
        pool_locked s' = pool_locked s \<and> running s' = running s"
      if "t = s2 \<or> (\<exists>w. t = s2\<lparr>server := w\<rparr>)" for t
      using that s2 free_context_run [of i t h] assms by auto
    show ?thesis
    proof (cases "context_err h i s2")
      case True
      with s1(1) s2(1) freed [of s2] show ?thesis by (fastforce simp: connect_one_def em_simps)
    next
      case False
      show ?thesis
      proof (cases "password cfg = []")
        case True
        with s1(1) s2 Some False show ?thesis
          by (simp add: connect_one_def em_simps redis_command_connected connect_formats)
      next
        case pw: False
        define t where "t = s2\<lparr>server := snd (h_command h c (c_str ''AUTH %s'') [c_str (password cfg)] (server s2))\<rparr>"
        define r where "r = fst (h_command h c (c_str ''AUTH %s'') [c_str (password cfg)] (server s2))"
        have auth: "redis_command h i ''AUTH %s'' [password cfg] s2 = (Inr r, t)"
          using Some by (simp add: redis_command_connected connect_formats t_def r_def)
        have "t = s2 \<or> (\<exists>w. t = s2\<lparr>server := w\<rparr>)" by (simp add: t_def) blast
        then obtain t' where t': "free_context h i t = (Inr (), t')"
          "\<forall>j. j \<noteq> i \<longrightarrow> ctx (conns t' ! j) = ctx (conns s ! j)" "length (conns t') = length (conns s)"
          "pool_locked t' = pool_locked s" "running t' = running s"
          using freed [of t] by blast
        have "ctx (conns t ! i) = Some c" using Some by (simp add: t_def)
        then have ping: "redis_command h i ''PING'' [] t =
            (Inr (fst (h_command h c (c_str ''PING'') [] (server t))),
             t\<lparr>server := snd (h_command h c (c_str ''PING'') [] (server t))\<rparr>)"
          by (simp add: redis_command_connected connect_formats)
        show ?thesis
          using s1(1) s2 Some False pw t' ping
          by (cases "is_status ''OK'' r") (auto simp: connect_one_def em_simps auth t_def)
      qed
    qed
  qed
qed

lemma connect_each_run:
  assumes "set is \<subseteq> {0 ..< length (conns s)}" and "distinct is"
  shows "\<exists>b s'. connect_each h cfg is s = (Inr b, s') \<and> (b \<longrightarrow> (\<forall>i \<in> set is. ctx (conns s' ! i) \<noteq> None)) \<and>
     (\<forall>j. j \<notin> set is \<longrightarrow> ctx (conns s' ! j) = ctx (conns s ! j)) \<and>
     length (conns s') = length (conns s) \<and> pool_locked s' = pool_locked s \<and> running s' = running s"
  using assms
proof (induction "is" arbitrary: s)
  case Nil
  then show ?case by (auto simp: em_simps)
next
  case (Cons i "is")
  obtain b t where t: "connect_one h cfg i s = (Inr b, t)" "b \<longrightarrow> ctx (conns t ! i) \<noteq> None"
     "\<forall>j. j \<noteq> i \<longrightarrow> ctx (conns t ! j) = ctx (conns s ! j)" "length (conns t) = length (conns s)"
     "pool_locked t = pool_locked s" "running t = running s"
    using connect_one_run [of i s h cfg] Cons.prems(1) by auto
  show ?case
  proof (cases b)
    case False
    with t show ?thesis by (auto simp: em_simps)
  next
    case True
    have "set is \<subseteq> {0 ..< length (conns t)}" "distinct is" using Cons.prems t(4) by auto
    from Cons.IH [OF this] show ?thesis
      using t True Cons.prems(2) by (fastforce simp: em_simps)
  qed
qed

lemma disconnect_locked:
  "pool_locked s \<Longrightarrow> disconnect h s =
     (Inl (Deadlock ''pool_mutex_''), s\<lparr>running := False, subscriber_joinable := False\<rparr>)"
  by (simp add: disconnect_def em_simps with_pool_lock_def)

lemma connect_loop_locked:
  assumes "pool_locked s" and "0 < n" and "\<not> running s"
  shows "(\<exists>t. connect_loop h cfg n k s = (Inr True, t) \<and> running t \<and> pool_locked t \<and>
      length (conns t) = length (conns s) \<and> (\<forall>i < length (conns t). ctx (conns t ! i) \<noteq> None)) \<or>
    (\<exists>t. connect_loop h cfg n k s = (Inl (Deadlock ''pool_mutex_''), t) \<and> \<not> running t \<and> pool_locked t)"
proof -
  obtain m where m: "n = Suc m" using assms(2) by (cases n) auto
  obtain b t where t: "connect_each h cfg [0 ..< length (conns s)] s = (Inr b, t)"
     "b \<longrightarrow> (\<forall>i < length (conns s). ctx (conns t ! i) \<noteq> None)"
     "length (conns t) = length (conns s)" "pool_locked t" "\<not> running t"
    using connect_each_run [of "[0 ..< length (conns s)]" s h cfg] assms by auto
  show ?thesis
    using t by (cases b) (auto simp add: m em_simps disconnect_locked)
qed

lemma connect_outcomes:
  assumes "\<not> pool_locked s" and "\<not> running s" and "0 < max_retries cfg"
  shows "(\<exists>t. connect h cfg s = (Inr True, t) \<and> running t \<and> \<not> pool_locked t \<and>
      length (conns t) = length (conns s) \<and> (\<forall>i < length (conns t). ctx (conns t ! i) \<noteq> None)) \<or>
    (\<exists>t. connect h cfg s = (Inl (Deadlock ''pool_mutex_''), t) \<and> \<not> running t \<and> pool_locked t)"
proof -
  let ?s = "s\<lparr>pool_locked := True\<rparr>"
  consider t where "connect_loop h cfg (nat (max_retries cfg)) 0 ?s = (Inr True, t)" "running t"
      "length (conns t) = length (conns s)" "\<forall>i < length (conns t). ctx (conns t ! i) \<noteq> None"
    | t where "connect_loop h cfg (nat (max_retries cfg)) 0 ?s = (Inl (Deadlock ''pool_mutex_''), t)"
      "\<not> running t" "pool_locked t"
    using connect_loop_locked [of ?s "nat (max_retries cfg)" h cfg 0] assms by fastforce
  then show ?thesis
  proof cases
    case 1
    then show ?thesis using assms by (simp add: connect_def with_pool_lock_def)
  next
    case 2
    then show ?thesis
      using assms by (simp add: connect_def with_pool_lock_def)
  qed
qed

lemma command_when_locked:
  "pool_locked s \<Longrightarrow> run_command h cfg d cmd k s = (Inl (Deadlock ''pool_mutex_''), s)"
  by (simp add: run_command_def with_connection_def em_simps acquire_locked)

section \<open>Properties of the Redis client\<close>

text \<open>C28: Whatever acquisitions, releases and commands happen, in any order and from any
  number of threads, no connection is ever handed to two holders: a connection returned by
  \<open>acquire_connection\<close> is not held, and null is returned only when all \<open>pool_size\<close>
  connections are held.\<close>

theorem pool_exclusive:
  assumes "use_step\<^sup>*\<^sup>* (redis_new cfg r, []) (s, held)" and "\<not> pool_locked s"
  shows "distinct held \<and> length held \<le> nat (pool_size cfg) \<and>
    (case acquire_connection s of
       (Inl _, _) \<Rightarrow> False
     | (Inr None, s') \<Rightarrow> s' = s \<and> length held = nat (pool_size cfg)
     | (Inr (Some i), s') \<Rightarrow> i \<notin> set held \<and> i < nat (pool_size cfg) \<and> use_step (s, held) (s', i # held))"
proof -
  let ?n = "nat (pool_size cfg)"
  have inv: "use_inv ?n (s, held)"
    by (rule pool_use.reach_inv [OF _ assms(1)]) (simp add: redis_new_def)
  then have held: "distinct held" "length (conns s) = ?n" "set held = {i. i < ?n \<and> flags s ! i}"
    by (simp_all add: use_inv_def)
  have le: "length held \<le> ?n"
  proof -
    have "set held \<subseteq> {0 ..< ?n}" by (simp add: held(3) subset_eq)
    then have "card (set held) \<le> card {0 ..< ?n}" by (rule card_mono [OF finite_atLeastLessThan])
    then show ?thesis by (simp add: distinct_card [OF held(1)])
  qed
  show ?thesis
  proof (cases "first_free (conns s)")
    case None
    then have "set held = {0 ..< ?n}" using held(2,3) by (auto simp: first_free_None)
    then have "length held = ?n" using held(1) by (metis distinct_card card_atLeastLessThan diff_zero)
    then show ?thesis using None held(1) by (simp add: acquire_run [OF assms(2)])
  next
    case (Some i)
    then have acq: "acquire_connection s = (Inr (Some i), set_in_use i True s)"
      by (simp add: acquire_run [OF assms(2)])
    then show ?thesis
      using use_inv_acquire [OF inv acq] u_acquire [OF acq] held(1) le by simp
  qed
qed

theorem pool_exclusive_witness:
  "let cfg = \<lparr>host = ''h'', port = 1, password = [], pool_size = 2, max_retries = 3\<rparr>;
       s = set_in_use 0 True (redis_new cfg ())
   in distinct [0 :: nat] \<and> length [0 :: nat] \<le> nat (pool_size cfg) \<and>
    (case acquire_connection s of
       (Inl _, _) \<Rightarrow> False
     | (Inr None, s') \<Rightarrow> s' = s \<and> length [0 :: nat] = nat (pool_size cfg)
     | (Inr (Some i), s') \<Rightarrow> i \<notin> set [0] \<and> i < nat (pool_size cfg) \<and> use_step (s, [0]) (s', i # [0]))"
proof -
  let ?cfg = "\<lparr>host = ''h'', port = 1, password = [], pool_size = 2, max_retries = 3\<rparr>"
  have "acquire_connection (redis_new ?cfg ()) = (Inr (Some 0), set_in_use 0 True (redis_new ?cfg ()))"
    by (subst acquire_run) (simp_all add: redis_new_def numeral_eq_Suc)
  then have "use_step\<^sup>*\<^sup>* (redis_new ?cfg (), []) (set_in_use 0 True (redis_new ?cfg ()), [0])"
    by (intro r_into_rtranclp u_acquire)
  moreover have "\<not> pool_locked (set_in_use 0 True (redis_new ?cfg ()))" by (simp add: redis_new_def)
  ultimately show ?thesis unfolding Let_def by (rule pool_exclusive)
qed

text \<open>C30: \<open>connect\<close> on an unconnected client either connects every pooled connection and
  marks the client running, or never returns: a failed attempt calls \<open>disconnect\<close>, which locks
  the \<open>pool_mutex_\<close> that \<open>connect\<close> still holds. The retries are never made, and every
  later command blocks on the same mutex.\<close>

theorem connect_or_hang:
  assumes "\<not> pool_locked s" and "\<not> running s" and "0 < max_retries cfg"
  shows "(\<exists>t. connect h cfg s = (Inr True, t) \<and> running t \<and> \<not> pool_locked t \<and>
      length (conns t) = length (conns s) \<and> (\<forall>i < length (conns t). ctx (conns t ! i) \<noteq> None)) \<or>
    (\<exists>t. connect h cfg s = (Inl (Deadlock ''pool_mutex_''), t) \<and> \<not> running t \<and>
      redis_get h cfg key t = (Inl (Deadlock ''pool_mutex_''), t))"
  using connect_outcomes [OF assms, of h] by (auto simp: redis_get_def command_when_locked)

text \<open>A server that cannot be reached, for the witness.\<close>

definition dead_redis :: "unit hiredis" where
  "dead_redis =
     \<lparr> h_connect = (\<lambda>h p w. (None, w)), h_err = (\<lambda>c w. False), h_free = (\<lambda>c w. w),
       h_command = (\<lambda>c f a w. (None, w)) \<rparr>"

definition cfg_default :: redis_config where
  "cfg_default = \<lparr>host = ''localhost'', port = 6379, password = [], pool_size = 2, max_retries = 3\<rparr>"

theorem connect_or_hang_witness:
  "\<exists>t. connect dead_redis cfg_default (redis_new cfg_default ()) = (Inl (Deadlock ''pool_mutex_''), t) \<and>
    redis_get dead_redis cfg_default ''k'' t = (Inl (Deadlock ''pool_mutex_''), t)"
proof -
  have "fst (connect dead_redis cfg_default (redis_new cfg_default ())) \<noteq> Inr True"
    by (simp add: connect_def with_pool_lock_def redis_new_def cfg_default_def dead_redis_def
        em_simps numeral_eq_Suc connect_one_def free_context_def open_context_def set_context_def
        disconnect_def)
  then show ?thesis
    using connect_or_hang [of "redis_new cfg_default ()" cfg_default dead_redis "''k''"]
    by (auto simp: redis_new_def cfg_default_def)
qed

text \<open>A client that is not connected does not fail gracefully: every command that finds a
  free pool entry calls \<open>redisCommand\<close> with a null context.\<close>

theorem disconnected_command_undefined:
  assumes "\<not> pool_locked s" and "first_free (conns s) = Some i" and "ctx (conns s ! i) = None"
  shows "fst (run_command h cfg d cmd k s) = Inl (Undefined ''null redis context'')"
proof -
  have "i < length (conns s)" using first_free_Some [OF assms(2)] by simp
  then show ?thesis
    using assms
    by (simp add: run_command_def with_connection_def em_simps acquire_run send_command_def
        command_retry_def redis_command_def)
qed

theorem disconnected_command_undefined_witness:
  "fst (run_command dead_redis cfg_default False ''PING'' (\<lambda>r. Inr (r = ''PONG''))
     (redis_new cfg_default ())) = Inl (Undefined ''null redis context'')"
  by (rule disconnected_command_undefined [of _ 0])
    (simp_all add: redis_new_def cfg_default_def numeral_eq_Suc)

text \<open>Arguments are pasted into the command with single spaces, so a value that contains a
  space is several arguments: pushing one value \<open>a b\<close> is the same call as pushing \<open>a\<close> and
  \<open>b\<close>, and storing \<open>v EX n\<close> without a lifetime is storing \<open>v\<close> with lifetime
  \<open>n\<close>, whatever server and state.\<close>

theorem spaces_split_arguments:
  "redis_lpush h cfg key (us @ [a @ sp @ b] @ ws) = redis_lpush h cfg key (us @ [a, b] @ ws) \<and>
   redis_sadd h cfg key (us @ [a @ sp @ b] @ ws) = redis_sadd h cfg key (us @ [a, b] @ ws) \<and>
   redis_set h cfg key (v @ '' EX '' @ show_int (int (Suc n))) 0 = redis_set h cfg key v (int (Suc n))"
  by (simp add: redis_lpush_def redis_sadd_def redis_set_def words_after_def set_cmd_def)

lemma arg_directives_skip:
  "CHR ''%'' \<notin> set p \<Longrightarrow> arg_directives (p @ q) = arg_directives q"
proof (induction p)
  case (Cons a p)
  then show ?case by (cases "p @ q") auto
qed simp

text \<open>Commands are passed as the format string: a published message that starts with a
  conversion such as \<open>%s\<close> makes \<open>redisCommand\<close> read an argument that was not passed.\<close>

theorem percent_in_message_undefined:
  assumes "\<not> pool_locked s" and "first_free (conns s) = Some i" and "ctx (conns s ! i) = Some c"
    and "CHR ''%'' \<notin> set channel" and "CHR 0x00 \<notin> set channel"
    and "b \<in> set ''sbdiouxXeEfFgGaA''"
  shows "fst (redis_publish h cfg channel (CHR ''%'' # b # rest) s) =
    Inl (Undefined ''missing format argument'')"
proof -
  have i: "i < length (conns s)" using first_free_Some [OF assms(2)] by simp
  let ?pre = "''PUBLISH '' @ channel @ sp"
  have nul: "b \<noteq> CHR 0x00" using assms(6) by auto
  have "c_str (?pre @ CHR ''%'' # b # rest) = ?pre @ CHR ''%'' # b # c_str rest"
  proof -
    have ch: "takeWhile (\<lambda>c. c \<noteq> CHR 0x00) (channel @ t) = channel @ takeWhile (\<lambda>c. c \<noteq> CHR 0x00) t" for t
      using assms(5) by (intro takeWhile_append2) blast
    show ?thesis using nul by (simp add: c_str_def ch)
  qed
  moreover have "arg_directives (?pre @ CHR ''%'' # b # c_str rest) \<noteq> 0"
    using assms(4,6) by (subst arg_directives_skip) simp_all
  ultimately have "0 < arg_directives (c_str (?pre @ CHR ''%'' # b # rest))" by simp
  then show ?thesis
    using assms(1-3) i
    by (simp add: redis_publish_def run_command_def with_connection_def em_simps acquire_run
        send_command_def command_retry_def redis_command_def)
qed

theorem percent_in_message_undefined_witness:
  "fst (redis_publish dead_redis cfg_default ''news'' ''%save'' (set_context 0 (Some 7) (redis_new cfg_default ())))
     = Inl (Undefined ''missing format argument'')"
  by (rule percent_in_message_undefined [of _ 0 7 "''news''" "CHR ''s''" _ _ "''ave''"])
    (simp_all add: redis_new_def cfg_default_def numeral_eq_Suc set_context_def)

end
