(* ===== verification/Messenger.thy ===== *)
theory Messenger
  imports E2E Connections Redis
begin

section \<open>The messaging server (messenger_server.cpp)\<close>

text \<open>
  \<open>MessengerServer\<close> composes the Redis client, the connection pool and the encryption module:
  its state holds theirs, and each handler is a computation over it that runs theirs on their part
  (\<open>on_redis\<close>, \<open>on_pool\<close>, \<open>on_crypto\<close>). The libraries and clocks are bundled in
  \<open>env\<close>. Log lines are not modelled.
\<close>

subsection \<open>State\<close>

record 'r env =
  lib :: json_lib
  sod :: sodium
  clk :: clock
  hir :: "'r hiredis"

record 'r messenger =
  ms_running :: bool
  redis :: "'r redis_client"
  redis_cfg :: redis_config
  cpool :: pool
  server_keys :: key_pair
  user_ratchets :: "(string \<times> double_ratchet) list"
  ratchet_locked :: bool
  crypto_state :: crypto
  ticks :: nat

text \<open>
  A JSON object written as an initializer list, or filled with \<open>operator[]\<close>: nlohmann::json keeps
  the fields in a \<open>std::map\<close>.
\<close>

definition jobj :: "(string \<times> json) list \<Rightarrow> json" where
  "jobj kvs = JObj (foldr (\<lambda>(k, v). sm_put k v) kvs [])"

definition on_redis :: "('r redis_client, 'a) em \<Rightarrow> ('r messenger, 'a) em" where
  "on_redis = zoom redis (\<lambda>r s. s\<lparr>redis := r\<rparr>)"

definition on_pool :: "(pool, 'a) em \<Rightarrow> ('r messenger, 'a) em" where
  "on_pool = zoom cpool (\<lambda>p s. s\<lparr>cpool := p\<rparr>)"

definition on_crypto :: "(crypto, 'a) em \<Rightarrow> ('r messenger, 'a) em" where
  "on_crypto = zoom crypto_state (\<lambda>c s. s\<lparr>crypto_state := c\<rparr>)"

definition mod_conn :: "int \<Rightarrow> (connection \<Rightarrow> connection) \<Rightarrow> ('r messenger, unit) em" where
  "mod_conn cid f = mod_st (\<lambda>s. s\<lparr>cpool := update_conn cid f (cpool s)\<rparr>)"

text \<open>\<open>std::time(nullptr)\<close> and a reading of \<open>system_clock\<close>.\<close>

definition time_now :: "'r env \<Rightarrow> ('r messenger, int) em" where
  "time_now E = (\<lambda>s. (Inr (unix_time (clk E) (ticks s)), s\<lparr>ticks := Suc (ticks s)\<rparr>))"

definition clock_now :: "'r env \<Rightarrow> ('r messenger, u64) em" where
  "clock_now E = (\<lambda>s. (Inr (sys_clock (clk E) (ticks s)), s\<lparr>ticks := Suc (ticks s)\<rparr>))"

definition publish :: "'r env \<Rightarrow> string \<Rightarrow> json \<Rightarrow> ('r messenger, bool) em" where
  "publish E channel j =
     (\<lambda>s. on_redis (redis_publish (hir E) (redis_cfg s) channel (j_dump (lib E) j)) s)"

definition plain_message :: "string \<Rightarrow> json \<Rightarrow> ws_message" where
  "plain_message t j = \<lparr>msg_type = t, payload = j, msg_timestamp = 0, requires_ack = False\<rparr>"

subsection \<open>Life cycle\<close>

definition messenger_redis_cfg :: "string \<Rightarrow> int \<Rightarrow> redis_config" where
  "messenger_redis_cfg h p =
     \<lparr>host = h, port = p, password = [], pool_size = 32, max_retries = 3\<rparr>"

definition messenger_new :: "'r env \<Rightarrow> string \<Rightarrow> int \<Rightarrow> crypto \<Rightarrow> 'r \<Rightarrow> err + 'r messenger" where
  "messenger_new E rhost rport c w =
     (case and_then (initialize (sod E)) (\<lambda>_. generate_keypair (sod E)) c of
        (Inl e, _) \<Rightarrow> Inl e
      | (Inr keys, c') \<Rightarrow>
          Inr \<lparr>ms_running = False, redis = redis_new (messenger_redis_cfg rhost rport) w,
               redis_cfg = messenger_redis_cfg rhost rport, cpool = pool_empty, server_keys = keys,
               user_ratchets = [], ratchet_locked = False, crypto_state = c', ticks = 0\<rparr>)"

text \<open>The connection loop of \<open>start\<close>; the first argument counts the attempts left.\<close>

fun start_loop :: "'r env \<Rightarrow> nat \<Rightarrow> ('r messenger, bool) em" where
  "start_loop E 0 = ret False"
| "start_loop E (Suc n) =
     and_then (\<lambda>s. on_redis (connect (hir E) (redis_cfg s)) s) (\<lambda>ok.
     if ok then ret True else start_loop E n)"

definition redis_max_attempts :: nat where
  "redis_max_attempts = 10"

definition start :: "'r env \<Rightarrow> ('r messenger, bool) em" where
  "start E =
     and_then (get_st ms_running) (\<lambda>already.
     if already then ret True
     else
       and_then (mod_st (\<lambda>s. s\<lparr>redis := set_error_callback (redis s)\<rparr>)) (\<lambda>_.
       and_then (start_loop E redis_max_attempts) (\<lambda>_.
       and_then (mod_st (\<lambda>s. s\<lparr>ms_running := True\<rparr>)) (\<lambda>_. ret True))))"

definition stop :: "'r env \<Rightarrow> ('r messenger, unit) em" where
  "stop E =
     and_then (get_st ms_running) (\<lambda>was.
     if \<not> was then ret ()
     else and_then (mod_st (\<lambda>s. s\<lparr>ms_running := False\<rparr>)) (\<lambda>_. on_redis (disconnect (hir E))))"

subsection \<open>Presence and sessions\<close>

definition mark_user_online :: "'r env \<Rightarrow> string \<Rightarrow> ('r messenger, unit) em" where
  "mark_user_online E u =
     and_then (time_now E) (\<lambda>t.
     and_then (\<lambda>s. on_redis (redis_set (hir E) (redis_cfg s) (''online:'' @ u) (show_int t) 300) s) (\<lambda>_.
     and_then (time_now E) (\<lambda>t'.
     and_then (publish E ''user_status''
         (jobj [(''type'', JStr ''user_online''), (''user_id'', JStr u), (''timestamp'', JInt t')]))
       (\<lambda>_. ret ()))))"

definition mark_user_offline :: "'r env \<Rightarrow> string \<Rightarrow> ('r messenger, unit) em" where
  "mark_user_offline E u =
     and_then (\<lambda>s. on_redis (redis_del (hir E) (redis_cfg s) (''online:'' @ u)) s) (\<lambda>_.
     and_then (time_now E) (\<lambda>t.
     and_then (publish E ''user_status''
         (jobj [(''type'', JStr ''user_offline''), (''user_id'', JStr u), (''last_seen'', JInt t)]))
       (\<lambda>_. ret ())))"

definition store_session :: "'r env \<Rightarrow> string \<Rightarrow> string \<Rightarrow> ('r messenger, bool) em" where
  "store_session E u tok =
     (\<lambda>s. on_redis (redis_set (hir E) (redis_cfg s) (''session:'' @ tok) u 86400) s)"

text \<open>Any user name is accepted, with any password: the user id and the session token.\<close>

definition authenticate_user :: "'r env \<Rightarrow> string \<Rightarrow> string \<Rightarrow> ('r messenger, (string \<times> string) option) em" where
  "authenticate_user E username pw =
     and_then (time_now E) (\<lambda>t. ret (Some (username, ''token_'' @ username @ ''_'' @ show_int t)))"

definition validate_session :: "string \<Rightarrow> string \<Rightarrow> bool" where
  "validate_session tok u = False"

subsection \<open>Delivery\<close>

definition send_to_user :: "string \<Rightarrow> ws_message \<Rightarrow> ('r messenger, unit) em" where
  "send_to_user u m = mod_st (\<lambda>s. s\<lparr>cpool := broadcast_to_user u m (cpool s)\<rparr>)"

definition send_to_group :: "string list \<Rightarrow> ws_message \<Rightarrow> ('r messenger, unit) em" where
  "send_to_group us m = for_each us (\<lambda>u. send_to_user u m)"

definition redis_message_handler :: "'r env \<Rightarrow> string \<Rightarrow> string \<Rightarrow> ('r messenger, unit) em" where
  "redis_message_handler E channel message = (\<lambda>s.
     case and_then (lift_sum (j_parse (lib E) message)) (\<lambda>j.
          and_then (lift_sum (substr_from channel 5)) (\<lambda>u.
          and_then (lift_sum (j_value_str (lib E) j ''type'' ''message'')) (\<lambda>t.
          and_then (time_now E) (\<lambda>now.
            send_to_user u \<lparr>msg_type = t, payload = j, msg_timestamp = word_of_int now, requires_ack = True\<rparr>)))) s
     of (Inl Parse_Error, s') \<Rightarrow> (Inr (), s') | r \<Rightarrow> r)"

text \<open>The callback is number 0: the only one the server registers.\<close>

definition subscribe_to_user_channel :: "string \<Rightarrow> ('r messenger, unit) em" where
  "subscribe_to_user_channel u =
     mod_st (\<lambda>s. s\<lparr>redis := snd (redis_subscribe (''user:'' @ u) 0 (redis s))\<rparr>)"

text \<open>The two placeholders for encryption.\<close>

definition process_encrypted_message :: "'r env \<Rightarrow> json \<Rightarrow> err + string" where
  "process_encrypted_message E m = j_value_str (lib E) m ''content'' []"

definition encrypt_for_delivery :: "string \<Rightarrow> string \<Rightarrow> string" where
  "encrypt_for_delivery content recipient = content"

subsection \<open>Client events\<close>

definition on_client_connected :: "'r env \<Rightarrow> int \<Rightarrow> ('r messenger, unit) em" where
  "on_client_connected E cid =
     and_then (\<lambda>s. case create_connection cid (sys_clock (clk E) (ticks s)) (cpool s) of
                     (ok, p) \<Rightarrow> (Inr ok, s\<lparr>cpool := p, ticks := (if ok then Suc (ticks s) else ticks s)\<rparr>)) (\<lambda>ok.
     if \<not> ok then ret ()
     else and_then (clock_now E) (\<lambda>now. mod_conn cid (mark_connected now)))"

definition on_client_disconnected :: "'r env \<Rightarrow> int \<Rightarrow> ('r messenger, unit) em" where
  "on_client_disconnected E cid =
     and_then (get_st (\<lambda>s. get_connection cid (cpool s))) (\<lambda>c.
     and_then
       (case c of
          None \<Rightarrow> ret ()
        | Some conn \<Rightarrow>
            when_do (user_id conn \<noteq> [])
              (and_then (mark_user_offline E (user_id conn)) (\<lambda>_.
               and_then (time_now E) (\<lambda>t.
               and_then (publish E ''user_status''
                   (jobj [(''user_id'', JStr (user_id conn)), (''timestamp'', JInt t)]))
                 (\<lambda>_. ret ())))))
       (\<lambda>_. and_then (on_pool (remove_connection cid)) (\<lambda>_. ret ())))"

text \<open>
  \<open>handle_authentication\<close>: the \<open>lock_guard\<close> takes \<open>ratchet_mutex_\<close> and the explicit
  \<open>lock()\<close> takes it again.
\<close>

definition lock_ratchets :: "('r messenger, unit) em" where
  "lock_ratchets = (\<lambda>s.
     if ratchet_locked s then (Inl (Deadlock ''ratchet_mutex_''), s)
     else (Inr (), s\<lparr>ratchet_locked := True\<rparr>))"

definition unlock_ratchets :: "('r messenger, unit) em" where
  "unlock_ratchets = mod_st (\<lambda>s. s\<lparr>ratchet_locked := False\<rparr>)"

definition handle_authentication :: "'r env \<Rightarrow> bytes \<Rightarrow> int \<Rightarrow> json \<Rightarrow> ('r messenger, unit) em" where
  "handle_authentication E junk cid data =
     and_then (get_st (\<lambda>s. get_connection cid (cpool s))) (\<lambda>c.
     case c of
       None \<Rightarrow> ret ()
     | Some _ \<Rightarrow>
         and_then (lift_sum (j_value_str (lib E) data ''username'' [])) (\<lambda>username.
         and_then (lift_sum (j_value_str (lib E) data ''password'' [])) (\<lambda>pw.
         and_then (authenticate_user E username pw) (\<lambda>auth.
         case auth of
           Some (uid, tok) \<Rightarrow>
             and_then (mod_conn cid (set_user_id uid)) (\<lambda>_.
             and_then (mod_conn cid (set_session_id tok)) (\<lambda>_.
             and_then (clock_now E) (\<lambda>now.
             and_then (mod_conn cid (mark_authenticated now)) (\<lambda>_.
             and_then (mod_st (\<lambda>s. s\<lparr>cpool := register_user uid cid (cpool s)\<rparr>)) (\<lambda>_.
             and_then (mark_user_online E uid) (\<lambda>_.
             and_then (subscribe_to_user_channel uid) (\<lambda>_.
             and_then lock_ratchets (\<lambda>_.
             and_then lock_ratchets (\<lambda>_.
             and_then (get_st server_keys) (\<lambda>keys.
             and_then (on_crypto (compute_shared_secret (sod E) (private_key keys) (public_key keys))) (\<lambda>secret.
             and_then (on_crypto (ratchet_new (sod E) secret junk)) (\<lambda>r.
             and_then (mod_st (\<lambda>s. s\<lparr>user_ratchets := sm_put uid r (user_ratchets s)\<rparr>)) (\<lambda>_.
             and_then unlock_ratchets (\<lambda>_.
             and_then (time_now E) (\<lambda>t.
             and_then (mod_conn cid (queue_message (plain_message ''auth_success''
                 (jobj [(''user_id'', JStr uid), (''session_token'', JStr tok),
                        (''server_public_key'', JStr (bytes_to_hex (public_key keys))),
                        (''timestamp'', JInt t)]))))
               (\<lambda>_. unlock_ratchets))))))))))))))))
         | None \<Rightarrow>
             mod_conn cid (queue_message (plain_message ''auth_failed''
               (jobj [(''message'', JStr ''Invalid credentials''), (''code'', JStr ''INVALID_AUTH'')])))))))"

definition handle_typing_indicator :: "'r env \<Rightarrow> int \<Rightarrow> json \<Rightarrow> ('r messenger, unit) em" where
  "handle_typing_indicator E cid data =
     and_then (get_st (\<lambda>s. get_connection cid (cpool s))) (\<lambda>c.
     case c of
       None \<Rightarrow> ret ()
     | Some conn \<Rightarrow>
         if \<not> authenticated conn then ret ()
         else
           and_then (lift_sum (j_value_str (lib E) data ''chat_id'' [])) (\<lambda>chat.
           and_then (lift_sum (j_value_bool (lib E) data ''typing'' False)) (\<lambda>typing.
           and_then (mod_conn cid (set_typing typing)) (\<lambda>_.
           and_then (publish E (''chat:'' @ chat)
               (jobj [(''type'', JStr ''user_typing''), (''user_id'', JStr (user_id conn)),
                      (''chat_id'', JStr chat), (''typing'', JBool typing)]))
             (\<lambda>_. ret ())))))"

definition handle_read_receipt :: "'r env \<Rightarrow> int \<Rightarrow> json \<Rightarrow> ('r messenger, unit) em" where
  "handle_read_receipt E cid data =
     and_then (get_st (\<lambda>s. get_connection cid (cpool s))) (\<lambda>c.
     case c of
       None \<Rightarrow> ret ()
     | Some conn \<Rightarrow>
         if \<not> authenticated conn then ret ()
         else
           and_then (lift_sum (j_value_str (lib E) data ''message_id'' [])) (\<lambda>mid.
           and_then (time_now E) (\<lambda>t.
           and_then (\<lambda>s. on_redis (redis_hset (hir E) (redis_cfg s) (''message_status:'' @ mid)
               (''read_by:'' @ user_id conn) (show_int t)) s)
             (\<lambda>_. ret ()))))"

definition error_not_authenticated :: ws_message where
  "error_not_authenticated = plain_message ''error'' (jobj [(''message'', JStr ''Not authenticated'')])"

definition delivered_message :: "u64 \<Rightarrow> ws_message" where
  "delivered_message mid =
     plain_message ''message_delivered''
       (jobj [(''message_id'', JInt (uint mid)), (''status'', JStr ''queued'')])"

definition chat_event :: "string \<Rightarrow> u64 \<Rightarrow> string \<Rightarrow> int \<Rightarrow> json" where
  "chat_event sender mid content t =
     jobj [(''type'', JStr ''message''), (''from'', JStr sender), (''message_id'', JInt (uint mid)),
           (''content'', JStr content), (''timestamp'', JInt t)]"

definition handle_chat_message :: "'r env \<Rightarrow> int \<Rightarrow> connection \<Rightarrow> json \<Rightarrow> ('r messenger, unit) em" where
  "handle_chat_message E cid conn m =
     (if \<not> authenticated conn then mod_conn cid (queue_message error_not_authenticated)
      else
        and_then (lift_sum (j_value_str (lib E) m ''to'' [])) (\<lambda>recipient.
        and_then (lift_sum (j_value_str (lib E) m ''content'' [])) (\<lambda>content.
        and_then (lift_sum (j_value_u64 (lib E) m ''id'' 0)) (\<lambda>mid.
        and_then (\<lambda>s. on_redis (redis_lpush (hir E) (redis_cfg s) (''queue:messages:'' @ recipient) [content]) s) (\<lambda>_.
        and_then (\<lambda>s. on_redis (redis_expire (hir E) (redis_cfg s) (''queue:messages:'' @ recipient) 86400) s) (\<lambda>_.
        and_then (time_now E) (\<lambda>t.
        and_then (publish E (''user:'' @ recipient) (chat_event (user_id conn) mid content t)) (\<lambda>_.
        mod_conn cid (queue_message (delivered_message mid))))))))))"

definition handle_message :: "'r env \<Rightarrow> bytes \<Rightarrow> int \<Rightarrow> json \<Rightarrow> ('r messenger, unit) em" where
  "handle_message E junk cid m =
     and_then (get_st (\<lambda>s. get_connection cid (cpool s))) (\<lambda>c.
     case c of
       None \<Rightarrow> ret ()
     | Some conn \<Rightarrow>
         and_then (lift_sum (j_value_str (lib E) m ''type'' ''unknown'')) (\<lambda>t.
         if t = ''auth'' then handle_authentication E junk cid m
         else if t = ''message'' then handle_chat_message E cid conn m
         else if t = ''typing'' then handle_typing_indicator E cid m
         else if t = ''read'' then handle_read_receipt E cid m
         else ret ()))"

definition error_invalid_format :: ws_message where
  "error_invalid_format =
     plain_message ''error''
       (jobj [(''message'', JStr ''Invalid message format''), (''code'', JStr ''INVALID_FORMAT'')])"

text \<open>Only \<open>json::parse_error\<close> is caught.\<close>

definition on_client_message :: "'r env \<Rightarrow> bytes \<Rightarrow> int \<Rightarrow> string \<Rightarrow> ('r messenger, unit) em" where
  "on_client_message E junk cid raw = (\<lambda>s.
     case and_then (lift_sum (j_parse (lib E) raw)) (handle_message E junk cid) s of
       (Inl Parse_Error, s') \<Rightarrow> mod_conn cid (queue_message error_invalid_format) s'
     | r \<Rightarrow> r)"

subsection \<open>Status\<close>

definition get_server_stats :: "'r env \<Rightarrow> ('r messenger, json) em" where
  "get_server_stats E =
     and_then (time_now E) (\<lambda>t. get_st (\<lambda>s.
       jobj [(''timestamp'', JInt t), (''uptime_seconds'', JInt 0),
             (''total_connections'', JInt (int (get_total_connections (cpool s)))),
             (''online_users'', JInt (int (length (get_online_users (cpool s))))),
             (''redis_connected'', JBool (is_connected (redis s)))]))"

text \<open>\<open>find_by_user\<close> gives the id of an entry that holds a connection.\<close>

definition get_user_status :: "string \<Rightarrow> ('r messenger, json) em" where
  "get_user_status u = (\<lambda>s.
     case find_by_user u (cpool s) of
       (found, p) \<Rightarrow>
         (Inr (case found of
                 None \<Rightarrow> jobj [(''online'', JBool False), (''user_id'', JStr u), (''last_activity'', JInt 0)]
               | Some cid \<Rightarrow>
                   (case get_connection cid p of
                      None \<Rightarrow> JNull
                    | Some c \<Rightarrow>
                        jobj [(''online'', JBool True), (''user_id'', JStr u),
                              (''last_activity'', JInt (uint (last_activity c))),
                              (''typing'', JBool (is_typing c))])),
          s\<lparr>cpool := p\<rparr>))"

end
