(* ===== verification/Messenger_Props.thy ===== *)
theory Messenger_Props
  imports Messenger Redis_Props Pool_Props
begin

section \<open>What the messaging server guarantees\<close>

text \<open>
  What a client can cause before and after authenticating, the order of effects of a chat
  message, malformed input, disconnection, and the two places where a handler never returns:
  authentication and a start without Redis.
\<close>

lemma on_redis_run [em_simps]:
  "on_redis m s = (case m (redis s) of (r, t) \<Rightarrow> (r, s\<lparr>redis := t\<rparr>))"
  by (simp add: on_redis_def zoom_run)

lemma on_pool_run [em_simps]:
  "on_pool m s = (case m (cpool s) of (r, t) \<Rightarrow> (r, s\<lparr>cpool := t\<rparr>))"
  by (simp add: on_pool_def zoom_run)

lemma mod_conn_run [em_simps]:
  "mod_conn cid f s = (Inr (), s\<lparr>cpool := update_conn cid f (cpool s)\<rparr>)"
  by (simp add: mod_conn_def mod_st_run)

lemma time_now_run [em_simps]:
  "time_now E s = (Inr (unix_time (clk E) (ticks s)), s\<lparr>ticks := Suc (ticks s)\<rparr>)"
  by (simp add: time_now_def)

lemma clock_now_run [em_simps]:
  "clock_now E s = (Inr (sys_clock (clk E) (ticks s)), s\<lparr>ticks := Suc (ticks s)\<rparr>)"
  by (simp add: clock_now_def)

subsection \<open>A concrete server for the witnesses\<close>

text \<open>A Redis that answers and keeps a log of the commands it was sent, a JSON library that knows
  three texts, and a server with one client.\<close>

definition log_redis :: "string list hiredis" where
  "log_redis =
     \<lparr> h_connect = (\<lambda>h p w. (Some 0, w)), h_err = (\<lambda>c w. False), h_free = (\<lambda>c w. w),
       h_command = (\<lambda>c f a w. (Some (if f = ''PING'' then R_Status ''PONG'' else R_Integer 1), w @ [f])) \<rparr>"

definition demo_message :: json where
  "demo_message = JObj [(''content'', JStr ''hi''), (''id'', JInt 5), (''to'', JStr ''bob''),
     (''type'', JStr ''message'')]"

definition demo_login :: json where
  "demo_login = JObj [(''password'', JStr ''guess''), (''type'', JStr ''auth''), (''username'', JStr ''ann'')]"

definition demo_lib :: json_lib where
  "demo_lib = doc_json
     (\<lambda>t. if t = ''msg'' then Inr demo_message else if t = ''list'' then Inr (JArr []) else Inl Parse_Error)
     (\<lambda>j. ''{}'')"

definition demo_env :: "string list env" where
  "demo_env = \<lparr>lib = demo_lib, sod = toy_sodium,
     clk = \<lparr>unix_time = (\<lambda>n. 100 + int n), sys_clock = (\<lambda>n. word_of_nat n)\<rparr>, hir = log_redis\<rparr>"

definition demo_redis :: "string list redis_client" where
  "demo_redis = (redis_new cfg_default [])\<lparr>conns := [\<lparr>ctx = Some 0, in_use = False\<rparr>], running := True\<rparr>"

definition demo_conn :: "bool \<Rightarrow> connection" where
  "demo_conn auth = (conn_new 1 0)\<lparr>user_id := (if auth then ''ann'' else []), authenticated := auth, connected := True\<rparr>"

definition demo_server :: "bool \<Rightarrow> string list messenger" where
  "demo_server auth =
     \<lparr>ms_running = False, redis = demo_redis, redis_cfg = cfg_default,
      cpool = \<lparr>connections = [(1, Some (demo_conn auth))],
        user_to_connection = (if auth then [(''ann'', 1)] else [])\<rparr>,
      server_keys = \<lparr>public_key = [], private_key = []\<rparr>, user_ratchets = [], ratchet_locked = False,
      crypto_state = \<lparr>sodium_initialized = True, draws = 0\<rparr>, ticks = 0\<rparr>"

lemma demo_get: "get_connection 1 (cpool (demo_server auth)) = Some (demo_conn auth)"
  by (simp add: demo_server_def get_connection_def)

lemma demo_numbers: "show_int 1 = ''1''" "show_int 86400 = ''86400''"
  by (simp_all add: show_eval)

lemmas demo_defs = demo_server_def demo_conn_def conn_new_def demo_redis_def redis_new_def cfg_default_def
  demo_env_def log_redis_def demo_lib_def doc_json_def doc_value_def doc_get_str_def demo_message_def
  demo_login_def

subsection \<open>Clients that have not authenticated\<close>

lemma handle_message_other:
  assumes "get_connection cid (cpool s) = Some c" and "\<not> authenticated c"
    and "j_value_str (lib E) m ''type'' ''unknown'' \<noteq> Inr ''auth''"
  shows "handle_message E junk cid m s =
    (case j_value_str (lib E) m ''type'' ''unknown'' of
       Inl e \<Rightarrow> (Inl e, s)
     | Inr t \<Rightarrow> (Inr (), if t = ''message''
         then s\<lparr>cpool := update_conn cid (queue_message error_not_authenticated) (cpool s)\<rparr> else s))"
  using assms
  by (auto simp: handle_message_def em_simps handle_chat_message_def handle_typing_indicator_def
      handle_read_receipt_def split: sum.split)

text \<open>C14: A client that has not authenticated can cause nothing beyond its own connection: unless
  it sends a message of type \<open>auth\<close>, its input leaves the Redis client and everything behind it,
  the user index, the ratchets and all other connections as they are.\<close>

theorem unauthenticated_no_effect:
  assumes "get_connection cid (cpool s) = Some c" and "\<not> authenticated c"
    and "\<And>j. j_parse (lib E) raw = Inr j \<Longrightarrow> j_value_str (lib E) j ''type'' ''unknown'' \<noteq> Inr ''auth''"
  shows "let s' = snd (on_client_message E junk cid raw s) in
    redis s' = redis s \<and> user_ratchets s' = user_ratchets s \<and>
    user_to_connection (cpool s') = user_to_connection (cpool s) \<and>
    (\<forall>d. d \<noteq> cid \<longrightarrow> get_connection d (cpool s') = get_connection d (cpool s)) \<and>
    (\<exists>c'. get_connection cid (cpool s') = Some c' \<and> \<not> authenticated c' \<and> user_id c' = user_id c)"
proof -
  have queued: "let s' = s\<lparr>cpool := update_conn cid (queue_message m) (cpool s)\<rparr> in
      redis s' = redis s \<and> user_ratchets s' = user_ratchets s \<and>
      user_to_connection (cpool s') = user_to_connection (cpool s) \<and>
      (\<forall>d. d \<noteq> cid \<longrightarrow> get_connection d (cpool s') = get_connection d (cpool s)) \<and>
      (\<exists>c'. get_connection cid (cpool s') = Some c' \<and> \<not> authenticated c' \<and> user_id c' = user_id c)" for m
    using assms(1,2) by (simp add: Let_def pool_simps queue_message_def)
  show ?thesis
  proof (cases "j_parse (lib E) raw")
    case (Inl e)
    then show ?thesis
      using queued assms(1,2) by (cases e) (simp_all add: on_client_message_def em_simps Let_def)
  next
    case (Inr j)
    note other = handle_message_other [OF assms(1,2) assms(3) [OF Inr]]
    show ?thesis
    proof (cases "j_value_str (lib E) j ''type'' ''unknown''")
      case (Inl e)
      with Inr queued assms(1,2) show ?thesis
        by (cases e) (simp_all add: on_client_message_def em_simps other Let_def)
    next
      case Inr': (Inr t)
      with Inr queued assms(1,2) show ?thesis
        by (cases "t = ''message''") (simp_all add: on_client_message_def em_simps other Let_def)
    qed
  qed
qed

theorem unauthenticated_no_effect_witness:
  "let s = demo_server False; s' = snd (on_client_message demo_env [] 1 ''msg'' s) in
    redis s' = redis s \<and> user_ratchets s' = user_ratchets s \<and>
    user_to_connection (cpool s') = user_to_connection (cpool s) \<and>
    (\<exists>c'. get_connection 1 (cpool s') = Some c' \<and> \<not> authenticated c' \<and> user_id c' = [])"
proof -
  have "\<not> authenticated (demo_conn False)" "user_id (demo_conn False) = []"
    by (simp_all add: demo_conn_def)
  moreover have "j_value_str (lib demo_env) j ''type'' ''unknown'' \<noteq> Inr ''auth''"
    if "j_parse (lib demo_env) ''msg'' = Inr j" for j
    using that by (auto simp: demo_defs)
  ultimately show ?thesis
    using unauthenticated_no_effect [OF demo_get [of False], of demo_env "''msg''" "[]"]
    by (simp add: Let_def)
qed

subsection \<open>A chat message of an authenticated client\<close>

text \<open>C29: A message of an authenticated client is pushed to the recipient's queue, the queue gets a
  lifetime of a day, the event is published, and then the sender is told \<open>queued\<close>, in this
  order; the three Redis results are ignored, so the sender is told so even when the push reported
  failure.\<close>

theorem chat_message_effects:
  assumes "get_connection cid (cpool s) = Some c" and "authenticated c"
    and "j_parse (lib E) raw = Inr m" and "j_value_str (lib E) m ''type'' ''unknown'' = Inr ''message''"
    and "j_value_str (lib E) m ''to'' [] = Inr to" and "j_value_str (lib E) m ''content'' [] = Inr content"
    and "j_value_u64 (lib E) m ''id'' 0 = Inr mid"
    and "redis_lpush (hir E) (redis_cfg s) (''queue:messages:'' @ to) [content] (redis s) = (Inr b1, r1)"
    and "redis_expire (hir E) (redis_cfg s) (''queue:messages:'' @ to) 86400 r1 = (Inr b2, r2)"
    and "redis_publish (hir E) (redis_cfg s) (''user:'' @ to)
          (j_dump (lib E) (chat_event (user_id c) mid content (unix_time (clk E) (ticks s)))) r2 = (Inr b3, r3)"
  shows "on_client_message E junk cid raw s =
    (Inr (), s\<lparr>redis := r3, ticks := Suc (ticks s),
               cpool := update_conn cid (queue_message (delivered_message mid)) (cpool s)\<rparr>)"
  using assms
  by (simp add: on_client_message_def em_simps handle_message_def handle_chat_message_def publish_def)

theorem chat_message_effects_witness:
  "\<exists>s'. on_client_message demo_env [] 1 ''msg'' (demo_server True) = (Inr (), s') \<and>
    server (redis s') = [''LPUSH queue:messages:bob hi'', ''EXPIRE queue:messages:bob 86400'',
                         ''PUBLISH user:bob {}''] \<and>
    get_connection 1 (cpool s') = Some (queue_message (delivered_message 5) (demo_conn True))"
proof -
  define r where "r w = demo_redis\<lparr>server := w\<rparr>" for w
  have cmd: "run_command log_redis cfg_default False cmd k (r w) = (Inr b, r (w @ [cmd]))"
    if "arg_directives cmd = 0" "c_str cmd = cmd" "cmd \<noteq> ''PING''" "k ''1'' = Inr b" for cmd k w b
    using that
    by (simp add: r_def demo_defs run_command_def with_connection_def em_simps acquire_run
        send_command_def command_retry_def redis_command_def set_in_use_def context_err_def
        demo_numbers)
  have s: "redis (demo_server True) = r []" "redis_cfg (demo_server True) = cfg_default"
    by (simp_all add: demo_defs r_def)
  have push: "redis_lpush (hir demo_env) cfg_default (''queue:messages:'' @ ''bob'') [''hi''] (r []) =
      (Inr True, r [''LPUSH queue:messages:bob hi''])"
    using cmd [of "''LPUSH queue:messages:bob hi''" "\<lambda>_. Inr True"]
    by (simp add: redis_lpush_def words_after_def demo_env_def c_str_def)
  have expire: "redis_expire (hir demo_env) cfg_default (''queue:messages:'' @ ''bob'') 86400
        (r [''LPUSH queue:messages:bob hi'']) =
      (Inr True, r [''LPUSH queue:messages:bob hi'', ''EXPIRE queue:messages:bob 86400''])"
    using cmd [of "''EXPIRE queue:messages:bob 86400''" "\<lambda>r. Inr (r = ''1'')"]
    by (simp add: redis_expire_def demo_env_def c_str_def demo_numbers)
  have pub: "redis_publish (hir demo_env) cfg_default (''user:'' @ ''bob'') (j_dump (lib demo_env) j)
        (r [''LPUSH queue:messages:bob hi'', ''EXPIRE queue:messages:bob 86400'']) =
      (Inr True, r [''LPUSH queue:messages:bob hi'', ''EXPIRE queue:messages:bob 86400'',
                    ''PUBLISH user:bob {}''])" for j
    using cmd [of "''PUBLISH user:bob {}''" "\<lambda>_. Inr True"]
    by (simp add: redis_publish_def demo_env_def demo_lib_def doc_json_def c_str_def)
  have "authenticated (demo_conn True)" by (simp add: demo_conn_def)
  note run = chat_message_effects [OF demo_get this, of demo_env "''msg''" demo_message "''bob''" "''hi''" 5,
      unfolded s, OF _ _ _ _ _ push expire pub]
  show ?thesis
    by (subst run) (simp_all add: demo_env_def demo_lib_def doc_json_def doc_value_def doc_get_str_def
        demo_message_def r_def pool_simps demo_get)
qed

text \<open>Input that is not JSON is answered with one \<open>INVALID_FORMAT\<close> message on the client's
  connection; JSON that is not an object is not answered: the type error leaves
  \<open>on_client_message\<close> as an exception. Neither changes anything else.\<close>

theorem malformed_input:
  assumes "json_accessors_ok (lib E)" and "get_connection cid (cpool s) = Some c"
  shows "(j_parse (lib E) raw = Inl Parse_Error \<longrightarrow> on_client_message E junk cid raw s =
      (Inr (), s\<lparr>cpool := update_conn cid (queue_message error_invalid_format) (cpool s)\<rparr>)) \<and>
    (j_parse (lib E) raw = Inr j \<and> (\<forall>kvs. j \<noteq> JObj kvs) \<longrightarrow>
      on_client_message E junk cid raw s = (Inl Type_Error, s))"
  using assms
  by (auto simp: on_client_message_def em_simps handle_message_def json_accessors_ok_def doc_json_def
      doc_value_def split: json.split)

theorem malformed_input_witness:
  "on_client_message demo_env [] 1 ''garbage'' (demo_server True) =
      (Inr (), (demo_server True)\<lparr>cpool := update_conn 1 (queue_message error_invalid_format) (cpool (demo_server True))\<rparr>) \<and>
   on_client_message demo_env [] 1 ''list'' (demo_server True) = (Inl Type_Error, demo_server True)"
proof -
  have "json_accessors_ok (lib demo_env)" by (simp add: demo_env_def demo_lib_def)
  note m = malformed_input [OF this demo_get [of True]]
  show ?thesis using m [where raw = "''garbage''"] m [where raw = "''list''" and j = "JArr []"] by (simp add: demo_defs)
qed

subsection \<open>Authentication\<close>

text \<open>The Redis calls and clock readings of the handlers leave the server's own state alone.\<close>

named_theorems local_frame \<open>computations that keep the server's own state\<close>

abbreviation own_state ::
  "'r messenger \<Rightarrow> bool \<times> pool \<times> key_pair \<times> (string \<times> double_ratchet) list \<times> bool \<times> crypto" where
  "own_state s \<equiv>
     (ms_running s, cpool s, server_keys s, user_ratchets s, ratchet_locked s, crypto_state s)"

lemma own_state_basic [local_frame]:
  "keeps own_state (\<lambda>s. on_redis (m s) s)" "keeps own_state (time_now E)" "keeps own_state (publish E ch j)"
  by (simp_all add: keeps_def em_simps publish_def split: prod.split)

lemma own_state_presence [local_frame]:
  "keeps own_state (mark_user_online E u)" "keeps own_state (mark_user_offline E u)"
  unfolding mark_user_online_def mark_user_offline_def
  by (intro keeps_and_then keeps_ret local_frame)+

lemma mark_user_online_own:
  "mark_user_online E u s = (r, t) \<Longrightarrow> cpool t = cpool s \<and> ratchet_locked t = ratchet_locked s"
  using keepsD [OF own_state_presence(1), of E u s] by simp

text \<open>C31: Authentication checks nothing and answers nothing: for any user name and any password the
  connection is marked authenticated as that user and indexed, but \<open>handle_authentication\<close>
  never returns: unless a Redis call fails first, it locks \<open>ratchet_mutex_\<close> twice and hangs. No
  message is queued for the client.\<close>

theorem authentication_hangs:
  assumes "get_connection cid (cpool s) = Some c" and "\<not> ratchet_locked s"
    and "j_value_str (lib E) data ''username'' [] = Inr u" and "j_value_str (lib E) data ''password'' [] = Inr pw"
  shows "\<exists>e s' c'. handle_authentication E junk cid data s = (Inl e, s') \<and>
    (e = Deadlock ''ratchet_mutex_'' \<or> (\<exists>t. fst (mark_user_online E u t) = Inl e)) \<and>
    get_connection cid (cpool s') = Some c' \<and> authenticated c' \<and> user_id c' = u \<and>
    outgoing_queue c' = outgoing_queue c \<and> map_of (user_to_connection (cpool s')) u = Some cid"
proof -
  define p where "p = register_user u cid (update_conn cid (mark_authenticated (sys_clock (clk E) (Suc (ticks s))))
          (update_conn cid (set_session_id (''token_'' @ u @ ''_'' @ show_int (unix_time (clk E) (ticks s))))
            (update_conn cid (set_user_id u) (cpool s))))"
  have p: "\<exists>c'. get_connection cid p = Some c' \<and> authenticated c' \<and> user_id c' = u \<and>
      outgoing_queue c' = outgoing_queue c \<and> map_of (user_to_connection p) u = Some cid"
    using assms(1) by (simp add: p_def pool_simps conn_defs)
  define s1 where "s1 = s\<lparr>ticks := Suc (Suc (ticks s)), cpool := p\<rparr>"
  obtain r t where run: "mark_user_online E u s1 = (r, t)" by (cases "mark_user_online E u s1")
  have t: "cpool t = p" "\<not> ratchet_locked t"
    using mark_user_online_own [OF run] assms(2) by (simp_all add: s1_def)
  have "handle_authentication E junk cid data s =
    (case r of Inl e \<Rightarrow> (Inl e, t)
     | Inr _ \<Rightarrow> (Inl (Deadlock ''ratchet_mutex_''),
         t\<lparr>redis := snd (redis_subscribe (''user:'' @ u) 0 (redis t)), ratchet_locked := True\<rparr>))"
    using assms run t(2)
    by (simp add: handle_authentication_def em_simps authenticate_user_def s1_def p_def
        subscribe_to_user_channel_def lock_ratchets_def split: sum.split)
  then show ?thesis
    using p t(1) run by (cases r) (auto, metis fst_conv)
qed

theorem authentication_hangs_witness:
  "\<exists>e s' c'. handle_authentication demo_env [] 1 demo_login (demo_server False) = (Inl e, s') \<and>
    (e = Deadlock ''ratchet_mutex_'' \<or> (\<exists>t. fst (mark_user_online demo_env ''ann'' t) = Inl e)) \<and>
    get_connection 1 (cpool s') = Some c' \<and> authenticated c' \<and> user_id c' = ''ann'' \<and>
    outgoing_queue c' = outgoing_queue (demo_conn False) \<and>
    map_of (user_to_connection (cpool s')) ''ann'' = Some 1"
  by (rule authentication_hangs [OF demo_get]) (simp_all add: demo_defs)

subsection \<open>Disconnecting and starting\<close>

text \<open>Once \<open>on_client_disconnected\<close> has returned, the connection is out of the pool, its user
  is out of the index, and the other connections are as they were.\<close>

theorem disconnected_is_removed:
  assumes "get_connection cid (cpool s) = Some c" and "on_client_disconnected E cid s = (Inr (), s')"
  shows "get_connection cid (cpool s') = None \<and>
    (user_id c \<noteq> [] \<longrightarrow> map_of (user_to_connection (cpool s')) (user_id c) = None) \<and>
    (\<forall>d. d \<noteq> cid \<longrightarrow> get_connection d (cpool s') = get_connection d (cpool s)) \<and>
    (\<forall>u. u \<noteq> user_id c \<longrightarrow> map_of (user_to_connection (cpool s')) u = map_of (user_to_connection (cpool s)) u)"
proof -
  define notify where "notify = when_do (user_id c \<noteq> [])
              (and_then (mark_user_offline E (user_id c)) (\<lambda>_.
               and_then (time_now E) (\<lambda>t.
               and_then (publish E ''user_status''
                   (jobj [(''user_id'', JStr (user_id c)), (''timestamp'', JInt t)]))
                 (\<lambda>_. ret ()))))"
  have "keeps own_state notify"
    unfolding notify_def by (intro keeps_when keeps_and_then keeps_ret local_frame)
  then have pool: "cpool (snd (notify s)) = cpool s" using keepsD by fastforce
  have look: "map_of (connections (cpool s)) cid = Some (Some c)"
    using assms(1) by (auto simp: get_connection_def split: option.splits)
  have "on_client_disconnected E cid s =
      and_then notify (\<lambda>_. and_then (on_pool (remove_connection cid)) (\<lambda>_. ret ())) s"
    using assms(1) by (simp add: on_client_disconnected_def notify_def em_simps)
  then have "cpool s' = remove_one cid (cpool s)"
    using assms(2) pool remove_connection_state [of cid "cpool s"]
    by (auto simp: em_simps split: prod.splits sum.splits)
  then show ?thesis
    using look by (auto simp: pool_simps get_connection_def)
qed

theorem disconnected_is_removed_witness:
  "\<exists>s'. on_client_disconnected demo_env 1 (demo_server False) = (Inr (), s') \<and>
    get_connection 1 (cpool s') = None"
proof -
  have "\<exists>s'. on_client_disconnected demo_env 1 (demo_server False) = (Inr (), s')"
    by (simp add: on_client_disconnected_def em_simps demo_get demo_conn_def conn_new_def)
      (simp add: demo_server_def remove_connection_def em_simps)
  then show ?thesis using disconnected_is_removed [OF demo_get] by blast
qed

text \<open>There is no degraded mode: \<open>start\<close> on a fresh server either returns with Redis
  connected, or never returns. The ten attempts and the warning after them are unreachable.\<close>

theorem start_connected_or_hangs:
  assumes "\<not> ms_running s" and "\<not> pool_locked (redis s)" and "\<not> running (redis s)"
    and "0 < max_retries (redis_cfg s)"
  shows "(\<exists>s'. start E s = (Inr True, s') \<and> ms_running s' \<and> running (redis s')) \<or>
    (\<exists>s'. start E s = (Inl (Deadlock ''pool_mutex_''), s') \<and> \<not> ms_running s')"
proof -
  define r where "r = set_error_callback (redis s)"
  have r: "\<not> pool_locked r" "\<not> running r" using assms by (simp_all add: r_def set_error_callback_def)
  consider t where "connect (hir E) (redis_cfg s) r = (Inr True, t)" "running t"
    | t where "connect (hir E) (redis_cfg s) r = (Inl (Deadlock ''pool_mutex_''), t)"
    using connect_outcomes [OF r assms(4), of "hir E"] by blast
  then show ?thesis
    using assms(1)
    by cases (simp_all add: start_def em_simps redis_max_attempts_def numeral_eq_Suc flip: r_def)
qed

theorem start_connected_or_hangs_witness:
  "let s = (demo_server False)\<lparr>redis := redis_new cfg_default []\<rparr> in
   (\<exists>s'. start demo_env s = (Inr True, s') \<and> ms_running s' \<and> running (redis s')) \<or>
   (\<exists>s'. start demo_env s = (Inl (Deadlock ''pool_mutex_''), s') \<and> \<not> ms_running s')"
  unfolding Let_def by (rule start_connected_or_hangs) (simp_all add: demo_defs)

end
