(* ===== verification/Database.thy ===== *)
theory Database
  imports Std_Map External
begin

section \<open>The database wrapper and the schema (PgDb, HttpApi::run_migrations)\<close>

text \<open>
  \<open>PgDb\<close> over libpq and a PostgreSQL server in state \<open>'d\<close>, which are parameters. A statement
  of the sources is a constructor of \<open>sql\<close>, applied to its positional parameters; its text is
  quoted beside it. The schema is the list of statements \<open>run_migrations\<close> executes.
\<close>

subsection \<open>Data definition\<close>

text \<open>
  A table: its name, its columns, the groups of columns that are unique (the primary key first)
  and its foreign keys, a column with the table it references.
\<close>

datatype ddl =
    Create_Extension string
  | Create_Table string "string list" "string list list" "(string \<times> string) list"
  | Create_Index string string string
  | Add_Column string string string

subsection \<open>Statements\<close>

text \<open>
  Sign-in and profile:
  \<open>Otp_Upsert\<close> INSERT INTO otp_codes (email, code_hash, expires_at) VALUES (1, 2, to_timestamp(3))
  ON CONFLICT (email) DO UPDATE SET code_hash, expires_at to the new ones, attempts = 0;
  \<open>Otp_Select\<close> SELECT code_hash, expires_at, attempts FROM otp_codes WHERE email = 1;
  \<open>Otp_Increment\<close> UPDATE otp_codes SET attempts = attempts + 1 WHERE email = 1;
  \<open>Otp_Valid\<close> SELECT (expires_at > NOW()) AS valid FROM otp_codes WHERE email = 1;
  \<open>Otp_Delete\<close> DELETE FROM otp_codes WHERE email = 1;
  \<open>User_Login\<close> SELECT id, username, display_name FROM users WHERE email = 1;
  \<open>User_With column\<close> SELECT id FROM users WHERE column = 1;
  \<open>User_Insert\<close> INSERT INTO users (username, email, phone_number, display_name, password_hash,
  password_salt, public_key, is_verified) VALUES (1, 2, NULLIF(3, empty), 4, empty, empty, 5, true)
  RETURNING id;
  \<open>User_Me\<close> SELECT id, username, email, phone_number, display_name, avatar_url, bio, status,
  status_text, created_at FROM users WHERE id = 1 AND is_deleted = false;
  \<open>User_Update columns\<close> UPDATE users SET columns = 1.. WHERE id = last;
  \<open>User_Search\<close> SELECT id, username, display_name, avatar_url, status FROM users WHERE (username
  ILIKE 1 OR display_name ILIKE 1) AND is_deleted = false AND id != 2 LIMIT 20;
  \<open>User_Public\<close> SELECT id, username, display_name, avatar_url, bio, status FROM users WHERE id = 1
  AND is_deleted = false.

  Chats:
  \<open>Chats_Of\<close> the chats of user 1 with last message and unread count, newest first, LIMIT 100;
  \<open>Direct_Find\<close> SELECT c.id FROM chats c JOIN chat_members cm1 ON cm1.chat_id = c.id AND
  cm1.user_id = 1 JOIN chat_members cm2 ON cm2.chat_id = c.id AND cm2.user_id = 2 WHERE c.chat_type
  = private LIMIT 1;
  \<open>Direct_Create\<close> INSERT INTO chats (chat_type, created_by) VALUES (private, 1) RETURNING id;
  \<open>Direct_Members\<close> INSERT INTO chat_members (chat_id, user_id, role) VALUES (1, 2, member),
  (1, 3, member);
  \<open>Group_Create\<close> INSERT INTO chats (chat_type, name, description, created_by) VALUES (group, 1, 2, 3)
  RETURNING id;
  \<open>Group_Owner\<close> INSERT INTO chat_members (chat_id, user_id, role, can_admin) VALUES (1, 2, owner, true);
  \<open>Group_Member\<close> INSERT INTO chat_members (chat_id, user_id, role) VALUES (1, 2, member) ON CONFLICT
  DO NOTHING;
  \<open>Member_Check\<close> SELECT 1 FROM chat_members WHERE chat_id = 1 AND user_id = 2 AND left_at IS NULL;
  \<open>Chat_Select\<close> SELECT id, chat_type, name, description, avatar_url, created_at FROM chats WHERE id = 1;
  \<open>Messages_Latest\<close>, \<open>Messages_Before\<close> the messages of chat 1 that are not deleted (before time 2),
  with their senders, newest first, LIMIT 50;
  \<open>Members_List\<close> the members of chat 1 with left_at IS NULL, by joined_at;
  \<open>Member_Add\<close> INSERT INTO chat_members (chat_id, user_id, role) VALUES (1, 2, member) ON CONFLICT
  (chat_id, user_id) DO UPDATE SET left_at = NULL;
  \<open>Member_Leave\<close> UPDATE chat_members SET left_at = NOW() WHERE chat_id = 1 AND user_id = 2;
  \<open>Messages_Search\<close> SELECT id, sender_id, content, created_at FROM messages WHERE chat_id = 1 AND
  content ILIKE 2 AND is_deleted = false ORDER BY created_at DESC LIMIT 50;
  \<open>Message_Pin\<close> UPDATE messages SET is_pinned = NOT is_pinned WHERE id = 1;
  \<open>Reaction_Toggle\<close> INSERT INTO reactions (message_id, user_id, emoji) VALUES (1, 2, 3) ON CONFLICT
  (message_id, user_id, emoji) DO DELETE;
  \<open>Chat_Mute\<close> UPDATE chat_members SET muted_until = CASE WHEN muted_until IS NULL OR muted_until <
  NOW() THEN NOW() + INTERVAL 1 year ELSE NULL END WHERE chat_id = 1 AND user_id = 2;
  \<open>Chat_User_Search\<close> as \<open>User_Search\<close> without status.

  Contacts:
  \<open>Contacts_List\<close> the contacts of user 1 that are not blocked, by username;
  \<open>Contact_Upsert\<close> INSERT INTO contacts (user_id, contact_id, nickname) VALUES (1, 2, 3) ON CONFLICT
  (user_id, contact_id) DO UPDATE SET nickname = EXCLUDED.nickname;
  \<open>Contact_Delete\<close> DELETE FROM contacts WHERE user_id = 1 AND contact_id = 2;
  \<open>Contact_Check\<close> SELECT 1 FROM contacts WHERE user_id = 1 AND contact_id = 2;
  \<open>User_By_Phone\<close> SELECT id, username, display_name, avatar_url FROM users WHERE phone_number = 1 AND
  is_deleted = false.

  Channels:
  \<open>Channels_Explore\<close> the public channels whose name or username is ILIKE 1 (all for the empty
  pattern), by subscriber_count, LIMIT 50;
  \<open>Channels_Mine\<close> the channels user 1 is subscribed to with the role, by name;
  \<open>Channel_Create\<close> INSERT INTO channels (username, name, description, is_public, owner_id) VALUES
  (1, 2, 3, 4, 5) RETURNING id;
  \<open>Channel_Owner\<close> INSERT INTO channel_subscribers (channel_id, user_id, role) VALUES (1, 2, owner);
  \<open>Channel_Select\<close> SELECT id, username, name, description, avatar_url, is_public, subscriber_count,
  owner_id FROM channels WHERE username = 1;
  \<open>Channel_Subscribe\<close> INSERT INTO channel_subscribers (channel_id, user_id, role) VALUES (1, 2,
  subscriber) ON CONFLICT DO NOTHING;
  \<open>Channel_Count_Up\<close> UPDATE channels SET subscriber_count = subscriber_count + 1 WHERE id = 1;
  \<open>Posts_Latest\<close>, \<open>Posts_Before\<close> the posts of channel 1 (before time 2), newest first, LIMIT 30;
  \<open>Subscriber_Role\<close> SELECT role FROM channel_subscribers WHERE channel_id = 1 AND user_id = 2;
  \<open>Post_Insert\<close> INSERT INTO channel_posts (channel_id, content, is_paid, author_id) VALUES (1, 2, 3, 4);
  \<open>Post_Delete\<close> DELETE FROM channel_posts WHERE id = 1 AND channel_id = 2.
\<close>

datatype sql =
    Ddl ddl
  | Otp_Upsert | Otp_Select | Otp_Increment | Otp_Valid | Otp_Delete
  | User_Login | User_With string | User_Insert | User_Me | User_Update "string list"
  | User_Search | User_Public
  | Chats_Of | Direct_Find | Direct_Create | Direct_Members | Group_Create | Group_Owner | Group_Member
  | Member_Check | Chat_Select | Messages_Latest | Messages_Before | Members_List | Member_Add
  | Member_Leave | Messages_Search | Message_Pin | Reaction_Toggle | Chat_Mute | Chat_User_Search
  | Contacts_List | Contact_Upsert | Contact_Delete | Contact_Check | User_By_Phone
  | Channels_Explore | Channels_Mine | Channel_Create | Channel_Owner | Channel_Select
  | Channel_Subscribe | Channel_Count_Up | Posts_Latest | Posts_Before | Subscriber_Role
  | Post_Insert | Post_Delete

subsection \<open>libpq\<close>

text \<open>A result: its status with the error message, the column names, the rows (\<open>None\<close> is SQL
  NULL) and the command tag.\<close>

datatype pg_status = Tuples_Ok | Command_Ok | Pg_Error string

record pg_result =
  pg_status :: pg_status
  pg_names :: "string list"
  pg_rows :: "string option list list"
  pg_tag :: string

record 'd libpq =
  pq_connect :: "string \<Rightarrow> 'd \<Rightarrow> bool \<times> 'd"
  pq_alive :: "'d \<Rightarrow> bool"
  pq_exec :: "sql \<Rightarrow> string list \<Rightarrow> 'd \<Rightarrow> pg_result \<times> 'd"

subsection \<open>PgDb\<close>

text \<open>\<open>db_conn\<close> says whether \<open>conn_\<close> is not null.\<close>

record 'd pgdb =
  db_conn :: bool
  db_server :: 'd

definition connection_url :: "string \<Rightarrow> string" where
  "connection_url url =
     (if find_str ''connect_timeout'' url = None
      then url @ (if find_ch (CHR ''?'') url = None then ''?'' else ''&'') @ ''connect_timeout=5''
      else url)"

definition pgdb_new :: "'d libpq \<Rightarrow> string \<Rightarrow> 'd \<Rightarrow> 'd pgdb" where
  "pgdb_new P url d =
     (case pq_connect P (c_str (connection_url url)) d of
        (ok, d') \<Rightarrow> \<lparr>db_conn = ok, db_server = d'\<rparr>)"

definition db_connected :: "'d libpq \<Rightarrow> 'd pgdb \<Rightarrow> bool" where
  "db_connected P db \<longleftrightarrow> db_conn db \<and> pq_alive P (db_server db)"

text \<open>A row as a JSON object: every value is a string, or null.\<close>

definition cell :: "string option \<Rightarrow> json" where
  "cell v = (case v of None \<Rightarrow> JNull | Some s \<Rightarrow> JStr (c_str s))"

definition row_json :: "string list \<Rightarrow> string option list \<Rightarrow> json" where
  "row_json names vals =
     (if names = [] then JNull
      else JObj (foldl (\<lambda>m (k, v). sm_put k (cell v) m) [] (zip names vals)))"

definition query :: "'d libpq \<Rightarrow> sql \<Rightarrow> string list \<Rightarrow> ('d pgdb, json list) em" where
  "query P q params = (\<lambda>db.
     if \<not> db_conn db then (Inl (Runtime_Error ''No database connection''), db)
     else
       (case pq_exec P q (map c_str params) (db_server db) of
          (res, d) \<Rightarrow>
            (case pg_status res of
               Tuples_Ok \<Rightarrow> (Inr (map (row_json (pg_names res)) (pg_rows res)), db\<lparr>db_server := d\<rparr>)
             | Command_Ok \<Rightarrow> (Inl (Runtime_Error ''Query failed: ''), db\<lparr>db_server := d\<rparr>)
             | Pg_Error e \<Rightarrow> (Inl (Runtime_Error (''Query failed: '' @ e)), db\<lparr>db_server := d\<rparr>))))"

definition affected_rows :: "string \<Rightarrow> int" where
  "affected_rows tag =
     (if tag = [] then 0
      else
        (case stoi (case rfind_ch (CHR '' '') tag of Some p \<Rightarrow> drop (p + 1) tag | None \<Rightarrow> tag) of
           Inl _ \<Rightarrow> 0
         | Inr n \<Rightarrow> n))"

definition exec :: "'d libpq \<Rightarrow> sql \<Rightarrow> string list \<Rightarrow> ('d pgdb, int) em" where
  "exec P q params = (\<lambda>db.
     if \<not> db_conn db then (Inl (Runtime_Error ''No database connection''), db)
     else
       (case pq_exec P q (map c_str params) (db_server db) of
          (res, d) \<Rightarrow>
            (case pg_status res of
               Pg_Error e \<Rightarrow> (Inl (Runtime_Error (''Exec failed: '' @ e)), db\<lparr>db_server := d\<rparr>)
             | _ \<Rightarrow> (Inr (affected_rows (c_str (pg_tag res))), db\<lparr>db_server := d\<rparr>))))"

subsection \<open>run_migrations\<close>

definition users_table :: ddl where
  "users_table = Create_Table ''users''
     [''id'', ''username'', ''email'', ''phone_number'', ''password_hash'', ''password_salt'',
      ''first_name'', ''last_name'', ''display_name'', ''status_text'', ''avatar_url'', ''bio'',
      ''status'', ''public_key'', ''public_key_signature'', ''encryption_algorithm'',
      ''two_factor_enabled'', ''two_factor_secret'', ''is_verified'', ''is_blocked'', ''is_deleted'',
      ''created_at'', ''updated_at'', ''last_seen'']
     [[''id''], [''username''], [''email''], [''phone_number'']] []"

definition otp_codes_table :: ddl where
  "otp_codes_table = Create_Table ''otp_codes''
     [''email'', ''code_hash'', ''attempts'', ''expires_at'', ''created_at''] [[''email'']] []"

definition chats_table :: ddl where
  "chats_table = Create_Table ''chats''
     [''id'', ''chat_type'', ''name'', ''description'', ''avatar_url'', ''created_by'', ''created_at'',
      ''updated_at''] [[''id'']] [(''created_by'', ''users'')]"

definition chat_members_table :: ddl where
  "chat_members_table = Create_Table ''chat_members''
     [''id'', ''chat_id'', ''user_id'', ''role'', ''can_admin'', ''joined_at'', ''left_at'', ''muted_until'']
     [[''id''], [''chat_id'', ''user_id'']] [(''chat_id'', ''chats''), (''user_id'', ''users'')]"

definition messages_table :: ddl where
  "messages_table = Create_Table ''messages''
     [''id'', ''chat_id'', ''sender_id'', ''reply_to_id'', ''content'', ''content_type'', ''is_edited'',
      ''is_pinned'', ''is_deleted'', ''created_at'', ''updated_at'']
     [[''id'']] [(''chat_id'', ''chats''), (''sender_id'', ''users''), (''reply_to_id'', ''messages'')]"

definition message_delivery_table :: ddl where
  "message_delivery_table = Create_Table ''message_delivery''
     [''id'', ''message_id'', ''recipient_id'', ''status'', ''delivered_at'', ''read_at'']
     [[''id''], [''message_id'', ''recipient_id'']]
     [(''message_id'', ''messages''), (''recipient_id'', ''users'')]"

definition reactions_table :: ddl where
  "reactions_table = Create_Table ''reactions''
     [''id'', ''message_id'', ''user_id'', ''emoji'', ''created_at'']
     [[''id''], [''message_id'', ''user_id'', ''emoji'']]
     [(''message_id'', ''messages''), (''user_id'', ''users'')]"

definition contacts_table :: ddl where
  "contacts_table = Create_Table ''contacts''
     [''id'', ''user_id'', ''contact_id'', ''nickname'', ''is_favorite'', ''is_blocked'', ''created_at'']
     [[''id''], [''user_id'', ''contact_id'']] [(''user_id'', ''users''), (''contact_id'', ''users'')]"

definition channels_table :: ddl where
  "channels_table = Create_Table ''channels''
     [''id'', ''username'', ''name'', ''description'', ''avatar_url'', ''is_public'', ''subscriber_count'',
      ''owner_id'', ''created_at'', ''updated_at''] [[''id''], [''username'']] [(''owner_id'', ''users'')]"

definition channel_subscribers_table :: ddl where
  "channel_subscribers_table = Create_Table ''channel_subscribers''
     [''id'', ''channel_id'', ''user_id'', ''role'', ''joined_at'']
     [[''id''], [''channel_id'', ''user_id'']] [(''channel_id'', ''channels''), (''user_id'', ''users'')]"

definition channel_posts_table :: ddl where
  "channel_posts_table = Create_Table ''channel_posts''
     [''id'', ''channel_id'', ''author_id'', ''content'', ''media_urls'', ''is_paid'', ''created_at'']
     [[''id'']] [(''channel_id'', ''channels''), (''author_id'', ''users'')]"

definition migrations :: "ddl list" where
  "migrations =
     [Create_Extension ''pgcrypto'', Create_Extension ''uuid-ossp'', users_table,
      Create_Index ''idx_users_username'' ''users'' ''username'',
      Create_Index ''idx_users_email'' ''users'' ''email'',
      Create_Index ''idx_users_status'' ''users'' ''status'',
      otp_codes_table,
      Add_Column ''users'' ''display_name'' ''VARCHAR(100)'', Add_Column ''users'' ''status_text'' ''VARCHAR(255)'',
      chats_table, chat_members_table, messages_table, message_delivery_table, reactions_table,
      contacts_table, channels_table, channel_subscribers_table, channel_posts_table]"

text \<open>The statements in order; the first failure ends the migration, and is swallowed.\<close>

definition run_migrations :: "'d libpq \<Rightarrow> ('d pgdb, unit) em" where
  "run_migrations P = (\<lambda>db.
     if \<not> db_connected P db then (Inr (), db)
     else catch_any (for_each migrations (\<lambda>m. and_then (exec P (Ddl m) []) (\<lambda>_. ret ()))) (\<lambda>_. ret ()) db)"

end
