(* ===== verification/Http_Core.thy ===== *)
theory Http_Core
  imports Jwt Redis Database Startup
begin

section \<open>The HTTP server: state, responses, authentication (http_api.cpp)\<close>

text \<open>
  \<open>HttpApi\<close> over the Redis client, the database wrapper and the token helpers. Its state is the
  record \<open>http\<close>; a route handler is a computation over it that gives a \<open>response\<close>. An
  exception a handler does not catch leaves it as \<open>Inl\<close>; the web framework turns it into a reply
  outside the sources. \<open>guarded\<close>, \<open>with_json_body\<close> and \<open>try_500\<close> are the three
  shapes all handlers share.
\<close>

subsection \<open>State and environment\<close>

record ('r, 'd) henv =
  hlib :: json_lib
  hsod :: sodium
  hclk :: clock
  hredis_lib :: "'r hiredis"
  hpq :: "'d libpq"
  hredis_cfg :: redis_config
  hsecret :: string

record ('r, 'd) http =
  hredis :: "'r redis_client"
  hdb :: "'d pgdb"
  hticks :: nat
  hdraws :: nat
  otp_log :: "string list"

record request =
  req_body :: string
  authorization :: string
  url_param :: "string \<Rightarrow> string option"

record response =
  resp_status :: int
  resp_body :: string
  resp_type :: string

type_synonym ('r, 'd) handler = "request \<Rightarrow> (('r, 'd) http, response) em"

definition http_env_of :: "json_lib \<Rightarrow> sodium \<Rightarrow> clock \<Rightarrow> 'r hiredis \<Rightarrow> 'd libpq \<Rightarrow> settings \<Rightarrow> ('r, 'd) henv" where
  "http_env_of L S C h P c =
     \<lparr>hlib = L, hsod = S, hclk = C, hredis_lib = h, hpq = P, hredis_cfg = http_redis_cfg c,
      hsecret = jwt_secret c\<rparr>"

text \<open>The constructor; its background \<open>connect\<close> is a Redis step of its own.\<close>

definition http_new :: "('r, 'd) henv \<Rightarrow> string \<Rightarrow> 'r \<Rightarrow> 'd \<Rightarrow> err + ('r, 'd) http" where
  "http_new E url r d =
     (if sodium_init (hsod E) < 0 then Inl (Runtime_Error ''libsodium init failed'')
      else Inr \<lparr>hredis = set_error_callback (redis_new (hredis_cfg E) r), hdb = pgdb_new (hpq E) url d,
                hticks = 0, hdraws = 0, otp_log = []\<rparr>)"

definition http_redis :: "('r redis_client, 'a) em \<Rightarrow> (('r, 'd) http, 'a) em" where
  "http_redis = zoom hredis (\<lambda>r s. s\<lparr>hredis := r\<rparr>)"

definition http_db :: "('d pgdb, 'a) em \<Rightarrow> (('r, 'd) http, 'a) em" where
  "http_db = zoom hdb (\<lambda>d s. s\<lparr>hdb := d\<rparr>)"

definition http_time :: "('r, 'd) henv \<Rightarrow> (('r, 'd) http, int) em" where
  "http_time E = (\<lambda>s. (Inr (unix_time (hclk E) (hticks s)), s\<lparr>hticks := Suc (hticks s)\<rparr>))"

definition http_draw :: "(nat \<Rightarrow> 'a) \<Rightarrow> (('r, 'd) http, 'a) em" where
  "http_draw f = (\<lambda>s. (Inr (f (hdraws s)), s\<lparr>hdraws := Suc (hdraws s)\<rparr>))"

definition db_query :: "('r, 'd) henv \<Rightarrow> sql \<Rightarrow> string list \<Rightarrow> (('r, 'd) http, json list) em" where
  "db_query E q params = http_db (query (hpq E) q params)"

definition db_exec :: "('r, 'd) henv \<Rightarrow> sql \<Rightarrow> string list \<Rightarrow> (('r, 'd) http, int) em" where
  "db_exec E q params = http_db (exec (hpq E) q params)"

subsection \<open>Responses and the shapes of handlers\<close>

definition json_resp :: "('r, 'd) henv \<Rightarrow> int \<Rightarrow> json \<Rightarrow> response" where
  "json_resp E st j = \<lparr>resp_status = st, resp_body = j_dump (hlib E) j, resp_type = ''application/json''\<rparr>"

definition error_resp :: "('r, 'd) henv \<Rightarrow> int \<Rightarrow> string \<Rightarrow> response" where
  "error_resp E st msg = json_resp E st (jobj [(''error'', JStr msg)])"

text \<open>\<open>try { body = json::parse(req.body); } catch (...) { return 400; }\<close>\<close>

definition with_json_body ::
    "('r, 'd) henv \<Rightarrow> request \<Rightarrow> (json \<Rightarrow> (('r, 'd) http, response) em) \<Rightarrow> (('r, 'd) http, response) em" where
  "with_json_body E req k =
     (case j_parse (hlib E) (req_body req) of
        Inl e \<Rightarrow> if catchable e then ret (error_resp E 400 ''Invalid JSON'') else raise e
      | Inr j \<Rightarrow> k j)"

definition body_str :: "('r, 'd) henv \<Rightarrow> json \<Rightarrow> string \<Rightarrow> string \<Rightarrow> (('r, 'd) http, string) em" where
  "body_str E j key d = lift_sum (j_value_str (hlib E) j key d)"

text \<open>\<open>try { ... } catch (...) { return json_resp(500, "Server error"); }\<close>\<close>

definition try_500 :: "('r, 'd) henv \<Rightarrow> (('r, 'd) http, response) em \<Rightarrow> (('r, 'd) http, response) em" where
  "try_500 E m = catch_any m (\<lambda>_. ret (error_resp E 500 ''Server error''))"

text \<open>\<open>row["name"]\<close> of a row made by \<open>PgDb::query\<close>, and \<open>get<std::string>()\<close> of it.\<close>

definition col :: "json \<Rightarrow> string \<Rightarrow> json" where
  "col r k = (case r of JObj kvs \<Rightarrow> (case map_of kvs k of Some v \<Rightarrow> v | None \<Rightarrow> JNull) | _ \<Rightarrow> JNull)"

definition col_str :: "('r, 'd) henv \<Rightarrow> json \<Rightarrow> string \<Rightarrow> (('r, 'd) http, string) em" where
  "col_str E r k = lift_sum (j_get_str (hlib E) (col r k))"

text \<open>\<open>rows[0]\<close> of a vector without a check that it has one.\<close>

definition first_row :: "json list \<Rightarrow> (('r, 'd) http, json) em" where
  "first_row rows = (case rows of [] \<Rightarrow> raise (Undefined ''rows[0] of an empty vector'') | r # _ \<Rightarrow> ret r)"

text \<open>A JSON object made of columns of a row, under other names.\<close>

definition pick :: "(string \<times> string) list \<Rightarrow> json \<Rightarrow> json" where
  "pick names r = jobj (map (\<lambda>(k, c). (k, col r c)) names)"

definition list_resp :: "('r, 'd) henv \<Rightarrow> (string \<times> string) list \<Rightarrow> json list \<Rightarrow> response" where
  "list_resp E names rows = json_resp E 200 (JArr (map (pick names) rows))"

subsection \<open>Sessions and authentication\<close>

definition redis_available :: "('r, 'd) http \<Rightarrow> bool" where
  "redis_available s = is_connected (hredis s)"

definition store_redis_session :: "('r, 'd) henv \<Rightarrow> string \<Rightarrow> string \<Rightarrow> (('r, 'd) http, unit) em" where
  "store_redis_session E tok u =
     and_then (get_st redis_available) (\<lambda>b.
     if \<not> b then ret ()
     else and_then (http_redis (redis_set (hredis_lib E) (hredis_cfg E) (''session:'' @ tok) u 86400)) (\<lambda>_. ret ()))"

definition extract_token :: "string \<Rightarrow> string" where
  "extract_token header = (if take 7 header = ''Bearer '' then drop 7 header else [])"

text \<open>The token and the session, once Redis is there.\<close>

definition ensure_redis :: "('r, 'd) henv \<Rightarrow> (('r, 'd) http, bool) em" where
  "ensure_redis E =
     and_then (get_st redis_available) (\<lambda>up.
     if up then ret True else http_redis (connect (hredis_lib E) (hredis_cfg E)))"

definition check_session :: "('r, 'd) henv \<Rightarrow> string \<Rightarrow> (('r, 'd) http, string \<times> int) em" where
  "check_session E token =
     and_then (http_time E) (\<lambda>now.
     let u = jwt_verify (hsod E) (hlib E) now token (hsecret E) in
     if u = [] then ret ([], 401)
     else
       and_then (get_st redis_available) (\<lambda>up.
       if \<not> up then ret (u, 200)
       else
         and_then (http_redis (redis_get (hredis_lib E) (hredis_cfg E) (''session:'' @ token))) (\<lambda>stored.
         if stored = [] \<or> stored \<noteq> u then ret ([], 401) else ret (u, 200))))"

text \<open>The user id and \<open>status_code\<close>.\<close>

definition authenticate_request :: "('r, 'd) henv \<Rightarrow> string \<Rightarrow> (('r, 'd) http, string \<times> int) em" where
  "authenticate_request E header =
     (let token = extract_token header in
      if token = [] then ret ([], 401)
      else
        and_then (ensure_redis E) (\<lambda>ok.
        if \<not> ok then ret ([], 503) else check_session E token))"

text \<open>The first lines of every handler but the three that sign in.\<close>

definition guarded ::
    "('r, 'd) henv \<Rightarrow> (string \<Rightarrow> ('r, 'd) handler) \<Rightarrow> ('r, 'd) handler" where
  "guarded E k req =
     and_then (authenticate_request E (authorization req)) (\<lambda>(uid, st).
     if uid = [] then ret (error_resp E st (if st = 503 then ''Service unavailable'' else ''Unauthorized''))
     else k uid req)"

text \<open>\<open>req.url_params.get(key) ? ... : ""\<close>\<close>

definition param :: "request \<Rightarrow> string \<Rightarrow> string" where
  "param req key = (case url_param req key of Some v \<Rightarrow> v | None \<Rightarrow> [])"

definition route_health :: "('r, 'd) henv \<Rightarrow> ('r, 'd) handler" where
  "route_health E req =
     and_then (get_st (\<lambda>s. db_connected (hpq E) (hdb s))) (\<lambda>up.
     and_then (http_time E) (\<lambda>t.
     ret (json_resp E 200 (jobj [(''status'', JStr (if up then ''ok'' else ''db_error'')), (''db'', JBool up),
       (''ts'', JInt t)]))))"

subsection \<open>The WebSocket route\<close>

text \<open>
  \<open>/ws\<close> delegates to the messaging server; a message is handled and the queued answers are sent
  back on the same socket, as texts.
\<close>

definition ws_id :: "nat \<Rightarrow> int" where
  "ws_id address = int (address mod 2 ^ 31)"

definition ws_open :: "'r env \<Rightarrow> nat \<Rightarrow> ('r messenger, unit) em" where
  "ws_open E address = on_client_connected E (ws_id address)"

definition ws_text :: "'r env \<Rightarrow> ws_message \<Rightarrow> string" where
  "ws_text E m = j_dump (lib E) (jobj [(''type'', JStr (msg_type m)), (''payload'', payload m)])"

definition ws_flush :: "'r env \<Rightarrow> int \<Rightarrow> ('r messenger, string list) em" where
  "ws_flush E cid = (\<lambda>s.
     case get_connection cid (cpool s) of
       None \<Rightarrow> (Inr [], s)
     | Some c \<Rightarrow>
         (Inr (map (ws_text E) (fst (flush_queue c))),
          s\<lparr>cpool := update_conn cid (\<lambda>c. snd (flush_queue c)) (cpool s)\<rparr>))"

definition ws_message_event :: "'r env \<Rightarrow> bytes \<Rightarrow> int \<Rightarrow> string \<Rightarrow> ('r messenger, string list) em" where
  "ws_message_event E junk cid data = and_then (on_client_message E junk cid data) (\<lambda>_. ws_flush E cid)"

definition ws_close :: "'r env \<Rightarrow> int \<Rightarrow> ('r messenger, unit) em" where
  "ws_close E cid = on_client_disconnected E cid"

end
