(* ===== verification/Http_Auth.thy ===== *)
theory Http_Auth
  imports Http_Core
begin

section \<open>Sign-in and profile routes (http_api.cpp, /api/auth)\<close>

text \<open>
  One definition per route, in the order of the sources, each from the guards and early returns of
  its handler. The two regular expressions are written out as executable predicates.
\<close>

subsection \<open>Formats\<close>

text \<open>\<open>[^@\s]+@[^@\s]+\.[^@\s]+\<close> and \<open>^[a-z0-9_]{3,32}$\<close>.\<close>

definition email_ok :: "string \<Rightarrow> bool" where
  "email_ok s =
     (case find_ch (CHR ''@'') s of
        None \<Rightarrow> False
      | Some i \<Rightarrow>
          (let a = take i s; b = drop (i + 1) s in
             a \<noteq> [] \<and> list_all (\<lambda>c. c \<noteq> CHR ''@'' \<and> \<not> is_space c) (a @ b) \<and>
             list_ex (\<lambda>j. b ! j = CHR ''.'') [1 ..< length b - 1]))"

definition username_char :: "char \<Rightarrow> bool" where
  "username_char c =
     (let k = (of_char c :: nat) in (97 \<le> k \<and> k \<le> 122) \<or> (48 \<le> k \<and> k \<le> 57) \<or> k = 95)"

definition username_ok :: "string \<Rightarrow> bool" where
  "username_ok s = (3 \<le> length s \<and> length s \<le> 32 \<and> list_all username_char s)"

subsection \<open>POST /api/auth/send-otp\<close>

definition send_otp_email :: "string \<Rightarrow> string \<Rightarrow> (('r, 'd) http, unit) em" where
  "send_otp_email email code = mod_st (\<lambda>s. s\<lparr>otp_log := otp_log s @ [code]\<rparr>)"

definition route_send_otp :: "('r, 'd) henv \<Rightarrow> ('r, 'd) handler" where
  "route_send_otp E req =
     with_json_body E req (\<lambda>body.
     and_then (body_str E body ''email'' []) (\<lambda>email.
     if email = [] then ret (error_resp E 400 ''email required'')
     else if \<not> email_ok email then ret (error_resp E 400 ''Invalid email format'')
     else
       and_then (http_draw (otp_generate (hsod E))) (\<lambda>code.
       and_then (http_time E) (\<lambda>now.
       try_500 E
         (and_then (db_exec E Otp_Upsert [email, otp_hash (hsod E) code, show_int (now + 600)]) (\<lambda>_.
          and_then (send_otp_email email code) (\<lambda>_.
          ret (json_resp E 200 (jobj [(''ok'', JBool True), (''message'', JStr ''OTP sent'')])))))))))"

subsection \<open>POST /api/auth/verify-otp\<close>

text \<open>The last part: whether the user exists, and if so a token and its session.\<close>

definition login_user :: "('r, 'd) henv \<Rightarrow> string \<Rightarrow> (('r, 'd) http, response) em" where
  "login_user E email =
     and_then (catch_any (and_then (db_query E User_Login [email]) (\<lambda>rows. ret (Some rows))) (\<lambda>_. ret None)) (\<lambda>found.
     case found of
       None \<Rightarrow> ret (error_resp E 500 ''Server error'')
     | Some [] \<Rightarrow> ret (json_resp E 200 (jobj [(''needsRegistration'', JBool True), (''email'', JStr email)]))
     | Some (u # _) \<Rightarrow>
         and_then (col_str E u ''id'') (\<lambda>uid.
         and_then (http_time E) (\<lambda>now.
         let tok = jwt_create (hsod E) (hlib E) now uid (hsecret E) in
         and_then (store_redis_session E tok uid) (\<lambda>_.
         ret (json_resp E 200 (jobj [(''token'', JStr tok), (''needsRegistration'', JBool False),
           (''user'', jobj [(''id'', JStr uid), (''username'', col u ''username''),
                            (''displayName'', col u ''display_name'')])]))))))"

text \<open>After the attempt has been counted: expiry, hash, deletion of the code.\<close>

definition check_otp :: "('r, 'd) henv \<Rightarrow> string \<Rightarrow> string \<Rightarrow> json \<Rightarrow> (('r, 'd) http, response) em" where
  "check_otp E email code row =
     and_then (catch_any (and_then (db_query E Otp_Valid [email]) (\<lambda>rows. ret (Some rows))) (\<lambda>_. ret None)) (\<lambda>valid.
     case valid of
       None \<Rightarrow> ret (error_resp E 500 ''Server error'')
     | Some rows \<Rightarrow>
         and_then (if rows = [] then ret False
                   else and_then (col_str E (hd rows) ''valid'') (\<lambda>v. ret (v = ''t''))) (\<lambda>fresh.
         if \<not> fresh then ret (error_resp E 400 ''OTP expired. Request a new one.'')
         else
           and_then (col_str E row ''code_hash'') (\<lambda>expected.
           if expected \<noteq> otp_hash (hsod E) code then ret (error_resp E 400 ''Invalid OTP code'')
           else
             and_then (catch_any (and_then (db_exec E Otp_Delete [email]) (\<lambda>_. ret ())) (\<lambda>_. ret ())) (\<lambda>_.
             login_user E email))))"

definition route_verify_otp :: "('r, 'd) henv \<Rightarrow> ('r, 'd) handler" where
  "route_verify_otp E req =
     with_json_body E req (\<lambda>body.
     and_then (body_str E body ''email'' []) (\<lambda>email.
     and_then (body_str E body ''code'' []) (\<lambda>code.
     if email = [] \<or> code = [] then ret (error_resp E 400 ''email and code required'')
     else
       and_then (catch_any (and_then (db_query E Otp_Select [email]) (\<lambda>rows. ret (Some rows))) (\<lambda>_. ret None)) (\<lambda>found.
       case found of
         None \<Rightarrow> ret (error_resp E 500 ''Server error'')
       | Some [] \<Rightarrow> ret (error_resp E 400 ''No OTP found for this email. Request a new one.'')
       | Some (row # _) \<Rightarrow>
           and_then (col_str E row ''attempts'') (\<lambda>a.
           and_then (lift_sum (stoi a)) (\<lambda>attempts.
           if 5 \<le> attempts then ret (error_resp E 429 ''Too many attempts. Request a new OTP.'')
           else
             and_then (catch_any (and_then (db_exec E Otp_Increment [email]) (\<lambda>_. ret ())) (\<lambda>_. ret ())) (\<lambda>_.
             check_otp E email code row)))))))"

subsection \<open>POST /api/auth/register\<close>

text \<open>The duplicate checks: the reply that ends the handler, if any.\<close>

definition register_checks ::
    "('r, 'd) henv \<Rightarrow> string \<Rightarrow> string \<Rightarrow> string \<Rightarrow> (('r, 'd) http, response option) em" where
  "register_checks E username email phone =
     catch_any
       (and_then (db_query E (User_With ''username'') [username]) (\<lambda>rows.
        if rows \<noteq> [] then ret (Some (error_resp E 409 ''Username already taken''))
        else
          and_then (db_query E (User_With ''email'') [email]) (\<lambda>rows.
          if rows \<noteq> [] then ret (Some (error_resp E 409 ''Email already registered''))
          else if phone = [] then ret None
          else
            and_then (db_query E (User_With ''phone_number'') [phone]) (\<lambda>rows.
            ret (if rows \<noteq> [] then Some (error_resp E 409 ''Phone number already registered'') else None)))))
       (\<lambda>_. ret (Some (error_resp E 500 ''Server error'')))"

text \<open>\<open>e.what()\<close>: the texts of library exceptions are not modelled.\<close>

definition what :: "err \<Rightarrow> string" where
  "what e = (case e of Runtime_Error t \<Rightarrow> t | _ \<Rightarrow> ''exception'')"

definition register_insert ::
    "('r, 'd) henv \<Rightarrow> string list \<Rightarrow> (('r, 'd) http, response + string) em" where
  "register_insert E params =
     catch_any
       (and_then (db_query E User_Insert params) (\<lambda>rows.
        case rows of
          [] \<Rightarrow> ret (Inl (error_resp E 500 ''Insert failed''))
        | r # _ \<Rightarrow> and_then (col_str E r ''id'') (\<lambda>uid. ret (Inr uid))))
       (\<lambda>e. ret (Inl (error_resp E 500 (''Server error: '' @ what e))))"

definition route_register :: "('r, 'd) henv \<Rightarrow> ('r, 'd) handler" where
  "route_register E req =
     with_json_body E req (\<lambda>body.
     and_then (body_str E body ''email'' []) (\<lambda>email.
     and_then (body_str E body ''username'' []) (\<lambda>username.
     and_then (body_str E body ''displayName'' username) (\<lambda>display.
     and_then (body_str E body ''phone'' []) (\<lambda>phone.
     if email = [] \<or> username = [] then ret (error_resp E 400 ''email and username required'')
     else if \<not> username_ok username then ret (error_resp E 400 ''Username must be 3-32 chars: a-z, 0-9, _'')
     else
       and_then (register_checks E username email phone) (\<lambda>refused.
       case refused of
         Some resp \<Rightarrow> ret resp
       | None \<Rightarrow>
           and_then (http_draw (box_keypair (hsod E))) (\<lambda>keys.
           and_then (register_insert E [username, email, phone, display, bin2hex (hsod E) (take 32 (fst keys))]) (\<lambda>res.
           case res of
             Inl resp \<Rightarrow> ret resp
           | Inr uid \<Rightarrow>
               and_then (http_time E) (\<lambda>now.
               let tok = jwt_create (hsod E) (hlib E) now uid (hsecret E) in
               and_then (store_redis_session E tok uid) (\<lambda>_.
               ret (json_resp E 201 (jobj [(''token'', JStr tok), (''userId'', JStr uid)]))))))))))))"

subsection \<open>The profile\<close>

definition me_fields :: "(string \<times> string) list" where
  "me_fields =
     [(''id'', ''id''), (''username'', ''username''), (''email'', ''email''), (''phone'', ''phone_number''),
      (''displayName'', ''display_name''), (''avatarUrl'', ''avatar_url''), (''bio'', ''bio''),
      (''status'', ''status''), (''statusText'', ''status_text''), (''createdAt'', ''created_at'')]"

definition route_get_me :: "('r, 'd) henv \<Rightarrow> ('r, 'd) handler" where
  "route_get_me E = guarded E (\<lambda>uid req.
     try_500 E
       (and_then (db_query E User_Me [uid]) (\<lambda>rows.
        case rows of
          [] \<Rightarrow> ret (error_resp E 404 ''User not found'')
        | u # _ \<Rightarrow> ret (json_resp E 200 (pick me_fields u)))))"

text \<open>\<open>add_field\<close>: a field that is present and not null is a column to set; a value that is not a
  string throws.\<close>

definition add_field ::
    "('r, 'd) henv \<Rightarrow> json \<Rightarrow> string \<times> string \<Rightarrow> err + (string \<times> string) list" where
  "add_field E body ck =
     (case j_field (hlib E) body (snd ck) of
        None \<Rightarrow> Inr []
      | Some v \<Rightarrow>
          if v = JNull then Inr []
          else (case j_get_str (hlib E) v of Inl e \<Rightarrow> Inl e | Inr x \<Rightarrow> Inr [(fst ck, x)]))"

fun add_fields ::
    "('r, 'd) henv \<Rightarrow> json \<Rightarrow> (string \<times> string) list \<Rightarrow> err + (string \<times> string) list" where
  "add_fields E body [] = Inr []"
| "add_fields E body (ck # cks) =
     (case add_field E body ck of
        Inl e \<Rightarrow> Inl e
      | Inr f \<Rightarrow> (case add_fields E body cks of Inl e \<Rightarrow> Inl e | Inr fs \<Rightarrow> Inr (f @ fs)))"

definition update_columns :: "(string \<times> string) list" where
  "update_columns =
     [(''display_name'', ''displayName''), (''bio'', ''bio''), (''avatar_url'', ''avatarUrl''),
      (''status_text'', ''statusText''), (''phone_number'', ''phone'')]"

definition route_update_me :: "('r, 'd) henv \<Rightarrow> ('r, 'd) handler" where
  "route_update_me E = guarded E (\<lambda>uid req.
     with_json_body E req (\<lambda>body.
     and_then (lift_sum (add_fields E body update_columns)) (\<lambda>fields.
     if fields = [] then ret (error_resp E 400 ''Nothing to update'')
     else
       try_500 E
         (and_then (db_exec E (User_Update (map fst fields)) (map snd fields @ [uid])) (\<lambda>_.
          ret (json_resp E 200 (jobj [(''ok'', JBool True)])))))))"

subsection \<open>Other users\<close>

definition route_search_users :: "('r, 'd) henv \<Rightarrow> ('r, 'd) handler" where
  "route_search_users E = guarded E (\<lambda>uid req.
     let q = param req ''q'' in
     if q = [] then ret (json_resp E 200 (JArr []))
     else
       try_500 E
         (and_then (db_query E User_Search [''%'' @ q @ ''%'', uid]) (\<lambda>rows.
          ret (list_resp E [(''id'', ''id''), (''username'', ''username''), (''displayName'', ''display_name''),
            (''avatarUrl'', ''avatar_url''), (''status'', ''status'')] rows))))"

definition route_get_user :: "('r, 'd) henv \<Rightarrow> string \<Rightarrow> ('r, 'd) handler" where
  "route_get_user E user = guarded E (\<lambda>uid req.
     try_500 E
       (and_then (db_query E User_Public [user]) (\<lambda>rows.
        case rows of
          [] \<Rightarrow> ret (error_resp E 404 ''User not found'')
        | u # _ \<Rightarrow>
            ret (json_resp E 200 (pick [(''id'', ''id''), (''username'', ''username''),
              (''displayName'', ''display_name''), (''avatarUrl'', ''avatar_url''), (''bio'', ''bio''),
              (''status'', ''status'')] u)))))"

end
