(* ===== verification/Http_Chats.thy ===== *)
theory Http_Chats
  imports Http_Core
begin

section \<open>Chat routes (http_api.cpp, /api/chats)\<close>

text \<open>
  One definition per route. \<open>ok_resp\<close> is the reply of the routes that only say that they worked;
  \<open>member_gate\<close> is the membership test that three of them make.
\<close>

definition ok_resp :: "('r, 'd) henv \<Rightarrow> int \<Rightarrow> response" where
  "ok_resp E st = json_resp E st (jobj [(''ok'', JBool True)])"

subsection \<open>Listing and opening\<close>

definition route_get_chats :: "('r, 'd) henv \<Rightarrow> ('r, 'd) handler" where
  "route_get_chats E = guarded E (\<lambda>uid req.
     try_500 E
       (and_then (db_query E Chats_Of [uid]) (\<lambda>rows.
        ret (list_resp E [(''id'', ''id''), (''type'', ''chat_type''), (''name'', ''name''),
          (''avatarUrl'', ''avatar_url''), (''lastMessage'', ''last_message''),
          (''unreadCount'', ''unread_count''), (''updatedAt'', ''updated_at'')] rows))))"

definition route_open_direct :: "('r, 'd) henv \<Rightarrow> ('r, 'd) handler" where
  "route_open_direct E = guarded E (\<lambda>uid req.
     with_json_body E req (\<lambda>body.
     and_then (body_str E body ''targetUserId'' []) (\<lambda>target.
     if target = [] then ret (error_resp E 400 ''targetUserId required'')
     else
       try_500 E
         (and_then (db_query E Direct_Find [uid, target]) (\<lambda>existing.
          case existing of
            r # _ \<Rightarrow> ret (json_resp E 200 (jobj [(''id'', col r ''id'')]))
          | [] \<Rightarrow>
              and_then (db_query E Direct_Create [uid]) (\<lambda>chat.
              and_then (first_row chat) (\<lambda>r.
              and_then (col_str E r ''id'') (\<lambda>cid.
              and_then (db_exec E Direct_Members [cid, uid, target]) (\<lambda>_.
              ret (json_resp E 201 (jobj [(''id'', JStr cid)])))))))))))"

text \<open>The loop over \<open>memberIds\<close>: the creator is skipped, a failing insertion is ignored.\<close>

fun add_members :: "('r, 'd) henv \<Rightarrow> string \<Rightarrow> string \<Rightarrow> json list \<Rightarrow> (('r, 'd) http, unit) em" where
  "add_members E cid uid [] = ret ()"
| "add_members E cid uid (m # ms) =
     and_then (lift_sum (j_get_str (hlib E) m)) (\<lambda>mid.
     and_then
       (if mid = uid then ret ()
        else catch_any (and_then (db_exec E Group_Member [cid, mid]) (\<lambda>_. ret ())) (\<lambda>_. ret ()))
       (\<lambda>_. add_members E cid uid ms))"

definition member_ids :: "('r, 'd) henv \<Rightarrow> json \<Rightarrow> json list" where
  "member_ids E body =
     (case j_field (hlib E) body ''memberIds'' of Some (JArr ms) \<Rightarrow> ms | _ \<Rightarrow> [])"

definition route_create_group :: "('r, 'd) henv \<Rightarrow> ('r, 'd) handler" where
  "route_create_group E = guarded E (\<lambda>uid req.
     with_json_body E req (\<lambda>body.
     and_then (body_str E body ''name'' []) (\<lambda>name.
     and_then (body_str E body ''description'' []) (\<lambda>desc.
     if name = [] then ret (error_resp E 400 ''name required'')
     else
       try_500 E
         (and_then (db_query E Group_Create [name, desc, uid]) (\<lambda>chat.
          and_then (first_row chat) (\<lambda>r.
          and_then (col_str E r ''id'') (\<lambda>cid.
          and_then (db_exec E Group_Owner [cid, uid]) (\<lambda>_.
          and_then (add_members E cid uid (member_ids E body)) (\<lambda>_.
          ret (json_resp E 201 (jobj [(''id'', JStr cid), (''name'', JStr name)]))))))))))))"

subsection \<open>Reading a chat\<close>

definition member_gate ::
    "('r, 'd) henv \<Rightarrow> string \<Rightarrow> string \<Rightarrow> (('r, 'd) http, response) em \<Rightarrow> (('r, 'd) http, response) em" where
  "member_gate E chat uid k =
     and_then (db_query E Member_Check [chat, uid]) (\<lambda>mem.
     if mem = [] then ret (error_resp E 403 ''Not a member'') else k)"

definition route_get_chat_info :: "('r, 'd) henv \<Rightarrow> string \<Rightarrow> ('r, 'd) handler" where
  "route_get_chat_info E chat = guarded E (\<lambda>uid req.
     try_500 E
       (member_gate E chat uid
         (and_then (db_query E Chat_Select [chat]) (\<lambda>rows.
          case rows of
            [] \<Rightarrow> ret (error_resp E 404 ''Chat not found'')
          | c # _ \<Rightarrow>
              ret (json_resp E 200 (pick [(''id'', ''id''), (''type'', ''chat_type''), (''name'', ''name''),
                (''description'', ''description''), (''avatarUrl'', ''avatar_url''),
                (''createdAt'', ''created_at'')] c))))))"

definition message_fields :: "(string \<times> string) list" where
  "message_fields =
     [(''id'', ''id''), (''senderId'', ''sender_id''), (''senderName'', ''sender_name''),
      (''senderAvatar'', ''sender_avatar''), (''content'', ''content''), (''type'', ''content_type''),
      (''isEdited'', ''is_edited''), (''isPinned'', ''is_pinned''), (''replyToId'', ''reply_to_id''),
      (''createdAt'', ''created_at'')]"

definition route_get_messages :: "('r, 'd) henv \<Rightarrow> string \<Rightarrow> ('r, 'd) handler" where
  "route_get_messages E chat = guarded E (\<lambda>uid req.
     let before = param req ''before'' in
     try_500 E
       (member_gate E chat uid
         (and_then (if before = [] then db_query E Messages_Latest [chat]
                    else db_query E Messages_Before [chat, before]) (\<lambda>rows.
          ret (list_resp E message_fields rows)))))"

definition route_get_members :: "('r, 'd) henv \<Rightarrow> string \<Rightarrow> ('r, 'd) handler" where
  "route_get_members E chat = guarded E (\<lambda>uid req.
     try_500 E
       (and_then (db_query E Members_List [chat]) (\<lambda>rows.
        ret (list_resp E [(''id'', ''id''), (''username'', ''username''), (''displayName'', ''display_name''),
          (''avatarUrl'', ''avatar_url''), (''status'', ''status''), (''role'', ''role''),
          (''joinedAt'', ''joined_at'')] rows))))"

definition route_search_messages :: "('r, 'd) henv \<Rightarrow> string \<Rightarrow> ('r, 'd) handler" where
  "route_search_messages E chat = guarded E (\<lambda>uid req.
     let q = param req ''q'' in
     if q = [] then ret (json_resp E 200 (JArr []))
     else
       try_500 E
         (and_then (db_query E Messages_Search [chat, ''%'' @ q @ ''%'']) (\<lambda>rows.
          ret (json_resp E 200 (JArr rows)))))"

subsection \<open>Changing a chat\<close>

definition route_add_member :: "('r, 'd) henv \<Rightarrow> string \<Rightarrow> ('r, 'd) handler" where
  "route_add_member E chat = guarded E (\<lambda>uid req.
     with_json_body E req (\<lambda>body.
     and_then (body_str E body ''userId'' []) (\<lambda>target.
     if target = [] then ret (error_resp E 400 ''userId required'')
     else try_500 E (and_then (db_exec E Member_Add [chat, target]) (\<lambda>_. ret (ok_resp E 200))))))"

definition route_remove_member :: "('r, 'd) henv \<Rightarrow> string \<Rightarrow> string \<Rightarrow> ('r, 'd) handler" where
  "route_remove_member E chat target = guarded E (\<lambda>uid req.
     try_500 E (and_then (db_exec E Member_Leave [chat, target]) (\<lambda>_. ret (ok_resp E 200))))"

definition route_pin_message :: "('r, 'd) henv \<Rightarrow> string \<Rightarrow> string \<Rightarrow> ('r, 'd) handler" where
  "route_pin_message E chat mid = guarded E (\<lambda>uid req.
     try_500 E (and_then (db_exec E Message_Pin [mid]) (\<lambda>_. ret (ok_resp E 200))))"

definition route_react_message :: "('r, 'd) henv \<Rightarrow> string \<Rightarrow> string \<Rightarrow> ('r, 'd) handler" where
  "route_react_message E chat mid = guarded E (\<lambda>uid req.
     with_json_body E req (\<lambda>body.
     and_then (body_str E body ''emoji'' []) (\<lambda>emoji.
     if emoji = [] then ret (error_resp E 400 ''emoji required'')
     else try_500 E (and_then (db_exec E Reaction_Toggle [mid, uid, emoji]) (\<lambda>_. ret (ok_resp E 200))))))"

definition route_mute_chat :: "('r, 'd) henv \<Rightarrow> string \<Rightarrow> ('r, 'd) handler" where
  "route_mute_chat E chat = guarded E (\<lambda>uid req.
     try_500 E (and_then (db_exec E Chat_Mute [chat, uid]) (\<lambda>_. ret (ok_resp E 200))))"

definition route_chat_search_users :: "('r, 'd) henv \<Rightarrow> ('r, 'd) handler" where
  "route_chat_search_users E = guarded E (\<lambda>uid req.
     try_500 E
       (and_then (db_query E Chat_User_Search [''%'' @ param req ''q'' @ ''%'', uid]) (\<lambda>rows.
        ret (list_resp E [(''id'', ''id''), (''username'', ''username''), (''displayName'', ''display_name''),
          (''avatarUrl'', ''avatar_url'')] rows))))"

section \<open>Contact routes (http_api.cpp, /api/contacts)\<close>

definition route_get_contacts :: "('r, 'd) henv \<Rightarrow> ('r, 'd) handler" where
  "route_get_contacts E = guarded E (\<lambda>uid req.
     try_500 E
       (and_then (db_query E Contacts_List [uid]) (\<lambda>rows.
        ret (list_resp E [(''id'', ''id''), (''username'', ''username''), (''displayName'', ''display_name''),
          (''avatarUrl'', ''avatar_url''), (''status'', ''status''), (''nickname'', ''nickname''),
          (''isFavorite'', ''is_favorite'')] rows))))"

definition route_add_contact :: "('r, 'd) henv \<Rightarrow> ('r, 'd) handler" where
  "route_add_contact E = guarded E (\<lambda>uid req.
     with_json_body E req (\<lambda>body.
     and_then (body_str E body ''contactId'' []) (\<lambda>contact.
     and_then (body_str E body ''nickname'' []) (\<lambda>nickname.
     if contact = [] then ret (error_resp E 400 ''contactId required'')
     else if contact = uid then ret (error_resp E 400 ''Cannot add yourself'')
     else try_500 E (and_then (db_exec E Contact_Upsert [uid, contact, nickname]) (\<lambda>_. ret (ok_resp E 201)))))))"

definition route_remove_contact :: "('r, 'd) henv \<Rightarrow> string \<Rightarrow> ('r, 'd) handler" where
  "route_remove_contact E contact = guarded E (\<lambda>uid req.
     try_500 E (and_then (db_exec E Contact_Delete [uid, contact]) (\<lambda>_. ret (ok_resp E 200))))"

definition route_check_contact :: "('r, 'd) henv \<Rightarrow> string \<Rightarrow> ('r, 'd) handler" where
  "route_check_contact E contact = guarded E (\<lambda>uid req.
     try_500 E
       (and_then (db_query E Contact_Check [uid, contact]) (\<lambda>rows.
        ret (json_resp E 200 (jobj [(''isContact'', JBool (rows \<noteq> []))])))))"

definition route_find_by_phone :: "('r, 'd) henv \<Rightarrow> ('r, 'd) handler" where
  "route_find_by_phone E = guarded E (\<lambda>uid req.
     let phone = param req ''phone'' in
     if phone = [] then ret (error_resp E 400 ''phone required'')
     else
       try_500 E
         (and_then (db_query E User_By_Phone [phone]) (\<lambda>rows.
          case rows of
            [] \<Rightarrow> ret (error_resp E 404 ''User not found'')
          | u # _ \<Rightarrow>
              ret (json_resp E 200 (pick [(''id'', ''id''), (''username'', ''username''),
                (''displayName'', ''display_name''), (''avatarUrl'', ''avatar_url'')] u)))))"

end
