(* ===== verification/Http_Channels.thy ===== *)
theory Http_Channels
  imports Http_Auth Http_Chats
begin

section \<open>Channel routes (http_api.cpp, /api/channels) and the routing table\<close>

text \<open>
  One definition per route, then all routes as a datatype with the function that dispatches a
  request to its handler, as \<open>register_routes\<close> sets it up.
\<close>

subsection \<open>Channels\<close>

definition route_explore_channels :: "('r, 'd) henv \<Rightarrow> ('r, 'd) handler" where
  "route_explore_channels E = guarded E (\<lambda>uid req.
     try_500 E
       (and_then (db_query E Channels_Explore [''%'' @ param req ''q'' @ ''%'']) (\<lambda>rows.
        ret (json_resp E 200 (JArr rows)))))"

definition route_my_channels :: "('r, 'd) henv \<Rightarrow> ('r, 'd) handler" where
  "route_my_channels E = guarded E (\<lambda>uid req.
     try_500 E (and_then (db_query E Channels_Mine [uid]) (\<lambda>rows. ret (json_resp E 200 (JArr rows)))))"

definition bool_text :: "bool \<Rightarrow> string" where
  "bool_text b = (if b then ''true'' else ''false'')"

text \<open>Here the text of the exception decides between two replies.\<close>

definition route_create_channel :: "('r, 'd) henv \<Rightarrow> ('r, 'd) handler" where
  "route_create_channel E = guarded E (\<lambda>uid req.
     with_json_body E req (\<lambda>body.
     and_then (body_str E body ''username'' []) (\<lambda>username.
     and_then (body_str E body ''name'' []) (\<lambda>name.
     and_then (body_str E body ''description'' []) (\<lambda>description.
     and_then (lift_sum (j_value_bool (hlib E) body ''isPublic'' True)) (\<lambda>is_public.
     if username = [] \<or> name = [] then ret (error_resp E 400 ''username and name required'')
     else
       catch_any
         (and_then (db_query E Channel_Create [username, name, description, bool_text is_public, uid]) (\<lambda>rows.
          and_then (first_row rows) (\<lambda>r.
          and_then (col_str E r ''id'') (\<lambda>cid.
          and_then (db_exec E Channel_Owner [cid, uid]) (\<lambda>_.
          ret (json_resp E 201 (jobj [(''id'', JStr cid), (''username'', JStr username)])))))))
         (\<lambda>e. ret (if find_str ''unique'' (what e) \<noteq> None then error_resp E 409 ''Username already taken''
                   else error_resp E 500 ''Server error''))))))))"

definition route_get_channel :: "('r, 'd) henv \<Rightarrow> string \<Rightarrow> ('r, 'd) handler" where
  "route_get_channel E username = guarded E (\<lambda>uid req.
     try_500 E
       (and_then (db_query E Channel_Select [username]) (\<lambda>rows.
        case rows of
          [] \<Rightarrow> ret (error_resp E 404 ''Channel not found'')
        | r # _ \<Rightarrow> ret (json_resp E 200 r))))"

definition route_subscribe_channel :: "('r, 'd) henv \<Rightarrow> string \<Rightarrow> ('r, 'd) handler" where
  "route_subscribe_channel E channel = guarded E (\<lambda>uid req.
     try_500 E
       (and_then (db_exec E Channel_Subscribe [channel, uid]) (\<lambda>_.
        and_then (db_exec E Channel_Count_Up [channel]) (\<lambda>_. ret (ok_resp E 200)))))"

definition route_get_channel_posts :: "('r, 'd) henv \<Rightarrow> string \<Rightarrow> ('r, 'd) handler" where
  "route_get_channel_posts E channel = guarded E (\<lambda>uid req.
     let before = param req ''before'' in
     try_500 E
       (and_then (if before = [] then db_query E Posts_Latest [channel]
                  else db_query E Posts_Before [channel, before]) (\<lambda>rows.
        ret (json_resp E 200 (JArr rows)))))"

definition route_create_post :: "('r, 'd) henv \<Rightarrow> string \<Rightarrow> ('r, 'd) handler" where
  "route_create_post E channel = guarded E (\<lambda>uid req.
     with_json_body E req (\<lambda>body.
     and_then (body_str E body ''content'' []) (\<lambda>content.
     and_then (lift_sum (j_value_bool (hlib E) body ''isPaid'' False)) (\<lambda>is_paid.
     try_500 E
       (and_then (db_query E Subscriber_Role [channel, uid]) (\<lambda>perm.
        and_then
          (case perm of
             [] \<Rightarrow> ret False
           | r # _ \<Rightarrow> and_then (col_str E r ''role'') (\<lambda>role. ret (role = ''owner'' \<or> role = ''admin'')))
          (\<lambda>allowed.
        if \<not> allowed then ret (error_resp E 403 ''Not a channel admin'')
        else
          and_then (db_exec E Post_Insert [channel, content, bool_text is_paid, uid]) (\<lambda>_.
          ret (ok_resp E 201)))))))))"

definition route_delete_post :: "('r, 'd) henv \<Rightarrow> string \<Rightarrow> string \<Rightarrow> ('r, 'd) handler" where
  "route_delete_post E channel post = guarded E (\<lambda>uid req.
     try_500 E (and_then (db_exec E Post_Delete [post, channel]) (\<lambda>_. ret (ok_resp E 200))))"

subsection \<open>The routing table\<close>

datatype route =
    Health | Send_Otp | Verify_Otp | Register
  | Get_Me | Update_Me | Search_Users | Get_User string
  | Get_Chats | Open_Direct | Create_Group | Get_Chat_Info string | Get_Messages string
  | Get_Members string | Add_Member string | Remove_Member string string | Search_Messages string
  | Pin_Message string string | React_Message string string | Mute_Chat string | Chat_Search_Users
  | Get_Contacts | Add_Contact | Remove_Contact string | Check_Contact string | Find_By_Phone
  | Explore_Channels | My_Channels | Create_Channel | Get_Channel string | Subscribe_Channel string
  | Get_Channel_Posts string | Create_Post string | Delete_Post string string

fun handle :: "('r, 'd) henv \<Rightarrow> route \<Rightarrow> ('r, 'd) handler" where
  "handle E Health = route_health E"
| "handle E Send_Otp = route_send_otp E"
| "handle E Verify_Otp = route_verify_otp E"
| "handle E Register = route_register E"
| "handle E Get_Me = route_get_me E"
| "handle E Update_Me = route_update_me E"
| "handle E Search_Users = route_search_users E"
| "handle E (Get_User u) = route_get_user E u"
| "handle E Get_Chats = route_get_chats E"
| "handle E Open_Direct = route_open_direct E"
| "handle E Create_Group = route_create_group E"
| "handle E (Get_Chat_Info c) = route_get_chat_info E c"
| "handle E (Get_Messages c) = route_get_messages E c"
| "handle E (Get_Members c) = route_get_members E c"
| "handle E (Add_Member c) = route_add_member E c"
| "handle E (Remove_Member c u) = route_remove_member E c u"
| "handle E (Search_Messages c) = route_search_messages E c"
| "handle E (Pin_Message c m) = route_pin_message E c m"
| "handle E (React_Message c m) = route_react_message E c m"
| "handle E (Mute_Chat c) = route_mute_chat E c"
| "handle E Chat_Search_Users = route_chat_search_users E"
| "handle E Get_Contacts = route_get_contacts E"
| "handle E Add_Contact = route_add_contact E"
| "handle E (Remove_Contact c) = route_remove_contact E c"
| "handle E (Check_Contact c) = route_check_contact E c"
| "handle E Find_By_Phone = route_find_by_phone E"
| "handle E Explore_Channels = route_explore_channels E"
| "handle E My_Channels = route_my_channels E"
| "handle E Create_Channel = route_create_channel E"
| "handle E (Get_Channel u) = route_get_channel E u"
| "handle E (Subscribe_Channel c) = route_subscribe_channel E c"
| "handle E (Get_Channel_Posts c) = route_get_channel_posts E c"
| "handle E (Create_Post c) = route_create_post E c"
| "handle E (Delete_Post c p) = route_delete_post E c p"

text \<open>The routes without a token.\<close>

definition public_route :: "route \<Rightarrow> bool" where
  "public_route r \<longleftrightarrow> r \<in> {Health, Send_Otp, Verify_Otp, Register}"

end
