(* ===== verification/Http_Props.thy ===== *)
theory Http_Props
  imports Http_Channels Redis_Props
begin

section \<open>What every route guarantees\<close>

text \<open>
  Authentication as a gate (locale \<open>request_gate\<close>): what passes it is signed and has a session,
  what fails it is answered without touching the database. The statements each route may send, and
  with them what it can change (\<open>route_statements\<close>).
\<close>

lemma http_redis_run [em_simps]:
  "http_redis m s = (case m (hredis s) of (r, t) \<Rightarrow> (r, s\<lparr>hredis := t\<rparr>))"
  by (simp add: http_redis_def zoom_run)

lemma http_db_run [em_simps]:
  "http_db m s = (case m (hdb s) of (r, t) \<Rightarrow> (r, s\<lparr>hdb := t\<rparr>))"
  by (simp add: http_db_def zoom_run)

lemma http_clock_run [em_simps]:
  "http_time E s = (Inr (unix_time (hclk E) (hticks s)), s\<lparr>hticks := Suc (hticks s)\<rparr>)"
  "http_draw f s = (Inr (f (hdraws s)), s\<lparr>hdraws := Suc (hdraws s)\<rparr>)"
  by (simp_all add: http_time_def http_draw_def)

subsection \<open>The gate\<close>

text \<open>
  A gate in front of the handlers: it decides on a user and a status from the request's header,
  without touching the data the handlers work on.
\<close>

locale request_gate =
  fixes auth :: "string \<Rightarrow> ('s, string \<times> int) em"
    and data :: "'s \<Rightarrow> 'x"
  assumes auth_frame: "data (snd (auth h s)) = data s"
    and auth_status: "auth h s = (Inr (u, st), s') \<Longrightarrow> st = 200 \<longleftrightarrow> u \<noteq> []"
begin

lemma auth_keeps: "keeps data (auth h)"
  by (simp add: keeps_def auth_frame)

lemma auth_data: "auth h s = (r, s') \<Longrightarrow> data s' = data s"
  by (metis auth_frame snd_conv)

lemma refused_data:
  assumes "\<And>u st. auth h s = (Inr (u, st), s') \<Longrightarrow> st \<noteq> 200" and "auth h s = (Inr (u, st), s')"
  shows "u = [] \<and> data s' = data s"
  using assms auth_status auth_data by blast

lemma gated_refuses:
  "auth h s = (Inr ([], st), s') \<Longrightarrow>
   and_then (auth h) (\<lambda>(u, st). if u = [] then ret (no st) else k u) s = (Inr (no st), s')"
  by (simp add: em_simps)

lemma gated_passes:
  "auth h s = (Inr (u, st), s') \<Longrightarrow> u \<noteq> [] \<Longrightarrow>
   and_then (auth h) (\<lambda>(u, st). if u = [] then ret (no st) else k u) s = k u s'"
  by (simp add: em_simps)

lemma gated_raises:
  "auth h s = (Inl e, s') \<Longrightarrow>
   and_then (auth h) (\<lambda>(u, st). if u = [] then ret (no st) else k u) s = (Inl e, s')"
  by (simp add: em_simps)

end

abbreviation http_data :: "('r, 'd) http \<Rightarrow> 'd pgdb \<times> nat \<times> string list" where
  "http_data s \<equiv> (hdb s, hdraws s, otp_log s)"

lemma keeps_http_redis: "keeps http_data (http_redis m)"
  by (simp add: keeps_def em_simps split: prod.split)

lemma keeps_http_time: "keeps http_data (http_time E)"
  by (simp add: keeps_def em_simps)

lemma ensure_redis_frame: "keeps http_data (ensure_redis E)"
  unfolding ensure_redis_def by (intro keeps_if keeps_and_then keeps_ret keeps_get keeps_http_redis)

lemma check_session_frame: "keeps http_data (check_session E token)"
  unfolding check_session_def Let_def
  by (intro keeps_if keeps_and_then keeps_ret keeps_get keeps_http_redis keeps_http_time)

lemma authenticate_frame: "keeps http_data (authenticate_request E h)"
  unfolding authenticate_request_def Let_def
  by (intro keeps_if keeps_and_then keeps_ret ensure_redis_frame check_session_frame)

lemma check_session_status:
  "check_session E token s = (Inr (u, st), s') \<Longrightarrow> st = 200 \<longleftrightarrow> u \<noteq> []"
  by (auto simp: check_session_def Let_def em_simps split: if_splits prod.splits sum.splits)

lemma authenticate_status:
  "authenticate_request E h s = (Inr (u, st), s') \<Longrightarrow> st = 200 \<longleftrightarrow> u \<noteq> []"
  by (auto simp: authenticate_request_def Let_def em_simps dest: check_session_status
      split: if_splits prod.splits sum.splits)

interpretation gate: request_gate "authenticate_request E" http_data for E
  by unfold_locales (rule keepsD [OF authenticate_frame], rule authenticate_status)

lemma guarded_run:
  assumes "authenticate_request E (authorization req) s = (Inr (u, st), s')"
  shows "guarded E k req s =
    (if u = [] then (Inr (error_resp E st (if st = 503 then ''Service unavailable'' else ''Unauthorized'')), s')
     else k u req s')"
  by (simp add: guarded_def em_simps assms)

lemma guarded_raise:
  "authenticate_request E (authorization req) s = (Inl e, s') \<Longrightarrow> guarded E k req s = (Inl e, s')"
  unfolding guarded_def by (rule gate.gated_raises)

text \<open>Every route but the public ones is a guarded handler.\<close>

lemma handle_guarded: "\<not> public_route r \<Longrightarrow> \<exists>k. handle E r = guarded E k"
  by (cases r) (auto simp: public_route_def route_get_me_def route_update_me_def route_search_users_def
      route_get_user_def route_get_chats_def route_open_direct_def route_create_group_def
      route_get_chat_info_def route_get_messages_def route_get_members_def route_add_member_def
      route_remove_member_def route_search_messages_def route_pin_message_def route_react_message_def
      route_mute_chat_def route_chat_search_users_def route_get_contacts_def route_add_contact_def
      route_remove_contact_def route_check_contact_def route_find_by_phone_def route_explore_channels_def
      route_my_channels_def route_create_channel_def route_get_channel_def route_subscribe_channel_def
      route_get_channel_posts_def route_create_post_def route_delete_post_def)

lemma connect_True_running: "connect h cfg s = (Inr True, t) \<Longrightarrow> running t"
proof -
  assume run: "connect h cfg s = (Inr True, t)"
  show ?thesis
  proof (cases "pool_locked s \<or> running s \<or> max_retries cfg \<le> 0")
    case True
    with run show ?thesis by (auto simp: connect_def with_pool_lock_def report_def em_simps split: if_splits)
  next
    case False
    with run connect_outcomes [of s cfg h] show ?thesis by force
  qed
qed

lemma ensure_redis_running: "ensure_redis E s = (Inr True, t) \<Longrightarrow> running (hredis t)"
  using connect_True_running [of "hredis_lib E" "hredis_cfg E" "hredis s"]
  by (cases "connect (hredis_lib E) (hredis_cfg E) (hredis s)")
    (auto simp: ensure_redis_def em_simps redis_available_def is_connected_def split: if_splits)

lemma ensure_redis_ticks: "keeps hticks (ensure_redis E)"
  by (simp add: keeps_def ensure_redis_def em_simps split: prod.split)

lemma check_session_passes:
  assumes "check_session E token s = (Inr (u, st), s')" and "u \<noteq> []" and "running (hredis s)"
  shows "jwt_verify (hsod E) (hlib E) (unix_time (hclk E) (hticks s)) token (hsecret E) = u \<and>
    (\<exists>r'. redis_get (hredis_lib E) (hredis_cfg E) (''session:'' @ token) (hredis s) = (Inr u, r'))"
  using assms
  by (auto simp: check_session_def Let_def em_simps redis_available_def is_connected_def
      split: if_splits prod.splits sum.splits)

subsection \<open>The statements of a route\<close>

text \<open>The SQL statements a route may send; \<open>Health\<close> sends none.\<close>

fun route_statements :: "route \<Rightarrow> sql set" where
  "route_statements Health = {}"
| "route_statements Send_Otp = {Otp_Upsert}"
| "route_statements Verify_Otp = {Otp_Select, Otp_Increment, Otp_Valid, Otp_Delete, User_Login}"
| "route_statements Register =
     {User_With ''username'', User_With ''email'', User_With ''phone_number'', User_Insert}"
| "route_statements Get_Me = {User_Me}"
| "route_statements Update_Me = range User_Update"
| "route_statements Search_Users = {User_Search}"
| "route_statements (Get_User u) = {User_Public}"
| "route_statements Get_Chats = {Chats_Of}"
| "route_statements Open_Direct = {Direct_Find, Direct_Create, Direct_Members}"
| "route_statements Create_Group = {Group_Create, Group_Owner, Group_Member}"
| "route_statements (Get_Chat_Info c) = {Member_Check, Chat_Select}"
| "route_statements (Get_Messages c) = {Member_Check, Messages_Latest, Messages_Before}"
| "route_statements (Get_Members c) = {Members_List}"
| "route_statements (Add_Member c) = {Member_Add}"
| "route_statements (Remove_Member c u) = {Member_Leave}"
| "route_statements (Search_Messages c) = {Messages_Search}"
| "route_statements (Pin_Message c m) = {Message_Pin}"
| "route_statements (React_Message c m) = {Reaction_Toggle}"
| "route_statements (Mute_Chat c) = {Chat_Mute}"
| "route_statements Chat_Search_Users = {Chat_User_Search}"
| "route_statements Get_Contacts = {Contacts_List}"
| "route_statements Add_Contact = {Contact_Upsert}"
| "route_statements (Remove_Contact c) = {Contact_Delete}"
| "route_statements (Check_Contact c) = {Contact_Check}"
| "route_statements Find_By_Phone = {User_By_Phone}"
| "route_statements Explore_Channels = {Channels_Explore}"
| "route_statements My_Channels = {Channels_Mine}"
| "route_statements Create_Channel = {Channel_Create, Channel_Owner}"
| "route_statements (Get_Channel u) = {Channel_Select}"
| "route_statements (Subscribe_Channel c) = {Channel_Subscribe, Channel_Count_Up}"
| "route_statements (Get_Channel_Posts c) = {Posts_Latest, Posts_Before}"
| "route_statements (Create_Post c) = {Subscriber_Role, Post_Insert}"
| "route_statements (Delete_Post c p) = {Post_Delete}"

text \<open>\<open>holds I\<close>: the predicate \<open>I\<close> holds of the database. A statement keeps it when executing
  it on the server does.\<close>

abbreviation holds :: "('d pgdb \<Rightarrow> bool) \<Rightarrow> ('r, 'd) http \<Rightarrow> bool" where
  "holds I s \<equiv> I (hdb s)"

definition keeps_stmt :: "('d pgdb \<Rightarrow> bool) \<Rightarrow> 'd libpq \<Rightarrow> sql \<Rightarrow> bool" where
  "keeps_stmt I P q \<longleftrightarrow>
     (\<forall>ps db. I db \<longrightarrow> I (db\<lparr>db_server := snd (pq_exec P q ps (db_server db))\<rparr>))"

named_theorems route_frame \<open>computations that keep a predicate of the database server\<close>

lemma holds_db [route_frame]:
  "keeps_stmt I (hpq E) q \<Longrightarrow> maintains (holds I) (db_query E q ps)"
  "keeps_stmt I (hpq E) q \<Longrightarrow> maintains (holds I) (db_exec E q ps)"
  by (auto simp: maintains_def keeps_stmt_def db_query_def db_exec_def em_simps query_def exec_def
      split: prod.split pg_status.split) (metis snd_conv)+

lemma holds_frame: "keeps http_data m \<Longrightarrow> maintains (holds I) m"
  by (simp add: keeps_def maintains_def)

lemma holds_basic [route_frame]:
  "maintains (holds I) (http_time E)" "maintains (holds I) (http_draw f)"
  "maintains (holds I) (body_str E j k d)" "maintains (holds I) (col_str E r c)"
  "maintains (holds I) (first_row rows)" "maintains (holds I) (send_otp_email e c)"
  by (simp_all add: maintains_def http_draw_def body_str_def col_str_def first_row_def em_simps
      send_otp_email_def split: list.split)

lemma holds_redis [route_frame]:
  "maintains (holds I) (http_redis m)" "maintains (holds I) (authenticate_request E h)"
  by (rule holds_frame, rule keeps_http_redis) (rule holds_frame, rule authenticate_frame)

lemma holds_session [route_frame]: "maintains (holds I) (store_redis_session E tok u)"
  unfolding store_redis_session_def
  by (simp add: maintains_def em_simps split: prod.split sum.split)

lemma maintains_branches [route_frame]:
  "maintains J m \<Longrightarrow> maintains J n \<Longrightarrow> maintains J (if b then m else n)"
  "maintains J m \<Longrightarrow> (\<And>x xs. maintains J (k x xs)) \<Longrightarrow> maintains J (case l of [] \<Rightarrow> m | x # xs \<Rightarrow> k x xs)"
  "maintains J m \<Longrightarrow> (\<And>x. maintains J (f x)) \<Longrightarrow> maintains J (case v of None \<Rightarrow> m | Some x \<Rightarrow> f x)"
  "(\<And>x. maintains J (g x)) \<Longrightarrow> (\<And>y. maintains J (h y)) \<Longrightarrow> maintains J (case w of Inl x \<Rightarrow> g x | Inr y \<Rightarrow> h y)"
  "(\<And>a b. maintains J (p a b)) \<Longrightarrow> maintains J (case z of (a, b) \<Rightarrow> p a b)"
  by (simp_all split: list.split option.split sum.split prod.split)

lemma maintains_shapes [route_frame]:
  "(\<And>j. maintains J (k j)) \<Longrightarrow> maintains J (with_json_body E req k)"
  "maintains J m \<Longrightarrow> maintains J (try_500 E m)"
  by (auto simp: with_json_body_def try_500_def intro!: frame_intros split: sum.split)

lemma holds_guarded [route_frame]:
  "(\<And>u. maintains (holds I) (k u req)) \<Longrightarrow> maintains (holds I) (guarded E k req)"
  unfolding guarded_def by (intro frame_intros route_frame)

lemma holds_add_members [route_frame]:
  "keeps_stmt I (hpq E) Group_Member \<Longrightarrow> maintains (holds I) (add_members E cid uid ms)"
  by (induction ms) (auto intro!: frame_intros route_frame)

lemma holds_login [route_frame]:
  "keeps_stmt I (hpq E) User_Login \<Longrightarrow> maintains (holds I) (login_user E e)"
  unfolding login_user_def Let_def by (intro frame_intros route_frame) simp_all

lemma holds_check_otp [route_frame]:
  assumes "keeps_stmt I (hpq E) Otp_Valid" and "keeps_stmt I (hpq E) Otp_Delete"
    and "keeps_stmt I (hpq E) User_Login"
  shows "maintains (holds I) (check_otp E e c r)"
  unfolding check_otp_def by (intro frame_intros route_frame assms)

lemma holds_otp [route_frame]:
  assumes "\<And>q. q \<in> route_statements Verify_Otp \<Longrightarrow> keeps_stmt I (hpq E) q"
  shows "maintains (holds I) (route_verify_otp E req)"
  unfolding route_verify_otp_def by (intro frame_intros route_frame assms) simp_all

lemma holds_register [route_frame]:
  assumes "\<And>q. q \<in> route_statements Register \<Longrightarrow> keeps_stmt I (hpq E) q"
  shows "maintains (holds I) (route_register E req)"
  unfolding route_register_def register_checks_def register_insert_def Let_def
  by (intro frame_intros route_frame assms) simp_all

lemmas route_defs = route_health_def route_send_otp_def route_get_me_def route_update_me_def
  route_search_users_def route_get_user_def route_get_chats_def route_open_direct_def
  route_create_group_def route_get_chat_info_def route_get_messages_def route_get_members_def
  route_add_member_def route_remove_member_def route_search_messages_def route_pin_message_def
  route_react_message_def route_mute_chat_def route_chat_search_users_def route_get_contacts_def
  route_add_contact_def route_remove_contact_def route_check_contact_def route_find_by_phone_def
  route_explore_channels_def route_my_channels_def route_create_channel_def route_get_channel_def
  route_subscribe_channel_def route_get_channel_posts_def route_create_post_def route_delete_post_def

lemma route_holds:
  assumes "\<And>q. q \<in> route_statements r \<Longrightarrow> keeps_stmt I (hpq E) q"
  shows "maintains (holds I) (handle E r req)"
  using assms
  by (cases r; simp only: handle.simps route_statements.simps route_defs member_gate_def Let_def;
      (intro frame_intros route_frame)?; (simp add: route_frame)?)

end
