(* ===== verification/Http_Session.thy ===== *)
theory Http_Session
  imports Http_Props
begin

section \<open>Sessions from sign-in to the gate\<close>

text \<open>
  What a token costs and buys: \<open>store_redis_session\<close> against \<open>authenticate_request\<close> over
  one Redis client. A working client runs a command that has no conversion on one connection and
  gives it back (\<open>run_command_ready\<close>); a token and a user id are such texts (\<open>plain\<close>).
\<close>

subsection \<open>A client that works\<close>

definition redis_ready :: "'r redis_client \<Rightarrow> bool" where
  "redis_ready r \<longleftrightarrow> running r \<and> \<not> pool_locked r \<and>
     (case first_free (conns r) of None \<Rightarrow> False | Some i \<Rightarrow> ctx (conns r ! i) \<noteq> None)"

definition redis_context :: "'r redis_client \<Rightarrow> nat" where
  "redis_context r = the (ctx (conns r ! the (first_free (conns r))))"

lemma redis_ready_server [simp]:
  "redis_ready (r\<lparr>server := w\<rparr>) = redis_ready r" "redis_context (r\<lparr>server := w\<rparr>) = redis_context r"
  by (simp_all add: redis_ready_def redis_context_def split: option.split)

lemma run_command_ready:
  assumes "redis_ready r" and "arg_directives (c_str cmd) = 0"
    and "h_command h (redis_context r) (c_str cmd) [] (server r) = (Some rep, w)"
  shows "run_command h cfg d cmd (\<lambda>t. Inr (f t)) r = (Inr (f (reply_text rep)), r\<lparr>server := w\<rparr>)"
proof -
  obtain i c where i: "first_free (conns r) = Some i" "ctx (conns r ! i) = Some c"
    using assms(1) by (auto simp: redis_ready_def split: option.splits)
  then have c: "redis_context r = c" by (simp add: redis_context_def)
  have free: "i < length (conns r)" "\<not> in_use (conns r ! i)" using first_free_Some [OF i(1)] by simp_all
  then have "(conns r ! i)\<lparr>in_use := False\<rparr> = conns r ! i" by (cases "conns r ! i") simp
  then have released: "(conns r)[i := (conns r ! i)\<lparr>in_use := False\<rparr>] = conns r" by simp
  have "\<not> pool_locked r" using assms(1) by (simp add: redis_ready_def)
  then show ?thesis
    using assms(2,3) i free c released
    by (simp add: run_command_def with_connection_def em_simps acquire_run send_command_def
        command_retry_def redis_command_def set_in_use_def)
qed

subsection \<open>Plain texts\<close>

text \<open>Texts that Redis reads back as one word: not empty, and none of their characters is a space, a
  percent sign or NUL.\<close>

definition plain :: "string \<Rightarrow> bool" where
  "plain s \<longleftrightarrow> s \<noteq> [] \<and> list_all (\<lambda>c. c \<notin> {CHR 0x00, CHR '' '', CHR ''%''}) s"

lemma plain_append: "plain s \<Longrightarrow> list_all (\<lambda>c. c \<notin> {CHR 0x00, CHR '' '', CHR ''%''}) t \<Longrightarrow> plain (s @ t)"
  by (simp add: plain_def)

lemma plain_set: "plain s \<longleftrightarrow> s \<noteq> [] \<and> set s \<inter> {CHR 0x00, CHR '' '', CHR ''%''} = {}"
  by (auto simp: plain_def list_all_iff)

lemma no_nul_c_str: "CHR 0x00 \<notin> set s \<Longrightarrow> c_str s = s"
  by (auto simp: c_str_def takeWhile_eq_all_conv)

lemma no_percent_directives: "CHR ''%'' \<notin> set s \<Longrightarrow> arg_directives s = 0"
  using arg_directives_skip [of s "[]"] by simp

lemma base64url_plain: "set (base64url_encode bs) \<inter> {CHR 0x00, CHR '' '', CHR ''%''} = {}"
proof -
  have "url_alphabet \<inter> {CHR 0x00, CHR '' '', CHR ''%''} = {}"
    by (simp add: url_alphabet_def b64_table_def url_safe_def)
  then show ?thesis using base64url_alphabet [of bs] by blast
qed

lemma jwt_plain: "plain (jwt_create S L now u secret)"
  using base64url_plain [of "bytes_of jwt_header"] base64url_plain [of "bytes_of (j_dump L (jwt_payload now u))"]
    base64url_plain [of "jwt_mac S secret (jwt_hp L now u)"]
  by (auto simp: plain_set jwt_create_def Let_def jwt_hp_def)

lemma session_key_plain: "plain tok \<Longrightarrow> plain (''session:'' @ tok)"
  by (simp add: plain_def)

subsection \<open>Storing and finding a session\<close>

text \<open>
  What the code relies on of Redis and hiredis: a SET with a lifetime is executed, and the value is
  what the GET that comes next returns.
\<close>

definition set_then_get :: "'r hiredis \<Rightarrow> bool" where
  "set_then_get h \<longleftrightarrow>
     (\<forall>c k v ttl w. plain k \<and> plain v \<and> 0 < ttl \<longrightarrow>
       (\<exists>rep w' w''. h_command h c (set_cmd k v ttl) [] w = (Some rep, w') \<and>
          h_command h c (''GET '' @ k) [] w' = (Some (R_String v), w'')))"

lemma plain_command:
  "plain k \<Longrightarrow> plain v \<Longrightarrow> c_str (set_cmd k v 86400) = set_cmd k v 86400"
  "plain k \<Longrightarrow> plain v \<Longrightarrow> arg_directives (set_cmd k v 86400) = 0"
  "plain k \<Longrightarrow> c_str (''GET '' @ k) = ''GET '' @ k"
  "plain k \<Longrightarrow> arg_directives (''GET '' @ k) = 0"
proof -
  have day: "show_int 86400 = ''86400''" by (simp add: show_eval)
  show "plain k \<Longrightarrow> plain v \<Longrightarrow> c_str (set_cmd k v 86400) = set_cmd k v 86400"
    "plain k \<Longrightarrow> plain v \<Longrightarrow> arg_directives (set_cmd k v 86400) = 0"
    by (auto simp: plain_set set_cmd_def day intro!: no_nul_c_str no_percent_directives)
  show "plain k \<Longrightarrow> c_str (''GET '' @ k) = ''GET '' @ k" "plain k \<Longrightarrow> arg_directives (''GET '' @ k) = 0"
    by (rule no_nul_c_str no_percent_directives; auto simp: plain_set)+
qed

lemma session_stored:
  assumes "set_then_get (hredis_lib E)" and "redis_ready (hredis s)" and "plain tok" and "plain u"
  shows "\<exists>w w'. store_redis_session E tok u s = (Inr (), s\<lparr>hredis := (hredis s)\<lparr>server := w\<rparr>\<rparr>) \<and>
    redis_get (hredis_lib E) (hredis_cfg E) (''session:'' @ tok) ((hredis s)\<lparr>server := w\<rparr>) =
      (Inr u, (hredis s)\<lparr>server := w'\<rparr>)"
proof -
  let ?k = "''session:'' @ tok"
  have k: "plain ?k" using assms(3) by (rule session_key_plain)
  obtain rep w w' where
    set: "h_command (hredis_lib E) (redis_context (hredis s)) (set_cmd ?k u 86400) [] (server (hredis s)) = (Some rep, w)"
    and get: "h_command (hredis_lib E) (redis_context (hredis s)) (''GET '' @ ?k) [] w = (Some (R_String u), w')"
    using assms(1) k assms(4) unfolding set_then_get_def by (metis zero_less_numeral)
  have "c_str u = u" using assms(4) by (simp add: plain_set no_nul_c_str)
  then have read: "redis_get (hredis_lib E) (hredis_cfg E) ?k ((hredis s)\<lparr>server := w\<rparr>) =
      (Inr u, (hredis s)\<lparr>server := w'\<rparr>)"
    using assms(2) get plain_command(3,4) [OF k]
    by (simp add: redis_get_def run_command_ready)
  moreover have "redis_set (hredis_lib E) (hredis_cfg E) ?k u 86400 (hredis s) =
      (Inr (reply_text rep = ''OK''), (hredis s)\<lparr>server := w\<rparr>)"
    using assms(2) set plain_command(1,2) [OF k assms(4)]
    by (simp add: redis_set_def run_command_ready)
  moreover have "redis_available s" using assms(2) by (simp add: redis_available_def is_connected_def redis_ready_def)
  ultimately have "store_redis_session E tok u s = (Inr (), s\<lparr>hredis := (hredis s)\<lparr>server := w\<rparr>\<rparr>)"
    by (simp add: store_redis_session_def em_simps)
  with read show ?thesis by blast
qed


lemma authenticate_session:
  assumes "tok \<noteq> []" and "running (hredis s)"
    and "jwt_verify (hsod E) (hlib E) (unix_time (hclk E) (hticks s)) tok (hsecret E) = u" and "u \<noteq> []"
    and "redis_get (hredis_lib E) (hredis_cfg E) (''session:'' @ tok) (hredis s) = (Inr u, r')"
  shows "authenticate_request E (''Bearer '' @ tok) s = (Inr (u, 200), s\<lparr>hticks := Suc (hticks s), hredis := r'\<rparr>)"
  using assms
  by (simp add: authenticate_request_def extract_token_def Let_def ensure_redis_def check_session_def
      redis_available_def is_connected_def em_simps)

subsection \<open>A server for the witnesses\<close>

text \<open>A Redis that keeps the last value set, and returns it to every GET; a JSON library with two
  texts, the claims of a token and the body of a request; a request with that token.\<close>

fun word_at :: "nat \<Rightarrow> string \<Rightarrow> string" where
  "word_at 0 s = takeWhile (\<lambda>c. c \<noteq> CHR '' '') s"
| "word_at (Suc n) s = word_at n (tl (dropWhile (\<lambda>c. c \<noteq> CHR '' '') s))"

definition memo_redis :: "string hiredis" where
  "memo_redis =
     \<lparr> h_connect = (\<lambda>h p w. (Some 0, w)), h_err = (\<lambda>c w. False), h_free = (\<lambda>c w. w),
       h_command = (\<lambda>c f a w. if word_at 0 f = ''SET'' then (Some (R_Status ''OK''), word_at 2 f)
                              else (Some (R_String w), w)) \<rparr>"

lemma one_word:
  "CHR '' '' \<notin> set a \<Longrightarrow> takeWhile (\<lambda>c. c \<noteq> CHR '' '') (a @ CHR '' '' # t) = a"
  "CHR '' '' \<notin> set a \<Longrightarrow> dropWhile (\<lambda>c. c \<noteq> CHR '' '') (a @ CHR '' '' # t) = CHR '' '' # t"
  by (induction a) auto

lemma memo_redis_ok: "set_then_get memo_redis"
proof -
  have "word_at 0 (set_cmd k v ttl) = ''SET''" "word_at 2 (set_cmd k v ttl) = v"
    if "plain k" "plain v" "0 < ttl" for k v ttl
    using that by (auto simp: plain_set set_cmd_def one_word numeral_2_eq_2)
  then show ?thesis by (simp add: set_then_get_def memo_redis_def)
qed

text \<open>A hash whose text has no NUL.\<close>

definition demo_sodium :: sodium where
  "demo_sodium = toy_sodium\<lparr>generichash := (\<lambda>m. take 32 (m @ replicate 32 97))\<rparr>"

lemma demo_sodium_ok: "hmac_ok demo_sodium"
  using toy_sodium_ok(2) by (simp add: hmac_ok_def demo_sodium_def)

definition demo_json :: "json \<Rightarrow> json_lib" where
  "demo_json body = doc_json
     (\<lambda>s. if s = ''p'' then Inr (jwt_payload 100 ''u1'') else if s = ''b'' then Inr body else Inl Parse_Error)
     (\<lambda>j. ''p'')"

definition demo_henv :: "json \<Rightarrow> 'd libpq \<Rightarrow> (string, 'd) henv" where
  "demo_henv body P =
     \<lparr>hlib = demo_json body, hsod = demo_sodium, hclk = \<lparr>unix_time = (\<lambda>n. 100), sys_clock = (\<lambda>n. 0)\<rparr>,
      hredis_lib = memo_redis, hpq = P, hredis_cfg = cfg_default, hsecret = ''key''\<rparr>"

definition demo_client :: "string redis_client" where
  "demo_client = (redis_new cfg_default ''u1'')\<lparr>conns := [\<lparr>ctx = Some 0, in_use = False\<rparr>], running := True\<rparr>"

definition demo_http :: "'d \<Rightarrow> (string, 'd) http" where
  "demo_http d = \<lparr>hredis = demo_client, hdb = \<lparr>db_conn = True, db_server = d\<rparr>, hticks = 0, hdraws = 0, otp_log = []\<rparr>"

definition demo_pq :: "unit libpq" where
  "demo_pq = \<lparr>pq_connect = (\<lambda>url d. (True, d)), pq_alive = (\<lambda>d. True),
     pq_exec = (\<lambda>q ps d. (\<lparr>pg_status = Tuples_Ok, pg_names = [''id''], pg_rows = [[Some ''u1'']], pg_tag = []\<rparr>, d))\<rparr>"

definition demo_token :: string where
  "demo_token = jwt_create demo_sodium (demo_json JNull) 100 ''u1'' ''key''"

definition demo_request :: request where
  "demo_request = \<lparr>req_body = ''b'', authorization = ''Bearer '' @ demo_token, url_param = (\<lambda>_. None)\<rparr>"

lemma demo_client_ready: "redis_ready demo_client" "hredis (demo_http d) = demo_client"
  by (simp_all add: demo_client_def demo_http_def redis_ready_def redis_new_def)

lemma demo_json_ok: "json_accessors_ok (demo_json b)" "json_roundtrips (demo_json b) (jwt_payload 100 ''u1'')"
  by (simp_all add: demo_json_def json_roundtrips_def) (simp add: doc_json_def)

lemma demo_token_eq: "jwt_create demo_sodium (demo_json b) 100 ''u1'' ''key'' = demo_token"
  by (simp add: demo_token_def jwt_create_def jwt_hp_def demo_json_def doc_json_def)

lemma demo_verify: "jwt_verify demo_sodium (demo_json b) 100 demo_token ''key'' = ''u1''"
  using jwt_verify_created [OF demo_sodium_ok demo_json_ok, of b 100 "''key''" "''key''"]
  by (simp add: demo_token_eq)

lemma demo_get_session:
  "redis_get memo_redis cfg_default (''session:'' @ demo_token) demo_client = (Inr ''u1'', demo_client)"
proof -
  have k: "plain (''session:'' @ demo_token)"
    unfolding demo_token_def by (intro session_key_plain jwt_plain)
  have u: "c_str ''u1'' = ''u1''" by (simp add: c_str_def)
  have "server demo_client = ''u1''" by (simp add: demo_client_def redis_new_def)
  then have "h_command memo_redis c (''GET '' @ key) [] (server demo_client) =
      (Some (R_String ''u1''), server demo_client)" for c key
    by (simp add: memo_redis_def)
  then show ?thesis
    unfolding redis_get_def
    using run_command_ready [OF demo_client_ready(1), of "''GET '' @ ''session:'' @ demo_token" memo_redis
        "R_String ''u1''" "server demo_client" cfg_default "[]" "\<lambda>t. t"] plain_command(3,4) [OF k] u
    by simp
qed

lemma demo_authenticated:
  assumes "hredis s = demo_client"
  shows "authenticate_request (demo_henv b P) (authorization demo_request) s =
    (Inr (''u1'', 200), s\<lparr>hticks := Suc (hticks s)\<rparr>)"
proof -
  have "demo_token \<noteq> []" using jwt_plain by (auto simp: demo_token_def plain_def)
  moreover have "running demo_client" using demo_client_ready(1) by (simp add: redis_ready_def)
  moreover have "s\<lparr>hticks := n, hredis := demo_client\<rparr> = s\<lparr>hticks := n\<rparr>" for n
    using assms by (cases s) simp
  ultimately show ?thesis
    using authenticate_session [of demo_token s "demo_henv b P" "''u1''" demo_client] assms
      demo_get_session
    by (simp add: demo_request_def demo_henv_def demo_verify)
qed

section \<open>Properties of authentication\<close>



text \<open>C2: A request without a valid session reaches no handler: every route but the four public ones
  answers it with 401 or 503 and leaves the database, the codes sent and the random generator as they
  are. The 503 needs a Redis configured without attempts: with at least one, \<open>connect\<close> never
  reports a failure (it connects or blocks), so the reply is 401.\<close>

theorem refused_requests:
  assumes "\<not> public_route r" and "authenticate_request E (authorization req) s = (Inr ([], st), s')"
    and "\<not> pool_locked (hredis s)" and "0 < max_retries (hredis_cfg E)"
  shows "handle E r req s = (Inr (error_resp E 401 ''Unauthorized''), s') \<and> st = 401 \<and>
    http_data s' = http_data s"
proof -
  have "fst (ensure_redis E s) \<noteq> Inr False"
    using connect_outcomes [of "hredis s" "hredis_cfg E" "hredis_lib E"] assms(3,4)
    by (auto simp: ensure_redis_def em_simps redis_available_def is_connected_def split: prod.split)
  then have "st = 401"
    using assms(2)
    by (auto simp: authenticate_request_def Let_def em_simps check_session_def split: if_splits prod.splits sum.splits)
  moreover obtain k where "handle E r = guarded E k" using handle_guarded [OF assms(1)] by blast
  ultimately show ?thesis
    using guarded_run [OF assms(2)] gate.auth_data [OF assms(2)] by simp
qed

theorem refused_requests_witness:
  "let req = demo_request\<lparr>authorization := ''Basic x''\<rparr>; E = demo_henv JNull demo_pq in
   handle E (Delete_Post ''c'' ''p'') req (demo_http ()) = (Inr (error_resp E 401 ''Unauthorized''), demo_http ())"
proof -
  have auth: "authenticate_request (demo_henv JNull demo_pq) (authorization (demo_request\<lparr>authorization := ''Basic x''\<rparr>))
      (demo_http ()) = (Inr ([], 401), demo_http ())"
    by (simp add: authenticate_request_def extract_token_def em_simps)
  have free: "\<not> pool_locked (hredis (demo_http ()))"
    by (simp add: demo_http_def demo_client_def redis_new_def)
  have tries: "0 < max_retries (hredis_cfg (demo_henv JNull demo_pq))"
    by (simp add: demo_henv_def cfg_default_def)
  show ?thesis
    using refused_requests [OF _ auth free tries, of "Delete_Post ''c'' ''p''"]
    by (simp add: Let_def public_route_def)
qed

text \<open>C22: Signing in opens a session: when the user's row is found and Redis works, \<open>login_user\<close>
  (the end of \<open>verify-otp\<close>) replies with a token, and a request with that token made next, within
  the token's 30 days, is authenticated as that user.\<close>

theorem login_then_authenticated:
  assumes "db_query E User_Login [email] s = (Inr (row # rows), s1)" and "col_str E row ''id'' s1 = (Inr uid, s1)"
    and "redis_ready (hredis s)" and "set_then_get (hredis_lib E)" and "plain uid"
    and "hmac_ok (hsod E)" and "json_accessors_ok (hlib E)"
    and "json_roundtrips (hlib E) (jwt_payload (unix_time (hclk E) (hticks s)) uid)"
    and "unix_time (hclk E) (Suc (hticks s)) \<le> unix_time (hclk E) (hticks s) + 2592000"
  shows "\<exists>token s2 s3. login_user E email s =
      (Inr (json_resp E 200 (jobj [(''token'', JStr token), (''needsRegistration'', JBool False),
         (''user'', jobj [(''id'', JStr uid), (''username'', col row ''username''),
                          (''displayName'', col row ''display_name'')])])), s2) \<and>
    authenticate_request E (''Bearer '' @ token) s2 = (Inr (uid, 200), s3)"
proof -
  define tok where "tok = jwt_create (hsod E) (hlib E) (unix_time (hclk E) (hticks s)) uid (hsecret E)"
  have same: "hredis s1 = hredis s" "hticks s1 = hticks s"
    using assms(1) by (auto simp: db_query_def em_simps split: prod.splits)
  define s2 where "s2 = s1\<lparr>hticks := Suc (hticks s)\<rparr>"
  have tok: "plain tok" unfolding tok_def by (rule jwt_plain)
  obtain w w' where w: "store_redis_session E tok uid s2 = (Inr (), s2\<lparr>hredis := (hredis s2)\<lparr>server := w\<rparr>\<rparr>)"
    "redis_get (hredis_lib E) (hredis_cfg E) (''session:'' @ tok) ((hredis s2)\<lparr>server := w\<rparr>) =
      (Inr uid, (hredis s2)\<lparr>server := w'\<rparr>)"
    using session_stored [OF assms(4) _ tok assms(5), of s2] assms(3) same by (auto simp: s2_def)
  let ?s3 = "s2\<lparr>hredis := (hredis s2)\<lparr>server := w\<rparr>\<rparr>"
  have "jwt_verify (hsod E) (hlib E) (unix_time (hclk E) (Suc (hticks s))) tok (hsecret E) = uid"
    unfolding tok_def using assms(9) by (simp add: jwt_verify_created [OF assms(6-8)])
  then have "authenticate_request E (''Bearer '' @ tok) ?s3 =
      (Inr (uid, 200), ?s3\<lparr>hticks := Suc (hticks ?s3), hredis := (hredis s2)\<lparr>server := w'\<rparr>\<rparr>)"
    using tok assms(3,5) same w(2)
    by (intro authenticate_session) (auto simp: plain_def s2_def redis_ready_def)
  moreover have "login_user E email s =
      (Inr (json_resp E 200 (jobj [(''token'', JStr tok), (''needsRegistration'', JBool False),
         (''user'', jobj [(''id'', JStr uid), (''username'', col row ''username''),
                          (''displayName'', col row ''display_name'')])])), ?s3)"
    using assms(1,2) w(1) same
    by (simp add: login_user_def em_simps Let_def tok_def [symmetric] s2_def [symmetric])
  ultimately show ?thesis by blast
qed

theorem login_then_authenticated_witness:
  "let E = demo_henv JNull demo_pq; row = JObj [(''id'', JStr ''u1'')] in
   \<exists>token s2 s3. login_user E ''a@b.c'' (demo_http ()) =
      (Inr (json_resp E 200 (jobj [(''token'', JStr token), (''needsRegistration'', JBool False),
         (''user'', jobj [(''id'', JStr ''u1''), (''username'', col row ''username''),
                          (''displayName'', col row ''display_name'')])])), s2) \<and>
    authenticate_request E (''Bearer '' @ token) s2 = (Inr (''u1'', 200), s3)"
proof -
  let ?E = "demo_henv JNull demo_pq" and ?row = "JObj [(''id'', JStr ''u1'')]"
  have q: "db_query ?E User_Login [''a@b.c''] (demo_http ()) = (Inr (?row # []), demo_http ())"
    by (simp add: db_query_def em_simps query_def demo_http_def demo_henv_def demo_pq_def row_json_def
        cell_def c_str_def)
  have c: "col_str ?E ?row ''id'' (demo_http ()) = (Inr ''u1'', demo_http ())"
    by (simp add: col_str_def em_simps col_def demo_henv_def demo_json_def doc_json_def doc_get_str_def)
  have env: "hredis_lib ?E = memo_redis" "hsod ?E = demo_sodium" "hlib ?E = demo_json JNull"
    "unix_time (hclk ?E) n = 100" for n
    by (simp_all add: demo_henv_def)
  show ?thesis
    unfolding Let_def
    by (rule login_then_authenticated [OF q c])
      (simp_all add: env demo_client_ready memo_redis_ok demo_json_ok demo_sodium_ok, simp add: plain_def)
qed

end
