(* ===== verification/Tables.thy ===== *)
theory Tables
  imports Http_Channels
begin

section \<open>What the statements do to the tables\<close>

text \<open>
  The SQL of the sources read as operations on tables: each statement is a function \<open>st_...\<close> from its
  positional parameters and the tables to its result and the tables afterwards, with the UNIQUE and
  foreign-key constraints of the schema it meets; here those that write and the lookups, in
  \<open>Listings\<close> the others. What PostgreSQL contributes is a parameter \<open>pg\<close>: reading a UUID, new
  identifiers, failures of its own (\<open>fault\<close>, which covers lost connections, length limits and CHECKs),
  pattern matching with ILIKE, the sort keys of the collation, the text of a time and its reading, and
  the order in which it visits the rows of a query, which SQL leaves open. Times are integers in the
  unit of the server's clock \<open>pg_now\<close>. A failing statement changes nothing.
\<close>

subsection \<open>Tables\<close>

record user_row =
  usr_id :: string
  usr_name :: string
  usr_email :: string
  usr_phone :: "string option"
  usr_display :: "string option"
  usr_bio :: "string option"
  usr_avatar :: "string option"
  usr_status_text :: "string option"
  usr_status :: "string option"
  usr_created :: int
  usr_deleted :: bool

record otp_row =
  otp_email :: string
  otp_code :: string
  otp_attempts :: int
  otp_expires :: int

record chat_row =
  chat_key :: string
  chat_kind :: string
  chat_name :: "string option"
  chat_desc :: "string option"
  chat_avatar :: "string option"
  chat_creator :: string
  chat_created :: int
  chat_updated :: int

record member_row =
  mem_chat :: string
  mem_user :: string
  mem_role :: string
  mem_admin :: bool
  mem_joined :: int
  mem_left :: "int option"
  mem_muted :: "int option"

record message_row =
  msg_key :: string
  msg_chat :: string
  msg_sender :: "string option"
  msg_reply :: "string option"
  msg_content :: string
  msg_type :: "string option"
  msg_edited :: bool
  msg_pinned :: bool
  msg_deleted :: bool
  msg_created :: int

record delivery_row =
  del_message :: string
  del_user :: string
  del_status :: "string option"

record contact_row =
  con_user :: string
  con_contact :: string
  con_nickname :: string
  con_favorite :: bool
  con_blocked :: bool

record channel_row =
  chn_key :: string
  chn_username :: string
  chn_title :: string
  chn_desc :: "string option"
  chn_avatar :: "string option"
  chn_public :: bool
  chn_count :: int
  chn_owner :: string

record sub_row =
  sub_channel :: string
  sub_user :: string
  sub_role :: string

record post_row =
  post_key :: string
  post_channel :: string
  post_content :: string
  post_media :: string
  post_paid :: bool
  post_author :: string
  post_created :: int

record tables =
  users :: "user_row list"
  otps :: "otp_row list"
  chats :: "chat_row list"
  members :: "member_row list"
  messages :: "message_row list"
  deliveries :: "delivery_row list"
  contacts :: "contact_row list"
  channels :: "channel_row list"
  subs :: "sub_row list"
  posts :: "post_row list"
  id_count :: nat
  pg_now :: int

record pg =
  uuid :: "string \<Rightarrow> string option"
  new_id :: "nat \<Rightarrow> string"
  fault :: "sql \<Rightarrow> string list \<Rightarrow> tables \<Rightarrow> string option"
  ilike :: "string \<Rightarrow> string \<Rightarrow> bool"
  collate :: "string \<Rightarrow> string"
  time_text :: "int \<Rightarrow> string"
  time_read :: "string \<Rightarrow> int option"
  scan :: "sql \<Rightarrow> string list \<Rightarrow> tables \<Rightarrow> nat list"

type_synonym stmt = "string list \<Rightarrow> tables \<Rightarrow> pg_result \<times> tables"

subsection \<open>Results\<close>

definition pg_fail :: "string \<Rightarrow> pg_result" where
  "pg_fail e = \<lparr>pg_status = Pg_Error e, pg_names = [], pg_rows = [], pg_tag = []\<rparr>"

definition pg_done :: "nat \<Rightarrow> pg_result" where
  "pg_done n = \<lparr>pg_status = Command_Ok, pg_names = [], pg_rows = [], pg_tag = show_nat n\<rparr>"

definition pg_tuples :: "string list \<Rightarrow> string option list list \<Rightarrow> pg_result" where
  "pg_tuples ns rs = \<lparr>pg_status = Tuples_Ok, pg_names = ns, pg_rows = rs, pg_tag = show_nat (length rs)\<rparr>"

text \<open>A parameter that is read as a UUID, and one of each arity.\<close>

definition as_uuid :: "pg \<Rightarrow> string \<Rightarrow> (string \<Rightarrow> tables \<Rightarrow> pg_result \<times> tables) \<Rightarrow> tables \<Rightarrow> pg_result \<times> tables" where
  "as_uuid W p k t =
     (case uuid W p of None \<Rightarrow> (pg_fail ''invalid input syntax for type uuid'', t) | Some i \<Rightarrow> k i t)"

definition params1 :: "(string \<Rightarrow> tables \<Rightarrow> pg_result \<times> tables) \<Rightarrow> stmt" where
  "params1 k ps t = (case ps of [a] \<Rightarrow> k a t | _ \<Rightarrow> (pg_fail ''bind message parameters'', t))"

definition params2 :: "(string \<Rightarrow> string \<Rightarrow> tables \<Rightarrow> pg_result \<times> tables) \<Rightarrow> stmt" where
  "params2 k ps t = (case ps of [a, b] \<Rightarrow> k a b t | _ \<Rightarrow> (pg_fail ''bind message parameters'', t))"

definition params3 :: "(string \<Rightarrow> string \<Rightarrow> string \<Rightarrow> tables \<Rightarrow> pg_result \<times> tables) \<Rightarrow> stmt" where
  "params3 k ps t = (case ps of [a, b, c] \<Rightarrow> k a b c t | _ \<Rightarrow> (pg_fail ''bind message parameters'', t))"

lemma params_run [simp]:
  "params1 k1 [a] t = k1 a t" "params2 k2 [a, b] t = k2 a b t" "params3 k3 [a, b, c] t = k3 a b c t"
  by (simp_all add: params1_def params2_def params3_def)

subsection \<open>One-time codes\<close>

definition otp_rows :: "string \<Rightarrow> tables \<Rightarrow> otp_row list" where
  "otp_rows e t = filter (\<lambda>r. otp_email r = e) (otps t)"

definition st_otp_upsert :: stmt where
  "st_otp_upsert = params3 (\<lambda>e h x t.
     case strtol 10 x of
       None \<Rightarrow> (pg_fail ''invalid input syntax for type double precision'', t)
     | Some v \<Rightarrow>
         (pg_done 1,
          t\<lparr>otps := (if otp_rows e t = []
             then otps t @ [\<lparr>otp_email = e, otp_code = h, otp_attempts = 0, otp_expires = v\<rparr>]
             else map (\<lambda>r. if otp_email r = e then r\<lparr>otp_code := h, otp_expires := v, otp_attempts := 0\<rparr>
                            else r) (otps t))\<rparr>))"

definition st_otp_select :: "pg \<Rightarrow> stmt" where
  "st_otp_select W = params1 (\<lambda>e t.
     (pg_tuples [''code_hash'', ''expires_at'', ''attempts'']
        (map (\<lambda>r. [Some (otp_code r), Some (time_text W (otp_expires r)), Some (show_int (otp_attempts r))])
          (otp_rows e t)), t))"

definition st_otp_increment :: stmt where
  "st_otp_increment = params1 (\<lambda>e t.
     (pg_done (length (otp_rows e t)),
      t\<lparr>otps := map (\<lambda>r. if otp_email r = e then r\<lparr>otp_attempts := otp_attempts r + 1\<rparr> else r) (otps t)\<rparr>))"

definition st_otp_valid :: stmt where
  "st_otp_valid = params1 (\<lambda>e t.
     (pg_tuples [''valid'']
        (map (\<lambda>r. [Some (if pg_now t < otp_expires r then ''t'' else ''f'')]) (otp_rows e t)), t))"

definition st_otp_delete :: stmt where
  "st_otp_delete = params1 (\<lambda>e t.
     (pg_done (length (otp_rows e t)), t\<lparr>otps := filter (\<lambda>r. otp_email r \<noteq> e) (otps t)\<rparr>))"

subsection \<open>Users\<close>

definition st_user_login :: stmt where
  "st_user_login = params1 (\<lambda>e t.
     (pg_tuples [''id'', ''username'', ''display_name'']
        (map (\<lambda>u. [Some (usr_id u), Some (usr_name u), usr_display u])
          (filter (\<lambda>u. usr_email u = e) (users t))), t))"

definition user_with :: "string \<Rightarrow> string \<Rightarrow> user_row \<Rightarrow> bool" where
  "user_with column v u =
     (if column = ''username'' then usr_name u = v
      else if column = ''email'' then usr_email u = v
      else usr_phone u = Some v)"

definition st_user_with :: "string \<Rightarrow> stmt" where
  "st_user_with column = params1 (\<lambda>v t.
     (pg_tuples [''id''] (map (\<lambda>u. [Some (usr_id u)]) (filter (user_with column v) (users t))), t))"

text \<open>\<open>phone_number\<close> is NULL for the empty text; NULLs do not collide.\<close>

definition user_clash :: "user_row \<Rightarrow> user_row \<Rightarrow> bool" where
  "user_clash u v \<longleftrightarrow> usr_id u = usr_id v \<or> usr_name u = usr_name v \<or> usr_email u = usr_email v \<or>
     (usr_phone u \<noteq> None \<and> usr_phone u = usr_phone v)"

text \<open>The row of a new account: the defaults of the schema for what the statement does not give.\<close>

definition user_new :: "pg \<Rightarrow> tables \<Rightarrow> string \<Rightarrow> string \<Rightarrow> string \<Rightarrow> string \<Rightarrow> user_row" where
  "user_new W t name email phone display =
     \<lparr>usr_id = new_id W (id_count t), usr_name = name, usr_email = email,
      usr_phone = (if phone = [] then None else Some phone), usr_display = Some display,
      usr_bio = None, usr_avatar = None, usr_status_text = None, usr_status = Some ''offline'',
      usr_created = pg_now t, usr_deleted = False\<rparr>"

definition st_user_insert :: "pg \<Rightarrow> stmt" where
  "st_user_insert W ps t =
     (case ps of
        [name, email, phone, display, pk] \<Rightarrow>
          (let u = user_new W t name email phone display
           in if list_ex (user_clash u) (users t)
              then (pg_fail ''duplicate key value violates unique constraint'', t\<lparr>id_count := Suc (id_count t)\<rparr>)
              else (pg_tuples [''id''] [[Some (usr_id u)]],
                    t\<lparr>users := users t @ [u], id_count := Suc (id_count t)\<rparr>))
      | _ \<Rightarrow> (pg_fail ''bind message parameters'', t))"

text \<open>\<open>UPDATE users SET column = value, ... WHERE id = last\<close>.\<close>

fun set_columns :: "(string \<times> string) list \<Rightarrow> user_row \<Rightarrow> user_row" where
  "set_columns [] u = u"
| "set_columns ((c, v) # cvs) u =
     set_columns cvs
       (if c = ''display_name'' then u\<lparr>usr_display := Some v\<rparr>
        else if c = ''bio'' then u\<lparr>usr_bio := Some v\<rparr>
        else if c = ''avatar_url'' then u\<lparr>usr_avatar := Some v\<rparr>
        else if c = ''status_text'' then u\<lparr>usr_status_text := Some v\<rparr>
        else u\<lparr>usr_phone := Some v\<rparr>)"

definition st_user_update :: "pg \<Rightarrow> string list \<Rightarrow> stmt" where
  "st_user_update W columns ps t =
     (if ps = [] \<or> length ps \<noteq> Suc (length columns) then (pg_fail ''bind message parameters'', t)
      else
        as_uuid W (last ps) (\<lambda>i t.
          let new = map (\<lambda>u. if usr_id u = i then set_columns (zip columns ps) u else u) (users t) in
          if list_ex (\<lambda>u. list_ex (\<lambda>v. usr_id v \<noteq> usr_id u \<and> usr_phone u \<noteq> None \<and> usr_phone u = usr_phone v) new) new
          then (pg_fail ''duplicate key value violates unique constraint'', t)
          else (pg_done (length (filter (\<lambda>u. usr_id u = i) (users t))), t\<lparr>users := new\<rparr>)) t)"

subsection \<open>Chats and their members\<close>

definition is_member_row :: "string \<Rightarrow> string \<Rightarrow> member_row \<Rightarrow> bool" where
  "is_member_row c u r \<longleftrightarrow> mem_chat r = c \<and> mem_user r = u"

definition st_member_check :: "pg \<Rightarrow> stmt" where
  "st_member_check W = params2 (\<lambda>c u. as_uuid W c (\<lambda>c. as_uuid W u (\<lambda>u t.
     (pg_tuples [''?column?'']
        (map (\<lambda>_. [Some ''1'']) (filter (\<lambda>r. is_member_row c u r \<and> mem_left r = None) (members t))), t))))"

definition st_direct_find :: "pg \<Rightarrow> stmt" where
  "st_direct_find W = params2 (\<lambda>a b. as_uuid W a (\<lambda>a. as_uuid W b (\<lambda>b t.
     (pg_tuples [''id'']
        (take 1 (map (\<lambda>c. [Some (chat_key c)])
          (filter (\<lambda>c. chat_kind c = ''private'' \<and>
              list_ex (is_member_row (chat_key c) a) (members t) \<and>
              list_ex (is_member_row (chat_key c) b) (members t)) (chats t)))), t))))"

definition user_exists :: "string \<Rightarrow> tables \<Rightarrow> bool" where
  "user_exists u t = list_ex (\<lambda>r. usr_id r = u) (users t)"

definition chat_exists :: "string \<Rightarrow> tables \<Rightarrow> bool" where
  "chat_exists c t = list_ex (\<lambda>r. chat_key r = c) (chats t)"

definition chat_new :: "int \<Rightarrow> string \<Rightarrow> string \<Rightarrow> (string \<times> string) option \<Rightarrow> string \<Rightarrow> chat_row" where
  "chat_new now i kind name_desc creator =
     \<lparr>chat_key = i, chat_kind = kind, chat_name = map_option fst name_desc, chat_desc = map_option snd name_desc,
      chat_avatar = None, chat_creator = creator, chat_created = now, chat_updated = now\<rparr>"

definition insert_chat ::
    "pg \<Rightarrow> string \<Rightarrow> (string \<times> string) option \<Rightarrow> string \<Rightarrow> tables \<Rightarrow> pg_result \<times> tables" where
  "insert_chat W kind name_desc creator t =
     (let i = new_id W (id_count t); t' = t\<lparr>id_count := Suc (id_count t)\<rparr> in
      if chat_exists i t then (pg_fail ''duplicate key value violates unique constraint'', t')
      else if \<not> user_exists creator t then (pg_fail ''violates foreign key constraint'', t')
      else (pg_tuples [''id''] [[Some i]],
            t'\<lparr>chats := chats t @ [chat_new (pg_now t) i kind name_desc creator]\<rparr>))"

definition st_direct_create :: "pg \<Rightarrow> stmt" where
  "st_direct_create W = params1 (\<lambda>u. as_uuid W u (insert_chat W ''private'' None))"

definition st_group_create :: "pg \<Rightarrow> stmt" where
  "st_group_create W = params3 (\<lambda>name desc u. as_uuid W u (insert_chat W ''group'' (Some (name, desc))))"

definition member_new :: "int \<Rightarrow> string \<Rightarrow> string \<Rightarrow> string \<Rightarrow> bool \<Rightarrow> member_row" where
  "member_new now c u role admin =
     \<lparr>mem_chat = c, mem_user = u, mem_role = role, mem_admin = admin, mem_joined = now,
      mem_left = None, mem_muted = None\<rparr>"

text \<open>The constraints a new membership row must meet, and the insertion of several rows in one
  statement: all or none.\<close>

definition member_error :: "member_row \<Rightarrow> tables \<Rightarrow> string option" where
  "member_error r t =
     (if list_ex (is_member_row (mem_chat r) (mem_user r)) (members t)
      then Some ''duplicate key value violates unique constraint''
      else if \<not> chat_exists (mem_chat r) t \<or> \<not> user_exists (mem_user r) t
      then Some ''violates foreign key constraint''
      else None)"

fun insert_members :: "member_row list \<Rightarrow> tables \<Rightarrow> string + tables" where
  "insert_members [] t = Inr t"
| "insert_members (r # rs) t =
     (case member_error r t of
        Some e \<Rightarrow> Inl e
      | None \<Rightarrow> insert_members rs (t\<lparr>members := members t @ [r]\<rparr>))"

definition members_stmt :: "member_row list \<Rightarrow> tables \<Rightarrow> pg_result \<times> tables" where
  "members_stmt rs t =
     (case insert_members rs t of Inl e \<Rightarrow> (pg_fail e, t) | Inr t' \<Rightarrow> (pg_done (length rs), t'))"

definition st_direct_members :: "pg \<Rightarrow> stmt" where
  "st_direct_members W = params3 (\<lambda>c a b. as_uuid W c (\<lambda>c. as_uuid W a (\<lambda>a. as_uuid W b (\<lambda>b t.
     members_stmt [member_new (pg_now t) c a ''member'' False, member_new (pg_now t) c b ''member'' False] t))))"

definition st_group_owner :: "pg \<Rightarrow> stmt" where
  "st_group_owner W = params2 (\<lambda>c u. as_uuid W c (\<lambda>c. as_uuid W u (\<lambda>u t.
     members_stmt [member_new (pg_now t) c u ''owner'' True] t)))"

definition st_group_member :: "pg \<Rightarrow> stmt" where
  "st_group_member W = params2 (\<lambda>c u. as_uuid W c (\<lambda>c. as_uuid W u (\<lambda>u t.
     if list_ex (is_member_row c u) (members t) then (pg_done 0, t)
     else members_stmt [member_new (pg_now t) c u ''member'' False] t)))"

definition st_member_add :: "pg \<Rightarrow> stmt" where
  "st_member_add W = params2 (\<lambda>c u. as_uuid W c (\<lambda>c. as_uuid W u (\<lambda>u t.
     if list_ex (is_member_row c u) (members t)
     then (pg_done 1, t\<lparr>members := map (\<lambda>r. if is_member_row c u r then r\<lparr>mem_left := None\<rparr> else r) (members t)\<rparr>)
     else members_stmt [member_new (pg_now t) c u ''member'' False] t)))"

definition st_member_leave :: "pg \<Rightarrow> stmt" where
  "st_member_leave W = params2 (\<lambda>c u. as_uuid W c (\<lambda>c. as_uuid W u (\<lambda>u t.
     (pg_done (length (filter (is_member_row c u) (members t))),
      t\<lparr>members := map (\<lambda>r. if is_member_row c u r then r\<lparr>mem_left := Some (pg_now t)\<rparr> else r) (members t)\<rparr>))))"

definition one_year :: int where
  "one_year = 31536000"

definition st_chat_mute :: "pg \<Rightarrow> stmt" where
  "st_chat_mute W = params2 (\<lambda>c u. as_uuid W c (\<lambda>c. as_uuid W u (\<lambda>u t.
     (pg_done (length (filter (is_member_row c u) (members t))),
      t\<lparr>members := map (\<lambda>r. if is_member_row c u r
          then r\<lparr>mem_muted := (case mem_muted r of
                   None \<Rightarrow> Some (pg_now t + one_year)
                 | Some m \<Rightarrow> if m < pg_now t then Some (pg_now t + one_year) else None)\<rparr>
          else r) (members t)\<rparr>))))"

definition st_message_pin :: "pg \<Rightarrow> stmt" where
  "st_message_pin W = params1 (\<lambda>m. as_uuid W m (\<lambda>m t.
     (pg_done (length (filter (\<lambda>r. msg_key r = m) (messages t))),
      t\<lparr>messages := map (\<lambda>r. if msg_key r = m then r\<lparr>msg_pinned := \<not> msg_pinned r\<rparr> else r) (messages t)\<rparr>)))"

text \<open>PostgreSQL's grammar knows \<open>DO NOTHING\<close> and \<open>DO UPDATE\<close> after ON CONFLICT; the statement
  of the reaction route is a syntax error.\<close>

definition st_reaction_toggle :: stmt where
  "st_reaction_toggle ps t = (pg_fail ''syntax error at or near DELETE'', t)"

subsection \<open>Contacts\<close>

definition is_contact_row :: "string \<Rightarrow> string \<Rightarrow> contact_row \<Rightarrow> bool" where
  "is_contact_row u c r \<longleftrightarrow> con_user r = u \<and> con_contact r = c"

definition contact_new :: "string \<Rightarrow> string \<Rightarrow> string \<Rightarrow> contact_row" where
  "contact_new u c n =
     \<lparr>con_user = u, con_contact = c, con_nickname = n, con_favorite = False, con_blocked = False\<rparr>"

definition st_contact_upsert :: "pg \<Rightarrow> stmt" where
  "st_contact_upsert W = params3 (\<lambda>u c n. as_uuid W u (\<lambda>u. as_uuid W c (\<lambda>c t.
     if list_ex (is_contact_row u c) (contacts t)
     then (pg_done 1, t\<lparr>contacts := map (\<lambda>r. if is_contact_row u c r then r\<lparr>con_nickname := n\<rparr> else r) (contacts t)\<rparr>)
     else if \<not> user_exists u t \<or> \<not> user_exists c t then (pg_fail ''violates foreign key constraint'', t)
     else (pg_done 1, t\<lparr>contacts := contacts t @ [contact_new u c n]\<rparr>))))"

definition st_contact_delete :: "pg \<Rightarrow> stmt" where
  "st_contact_delete W = params2 (\<lambda>u c. as_uuid W u (\<lambda>u. as_uuid W c (\<lambda>c t.
     (pg_done (length (filter (is_contact_row u c) (contacts t))),
      t\<lparr>contacts := filter (\<lambda>r. \<not> is_contact_row u c r) (contacts t)\<rparr>))))"

definition st_contact_check :: "pg \<Rightarrow> stmt" where
  "st_contact_check W = params2 (\<lambda>u c. as_uuid W u (\<lambda>u. as_uuid W c (\<lambda>c t.
     (pg_tuples [''?column?''] (map (\<lambda>_. [Some ''1'']) (filter (is_contact_row u c) (contacts t))), t))))"

subsection \<open>Channels\<close>

definition channel_exists :: "string \<Rightarrow> tables \<Rightarrow> bool" where
  "channel_exists c t = list_ex (\<lambda>r. chn_key r = c) (channels t)"

text \<open>The texts the code sends for a boolean, and those the server sends.\<close>

definition read_bool :: "string \<Rightarrow> bool option" where
  "read_bool x = (if x = ''true'' then Some True else if x = ''false'' then Some False else None)"

definition channel_new :: "string \<Rightarrow> string \<Rightarrow> string \<Rightarrow> string \<Rightarrow> bool \<Rightarrow> string \<Rightarrow> channel_row" where
  "channel_new i name title desc public owner =
     \<lparr>chn_key = i, chn_username = name, chn_title = title, chn_desc = Some desc, chn_avatar = None,
      chn_public = public, chn_count = 0, chn_owner = owner\<rparr>"

definition st_channel_create :: "pg \<Rightarrow> stmt" where
  "st_channel_create W ps t =
     (case ps of
        [name, title, desc, public, owner] \<Rightarrow>
          (case read_bool public of
             None \<Rightarrow> (pg_fail ''invalid input syntax for type boolean'', t)
           | Some public \<Rightarrow>
               as_uuid W owner (\<lambda>owner t.
                 let i = new_id W (id_count t); t' = t\<lparr>id_count := Suc (id_count t)\<rparr> in
                 if list_ex (\<lambda>r. chn_username r = name \<or> chn_key r = i) (channels t)
                 then (pg_fail ''duplicate key value violates unique constraint'', t')
                 else if \<not> user_exists owner t then (pg_fail ''violates foreign key constraint'', t')
                 else (pg_tuples [''id''] [[Some i]],
                       t'\<lparr>channels := channels t @ [channel_new i name title desc public owner]\<rparr>)) t)
      | _ \<Rightarrow> (pg_fail ''bind message parameters'', t))"

definition is_sub_row :: "string \<Rightarrow> string \<Rightarrow> sub_row \<Rightarrow> bool" where
  "is_sub_row c u r \<longleftrightarrow> sub_channel r = c \<and> sub_user r = u"

definition insert_sub :: "string \<Rightarrow> string \<Rightarrow> string \<Rightarrow> tables \<Rightarrow> pg_result \<times> tables" where
  "insert_sub c u role t =
     (if \<not> channel_exists c t \<or> \<not> user_exists u t then (pg_fail ''violates foreign key constraint'', t)
      else (pg_done 1, t\<lparr>subs := subs t @ [\<lparr>sub_channel = c, sub_user = u, sub_role = role\<rparr>]\<rparr>))"

definition st_channel_owner :: "pg \<Rightarrow> stmt" where
  "st_channel_owner W = params2 (\<lambda>c u. as_uuid W c (\<lambda>c. as_uuid W u (\<lambda>u t.
     if list_ex (is_sub_row c u) (subs t)
     then (pg_fail ''duplicate key value violates unique constraint'', t)
     else insert_sub c u ''owner'' t)))"

definition st_channel_subscribe :: "pg \<Rightarrow> stmt" where
  "st_channel_subscribe W = params2 (\<lambda>c u. as_uuid W c (\<lambda>c. as_uuid W u (\<lambda>u t.
     if list_ex (is_sub_row c u) (subs t) then (pg_done 0, t) else insert_sub c u ''subscriber'' t)))"

definition st_channel_count_up :: "pg \<Rightarrow> stmt" where
  "st_channel_count_up W = params1 (\<lambda>c. as_uuid W c (\<lambda>c t.
     (pg_done (length (filter (\<lambda>r. chn_key r = c) (channels t))),
      t\<lparr>channels := map (\<lambda>r. if chn_key r = c then r\<lparr>chn_count := chn_count r + 1\<rparr> else r) (channels t)\<rparr>)))"

definition st_subscriber_role :: "pg \<Rightarrow> stmt" where
  "st_subscriber_role W = params2 (\<lambda>c u. as_uuid W c (\<lambda>c. as_uuid W u (\<lambda>u t.
     (pg_tuples [''role''] (map (\<lambda>r. [Some (sub_role r)]) (filter (is_sub_row c u) (subs t))), t))))"

definition post_new :: "pg \<Rightarrow> tables \<Rightarrow> string \<Rightarrow> string \<Rightarrow> bool \<Rightarrow> string \<Rightarrow> post_row" where
  "post_new W t c content paid author =
     \<lparr>post_key = new_id W (id_count t), post_channel = c, post_content = content, post_media = ''{}'',
      post_paid = paid, post_author = author, post_created = pg_now t\<rparr>"

definition post_exists :: "string \<Rightarrow> tables \<Rightarrow> bool" where
  "post_exists p t = list_ex (\<lambda>r. post_key r = p) (posts t)"

definition st_post_insert :: "pg \<Rightarrow> stmt" where
  "st_post_insert W ps t =
     (case ps of
        [c, content, paid, author] \<Rightarrow>
          (case read_bool paid of
             None \<Rightarrow> (pg_fail ''invalid input syntax for type boolean'', t)
           | Some paid \<Rightarrow>
               as_uuid W c (\<lambda>c. as_uuid W author (\<lambda>a t.
                 let t' = t\<lparr>id_count := Suc (id_count t)\<rparr> in
                 if post_exists (new_id W (id_count t)) t
                 then (pg_fail ''duplicate key value violates unique constraint'', t')
                 else if \<not> channel_exists c t \<or> \<not> user_exists a t
                 then (pg_fail ''violates foreign key constraint'', t')
                 else (pg_done 1, t'\<lparr>posts := posts t @ [post_new W t c content paid a]\<rparr>))) t)
      | _ \<Rightarrow> (pg_fail ''bind message parameters'', t))"

definition st_post_delete :: "pg \<Rightarrow> stmt" where
  "st_post_delete W = params2 (\<lambda>p c. as_uuid W p (\<lambda>p. as_uuid W c (\<lambda>c t.
     (pg_done (length (filter (\<lambda>r. post_key r = p \<and> post_channel r = c) (posts t))),
      t\<lparr>posts := filter (\<lambda>r. \<not> (post_key r = p \<and> post_channel r = c)) (posts t)\<rparr>))))"

end
