(* ===== verification/Listings.thy ===== *)
theory Listings
  imports Tables "HOL-Library.List_Lexorder" "HOL-Library.Char_ord"
begin

section \<open>The statements that list, and the server\<close>

text \<open>
  The SELECT statements whose rows fill the replies, read as list functions on the tables: the join
  and the WHERE clause as a filter of candidate rows, visited in an order of the server's choice
  (\<open>visit\<close>), then ORDER BY as a stable sort and LIMIT as \<open>take\<close>; and \<open>statement\<close>, which gives every
  SQL text of the sources its meaning.
\<close>

subsection \<open>Rows in some order, in an order asked for, the first so many\<close>

text \<open>\<open>p\<close> is an order of the positions; anything else leaves the order of the table.\<close>

definition visit :: "nat list \<Rightarrow> 'a list \<Rightarrow> 'a list" where
  "visit p xs =
     (if distinct p \<and> length p = length xs \<and> list_all (\<lambda>i. i < length xs) p then map ((!) xs) p else xs)"

definition newest :: "('a \<Rightarrow> int) \<Rightarrow> 'a list \<Rightarrow> 'a list" where
  "newest time = sort_key (\<lambda>x. - time x)"

text \<open>The texts of a boolean, of a time and of a count.\<close>

definition bool_cell :: "bool \<Rightarrow> string option" where
  "bool_cell b = Some (if b then ''t'' else ''f'')"

definition time_cell :: "pg \<Rightarrow> int \<Rightarrow> string option" where
  "time_cell W x = Some (time_text W x)"

text \<open>A comparison with NULL is not true.\<close>

definition ilike_opt :: "pg \<Rightarrow> string option \<Rightarrow> string \<Rightarrow> bool" where
  "ilike_opt W v p = (case v of None \<Rightarrow> False | Some x \<Rightarrow> ilike W x p)"

subsection \<open>Users\<close>

definition me_columns :: "string list" where
  "me_columns = [''id'', ''username'', ''email'', ''phone_number'', ''display_name'', ''avatar_url'', ''bio'',
     ''status'', ''status_text'', ''created_at'']"

definition me_row :: "pg \<Rightarrow> user_row \<Rightarrow> string option list" where
  "me_row W u = [Some (usr_id u), Some (usr_name u), Some (usr_email u), usr_phone u, usr_display u,
     usr_avatar u, usr_bio u, usr_status u, usr_status_text u, time_cell W (usr_created u)]"

definition st_user_me :: "pg \<Rightarrow> stmt" where
  "st_user_me W = params1 (\<lambda>u. as_uuid W u (\<lambda>u t.
     (pg_tuples me_columns (map (me_row W) (filter (\<lambda>r. usr_id r = u \<and> \<not> usr_deleted r) (users t))), t)))"

definition st_user_public :: "pg \<Rightarrow> stmt" where
  "st_user_public W = params1 (\<lambda>u. as_uuid W u (\<lambda>u t.
     (pg_tuples [''id'', ''username'', ''display_name'', ''avatar_url'', ''bio'', ''status'']
        (map (\<lambda>r. [Some (usr_id r), Some (usr_name r), usr_display r, usr_avatar r, usr_bio r, usr_status r])
          (filter (\<lambda>r. usr_id r = u \<and> \<not> usr_deleted r) (users t))), t)))"

definition found_users :: "pg \<Rightarrow> sql \<Rightarrow> string \<Rightarrow> string \<Rightarrow> tables \<Rightarrow> user_row list" where
  "found_users W q p u t =
     take 20 (visit (scan W q [p, u] t)
       (filter (\<lambda>r. (ilike W (usr_name r) p \<or> ilike_opt W (usr_display r) p) \<and> \<not> usr_deleted r \<and> usr_id r \<noteq> u)
         (users t)))"

definition st_user_search :: "pg \<Rightarrow> stmt" where
  "st_user_search W = params2 (\<lambda>p u. as_uuid W u (\<lambda>u t.
     (pg_tuples [''id'', ''username'', ''display_name'', ''avatar_url'', ''status'']
        (map (\<lambda>r. [Some (usr_id r), Some (usr_name r), usr_display r, usr_avatar r, usr_status r])
          (found_users W User_Search p u t)), t)))"

definition st_chat_user_search :: "pg \<Rightarrow> stmt" where
  "st_chat_user_search W = params2 (\<lambda>p u. as_uuid W u (\<lambda>u t.
     (pg_tuples [''id'', ''username'', ''display_name'', ''avatar_url'']
        (map (\<lambda>r. [Some (usr_id r), Some (usr_name r), usr_display r, usr_avatar r])
          (found_users W Chat_User_Search p u t)), t)))"

definition st_user_by_phone :: stmt where
  "st_user_by_phone = params1 (\<lambda>p t.
     (pg_tuples [''id'', ''username'', ''display_name'', ''avatar_url'']
        (map (\<lambda>r. [Some (usr_id r), Some (usr_name r), usr_display r, usr_avatar r])
          (filter (\<lambda>r. usr_phone r = Some p \<and> \<not> usr_deleted r) (users t))), t))"

subsection \<open>Chats\<close>

text \<open>The chats a user is an active member of, the newest first by \<open>updated_at\<close>.\<close>

definition chats_of :: "pg \<Rightarrow> string \<Rightarrow> tables \<Rightarrow> chat_row list" where
  "chats_of W u t =
     take 100 (newest chat_updated (visit (scan W Chats_Of [u] t)
       (concat (map (\<lambda>c. map (\<lambda>_. c)
           (filter (\<lambda>m. is_member_row (chat_key c) u m \<and> mem_left m = None) (members t))) (chats t)))))"

definition last_content :: "pg \<Rightarrow> string \<Rightarrow> tables \<Rightarrow> string option" where
  "last_content W c t =
     (case newest msg_created (visit (scan W Chats_Of [c] t)
             (filter (\<lambda>m. msg_chat m = c \<and> \<not> msg_deleted m) (messages t))) of
        [] \<Rightarrow> None
      | m # _ \<Rightarrow> Some (msg_content m))"

definition unread_count :: "string \<Rightarrow> string \<Rightarrow> tables \<Rightarrow> nat" where
  "unread_count c u t =
     length (concat (map (\<lambda>d. filter (\<lambda>m. msg_key m = del_message d \<and> msg_chat m = c) (messages t))
       (filter (\<lambda>d. del_user d = u \<and> del_status d \<noteq> None \<and> del_status d \<noteq> Some ''read'') (deliveries t))))"

definition st_chats_of :: "pg \<Rightarrow> stmt" where
  "st_chats_of W = params1 (\<lambda>u. as_uuid W u (\<lambda>u t.
     (pg_tuples [''id'', ''chat_type'', ''name'', ''avatar_url'', ''updated_at'', ''last_message'', ''unread_count'']
        (map (\<lambda>c. [Some (chat_key c), Some (chat_kind c), chat_name c, chat_avatar c,
                   time_cell W (chat_updated c), last_content W (chat_key c) t,
                   Some (show_nat (unread_count (chat_key c) u t))]) (chats_of W u t)), t)))"

definition st_chat_select :: "pg \<Rightarrow> stmt" where
  "st_chat_select W = params1 (\<lambda>c. as_uuid W c (\<lambda>c t.
     (pg_tuples [''id'', ''chat_type'', ''name'', ''description'', ''avatar_url'', ''created_at'']
        (map (\<lambda>r. [Some (chat_key r), Some (chat_kind r), chat_name r, chat_desc r, chat_avatar r,
                   time_cell W (chat_created r)]) (filter (\<lambda>r. chat_key r = c) (chats t))), t)))"

text \<open>Messages with their senders (one without a sender has no row in the join), those before a time
  only where one is given.\<close>

definition sent_messages :: "string \<Rightarrow> int option \<Rightarrow> tables \<Rightarrow> (message_row \<times> user_row) list" where
  "sent_messages c bound t =
     concat (map (\<lambda>m. map (\<lambda>u. (m, u)) (filter (\<lambda>u. msg_sender m = Some (usr_id u)) (users t)))
       (filter (\<lambda>m. msg_chat m = c \<and> \<not> msg_deleted m \<and> (case bound of None \<Rightarrow> True | Some b \<Rightarrow> msg_created m < b))
         (messages t)))"

definition message_columns :: "string list" where
  "message_columns = [''id'', ''sender_id'', ''content'', ''content_type'', ''is_edited'', ''is_pinned'',
     ''reply_to_id'', ''created_at'', ''sender_username'', ''sender_name'', ''sender_avatar'']"

definition message_cells :: "pg \<Rightarrow> message_row \<times> user_row \<Rightarrow> string option list" where
  "message_cells W = (\<lambda>(m, u). [Some (msg_key m), msg_sender m, Some (msg_content m), msg_type m,
     bool_cell (msg_edited m), bool_cell (msg_pinned m), msg_reply m, time_cell W (msg_created m),
     Some (usr_name u), usr_display u, usr_avatar u])"

definition message_page :: "nat list \<Rightarrow> string \<Rightarrow> int option \<Rightarrow> tables \<Rightarrow> (message_row \<times> user_row) list" where
  "message_page p c bound t = take 50 (newest (msg_created \<circ> fst) (visit p (sent_messages c bound t)))"

definition st_messages_latest :: "pg \<Rightarrow> stmt" where
  "st_messages_latest W = params1 (\<lambda>c. as_uuid W c (\<lambda>c t.
     (pg_tuples message_columns
        (map (message_cells W) (message_page (scan W Messages_Latest [c] t) c None t)), t)))"

text \<open>A parameter that is read as a time.\<close>

definition as_time :: "pg \<Rightarrow> string \<Rightarrow> (int \<Rightarrow> tables \<Rightarrow> pg_result \<times> tables) \<Rightarrow> tables \<Rightarrow> pg_result \<times> tables" where
  "as_time W p k t =
     (case time_read W p of
        None \<Rightarrow> (pg_fail ''invalid input syntax for type timestamp with time zone'', t)
      | Some x \<Rightarrow> k x t)"

definition st_messages_before :: "pg \<Rightarrow> stmt" where
  "st_messages_before W = params2 (\<lambda>c x. as_uuid W c (\<lambda>c. as_time W x (\<lambda>b t.
     (pg_tuples message_columns
        (map (message_cells W) (message_page (scan W Messages_Before [c, x] t) c (Some b) t)), t))))"

definition st_members_list :: "pg \<Rightarrow> stmt" where
  "st_members_list W = params1 (\<lambda>c. as_uuid W c (\<lambda>c t.
     (pg_tuples [''id'', ''username'', ''display_name'', ''avatar_url'', ''status'', ''role'', ''joined_at'']
        (map (\<lambda>(m, u). [Some (usr_id u), Some (usr_name u), usr_display u, usr_avatar u, usr_status u,
                        Some (mem_role m), time_cell W (mem_joined m)])
          (sort_key (mem_joined \<circ> fst) (visit (scan W Members_List [c] t)
            (concat (map (\<lambda>m. map (\<lambda>u. (m, u)) (filter (\<lambda>u. usr_id u = mem_user m) (users t)))
              (filter (\<lambda>m. mem_chat m = c \<and> mem_left m = None) (members t))))))), t)))"

definition st_messages_search :: "pg \<Rightarrow> stmt" where
  "st_messages_search W = params2 (\<lambda>c p. as_uuid W c (\<lambda>c t.
     (pg_tuples [''id'', ''sender_id'', ''content'', ''created_at'']
        (map (\<lambda>m. [Some (msg_key m), msg_sender m, Some (msg_content m), time_cell W (msg_created m)])
          (take 50 (newest msg_created (visit (scan W Messages_Search [c, p] t)
            (filter (\<lambda>m. msg_chat m = c \<and> ilike W (msg_content m) p \<and> \<not> msg_deleted m) (messages t)))))), t)))"

subsection \<open>Contacts\<close>

definition contacts_of :: "pg \<Rightarrow> string \<Rightarrow> tables \<Rightarrow> (contact_row \<times> user_row) list" where
  "contacts_of W u t =
     sort_key (collate W \<circ> usr_name \<circ> snd) (visit (scan W Contacts_List [u] t)
       (concat (map (\<lambda>k. map (\<lambda>r. (k, r)) (filter (\<lambda>r. usr_id r = con_contact k) (users t)))
         (filter (\<lambda>k. con_user k = u \<and> \<not> con_blocked k) (contacts t)))))"

definition st_contacts_list :: "pg \<Rightarrow> stmt" where
  "st_contacts_list W = params1 (\<lambda>u. as_uuid W u (\<lambda>u t.
     (pg_tuples [''id'', ''username'', ''display_name'', ''avatar_url'', ''status'', ''nickname'', ''is_favorite'']
        (map (\<lambda>(k, r). [Some (usr_id r), Some (usr_name r), usr_display r, usr_avatar r, usr_status r,
                        Some (con_nickname k), bool_cell (con_favorite k)]) (contacts_of W u t)), t)))"

subsection \<open>Channels\<close>

definition st_channels_explore :: "pg \<Rightarrow> stmt" where
  "st_channels_explore W = params1 (\<lambda>p t.
     (pg_tuples [''id'', ''username'', ''name'', ''description'', ''avatar_url'', ''is_public'', ''subscriber_count'']
        (map (\<lambda>c. [Some (chn_key c), Some (chn_username c), Some (chn_title c), chn_desc c, chn_avatar c,
                   bool_cell (chn_public c), Some (show_int (chn_count c))])
          (take 50 (newest chn_count (visit (scan W Channels_Explore [p] t)
            (filter (\<lambda>c. chn_public c \<and> (p = ''%%'' \<or> ilike W (chn_title c) p \<or> ilike W (chn_username c) p))
              (channels t)))))), t))"

definition channels_of :: "pg \<Rightarrow> string \<Rightarrow> tables \<Rightarrow> (sub_row \<times> channel_row) list" where
  "channels_of W u t =
     sort_key (collate W \<circ> chn_title \<circ> snd) (visit (scan W Channels_Mine [u] t)
       (concat (map (\<lambda>b. map (\<lambda>c. (b, c)) (filter (\<lambda>c. chn_key c = sub_channel b) (channels t)))
         (filter (\<lambda>b. sub_user b = u) (subs t)))))"

definition st_channels_mine :: "pg \<Rightarrow> stmt" where
  "st_channels_mine W = params1 (\<lambda>u. as_uuid W u (\<lambda>u t.
     (pg_tuples [''id'', ''username'', ''name'', ''avatar_url'', ''role'']
        (map (\<lambda>(b, c). [Some (chn_key c), Some (chn_username c), Some (chn_title c), chn_avatar c,
                        Some (sub_role b)]) (channels_of W u t)), t)))"

definition st_channel_select :: stmt where
  "st_channel_select = params1 (\<lambda>n t.
     (pg_tuples [''id'', ''username'', ''name'', ''description'', ''avatar_url'', ''is_public'',
                 ''subscriber_count'', ''owner_id'']
        (map (\<lambda>c. [Some (chn_key c), Some (chn_username c), Some (chn_title c), chn_desc c, chn_avatar c,
                   bool_cell (chn_public c), Some (show_int (chn_count c)), Some (chn_owner c)])
          (filter (\<lambda>c. chn_username c = n) (channels t))), t))"

definition post_columns :: "string list" where
  "post_columns = [''id'', ''channel_id'', ''content'', ''media_urls'', ''is_paid'', ''created_at'']"

definition post_cells :: "pg \<Rightarrow> post_row \<Rightarrow> string option list" where
  "post_cells W r = [Some (post_key r), Some (post_channel r), Some (post_content r), Some (post_media r),
     bool_cell (post_paid r), time_cell W (post_created r)]"

definition post_page :: "nat list \<Rightarrow> string \<Rightarrow> int option \<Rightarrow> tables \<Rightarrow> post_row list" where
  "post_page p c bound t =
     take 30 (newest post_created (visit p
       (filter (\<lambda>r. post_channel r = c \<and> (case bound of None \<Rightarrow> True | Some b \<Rightarrow> post_created r < b)) (posts t))))"

definition st_posts_latest :: "pg \<Rightarrow> stmt" where
  "st_posts_latest W = params1 (\<lambda>c. as_uuid W c (\<lambda>c t.
     (pg_tuples post_columns (map (post_cells W) (post_page (scan W Posts_Latest [c] t) c None t)), t)))"

definition st_posts_before :: "pg \<Rightarrow> stmt" where
  "st_posts_before W = params2 (\<lambda>c x. as_uuid W c (\<lambda>c. as_time W x (\<lambda>b t.
     (pg_tuples post_columns (map (post_cells W) (post_page (scan W Posts_Before [c, x] t) c (Some b) t)), t))))"

subsection \<open>The server\<close>

fun statement :: "pg \<Rightarrow> sql \<Rightarrow> stmt" where
  "statement W (Ddl m) = (\<lambda>ps t. (pg_done 0, t))"
| "statement W Otp_Upsert = st_otp_upsert"
| "statement W Otp_Select = st_otp_select W"
| "statement W Otp_Increment = st_otp_increment"
| "statement W Otp_Valid = st_otp_valid"
| "statement W Otp_Delete = st_otp_delete"
| "statement W User_Login = st_user_login"
| "statement W (User_With column) = st_user_with column"
| "statement W User_Insert = st_user_insert W"
| "statement W (User_Update columns) = st_user_update W columns"
| "statement W Direct_Find = st_direct_find W"
| "statement W Direct_Create = st_direct_create W"
| "statement W Direct_Members = st_direct_members W"
| "statement W Group_Create = st_group_create W"
| "statement W Group_Owner = st_group_owner W"
| "statement W Group_Member = st_group_member W"
| "statement W Member_Check = st_member_check W"
| "statement W Member_Add = st_member_add W"
| "statement W Member_Leave = st_member_leave W"
| "statement W Message_Pin = st_message_pin W"
| "statement W Reaction_Toggle = st_reaction_toggle"
| "statement W Chat_Mute = st_chat_mute W"
| "statement W Contact_Upsert = st_contact_upsert W"
| "statement W Contact_Delete = st_contact_delete W"
| "statement W Contact_Check = st_contact_check W"
| "statement W Channel_Create = st_channel_create W"
| "statement W Channel_Owner = st_channel_owner W"
| "statement W Channel_Subscribe = st_channel_subscribe W"
| "statement W Channel_Count_Up = st_channel_count_up W"
| "statement W Subscriber_Role = st_subscriber_role W"
| "statement W Post_Insert = st_post_insert W"
| "statement W Post_Delete = st_post_delete W"
| "statement W User_Me = st_user_me W"
| "statement W User_Search = st_user_search W"
| "statement W User_Public = st_user_public W"
| "statement W Chat_User_Search = st_chat_user_search W"
| "statement W User_By_Phone = st_user_by_phone"
| "statement W Chats_Of = st_chats_of W"
| "statement W Chat_Select = st_chat_select W"
| "statement W Messages_Latest = st_messages_latest W"
| "statement W Messages_Before = st_messages_before W"
| "statement W Members_List = st_members_list W"
| "statement W Messages_Search = st_messages_search W"
| "statement W Contacts_List = st_contacts_list W"
| "statement W Channels_Explore = st_channels_explore W"
| "statement W Channels_Mine = st_channels_mine W"
| "statement W Channel_Select = st_channel_select"
| "statement W Posts_Latest = st_posts_latest W"
| "statement W Posts_Before = st_posts_before W"

definition run_statement :: "pg \<Rightarrow> sql \<Rightarrow> stmt" where
  "run_statement W q ps t =
     (case fault W q ps t of Some e \<Rightarrow> (pg_fail e, t) | None \<Rightarrow> statement W q ps t)"

definition tables_pq :: "pg \<Rightarrow> tables libpq" where
  "tables_pq W =
     \<lparr>pq_connect = (\<lambda>url t. (True, t)), pq_alive = (\<lambda>t. True), pq_exec = run_statement W\<rparr>"

end
