(* ===== verification/Tables_Props.thy ===== *)
theory Tables_Props
  imports Http_Session Listings
begin

section \<open>The routes on the tables\<close>

text \<open>
  Runs of the routes against the tables of \<open>Tables\<close>: which tables a route can write
  (\<open>route_writes\<close>), the schema's constraints as an invariant of every sequence of requests
  (\<open>schema_ok\<close>), and the replies and effects of the routes that sign in, chat, keep contacts and
  run channels.
\<close>

subsection \<open>Running statements\<close>

abbreviation tables_of :: "('r, tables) http \<Rightarrow> tables" where
  "tables_of s \<equiv> db_server (hdb s)"

abbreviation with_tables :: "tables \<Rightarrow> ('r, tables) http \<Rightarrow> ('r, tables) http" where
  "with_tables t s \<equiv> s\<lparr>hdb := (hdb s)\<lparr>db_server := t\<rparr>\<rparr>"

definition query_reply :: "pg_result \<Rightarrow> err + json list" where
  "query_reply res = (case pg_status res of
     Tuples_Ok \<Rightarrow> Inr (map (row_json (pg_names res)) (pg_rows res))
   | Command_Ok \<Rightarrow> Inl (Runtime_Error ''Query failed: '')
   | Pg_Error e \<Rightarrow> Inl (Runtime_Error (''Query failed: '' @ e)))"

definition exec_reply :: "pg_result \<Rightarrow> err + int" where
  "exec_reply res = (case pg_status res of
     Pg_Error e \<Rightarrow> Inl (Runtime_Error (''Exec failed: '' @ e))
   | _ \<Rightarrow> Inr (affected_rows (c_str (pg_tag res))))"

lemma db_query_tables:
  "hpq E = tables_pq W \<Longrightarrow> db_conn (hdb s) \<Longrightarrow> db_query E q ps s =
    (case run_statement W q (map c_str ps) (tables_of s) of (res, t) \<Rightarrow> (query_reply res, with_tables t s))"
  by (simp add: db_query_def em_simps query_def tables_pq_def query_reply_def split: prod.split pg_status.split)

lemma db_exec_tables:
  "hpq E = tables_pq W \<Longrightarrow> db_conn (hdb s) \<Longrightarrow> db_exec E q ps s =
    (case run_statement W q (map c_str ps) (tables_of s) of (res, t) \<Rightarrow> (exec_reply res, with_tables t s))"
  by (simp add: db_exec_def em_simps exec_def tables_pq_def exec_reply_def split: prod.split pg_status.split)

lemma query_reply_simps [simp]:
  "query_reply (pg_tuples ns rs) = Inr (map (row_json ns) rs)"
  "query_reply (pg_fail e) = Inl (Runtime_Error (''Query failed: '' @ e))"
  by (simp_all add: query_reply_def pg_tuples_def pg_fail_def)

lemma c_str_show_nat [simp]: "c_str (show_nat n) = show_nat n"
proof (rule no_nul_c_str)
  have "(of_char (digit_char d) :: nat) = 48 + d" if "d < 10" for d
    using that by (simp add: digit_char_def)
  then have "digit_char d \<noteq> CHR 0x00" if "d < 10" for d
    using that by fastforce
  then show "CHR 0x00 \<notin> set (show_nat n)" using show_nat_digits [of n] by metis
qed

lemma exec_reply_simps [simp]:
  "exec_reply (pg_done k) = Inr (affected_rows (show_nat k))"
  "exec_reply (pg_fail e) = Inl (Runtime_Error (''Exec failed: '' @ e))"
  by (simp_all add: exec_reply_def pg_done_def pg_fail_def)

subsection \<open>The tables a route can write\<close>

datatype tab = Users | Otps | Chats | Members | Messages | Contacts | Channels | Subs | Posts | Deliveries

text \<open>Outside the tables \<open>A\<close> nothing differs; the clock of the server does not move.\<close>

fun same_tab :: "tab \<Rightarrow> tables \<Rightarrow> tables \<Rightarrow> bool" where
  "same_tab Users t u = (users u = users t)"
| "same_tab Otps t u = (otps u = otps t)"
| "same_tab Chats t u = (chats u = chats t)"
| "same_tab Members t u = (members u = members t)"
| "same_tab Messages t u = (messages u = messages t)"
| "same_tab Contacts t u = (contacts u = contacts t)"
| "same_tab Channels t u = (channels u = channels t)"
| "same_tab Subs t u = (subs u = subs t)"
| "same_tab Posts t u = (posts u = posts t)"
| "same_tab Deliveries t u = (deliveries u = deliveries t)"

definition same_except :: "tab set \<Rightarrow> tables \<Rightarrow> tables \<Rightarrow> bool" where
  "same_except A t u \<longleftrightarrow> pg_now u = pg_now t \<and> (\<forall>a. a \<in> A \<or> same_tab a t u)"

lemma same_tab_refl [simp]: "same_tab a t t"
  by (cases a) simp_all

lemma same_tab_trans: "same_tab a t u \<Longrightarrow> same_tab a u v \<Longrightarrow> same_tab a t v"
  by (cases a) simp_all

lemma same_except_refl [simp]: "same_except A t t"
  by (simp add: same_except_def)

lemma same_except_trans: "same_except A t u \<Longrightarrow> same_except A u v \<Longrightarrow> same_except A t v"
  unfolding same_except_def by (metis same_tab_trans)

lemma same_except_mono: "A \<subseteq> B \<Longrightarrow> same_except A t u \<Longrightarrow> same_except B t u"
  unfolding same_except_def by blast

lemma same_tab_updates [simp]:
  "same_tab a t (u\<lparr>id_count := n\<rparr>) = same_tab a t u"
  "a \<noteq> Users \<Longrightarrow> same_tab a t (u\<lparr>users := us\<rparr>) = same_tab a t u"
  "a \<noteq> Otps \<Longrightarrow> same_tab a t (u\<lparr>otps := os\<rparr>) = same_tab a t u"
  "a \<noteq> Chats \<Longrightarrow> same_tab a t (u\<lparr>chats := cs\<rparr>) = same_tab a t u"
  "a \<noteq> Members \<Longrightarrow> same_tab a t (u\<lparr>members := ms\<rparr>) = same_tab a t u"
  "a \<noteq> Messages \<Longrightarrow> same_tab a t (u\<lparr>messages := gs\<rparr>) = same_tab a t u"
  "a \<noteq> Contacts \<Longrightarrow> same_tab a t (u\<lparr>contacts := ks\<rparr>) = same_tab a t u"
  "a \<noteq> Channels \<Longrightarrow> same_tab a t (u\<lparr>channels := hs\<rparr>) = same_tab a t u"
  "a \<noteq> Subs \<Longrightarrow> same_tab a t (u\<lparr>subs := bs\<rparr>) = same_tab a t u"
  "a \<noteq> Posts \<Longrightarrow> same_tab a t (u\<lparr>posts := ps\<rparr>) = same_tab a t u"
  by (cases a; simp)+

lemma same_except_updates [simp]:
  "same_except A t (u\<lparr>id_count := n\<rparr>) = same_except A t u"
  "Users \<in> A \<Longrightarrow> same_except A t (u\<lparr>users := us\<rparr>) = same_except A t u"
  "Otps \<in> A \<Longrightarrow> same_except A t (u\<lparr>otps := os\<rparr>) = same_except A t u"
  "Chats \<in> A \<Longrightarrow> same_except A t (u\<lparr>chats := cs\<rparr>) = same_except A t u"
  "Members \<in> A \<Longrightarrow> same_except A t (u\<lparr>members := ms\<rparr>) = same_except A t u"
  "Messages \<in> A \<Longrightarrow> same_except A t (u\<lparr>messages := gs\<rparr>) = same_except A t u"
  "Contacts \<in> A \<Longrightarrow> same_except A t (u\<lparr>contacts := ks\<rparr>) = same_except A t u"
  "Channels \<in> A \<Longrightarrow> same_except A t (u\<lparr>channels := hs\<rparr>) = same_except A t u"
  "Subs \<in> A \<Longrightarrow> same_except A t (u\<lparr>subs := bs\<rparr>) = same_except A t u"
  "Posts \<in> A \<Longrightarrow> same_except A t (u\<lparr>posts := ps\<rparr>) = same_except A t u"
  unfolding same_except_def by (simp_all, (metis same_tab_updates)+)

fun stmt_writes :: "sql \<Rightarrow> tab set" where
  "stmt_writes Otp_Upsert = {Otps}"
| "stmt_writes Otp_Increment = {Otps}"
| "stmt_writes Otp_Delete = {Otps}"
| "stmt_writes User_Insert = {Users}"
| "stmt_writes (User_Update cs) = {Users}"
| "stmt_writes Direct_Create = {Chats}"
| "stmt_writes Direct_Members = {Members}"
| "stmt_writes Group_Create = {Chats}"
| "stmt_writes Group_Owner = {Members}"
| "stmt_writes Group_Member = {Members}"
| "stmt_writes Member_Add = {Members}"
| "stmt_writes Member_Leave = {Members}"
| "stmt_writes Message_Pin = {Messages}"
| "stmt_writes Chat_Mute = {Members}"
| "stmt_writes Contact_Upsert = {Contacts}"
| "stmt_writes Contact_Delete = {Contacts}"
| "stmt_writes Channel_Create = {Channels}"
| "stmt_writes Channel_Owner = {Subs}"
| "stmt_writes Channel_Subscribe = {Subs}"
| "stmt_writes Channel_Count_Up = {Channels}"
| "stmt_writes Post_Insert = {Posts}"
| "stmt_writes Post_Delete = {Posts}"
| "stmt_writes q = {}"

fun route_writes :: "route \<Rightarrow> tab set" where
  "route_writes Send_Otp = {Otps}"
| "route_writes Verify_Otp = {Otps}"
| "route_writes Register = {Users}"
| "route_writes Update_Me = {Users}"
| "route_writes Open_Direct = {Chats, Members}"
| "route_writes Create_Group = {Chats, Members}"
| "route_writes (Add_Member c) = {Members}"
| "route_writes (Remove_Member c u) = {Members}"
| "route_writes (Pin_Message c m) = {Messages}"
| "route_writes (Mute_Chat c) = {Members}"
| "route_writes Add_Contact = {Contacts}"
| "route_writes (Remove_Contact c) = {Contacts}"
| "route_writes Create_Channel = {Channels, Subs}"
| "route_writes (Subscribe_Channel c) = {Channels, Subs}"
| "route_writes (Create_Post c) = {Posts}"
| "route_writes (Delete_Post c p) = {Posts}"
| "route_writes r = {}"

named_theorems stmt_defs \<open>the definitions of the statements\<close>

lemmas statement_defs [stmt_defs] = st_otp_upsert_def st_otp_select_def st_otp_increment_def
  st_otp_valid_def st_otp_delete_def st_user_login_def st_user_with_def st_user_insert_def
  st_user_update_def st_member_check_def st_direct_find_def st_direct_create_def st_group_create_def
  st_direct_members_def st_group_owner_def st_group_member_def st_member_add_def st_member_leave_def
  st_chat_mute_def st_message_pin_def st_reaction_toggle_def st_contact_upsert_def
  st_contact_delete_def st_contact_check_def st_channel_create_def st_channel_owner_def
  st_channel_subscribe_def st_channel_count_up_def st_subscriber_role_def st_post_insert_def
  st_post_delete_def

lemmas listing_defs [stmt_defs] = st_user_me_def st_user_public_def st_user_search_def
  st_chat_user_search_def st_user_by_phone_def st_chats_of_def st_chat_select_def st_messages_latest_def
  st_messages_before_def st_members_list_def st_messages_search_def st_contacts_list_def
  st_channels_explore_def st_channels_mine_def st_channel_select_def st_posts_latest_def
  st_posts_before_def

text \<open>A predicate of the tables that the body of a statement establishes holds after the
  statement.\<close>

lemma as_uuid_snd: "J t \<Longrightarrow> (\<And>i. J (snd (k i t))) \<Longrightarrow> J (snd (as_uuid W p k t))"
  by (cases "uuid W p") (simp_all add: as_uuid_def)

lemma as_time_snd: "J t \<Longrightarrow> (\<And>x. J (snd (k x t))) \<Longrightarrow> J (snd (as_time W p k t))"
  by (cases "time_read W p") (simp_all add: as_time_def)

lemma params_snd:
  "J t \<Longrightarrow> (\<And>a. J (snd (k1 a t))) \<Longrightarrow> J (snd (params1 k1 ps t))"
  "J t \<Longrightarrow> (\<And>a b. J (snd (k2 a b t))) \<Longrightarrow> J (snd (params2 k2 ps t))"
  "J t \<Longrightarrow> (\<And>a b c. J (snd (k3 a b c t))) \<Longrightarrow> J (snd (params3 k3 ps t))"
  by (simp_all add: params1_def params2_def params3_def split: list.split)

lemma insert_members_run: "insert_members rs t = Inr t' \<Longrightarrow> t' = t\<lparr>members := members t @ rs\<rparr>"
  by (induction rs t rule: insert_members.induct) (auto split: option.splits)

lemma members_stmt_frame: "Members \<in> A \<Longrightarrow> same_except A t (snd (members_stmt rs t))"
  by (auto simp: members_stmt_def dest: insert_members_run split: sum.split)

lemma insert_chat_frame: "Chats \<in> A \<Longrightarrow> same_except A t (snd (insert_chat W k n c t))"
  by (simp add: insert_chat_def Let_def)

lemma insert_sub_frame: "Subs \<in> A \<Longrightarrow> same_except A t (snd (insert_sub c u r t))"
  by (simp add: insert_sub_def)


lemmas stmt_frame = as_uuid_snd [where J = "same_except A t" for A t]
  as_time_snd [where J = "same_except A t" for A t]
  params_snd [where J = "same_except A t" for A t]

lemma statement_writes: "same_except (stmt_writes q) t (snd (statement W q ps t))"
  by (cases q; simp add: stmt_defs;
      (intro stmt_frame)?;
      (simp add: members_stmt_frame insert_sub_frame insert_chat_frame Let_def as_uuid_def
         split: option.split list.split prod.split)?)


text \<open>\<open>on_tables I\<close>: the predicate of the tables as one of the database.\<close>

abbreviation on_tables :: "(tables \<Rightarrow> bool) \<Rightarrow> tables pgdb \<Rightarrow> bool" where
  "on_tables I db \<equiv> I (db_server db)"

lemma keeps_stmt_tables:
  "(\<And>ps t. I t \<Longrightarrow> I (snd (statement W q ps t))) \<Longrightarrow> keeps_stmt (on_tables I) (tables_pq W) q"
  by (simp add: keeps_stmt_def tables_pq_def run_statement_def split: option.split)

lemma route_stmt_writes: "q \<in> route_statements r \<Longrightarrow> stmt_writes q \<subseteq> route_writes r"
  by (cases r) auto

lemma route_confined:
  assumes "hpq E = tables_pq W"
  shows "same_except (route_writes r) (tables_of s) (tables_of (snd (handle E r req s)))"
proof -
  have "keeps_stmt (on_tables (same_except (route_writes r) (tables_of s))) (hpq E) q"
    if "q \<in> route_statements r" for q
    unfolding assms using that same_except_trans statement_writes same_except_mono route_stmt_writes
    by (intro keeps_stmt_tables) metis
  then have "maintains (holds (on_tables (same_except (route_writes r) (tables_of s)))) (handle E r req)"
    by (rule route_holds)
  then show ?thesis by (simp add: maintains_def)
qed

subsection \<open>Sequences of requests\<close>

text \<open>
  The requests one after the other, with the time passing on the database server between them; the
  replies in order, an exception a handler does not catch among them.
\<close>

datatype event = Request route request | Wait nat

definition wait :: "nat \<Rightarrow> ('r, tables) http \<Rightarrow> ('r, tables) http" where
  "wait n s = with_tables ((tables_of s)\<lparr>pg_now := pg_now (tables_of s) + int n\<rparr>) s"

fun serve :: "('r, tables) henv \<Rightarrow> event list \<Rightarrow> ('r, tables) http \<Rightarrow> (err + response) list \<times> ('r, tables) http" where
  "serve E [] s = ([], s)"
| "serve E (Wait n # es) s = serve E es (wait n s)"
| "serve E (Request r req # es) s =
     (case handle E r req s of (x, s') \<Rightarrow> (case serve E es s' of (xs, s'') \<Rightarrow> (x # xs, s'')))"

text \<open>The state after a sequence of requests, and what holds of it.\<close>

abbreviation after :: "('r, tables) henv \<Rightarrow> event list \<Rightarrow> ('r, tables) http \<Rightarrow> ('r, tables) http" where
  "after E es s \<equiv> snd (serve E es s)"

lemma serve_after [simp]: "after E (Request r req # es) s = after E es (snd (handle E r req s))"
  by (simp split: prod.split)

declare serve.simps(3) [simp del]

lemma serve_invariant:
  assumes "hpq E = tables_pq W"
    and stmt: "\<And>q ps t. I t \<Longrightarrow> I (snd (statement W q ps t))"
    and time: "\<And>t n. I t \<Longrightarrow> I (t\<lparr>pg_now := pg_now t + int n\<rparr>)"
    and "I (tables_of s)"
  shows "I (tables_of (after E es s))"
  using \<open>I (tables_of s)\<close>
proof (induction es arbitrary: s)
  case (Cons e es)
  show ?case
  proof (cases e)
    case (Request r req)
    have "maintains (holds (on_tables I)) (handle E r req)"
      by (rule route_holds, unfold assms(1)) (intro keeps_stmt_tables stmt)
    with Cons Request show ?thesis by (simp add: maintains_def)
  qed (use Cons time in \<open>simp_all add: wait_def\<close>)
qed simp

lemma handle_connected: "db_conn (hdb (snd (handle E r req s))) = db_conn (hdb s)"
proof -
  have "maintains (holds (\<lambda>db. db_conn db = db_conn (hdb s))) (handle E r req)"
    by (rule route_holds) (simp add: keeps_stmt_def)
  then show ?thesis by (simp add: maintains_def)
qed

subsection \<open>Tables for the witnesses\<close>

definition demo_pg :: pg where
  "demo_pg = \<lparr>uuid = Some, new_id = (\<lambda>n. CHR ''n'' # show_nat n), fault = (\<lambda>q ps t. None),
     ilike = (\<lambda>x p. p = ''%'' @ x @ ''%''), collate = (\<lambda>x. x), time_text = show_int,
     time_read = strtol 10, scan = (\<lambda>q ps t. [])\<rparr>"

definition demo_user :: "string \<Rightarrow> string \<Rightarrow> string \<Rightarrow> user_row" where
  "demo_user i n e = \<lparr>usr_id = i, usr_name = n, usr_email = e, usr_phone = None, usr_display = Some n,
     usr_bio = None, usr_avatar = None, usr_status_text = None, usr_status = Some ''offline'', usr_created = 1,
     usr_deleted = False\<rparr>"

definition demo_message :: message_row where
  "demo_message = \<lparr>msg_key = ''m1'', msg_chat = ''c1'', msg_sender = Some ''u2'', msg_reply = None,
     msg_content = ''hi'', msg_type = Some ''text'', msg_edited = False, msg_pinned = False,
     msg_deleted = False, msg_created = 5\<rparr>"

definition demo_post :: post_row where
  "demo_post = \<lparr>post_key = ''p1'', post_channel = ''h1'', post_content = ''hello'', post_media = ''{}'',
     post_paid = False, post_author = ''u2'', post_created = 7\<rparr>"

definition demo_tables :: tables where
  "demo_tables =
     \<lparr>users = [demo_user ''u1'' ''ann'' ''a@b.c'', demo_user ''u2'' ''bob'' ''b@b.c''],
      otps = [\<lparr>otp_email = ''a@b.c'', otp_code = otp_hash demo_sodium ''123456'', otp_attempts = 0, otp_expires = 700\<rparr>],
      chats = [chat_new 1 ''c1'' ''group'' (Some (''g'', [])) ''u2''],
      members = [member_new 1 ''c1'' ''u2'' ''owner'' True],
      messages = [demo_message],
      deliveries = [], contacts = [],
      channels = [channel_new ''h1'' ''news'' ''News'' [] True ''u2''],
      subs = [\<lparr>sub_channel = ''h1'', sub_user = ''u2'', sub_role = ''owner''\<rparr>],
      posts = [demo_post],
      id_count = 0, pg_now = 100\<rparr>"

abbreviation demo_world :: "json \<Rightarrow> (string, tables) henv" where
  "demo_world body \<equiv> demo_henv body (tables_pq demo_pg)"

abbreviation demo_state :: "(string, tables) http" where
  "demo_state \<equiv> demo_http demo_tables"

lemma demo_world_pq: "hpq (demo_world b) = tables_pq demo_pg"
  by (simp add: demo_henv_def)

lemma demo_guarded:
  "hredis s = demo_client \<Longrightarrow>
   guarded (demo_henv b P) k demo_request s = k ''u1'' demo_request (s\<lparr>hticks := Suc (hticks s)\<rparr>)"
  by (simp add: guarded_run [OF demo_authenticated])

lemma demo_state_simps [simp]:
  "hredis demo_state = demo_client" "tables_of demo_state = demo_tables" "db_conn (hdb demo_state)"
  by (simp_all add: demo_http_def)

lemma demo_session:
  "authenticate_request (demo_henv b P) (authorization demo_request) (demo_http d) =
    (Inr (''u1'', 200), (demo_http d)\<lparr>hticks := 1\<rparr>)"
  using demo_authenticated [OF demo_client_ready(2)] by (simp add: demo_http_def)

lemma demo_rows:
  "users demo_tables = [demo_user ''u1'' ''ann'' ''a@b.c'', demo_user ''u2'' ''bob'' ''b@b.c'']"
  "chats demo_tables = [chat_new 1 ''c1'' ''group'' (Some (''g'', [])) ''u2'']"
  "members demo_tables = [member_new 1 ''c1'' ''u2'' ''owner'' True]"
  "messages demo_tables = [demo_message]"
  "contacts demo_tables = []"
  "channels demo_tables = [channel_new ''h1'' ''news'' ''News'' [] True ''u2'']"
  "subs demo_tables = [\<lparr>sub_channel = ''h1'', sub_user = ''u2'', sub_role = ''owner''\<rparr>]"
  "posts demo_tables = [demo_post]"
  "id_count demo_tables = 0" "pg_now demo_tables = 100"
  by (simp_all add: demo_tables_def)

lemma demo_ids: "uuid demo_pg x = Some x" "fault demo_pg q ps t = None" "new_id demo_pg 0 = ''n0''"
  by (simp_all add: demo_pg_def show_eval)

section \<open>What a request can change\<close>

text \<open>A request is admitted to a handler on a public route, or with a session.\<close>

definition admitted :: "('r, 'd) henv \<Rightarrow> route \<Rightarrow> request \<Rightarrow> ('r, 'd) http \<Rightarrow> bool" where
  "admitted E r req s \<longleftrightarrow> public_route r \<or>
     (case fst (authenticate_request E (authorization req) s) of Inl _ \<Rightarrow> False | Inr (u, _) \<Rightarrow> u \<noteq> [])"

lemma not_admitted_data:
  assumes "\<not> admitted E r req s"
  shows "http_data (snd (handle E r req s)) = http_data s"
proof -
  obtain k where k: "handle E r = guarded E k" using handle_guarded assms by (auto simp: admitted_def)
  obtain a s' where a: "authenticate_request E (authorization req) s = (a, s')" by force
  have "\<exists>x. handle E r req s = (x, s')"
  proof (cases a)
    case (Inl e)
    then show ?thesis using guarded_raise [of E req s e s' k] a by (simp add: k)
  next
    case (Inr b)
    then obtain st where "a = Inr ([], st)" using assms a by (cases b) (auto simp: admitted_def)
    then show ?thesis using guarded_run [of E req s "[]" st s' k] a by (simp add: k)
  qed
  then show ?thesis using gate.auth_data [OF a] by auto
qed

text \<open>C3: A request can write only the tables of its route, and only if it is admitted: whatever its
  body, parameters and replies, errors and failing statements included, every other table of the
  database is afterwards as it was; the routes that read write nothing at all.\<close>

theorem routes_confined:
  assumes "hpq E = tables_pq W"
  shows "same_except (if admitted E r req s then route_writes r else {})
    (tables_of s) (tables_of (snd (handle E r req s)))"
  using route_confined [OF assms] not_admitted_data [of E r req s] by auto

theorem routes_confined_witness:
  "same_except {Posts} demo_tables
     (tables_of (snd (handle (demo_world JNull) (Delete_Post ''h1'' ''p1'') demo_request demo_state))) \<and>
   posts (tables_of (snd (handle (demo_world JNull) (Delete_Post ''h1'' ''p1'') demo_request demo_state))) = [] \<and>
   same_except {} demo_tables
     (tables_of (snd (handle (demo_world JNull) (Get_Messages ''c1'') demo_request demo_state)))"
proof -
  have adm: "admitted (demo_world JNull) r demo_request demo_state" for r
    by (simp add: admitted_def demo_authenticated)
  have "tables_of (snd (handle (demo_world JNull) (Delete_Post ''h1'' ''p1'') demo_request demo_state)) =
      snd (run_statement demo_pg Post_Delete [''p1'', ''h1''] demo_tables)"
    by (simp add: route_delete_post_def try_500_def demo_guarded em_simps db_exec_tables [OF demo_world_pq]
        c_str_def split: prod.split sum.split)
  then have "posts (tables_of (snd (handle (demo_world JNull) (Delete_Post ''h1'' ''p1'') demo_request demo_state))) = []"
    by (simp add: run_statement_def demo_pg_def st_post_delete_def as_uuid_def demo_tables_def demo_post_def)
  then show ?thesis
    using routes_confined [OF demo_world_pq, of JNull "Delete_Post ''h1'' ''p1''" demo_request demo_state]
      routes_confined [OF demo_world_pq, of JNull "Get_Messages ''c1''" demo_request demo_state]
    by (simp add: adm)
qed

subsection \<open>The history of a chat\<close>

abbreviation message_keys :: "tables \<Rightarrow> (string \<times> string) list" where
  "message_keys t \<equiv> map (\<lambda>r. (msg_key r, msg_chat r)) (messages t)"

lemma statement_messages: "message_keys (snd (statement W q ps t)) = message_keys t"
proof (cases "q = Message_Pin")
  case True
  then show ?thesis
    by (simp add: st_message_pin_def params1_def as_uuid_def split: list.split option.split)
next
  case False
  then have "Messages \<notin> stmt_writes q" by (cases q) auto
  then have "same_tab Messages t (snd (statement W q ps t))"
    using statement_writes unfolding same_except_def by blast
  then show ?thesis by simp
qed

text \<open>C12: The routes that list, search, pin and count messages read a table that nothing fills: no
  sequence of requests adds, moves or removes a message, whatever is sent (the messaging server keeps
  what clients send in Redis only). From the empty table on, every history stays empty.\<close>

theorem messages_never_written:
  assumes "hpq E = tables_pq W"
  shows "message_keys (tables_of (after E es s)) = message_keys (tables_of s)"
  by (rule serve_invariant [OF assms, where I = "\<lambda>t. message_keys t = message_keys (tables_of s)"])
    (simp_all add: statement_messages)

theorem messages_never_written_witness:
  "message_keys (tables_of (after (demo_world JNull)
     [Request (Pin_Message ''c1'' ''m1'') demo_request, Wait 9, Request (Create_Post ''h1'') demo_request] demo_state))
   = [(''m1'', ''c1'')]"
  by (subst messages_never_written [OF demo_world_pq]) (simp add: demo_rows demo_message_def)

end
