(* ===== verification/Schema.thy ===== *)
theory Schema
  imports Tables_Props
begin

section \<open>The constraints of the schema as an invariant\<close>

text \<open>
  The UNIQUE and REFERENCES clauses of \<open>run_migrations\<close> as predicates of the tables
  (\<open>schema_ok\<close>), kept by every statement and so by every sequence of requests.
\<close>

subsection \<open>The constraints\<close>

definition users_ok :: "tables \<Rightarrow> bool" where
  "users_ok t \<longleftrightarrow> sorted_wrt (\<lambda>u v. \<not> user_clash u v) (users t)"

definition otps_ok :: "tables \<Rightarrow> bool" where
  "otps_ok t \<longleftrightarrow> distinct (map otp_email (otps t))"

definition chats_ok :: "tables \<Rightarrow> bool" where
  "chats_ok t \<longleftrightarrow> distinct (map chat_key (chats t)) \<and> list_all (\<lambda>c. user_exists (chat_creator c) t) (chats t)"

definition members_ok :: "tables \<Rightarrow> bool" where
  "members_ok t \<longleftrightarrow> distinct (map (\<lambda>r. (mem_chat r, mem_user r)) (members t)) \<and>
     list_all (\<lambda>r. chat_exists (mem_chat r) t \<and> user_exists (mem_user r) t) (members t)"

definition contacts_ok :: "tables \<Rightarrow> bool" where
  "contacts_ok t \<longleftrightarrow> distinct (map (\<lambda>r. (con_user r, con_contact r)) (contacts t)) \<and>
     list_all (\<lambda>r. user_exists (con_user r) t \<and> user_exists (con_contact r) t) (contacts t)"

definition channels_ok :: "tables \<Rightarrow> bool" where
  "channels_ok t \<longleftrightarrow> distinct (map chn_key (channels t)) \<and> distinct (map chn_username (channels t)) \<and>
     list_all (\<lambda>r. user_exists (chn_owner r) t) (channels t)"

definition subs_ok :: "tables \<Rightarrow> bool" where
  "subs_ok t \<longleftrightarrow> distinct (map (\<lambda>r. (sub_channel r, sub_user r)) (subs t)) \<and>
     list_all (\<lambda>r. channel_exists (sub_channel r) t \<and> user_exists (sub_user r) t) (subs t)"

definition posts_ok :: "tables \<Rightarrow> bool" where
  "posts_ok t \<longleftrightarrow> distinct (map post_key (posts t)) \<and>
     list_all (\<lambda>r. channel_exists (post_channel r) t \<and> user_exists (post_author r) t) (posts t)"

definition message_exists :: "string \<Rightarrow> tables \<Rightarrow> bool" where
  "message_exists m t = list_ex (\<lambda>r. msg_key r = m) (messages t)"

definition messages_ok :: "tables \<Rightarrow> bool" where
  "messages_ok t \<longleftrightarrow> distinct (map msg_key (messages t)) \<and>
     list_all (\<lambda>r. chat_exists (msg_chat r) t \<and> (msg_sender r = None \<or> user_exists (the (msg_sender r)) t) \<and>
       (msg_reply r = None \<or> message_exists (the (msg_reply r)) t)) (messages t)"

definition deliveries_ok :: "tables \<Rightarrow> bool" where
  "deliveries_ok t \<longleftrightarrow> distinct (map (\<lambda>r. (del_message r, del_user r)) (deliveries t)) \<and>
     list_all (\<lambda>r. message_exists (del_message r) t \<and> user_exists (del_user r) t) (deliveries t)"

definition schema_ok :: "tables \<Rightarrow> bool" where
  "schema_ok t \<longleftrightarrow> users_ok t \<and> otps_ok t \<and> chats_ok t \<and> members_ok t \<and> contacts_ok t \<and>
     channels_ok t \<and> subs_ok t \<and> posts_ok t \<and> messages_ok t \<and> deliveries_ok t"

lemmas ok_defs = users_ok_def otps_ok_def chats_ok_def members_ok_def contacts_ok_def
  channels_ok_def subs_ok_def posts_ok_def messages_ok_def deliveries_ok_def

lemmas exists_defs = user_exists_def chat_exists_def channel_exists_def message_exists_def

lemma exists_iff:
  "user_exists u t \<longleftrightarrow> u \<in> set (map usr_id (users t))"
  "chat_exists c t \<longleftrightarrow> c \<in> set (map chat_key (chats t))"
  "channel_exists h t \<longleftrightarrow> h \<in> set (map chn_key (channels t))"
  "message_exists m t \<longleftrightarrow> m \<in> set (map msg_key (messages t))"
  by (auto simp: exists_defs list_ex_iff)

text \<open>An update of some rows that keeps their keys.\<close>

lemma map_keys [simp]:
  "(\<And>x. k (g x) = k x) \<Longrightarrow> map (k \<circ> (\<lambda>x. if P x then g x else x)) xs = map k xs"
  by simp

lemma list_all_update [simp]:
  "(\<And>x. Q (g x) = Q x) \<Longrightarrow> list_all Q (map (\<lambda>x. if P x then g x else x) xs) = list_all Q xs"
  by (induction xs) auto

lemma list_ex_update [simp]:
  "(\<And>x. Q (g x) = Q x) \<Longrightarrow> list_ex Q (map (\<lambda>x. if P x then g x else x) xs) = list_ex Q xs"
  by (induction xs) auto

lemma distinct_filter_keys: "distinct (map k xs) \<Longrightarrow> distinct (map k (filter P xs))"
  by (induction xs) auto

lemma list_all_filtered: "list_all Q xs \<Longrightarrow> list_all Q (filter P xs)"
  by (auto simp: list_all_iff)

subsection \<open>Every statement keeps them\<close>

lemma user_clash_sym: "user_clash u v \<longleftrightarrow> user_clash v u"
  unfolding user_clash_def by metis

lemma set_columns_keys [simp]:
  "usr_id (set_columns cvs u) = usr_id u" "usr_name (set_columns cvs u) = usr_name u"
  "usr_email (set_columns cvs u) = usr_email u"
  by (induction cvs arbitrary: u) auto

lemma schema_listing:
  "stmt_writes q = {} \<Longrightarrow> schema_ok t \<Longrightarrow> schema_ok (snd (statement W q ps t))"
proof -
  assume none: "stmt_writes q = {}" and ok: "schema_ok t"
  have same: "same_tab a t (snd (statement W q ps t))" for a
    using statement_writes [of q t W ps] unfolding none same_except_def by blast
  from same [of Users] same [of Otps] same [of Chats] same [of Members] same [of Contacts]
    same [of Channels] same [of Subs] same [of Posts] same [of Messages] same [of Deliveries] ok
  show ?thesis by (simp add: schema_ok_def ok_defs exists_defs)
qed

lemma schema_otps:
  "schema_ok t \<Longrightarrow> schema_ok (snd (st_otp_upsert ps t))"
  "schema_ok t \<Longrightarrow> schema_ok (snd (st_otp_increment ps t))"
  "schema_ok t \<Longrightarrow> schema_ok (snd (st_otp_delete ps t))"
  by (auto simp: schema_ok_def ok_defs exists_defs stmt_defs otp_rows_def filter_empty_conv params1_def
      params3_def distinct_filter_keys split: list.split option.split)

lemma schema_users:
  "schema_ok t \<Longrightarrow> schema_ok (snd (st_user_insert W ps t))"
  by (auto simp: schema_ok_def ok_defs exists_defs stmt_defs Let_def sorted_wrt_append list_ex_iff
      user_clash_sym list_all_iff user_new_def split: list.split)

lemma schema_user_update: "schema_ok t \<Longrightarrow> schema_ok (snd (st_user_update W cs ps t))"
proof -
  assume ok: "schema_ok t"
  have upd: "schema_ok (t\<lparr>users := new\<rparr>)"
    if new: "new = map (\<lambda>u. if usr_id u = i then set_columns cvs u else u) (users t)"
      and free: "\<not> list_ex (\<lambda>u. list_ex (\<lambda>v. usr_id v \<noteq> usr_id u \<and> usr_phone u \<noteq> None \<and> usr_phone u = usr_phone v) new) new"
    for i cvs new
  proof -
    define f where "f = (\<lambda>u. if usr_id u = i then set_columns cvs u else u)"
    have keys: "usr_id (f u) = usr_id u" "usr_name (f u) = usr_name u" "usr_email (f u) = usr_email u" for u
      by (simp_all add: f_def)
    have phones: "usr_phone (f u) = None \<or> usr_phone (f u) \<noteq> usr_phone (f v)"
      if "u \<in> set (users t)" "v \<in> set (users t)" "usr_id v \<noteq> usr_id u" for u v
      using free that unfolding new f_def [symmetric] by (fastforce simp: list_ex_iff keys)
    have "sorted_wrt (\<lambda>u v. \<not> user_clash (f u) (f v)) (users t)"
    proof (rule sorted_wrt_mono_rel [of _ "\<lambda>u v. \<not> user_clash u v"])
      show "sorted_wrt (\<lambda>u v. \<not> user_clash u v) (users t)"
        using ok by (simp add: schema_ok_def users_ok_def)
      fix u v
      assume "u \<in> set (users t)" "v \<in> set (users t)" "\<not> user_clash u v"
      then show "\<not> user_clash (f u) (f v)" using phones [of u v] by (auto simp: user_clash_def keys)
    qed
    then have "users_ok (t\<lparr>users := new\<rparr>)" by (simp add: users_ok_def new f_def sorted_wrt_map)
    moreover have "user_exists u (t\<lparr>users := new\<rparr>) = user_exists u t" for u
      by (simp add: user_exists_def new)
    ultimately show ?thesis
      using ok by (simp add: schema_ok_def otps_ok_def chats_ok_def members_ok_def contacts_ok_def
          channels_ok_def subs_ok_def posts_ok_def messages_ok_def deliveries_ok_def chat_exists_def
          channel_exists_def message_exists_def)
  qed
  show ?thesis
    using ok upd [OF refl] by (auto simp: st_user_update_def as_uuid_def Let_def split: option.split)
qed

lemma schema_member:
  "schema_ok t \<Longrightarrow> member_error r t = None \<Longrightarrow> schema_ok (t\<lparr>members := members t @ [r]\<rparr>)"
  by (auto simp: schema_ok_def ok_defs exists_defs member_error_def is_member_row_def list_ex_iff
      split: if_splits)

lemma schema_insert_members: "insert_members rs t = Inr u \<Longrightarrow> schema_ok t \<Longrightarrow> schema_ok u"
  by (induction rs t rule: insert_members.induct) (auto simp: schema_member split: option.splits)

lemma schema_members_stmt: "schema_ok t \<Longrightarrow> schema_ok (snd (members_stmt rs t))"
  by (auto simp: members_stmt_def intro: schema_insert_members split: sum.split)

lemma schema_insert_chat: "schema_ok t \<Longrightarrow> schema_ok (snd (insert_chat W k n c t))"
  by (auto simp: insert_chat_def chat_new_def Let_def schema_ok_def ok_defs exists_defs list_ex_iff list_all_iff)

lemma schema_insert_sub:
  "schema_ok t \<Longrightarrow> \<not> list_ex (is_sub_row c u) (subs t) \<Longrightarrow> schema_ok (snd (insert_sub c u r t))"
  by (auto simp: insert_sub_def schema_ok_def ok_defs exists_defs is_sub_row_def list_ex_iff)

lemma schema_updates:
  "schema_ok t \<Longrightarrow> schema_ok (t\<lparr>members := map (\<lambda>r. if P r then r\<lparr>mem_left := l\<rparr> else r) (members t)\<rparr>)"
  "schema_ok t \<Longrightarrow> schema_ok (t\<lparr>members := map (\<lambda>r. if P r then r\<lparr>mem_muted := m r\<rparr> else r) (members t)\<rparr>)"
  "schema_ok t \<Longrightarrow> schema_ok (t\<lparr>messages := map (\<lambda>r. if G r then r\<lparr>msg_pinned := \<not> msg_pinned r\<rparr> else r) (messages t)\<rparr>)"
  "schema_ok t \<Longrightarrow> schema_ok (t\<lparr>contacts := map (\<lambda>r. if D r then r\<lparr>con_nickname := n\<rparr> else r) (contacts t)\<rparr>)"
  "schema_ok t \<Longrightarrow> schema_ok (t\<lparr>contacts := filter D (contacts t)\<rparr>)"
  "schema_ok t \<Longrightarrow> schema_ok (t\<lparr>channels := map (\<lambda>r. if H r then r\<lparr>chn_count := k r\<rparr> else r) (channels t)\<rparr>)"
  "schema_ok t \<Longrightarrow> schema_ok (t\<lparr>posts := filter F (posts t)\<rparr>)"
  by (simp_all add: schema_ok_def ok_defs exists_defs distinct_filter_keys list_all_filtered)

lemma schema_chats:
  "schema_ok t \<Longrightarrow> schema_ok (snd (st_direct_create W ps t))"
  "schema_ok t \<Longrightarrow> schema_ok (snd (st_group_create W ps t))"
  "schema_ok t \<Longrightarrow> schema_ok (snd (st_direct_members W ps t))"
  "schema_ok t \<Longrightarrow> schema_ok (snd (st_group_owner W ps t))"
  "schema_ok t \<Longrightarrow> schema_ok (snd (st_group_member W ps t))"
  "schema_ok t \<Longrightarrow> schema_ok (snd (st_member_add W ps t))"
  "schema_ok t \<Longrightarrow> schema_ok (snd (st_member_leave W ps t))"
  "schema_ok t \<Longrightarrow> schema_ok (snd (st_chat_mute W ps t))"
  "schema_ok t \<Longrightarrow> schema_ok (snd (st_message_pin W ps t))"
  by (simp_all add: stmt_defs params1_def params2_def params3_def as_uuid_def schema_insert_chat
      schema_members_stmt schema_updates split: list.split option.split)

lemma schema_contact:
  assumes "schema_ok t" and "\<not> list_ex (is_contact_row (con_user r) (con_contact r)) (contacts t)"
    and "user_exists (con_user r) t" and "user_exists (con_contact r) t"
  shows "schema_ok (t\<lparr>contacts := contacts t @ [r]\<rparr>)"
  using assms by (auto simp: schema_ok_def ok_defs exists_defs is_contact_row_def list_ex_iff)

lemma schema_contacts:
  "schema_ok t \<Longrightarrow> schema_ok (snd (st_contact_upsert W ps t))"
  "schema_ok t \<Longrightarrow> schema_ok (snd (st_contact_delete W ps t))"
  by (simp_all add: stmt_defs params2_def params3_def as_uuid_def schema_updates schema_contact contact_new_def
      split: list.split option.split)

lemma schema_channels:
  "schema_ok t \<Longrightarrow> schema_ok (snd (st_channel_owner W ps t))"
  "schema_ok t \<Longrightarrow> schema_ok (snd (st_channel_subscribe W ps t))"
  "schema_ok t \<Longrightarrow> schema_ok (snd (st_channel_count_up W ps t))"
  "schema_ok t \<Longrightarrow> schema_ok (snd (st_post_delete W ps t))"
  by (simp_all add: stmt_defs params1_def params2_def as_uuid_def schema_insert_sub
      schema_updates split: list.split option.split)

lemma schema_channel_create: "schema_ok t \<Longrightarrow> schema_ok (snd (st_channel_create W ps t))"
  by (auto simp: stmt_defs as_uuid_def Let_def list_ex_iff list_all_iff schema_ok_def ok_defs
      exists_defs channel_new_def post_new_def post_exists_def split: list.split option.split)

lemma schema_post_insert: "schema_ok t \<Longrightarrow> schema_ok (snd (st_post_insert W ps t))"
  by (auto simp: stmt_defs as_uuid_def Let_def list_ex_iff list_all_iff schema_ok_def ok_defs
      exists_defs channel_new_def post_new_def post_exists_def split: list.split option.split)

lemmas schema_writers = schema_otps schema_users schema_user_update schema_chats schema_contacts
  schema_channels schema_channel_create schema_post_insert

lemma schema_statement: "schema_ok t \<Longrightarrow> schema_ok (snd (statement W q ps t))"
proof (cases "stmt_writes q = {}")
  case False
  then show "schema_ok t \<Longrightarrow> ?thesis" by (cases q) (simp_all add: schema_writers)
qed (rule schema_listing)

section \<open>The property\<close>


lemma demo_schema: "schema_ok demo_tables"
  by (simp add: schema_ok_def ok_defs exists_defs demo_tables_def demo_user_def user_clash_def member_new_def
      chat_new_def channel_new_def demo_post_def
      demo_message_def)


end
