(* ===== verification/Otp_Props.thy ===== *)
theory Otp_Props
  imports Schema
begin

section \<open>One-time codes and registration on the tables\<close>

text \<open>
  What \<open>verify-otp\<close> and \<open>register\<close> do, case by case, when the database works, and how many
  guesses at a code a sequence of requests can make when only the two statements that count them
  work.
\<close>

subsection \<open>Reading a row\<close>

lemma doc_accessors:
  assumes "json_accessors_ok L"
  shows "j_get_str L (JStr x) = Inr x" "j_get_str L JNull = Inl Type_Error"
  using assms by (simp_all add: json_accessors_ok_def doc_json_def doc_get_str_def)

lemma otp_row_json:
  "col (row_json [''code_hash'', ''expires_at'', ''attempts''] [Some h, Some x, Some a]) ''attempts'' = JStr (c_str a)"
  "col (row_json [''code_hash'', ''expires_at'', ''attempts''] [Some h, Some x, Some a]) ''code_hash'' = JStr (c_str h)"
  by (simp_all add: row_json_def col_def cell_def)

lemma one_col: "col (row_json [n] [Some x]) n = JStr (c_str x)"
  by (simp add: row_json_def col_def cell_def)

lemma stoi_show_int: "0 \<le> i \<Longrightarrow> i < 2 ^ 31 \<Longrightarrow> stoi (show_int i) = Inr i"
  using stoi_show_nat [of "nat i"] by (simp add: show_int_def nat_less_iff)


subsection \<open>verify-otp, case by case\<close>

text \<open>What a \<open>verify-otp\<close> request asks for: the e-mail address and the code.\<close>

definition otp_of :: "('r, 'd) henv \<Rightarrow> request \<Rightarrow> (string \<times> string) option" where
  "otp_of E req =
     (case j_parse (hlib E) (req_body req) of
        Inl _ \<Rightarrow> None
      | Inr b \<Rightarrow>
          (case (j_value_str (hlib E) b ''email'' [], j_value_str (hlib E) b ''code'' []) of
             (Inr email, Inr code) \<Rightarrow> if email = [] \<or> code = [] then None else Some (email, code)
           | _ \<Rightarrow> None))"

text \<open>The tables after an attempt has been counted, and after the code has been deleted.\<close>

definition count_attempt :: "string \<Rightarrow> tables \<Rightarrow> tables" where
  "count_attempt e t = snd (st_otp_increment [e] t)"

definition drop_code :: "string \<Rightarrow> tables \<Rightarrow> tables" where
  "drop_code e t = snd (st_otp_delete [e] t)"

definition server_works :: "pg \<Rightarrow> sql set \<Rightarrow> bool" where
  "server_works W Q \<longleftrightarrow> (\<forall>q \<in> Q. \<forall>ps t. fault W q ps t = None)"

lemma works_run: "server_works W Q \<Longrightarrow> q \<in> Q \<Longrightarrow> run_statement W q ps t = statement W q ps t"
  by (simp add: server_works_def run_statement_def)

lemma select_code:
  assumes "hpq E = tables_pq W" and "db_conn (hdb s)" and "server_works W {Otp_Select}"
  shows "db_query E Otp_Select [m] s = (Inr (map (\<lambda>r. row_json [''code_hash'', ''expires_at'', ''attempts'']
      [Some (otp_code r), Some (time_text W (otp_expires r)), Some (show_int (otp_attempts r))])
      (otp_rows (c_str m) (tables_of s))), s)"
  by (simp add: db_query_tables [OF assms(1,2)] works_run [OF assms(3)] st_otp_select_def comp_def)

lemma increment_code:
  assumes "hpq E = tables_pq W" and "db_conn (hdb s)" and "server_works W {Otp_Increment}"
  shows "\<exists>n. db_exec E Otp_Increment [m] s = (Inr n, with_tables (count_attempt (c_str m) (tables_of s)) s)"
  by (simp add: db_exec_tables [OF assms(1,2)] works_run [OF assms(3)] st_otp_increment_def count_attempt_def)

lemma delete_code:
  assumes "hpq E = tables_pq W" and "db_conn (hdb s)" and "server_works W {Otp_Delete}"
  shows "\<exists>n. db_exec E Otp_Delete [m] s = (Inr n, with_tables (drop_code (c_str m) (tables_of s)) s)"
  by (simp add: db_exec_tables [OF assms(1,2)] works_run [OF assms(3)] st_otp_delete_def drop_code_def)

text \<open>Counters as the code keeps them.\<close>

definition counts_ok :: "string \<Rightarrow> tables \<Rightarrow> bool" where
  "counts_ok e t \<longleftrightarrow>
     (case otp_rows e t of [] \<Rightarrow> True | r # _ \<Rightarrow> 0 \<le> otp_attempts r \<and> otp_attempts r \<le> 5)"

text \<open>Up to the check of the code, with only the counting statements known to work.\<close>

lemma verify_run:
  assumes "hpq E = tables_pq W" and "db_conn (hdb s)" and "server_works W {Otp_Select, Otp_Increment}"
    and "json_accessors_ok (hlib E)" and "otp_of E req = Some (m, c)"
    and "counts_ok (c_str m) (tables_of s)"
  shows "route_verify_otp E req s =
    (case otp_rows (c_str m) (tables_of s) of
       [] \<Rightarrow> (Inr (error_resp E 400 ''No OTP found for this email. Request a new one.''), s)
     | r # _ \<Rightarrow>
         if 5 \<le> otp_attempts r then (Inr (error_resp E 429 ''Too many attempts. Request a new OTP.''), s)
         else check_otp E m c (row_json [''code_hash'', ''expires_at'', ''attempts'']
                [Some (otp_code r), Some (time_text W (otp_expires r)), Some (show_int (otp_attempts r))])
              (with_tables (count_attempt (c_str m) (tables_of s)) s))"
proof -
  have works: "server_works W {Otp_Select}" "server_works W {Otp_Increment}"
    using assms(3) by (simp_all add: server_works_def)
  obtain n where inc: "db_exec E Otp_Increment [m] s = (Inr n, with_tables (count_attempt (c_str m) (tables_of s)) s)"
    using increment_code [OF assms(1,2) works(2)] by blast
  obtain b where b: "j_parse (hlib E) (req_body req) = Inr b" "j_value_str (hlib E) b ''email'' [] = Inr m"
    "j_value_str (hlib E) b ''code'' [] = Inr c" "m \<noteq> []" "c \<noteq> []"
    using assms(5) by (auto simp: otp_of_def split: sum.splits if_splits)
  show ?thesis
  proof (cases "otp_rows (c_str m) (tables_of s)")
    case Nil
    then show ?thesis
      using b by (simp add: route_verify_otp_def with_json_body_def body_str_def em_simps
          select_code [OF assms(1,2) works(1)])
  next
    case (Cons r rs)
    have "c_str (show_int (otp_attempts r)) = show_int (otp_attempts r)"
      using assms(6) Cons by (simp add: show_int_def counts_ok_def)
    moreover have "stoi (show_int (otp_attempts r)) = Inr (otp_attempts r)"
      using assms(6) Cons by (intro stoi_show_int) (simp_all add: counts_ok_def)
    ultimately show ?thesis
      using b Cons inc by (simp add: route_verify_otp_def with_json_body_def body_str_def em_simps
          select_code [OF assms(1,2) works(1)] col_str_def otp_row_json doc_accessors [OF assms(4)])
  qed
qed

subsection \<open>Guesses left\<close>

text \<open>How many more requests can be compared with the code of an address.\<close>

definition guesses_left :: "string \<Rightarrow> tables \<Rightarrow> nat" where
  "guesses_left e t = (case otp_rows e t of [] \<Rightarrow> 0 | r # _ \<Rightarrow> nat (5 - otp_attempts r))"

lemma otp_rows_count:
  "otp_rows e (count_attempt m t) =
     (if m = e then map (\<lambda>r. r\<lparr>otp_attempts := otp_attempts r + 1\<rparr>) (otp_rows e t) else otp_rows e t)"
proof -
  have "filter (\<lambda>r. otp_email r = e) (map (\<lambda>r. if otp_email r = m then f r else r) xs) =
      (if m = e then map f (filter (\<lambda>r. otp_email r = e) xs) else filter (\<lambda>r. otp_email r = e) xs)"
    if "\<And>r. otp_email (f r) = otp_email r" for f :: "otp_row \<Rightarrow> otp_row" and xs
    by (induction xs) (auto simp: that)
  then show ?thesis by (simp add: otp_rows_def count_attempt_def st_otp_increment_def)
qed

lemma otp_rows_delete:
  "otp_rows e (t\<lparr>otps := filter (\<lambda>r. otp_email r \<noteq> m) (otps t)\<rparr>) = (if m = e then [] else otp_rows e t)"
  by (auto simp: otp_rows_def filter_empty_conv intro!: filter_cong)

lemma otp_rows_drop: "otp_rows e (drop_code m t) = (if m = e then [] else otp_rows e t)"
  by (simp add: drop_code_def st_otp_delete_def otp_rows_delete)

text \<open>The statements after the count leave the rows of an address or delete them.\<close>

lemma rows_or_none:
  assumes "q \<in> {Otp_Valid, Otp_Delete, User_Login}"
  shows "keeps_stmt (on_tables (\<lambda>t. otp_rows e t = rs \<or> otp_rows e t = [])) (tables_pq W) q"
  using assms
  by (auto intro!: keeps_stmt_tables simp: st_otp_valid_def st_user_login_def st_otp_delete_def
      params1_def otp_rows_delete split: list.split)

lemma check_otp_rows:
  assumes "hpq E = tables_pq W"
  shows "otp_rows e (tables_of (snd (check_otp E m c r s))) = otp_rows e (tables_of s) \<or>
    otp_rows e (tables_of (snd (check_otp E m c r s))) = []"
proof -
  have "maintains (holds (on_tables (\<lambda>t. otp_rows e t = otp_rows e (tables_of s) \<or> otp_rows e t = []))) (check_otp E m c r)"
    by (rule holds_check_otp; unfold assms; rule rows_or_none; simp)
  then show ?thesis by (simp add: maintains_def)
qed


text \<open>Requests for a new code of an address.\<close>

fun asks_code :: "('r, 'd) henv \<Rightarrow> string \<Rightarrow> event \<Rightarrow> bool" where
  "asks_code E e (Request Send_Otp req) =
     (case j_parse (hlib E) (req_body req) of
        Inl _ \<Rightarrow> False
      | Inr b \<Rightarrow> (case j_value_str (hlib E) b ''email'' [] of Inl _ \<Rightarrow> False | Inr m \<Rightarrow> c_str m = e))"
| "asks_code E e _ = False"

lemma and_then_lift [simp]:
  "and_then (lift_sum (Inr x)) k = k x" "and_then (lift_sum (Inl e)) k = raise e"
  by (rule ext, simp add: em_simps)+

lemma stmt_keeps:
  assumes "hpq E = tables_pq W" and "\<And>t. J t \<Longrightarrow> J (snd (statement W q (map c_str ps) t))"
  shows "maintains (holds (on_tables J)) (db_exec E q ps)" "maintains (holds (on_tables J)) (db_query E q ps)"
  using assms(2)
  by (auto simp: maintains_def db_exec_def db_query_def em_simps exec_def query_def assms(1) tables_pq_def
      run_statement_def split: prod.splits option.splits pg_status.splits) (metis snd_conv)+

lemma other_code:
  assumes "c_str m \<noteq> e"
  shows "otp_rows e (snd (st_otp_upsert [c_str m, h, x] t)) = otp_rows e t"
    "otp_rows e (snd (st_otp_increment [c_str m] t)) = otp_rows e t"
    "otp_rows e (snd (st_otp_delete [c_str m] t)) = otp_rows e t"
proof -
  have "filter (\<lambda>r. otp_email r = e) (map (\<lambda>r. if otp_email r = c_str m then f r else r) xs) =
      filter (\<lambda>r. otp_email r = e) xs" if "\<And>r. otp_email (f r) = otp_email r" for f :: "otp_row \<Rightarrow> otp_row" and xs
    using assms by (induction xs) (auto simp: that)
  then show "otp_rows e (snd (st_otp_upsert [c_str m, h, x] t)) = otp_rows e t"
    using assms by (simp add: st_otp_upsert_def otp_rows_def split: option.split)
  show "otp_rows e (snd (st_otp_increment [c_str m] t)) = otp_rows e t"
    using assms otp_rows_count [of e "c_str m" t] by (simp add: count_attempt_def)
  show "otp_rows e (snd (st_otp_delete [c_str m] t)) = otp_rows e t"
    using assms otp_rows_drop [of e "c_str m" t] by (simp add: drop_code_def)
qed

lemma other_keeps:
  assumes "hpq E = tables_pq W" and "c_str m \<noteq> e"
  shows "maintains (holds (on_tables (\<lambda>t. otp_rows e t = rs))) (db_exec E Otp_Upsert [m, h, x])"
    "maintains (holds (on_tables (\<lambda>t. otp_rows e t = rs))) (db_exec E Otp_Increment [m])"
    "maintains (holds (on_tables (\<lambda>t. otp_rows e t = rs))) (db_exec E Otp_Delete [m])"
    "maintains (holds (on_tables (\<lambda>t. otp_rows e t = rs))) (db_query E Otp_Select [m])"
    "maintains (holds (on_tables (\<lambda>t. otp_rows e t = rs))) (db_query E Otp_Valid [m])"
    "maintains (holds (on_tables (\<lambda>t. otp_rows e t = rs))) (db_query E User_Login [m])"
  by (rule stmt_keeps [OF assms(1)];
      simp add: other_code [OF assms(2)] st_otp_select_def st_otp_valid_def st_user_login_def)+

lemma send_other:
  assumes "hpq E = tables_pq W" and "\<not> asks_code E e (Request Send_Otp req)"
  shows "maintains (holds (on_tables (\<lambda>t. otp_rows e t = rs))) (route_send_otp E req)"
proof -
  consider x where "j_parse (hlib E) (req_body req) = Inl x"
    | b x where "j_parse (hlib E) (req_body req) = Inr b" "j_value_str (hlib E) b ''email'' [] = Inl x"
    | b m where "j_parse (hlib E) (req_body req) = Inr b" "j_value_str (hlib E) b ''email'' [] = Inr m" "c_str m \<noteq> e"
    using assms(2) by (fastforce split: sum.splits)
  then show ?thesis
  proof cases
    case 3
    then show ?thesis
      unfolding route_send_otp_def with_json_body_def body_str_def
      by (simp) (intro conjI impI frame_intros route_frame other_keeps [OF assms(1)]; assumption)
  qed (simp_all add: route_send_otp_def with_json_body_def body_str_def frame_intros)
qed

text \<open>One request: what it takes from the guesses left.\<close>

definition too_many :: "err + response \<Rightarrow> bool" where
  "too_many x = (case x of Inl _ \<Rightarrow> False | Inr resp \<Rightarrow> resp_status resp = 429)"

definition tries_code :: "('r, 'd) henv \<Rightarrow> string \<Rightarrow> route \<Rightarrow> request \<Rightarrow> bool" where
  "tries_code E e r req \<longleftrightarrow> r = Verify_Otp \<and>
     (case otp_of E req of None \<Rightarrow> False | Some (m, _) \<Rightarrow> c_str m = e)"

lemma verify_other:
  assumes "hpq E = tables_pq W" and "\<not> tries_code E e Verify_Otp req"
  shows "maintains (holds (on_tables (\<lambda>t. otp_rows e t = rs))) (route_verify_otp E req)"
proof (cases "otp_of E req")
  case None
  then show ?thesis
    by (auto simp: otp_of_def route_verify_otp_def with_json_body_def body_str_def frame_intros
        split: sum.splits if_splits)
next
  case (Some mc)
  obtain m c b where b: "j_parse (hlib E) (req_body req) = Inr b" "j_value_str (hlib E) b ''email'' [] = Inr m"
    "j_value_str (hlib E) b ''code'' [] = Inr c" "m \<noteq> []" "c \<noteq> []" "c_str m \<noteq> e"
    using Some assms(2) by (auto simp: otp_of_def tries_code_def split: sum.splits if_splits)
  then show ?thesis
    unfolding route_verify_otp_def with_json_body_def body_str_def check_otp_def login_user_def Let_def
    by (simp del: not_None_eq)
      (intro frame_intros route_frame(2-) other_keeps [OF assms(1)]; assumption)
qed

lemma guesses_left_rows: "otp_rows e t = otp_rows e u \<Longrightarrow> guesses_left e t = guesses_left e u"
  "otp_rows e t = otp_rows e u \<Longrightarrow> counts_ok e t = counts_ok e u"
  by (simp_all add: guesses_left_def counts_ok_def)

definition costs :: "string \<Rightarrow> route \<Rightarrow> request \<Rightarrow> ('r, tables) henv \<Rightarrow> ('r, tables) http \<Rightarrow> bool" where
  "costs e r req E s \<longleftrightarrow> tries_code E e r req \<and> otp_rows e (tables_of s) \<noteq> [] \<and>
     \<not> too_many (fst (handle E r req s))"

lemma verify_step:
  assumes "hpq E = tables_pq W" and "db_conn (hdb s)" and "server_works W {Otp_Select, Otp_Increment}"
    and "json_accessors_ok (hlib E)" and "tries_code E e Verify_Otp req" and "counts_ok e (tables_of s)"
  shows "counts_ok e (tables_of (snd (route_verify_otp E req s))) \<and>
    guesses_left e (tables_of (snd (route_verify_otp E req s))) + (if costs e Verify_Otp req E s then 1 else 0)
      \<le> guesses_left e (tables_of s)"
proof -
  obtain m c where mc: "otp_of E req = Some (m, c)" "c_str m = e"
    using assms(5) by (auto simp: tries_code_def split: option.splits)
  note run = verify_run [OF assms(1-4) mc(1), unfolded mc(2), OF assms(6)]
  show ?thesis
  proof (cases "otp_rows e (tables_of s)")
    case Nil
    then show ?thesis using assms(6) by (simp add: run costs_def)
  next
    case (Cons r rs)
    show ?thesis
    proof (cases "5 \<le> otp_attempts r")
      case True
      then show ?thesis
        using assms(6) Cons by (simp add: run costs_def too_many_def error_resp_def json_resp_def)
    next
      case False
      let ?s = "with_tables (count_attempt e (tables_of s)) s"
      obtain x s' where x: "route_verify_otp E req s = (x, s')" "otp_rows e (tables_of s') = otp_rows e (tables_of ?s) \<or> otp_rows e (tables_of s') = []"
        using check_otp_rows [OF assms(1), of e m c _ ?s] False Cons
        by (simp add: run) (metis prod.collapse)
      then show ?thesis
        using x(2) False Cons assms(6)
        by (auto simp: x(1) counts_ok_def guesses_left_def otp_rows_count)
    qed
  qed
qed

text \<open>A request that neither asks for a code of the address nor tries one leaves its row.\<close>

lemma otp_rows_kept:
  assumes "hpq E = tables_pq W" and "\<not> asks_code E e (Request r req)" and "\<not> tries_code E e r req"
  shows "otp_rows e (tables_of (snd (handle E r req s))) = otp_rows e (tables_of s)"
proof -
  consider "r = Send_Otp" | "r = Verify_Otp" | "Otps \<notin> route_writes r" by (cases r) auto
  then show ?thesis
  proof cases
    case 1
    then show ?thesis
      using send_other [OF assms(1), of e req] assms(2) by (simp add: maintains_def)
  next
    case 2
    then show ?thesis
      using verify_other [OF assms(1), of e req] assms(3) by (simp add: maintains_def)
  next
    case 3
    then have "same_tab Otps (tables_of s) (tables_of (snd (handle E r req s)))"
      using route_confined [OF assms(1)] unfolding same_except_def by blast
    then show ?thesis by (simp add: otp_rows_def)
  qed
qed

text \<open>Any request that does not ask for a new code of the address.\<close>

lemma request_step:
  assumes "hpq E = tables_pq W" and "db_conn (hdb s)" and "server_works W {Otp_Select, Otp_Increment}"
    and "json_accessors_ok (hlib E)" and "\<not> asks_code E e (Request r req)" and "counts_ok e (tables_of s)"
  shows "counts_ok e (tables_of (snd (handle E r req s))) \<and>
    guesses_left e (tables_of (snd (handle E r req s))) + (if costs e r req E s then 1 else 0)
      \<le> guesses_left e (tables_of s)"
proof (cases "tries_code E e r req")
  case True
  then show ?thesis using verify_step [OF assms(1-4) _ assms(6)] by (simp add: tries_code_def)
next
  case False
  note same = otp_rows_kept [OF assms(1,5) False]
  then show ?thesis
    using False assms(6) guesses_left_rows [OF same] by (simp add: costs_def)
qed

text \<open>The requests of a sequence that were compared with a code: those that found one and were not
  answered with 429.\<close>

fun guesses :: "('r, tables) henv \<Rightarrow> string \<Rightarrow> event list \<Rightarrow> ('r, tables) http \<Rightarrow> nat" where
  "guesses E e [] s = 0"
| "guesses E e (Wait n # es) s = guesses E e es (wait n s)"
| "guesses E e (Request r req # es) s =
     (if costs e r req E s then 1 else 0) + guesses E e es (snd (handle E r req s))"

lemma otp_rows_wait [simp]: "otp_rows e (tables_of (wait n s)) = otp_rows e (tables_of s)"
  by (simp add: wait_def otp_rows_def)

section \<open>Properties of codes and registration\<close>

text \<open>C5: Between two codes sent to an address, at most five requests are compared with a code: in any
  sequence of requests of anyone to any route, at any times, that does not ask for a new code of the
  address, the \<open>verify-otp\<close> requests for it that find a code and are not refused with 429 are at
  most five less the attempts already counted. This needs only the statements that read and count
  attempts to work; once the code is gone there is none to guess. (The requests run one after the
  other here: the handler reads the counter and increments it in two statements.)\<close>

theorem otp_guesses_bounded:
  assumes "hpq E = tables_pq W" and "db_conn (hdb s)" and "server_works W {Otp_Select, Otp_Increment}"
    and "json_accessors_ok (hlib E)" and "counts_ok e (tables_of s)" and "\<not> list_ex (asks_code E e) es"
  shows "guesses E e es s \<le> guesses_left e (tables_of s) \<and> guesses_left e (tables_of s) \<le> 5"
proof -
  have "guesses E e es s \<le> guesses_left e (tables_of s)"
    using assms(2,5,6)
  proof (induction es arbitrary: s)
    case (Cons ev es)
    show ?case
    proof (cases ev)
      case (Request r req)
      have step: "counts_ok e (tables_of (snd (handle E r req s))) \<and>
        guesses_left e (tables_of (snd (handle E r req s))) + (if costs e r req E s then 1 else 0)
          \<le> guesses_left e (tables_of s)"
        using request_step [OF assms(1) _ assms(3,4), of s e r req] Cons.prems Request by simp
      moreover have "guesses E e es (snd (handle E r req s)) \<le> guesses_left e (tables_of (snd (handle E r req s)))"
        using Cons.IH [of "snd (handle E r req s)"] Cons.prems step by (simp add: handle_connected)
      ultimately show ?thesis using Request by simp
    next
      case (Wait n)
      then show ?thesis
        using Cons.IH [of "wait n s"] Cons.prems guesses_left_rows [OF otp_rows_wait, of e n s]
        by (simp add: wait_def)
    qed
  qed simp
  moreover have "guesses_left e (tables_of s) \<le> 5"
    using assms(5) by (auto simp: guesses_left_def counts_ok_def split: list.splits)
  ultimately show ?thesis by simp
qed

lemma demo_code:
  "otp_rows ''a@b.c'' demo_tables =
     [\<lparr>otp_email = ''a@b.c'', otp_code = otp_hash demo_sodium ''123456'', otp_attempts = 0, otp_expires = 700\<rparr>]"
  by (simp add: otp_rows_def demo_tables_def)

theorem otp_guesses_bounded_witness:
  "let E = demo_world (JObj [(''code'', JStr ''000000''), (''email'', JStr ''a@b.c'')]);
       es = replicate 7 (Request Verify_Otp demo_request) @ [Wait 3, Request Get_Me demo_request] in
   guesses E ''a@b.c'' es demo_state \<le> guesses_left ''a@b.c'' demo_tables \<and> guesses_left ''a@b.c'' demo_tables \<le> 5"
proof -
  let ?E = "demo_world (JObj [(''code'', JStr ''000000''), (''email'', JStr ''a@b.c'')])"
  have works: "server_works demo_pg Q" for Q by (simp add: server_works_def demo_pg_def)
  have acc: "json_accessors_ok (hlib (demo_world b))" for b by (simp add: demo_henv_def demo_json_ok)
  have "counts_ok ''a@b.c'' (tables_of demo_state)"
    using demo_code by (simp add: counts_ok_def)
  moreover have "\<not> list_ex (asks_code ?E ''a@b.c'')
      (replicate 7 (Request Verify_Otp demo_request) @ [Wait 3, Request Get_Me demo_request])"
    by (simp add: numeral_eq_Suc)
  ultimately show ?thesis
    using otp_guesses_bounded [OF demo_world_pq _ works acc, of demo_state] by (simp add: Let_def)
qed

lemma drop_counted: "drop_code e (count_attempt e t) = drop_code e t"
proof -
  have "filter (\<lambda>r. otp_email r \<noteq> e) (map (\<lambda>r. if otp_email r = e then f r else r) xs) =
      filter (\<lambda>r. otp_email r \<noteq> e) xs" if "\<And>r. otp_email (f r) = otp_email r" for f :: "otp_row \<Rightarrow> otp_row" and xs
    by (induction xs) (auto simp: that)
  then show ?thesis by (simp add: drop_code_def count_attempt_def st_otp_delete_def st_otp_increment_def)
qed

lemma verify_otp_run:
  assumes "hpq E = tables_pq W" and "db_conn (hdb s)"
    and "server_works W {Otp_Select, Otp_Increment, Otp_Valid, Otp_Delete}"
    and "json_accessors_ok (hlib E)" and "otp_of E req = Some (m, c)" and "counts_ok (c_str m) (tables_of s)"
  shows "route_verify_otp E req s =
    (case otp_rows (c_str m) (tables_of s) of
       [] \<Rightarrow> (Inr (error_resp E 400 ''No OTP found for this email. Request a new one.''), s)
     | r # _ \<Rightarrow>
         if 5 \<le> otp_attempts r then (Inr (error_resp E 429 ''Too many attempts. Request a new OTP.''), s)
         else if otp_expires r \<le> pg_now (tables_of s) then
           (Inr (error_resp E 400 ''OTP expired. Request a new one.''),
            with_tables (count_attempt (c_str m) (tables_of s)) s)
         else if c_str (otp_code r) \<noteq> otp_hash (hsod E) c then
           (Inr (error_resp E 400 ''Invalid OTP code''),
            with_tables (count_attempt (c_str m) (tables_of s)) s)
         else login_user E m (with_tables (drop_code (c_str m) (tables_of s)) s))"
proof -
  let ?s = "with_tables (count_attempt (c_str m) (tables_of s)) s"
  have sub: "server_works W {Otp_Select, Otp_Increment}" "server_works W {Otp_Valid}" "server_works W {Otp_Delete}"
    using assms(3) by (simp_all add: server_works_def)
  have conn: "db_conn (hdb ?s)" using assms(2) by simp
  have now: "pg_now (count_attempt e t) = pg_now t" for e t
    by (simp add: count_attempt_def st_otp_increment_def)
  have valid: "db_query E Otp_Valid [m] ?s = (Inr (map (\<lambda>r. row_json [''valid'']
      [Some (if pg_now (tables_of s) < otp_expires r then ''t'' else ''f'')]) (otp_rows (c_str m) (tables_of s))), ?s)"
    by (simp add: db_query_tables [OF assms(1) conn] works_run [OF sub(2)] st_otp_valid_def otp_rows_count
        comp_def now)
  obtain n where del: "db_exec E Otp_Delete [m] ?s = (Inr n, with_tables (drop_code (c_str m) (tables_of s)) s)"
    using delete_code [OF assms(1) conn sub(3), of m] by (auto simp: drop_counted)
  have tf: "c_str ''t'' = ''t''" "c_str ''f'' = ''f''" by (simp_all add: c_str_def)
  show ?thesis
    unfolding verify_run [OF assms(1,2) sub(1) assms(4-6)]
    by (auto simp: check_otp_def em_simps valid del col_str_def otp_row_json one_col tf
        doc_accessors [OF assms(4)] split: list.split)
qed

text \<open>C15: Case by case, with a database that works, \<open>verify-otp\<close> answers as documented: 400 when no
  code was sent, 429 after five attempts, both without effect; 400 for an expired code and for a
  wrong one, counted as attempts; and for the right one the code is deleted, so that it serves once,
  and the user is signed in.\<close>

theorem verify_otp_cases:
  assumes "hpq E = tables_pq W" and "db_conn (hdb s)"
    and "server_works W {Otp_Select, Otp_Increment, Otp_Valid, Otp_Delete}"
    and "json_accessors_ok (hlib E)" and "otp_of E req = Some (m, c)" and "counts_ok (c_str m) (tables_of s)"
  shows "route_verify_otp E req s =
    (case otp_rows (c_str m) (tables_of s) of
       [] \<Rightarrow> (Inr (error_resp E 400 ''No OTP found for this email. Request a new one.''), s)
     | r # _ \<Rightarrow>
         if 5 \<le> otp_attempts r then (Inr (error_resp E 429 ''Too many attempts. Request a new OTP.''), s)
         else if otp_expires r \<le> pg_now (tables_of s) then
           (Inr (error_resp E 400 ''OTP expired. Request a new one.''),
            with_tables (count_attempt (c_str m) (tables_of s)) s)
         else if c_str (otp_code r) \<noteq> otp_hash (hsod E) c then
           (Inr (error_resp E 400 ''Invalid OTP code''),
            with_tables (count_attempt (c_str m) (tables_of s)) s)
         else login_user E m (with_tables (drop_code (c_str m) (tables_of s)) s))"
  by (rule verify_otp_run [OF assms])

lemma demo_hash: "CHR 0x00 \<notin> set x \<Longrightarrow> c_str (otp_hash demo_sodium x) = otp_hash demo_sodium x"
proof -
  have a: "char_of_byte 97 = CHR ''a''" by (simp add: char_of_byte_def char_of_def bit_Suc_0_iff)
  have "otp_hash demo_sodium x = take 32 (x @ replicate 32 (CHR ''a''))"
    using string_of_bytes_of [of x]
    by (simp add: otp_hash_def demo_sodium_def toy_sodium_def take_map [symmetric] string_of_def a)
  moreover assume "CHR 0x00 \<notin> set x"
  ultimately show ?thesis by (auto intro!: no_nul_c_str dest: in_set_takeD)
qed

theorem verify_otp_cases_witness:
  "let E = demo_world (JObj [(''code'', JStr ''123456''), (''email'', JStr ''a@b.c'')]) in
   route_verify_otp E demo_request demo_state =
     login_user E ''a@b.c'' (with_tables (drop_code ''a@b.c'' demo_tables) demo_state)"
proof -
  let ?E = "demo_world (JObj [(''code'', JStr ''123456''), (''email'', JStr ''a@b.c'')])"
  have works: "server_works demo_pg Q" for Q by (simp add: server_works_def demo_pg_def)
  have acc: "json_accessors_ok (hlib ?E)" by (simp add: demo_henv_def demo_json_ok)
  have asks: "otp_of ?E demo_request = Some (''a@b.c'', ''123456'')"
    by (simp add: otp_of_def demo_henv_def demo_json_def doc_json_def doc_value_def doc_get_str_def
        demo_request_def)
  have email: "c_str ''a@b.c'' = ''a@b.c''" by (simp add: c_str_def)
  have ok: "counts_ok (c_str ''a@b.c'') (tables_of demo_state)"
    using demo_code by (simp add: counts_ok_def email)
  have hash: "c_str (otp_hash demo_sodium ''123456'') = otp_hash (hsod ?E) ''123456''"
    by (simp add: demo_hash demo_henv_def)
  have now: "pg_now demo_tables = 100" by (simp add: demo_tables_def)
  show ?thesis
    using verify_otp_cases [OF demo_world_pq _ works acc asks ok]
    by (simp add: Let_def email demo_code now hash)
qed

end
