(* ===== verification/Register_Props.thy ===== *)
theory Register_Props
  imports Otp_Props
begin

section \<open>Registration on the tables\<close>

text \<open>
  \<open>register\<close> with a database that works, reply by reply, and the text formats it and
  \<open>send-otp\<close> require, against the languages of the two regular expressions.
\<close>

subsection \<open>The duplicate checks and the insertion\<close>

definition taken :: "string \<Rightarrow> string \<Rightarrow> tables \<Rightarrow> bool" where
  "taken column v t = list_ex (user_with column v) (users t)"

lemma find_user:
  assumes "hpq E = tables_pq W" and "db_conn (hdb s)" and "server_works W {User_With column}"
  shows "db_query E (User_With column) [v] s =
    (Inr (map (\<lambda>u. row_json [''id''] [Some (usr_id u)]) (filter (user_with column (c_str v)) (users (tables_of s)))), s)"
  by (simp add: db_query_tables [OF assms(1,2)] works_run [OF assms(3)] st_user_with_def comp_def)

lemma taken_filter: "filter (user_with column v) (users t) = [] \<longleftrightarrow> \<not> taken column v t"
  by (auto simp: taken_def filter_empty_conv list_ex_iff)

abbreviation user_checks :: "sql set" where
  "user_checks \<equiv> {User_With ''username'', User_With ''email'', User_With ''phone_number''}"

lemma register_checks_run:
  assumes "hpq E = tables_pq W" and "db_conn (hdb s)" and "server_works W user_checks"
  shows "register_checks E n m p s =
    (Inr (if taken ''username'' (c_str n) (tables_of s) then Some (error_resp E 409 ''Username already taken'')
          else if taken ''email'' (c_str m) (tables_of s) then Some (error_resp E 409 ''Email already registered'')
          else if p \<noteq> [] \<and> taken ''phone_number'' (c_str p) (tables_of s)
          then Some (error_resp E 409 ''Phone number already registered'')
          else None), s)"
proof -
  have works: "server_works W {User_With ''username''}" "server_works W {User_With ''email''}"
    "server_works W {User_With ''phone_number''}"
    using assms(3) by (simp_all add: server_works_def)
  show ?thesis
    by (simp add: register_checks_def em_simps find_user [OF assms(1,2) works(1)] taken_filter
        find_user [OF assms(1,2) works(2)] find_user [OF assms(1,2) works(3)])
qed

lemma user_clash_new:
  assumes "\<not> taken ''username'' n t" and "\<not> taken ''email'' m t" and "p = [] \<or> \<not> taken ''phone_number'' p t"
  shows "list_ex (user_clash (user_new W t n m p d)) (users t) \<longleftrightarrow> user_exists (new_id W (id_count t)) t"
  using assms
  by (auto simp: taken_def user_with_def user_clash_def user_new_def user_exists_def list_ex_iff) metis+

lemma register_insert_run:
  assumes "hpq E = tables_pq W" and "db_conn (hdb s)" and "server_works W {User_Insert}"
    and "json_accessors_ok (hlib E)"
    and "\<not> taken ''username'' (c_str n) (tables_of s)" and "\<not> taken ''email'' (c_str m) (tables_of s)"
    and "c_str p = [] \<or> \<not> taken ''phone_number'' (c_str p) (tables_of s)"
  shows "register_insert E [n, m, p, d, pk] s =
    (let t = tables_of s; i = new_id W (id_count t) in
     if user_exists i t
     then (Inr (Inl (error_resp E 500 ''Server error: Query failed: duplicate key value violates unique constraint'')),
           with_tables (t\<lparr>id_count := Suc (id_count t)\<rparr>) s)
     else (Inr (Inr (c_str i)),
           with_tables (t\<lparr>users := users t @ [user_new W t (c_str n) (c_str m) (c_str p) (c_str d)],
             id_count := Suc (id_count t)\<rparr>) s))"
proof -
  let ?t = "tables_of s"
  let ?u = "user_new W ?t (c_str n) (c_str m) (c_str p) (c_str d)"
  have clash: "list_ex (user_clash ?u) (users ?t) = user_exists (new_id W (id_count ?t)) ?t"
    using user_clash_new [OF assms(5-7)] .
  have ins: "st_user_insert W [c_str n, c_str m, c_str p, c_str d, c_str pk] ?t =
      (if user_exists (new_id W (id_count ?t)) ?t
       then (pg_fail ''duplicate key value violates unique constraint'', ?t\<lparr>id_count := Suc (id_count ?t)\<rparr>)
       else (pg_tuples [''id''] [[Some (usr_id ?u)]], ?t\<lparr>users := users ?t @ [?u], id_count := Suc (id_count ?t)\<rparr>))"
    using clash by (simp add: st_user_insert_def user_new_def Let_def)
  have "usr_id ?u = new_id W (id_count ?t)" by (simp add: user_new_def)
  then show ?thesis
    by (simp add: register_insert_def em_simps db_query_tables [OF assms(1,2)] works_run [OF assms(3)] ins
        what_def col_str_def one_col doc_accessors [OF assms(4)] Let_def)
qed

text \<open>The fields of a \<open>register\<close> request.\<close>

definition register_fields :: "('r, 'd) henv \<Rightarrow> request \<Rightarrow> string \<Rightarrow> string \<Rightarrow> string \<Rightarrow> string \<Rightarrow> bool" where
  "register_fields E req email username display phone \<longleftrightarrow>
     (case j_parse (hlib E) (req_body req) of
        Inl _ \<Rightarrow> False
      | Inr b \<Rightarrow> j_value_str (hlib E) b ''email'' [] = Inr email \<and>
          j_value_str (hlib E) b ''username'' [] = Inr username \<and>
          j_value_str (hlib E) b ''displayName'' username = Inr display \<and>
          j_value_str (hlib E) b ''phone'' [] = Inr phone)"



subsection \<open>Formats\<close>

text \<open>C37: \<open>email_ok\<close>, the executable form of the test in \<open>send-otp\<close>, accepts exactly the
  language of the regular expression \<open>[^@\s]+@[^@\s]+\.[^@\s]+\<close>.\<close>

theorem email_ok_language:
  "email_ok s \<longleftrightarrow> (\<exists>a b c. s = a @ ''@'' @ b @ ''.'' @ c \<and> a \<noteq> [] \<and> b \<noteq> [] \<and> c \<noteq> [] \<and>
     list_all (\<lambda>x. x \<noteq> CHR ''@'' \<and> \<not> is_space x) (a @ b @ c))"
proof
  assume "email_ok s"
  then obtain i j where i: "find_ch (CHR ''@'') s = Some i" and "take i s \<noteq> []"
    and plain: "list_all (\<lambda>x. x \<noteq> CHR ''@'' \<and> \<not> is_space x) (take i s @ drop (i + 1) s)"
    and j: "1 \<le> j" "j < length (drop (i + 1) s) - 1" "drop (i + 1) s ! j = CHR ''.''"
    by (auto simp: email_ok_def Let_def list_ex_iff split: option.splits)
  define a d where "a = take i s" and "d = drop (i + 1) s"
  define b c where "b = take j d" and "c = drop (j + 1) d"
  have "d = b @ ''.'' @ c"
    using id_take_nth_drop [of j d] j by (simp add: b_def c_def d_def)
  moreover have "s = a @ ''@'' @ d" using find_ch_split [OF i] by (simp add: a_def d_def)
  moreover have "b \<noteq> []" "c \<noteq> []" using j by (auto simp: b_def c_def d_def)
  moreover have "a \<noteq> []" using \<open>take i s \<noteq> []\<close> by (simp add: a_def)
  moreover have "list_all (\<lambda>x. x \<noteq> CHR ''@'' \<and> \<not> is_space x) (a @ d)"
    using plain by (simp add: a_def d_def)
  ultimately show "\<exists>a b c. s = a @ ''@'' @ b @ ''.'' @ c \<and> a \<noteq> [] \<and> b \<noteq> [] \<and> c \<noteq> [] \<and>
     list_all (\<lambda>x. x \<noteq> CHR ''@'' \<and> \<not> is_space x) (a @ b @ c)"
    by (intro exI [of _ a] exI [of _ b] exI [of _ c]) simp
next
  assume "\<exists>a b c. s = a @ ''@'' @ b @ ''.'' @ c \<and> a \<noteq> [] \<and> b \<noteq> [] \<and> c \<noteq> [] \<and>
     list_all (\<lambda>x. x \<noteq> CHR ''@'' \<and> \<not> is_space x) (a @ b @ c)"
  then obtain a b c where s: "s = a @ ''@'' @ b @ ''.'' @ c" and ne: "a \<noteq> []" "b \<noteq> []" "c \<noteq> []"
    and plain: "list_all (\<lambda>x. x \<noteq> CHR ''@'' \<and> \<not> is_space x) (a @ b @ c)" by blast
  have "CHR ''@'' \<notin> set a" using plain by (auto simp: list_all_iff)
  then have "find_ch (CHR ''@'') s = Some (length a)"
    using find_ch_first [of "CHR ''@''" a "b @ ''.'' @ c"] by (simp add: s)
  moreover have "list_ex (\<lambda>j. (b @ CHR ''.'' # c) ! j = CHR ''.'') [1 ..< length (b @ CHR ''.'' # c) - 1]"
    using ne by (auto simp: list_ex_iff Suc_le_eq intro!: bexI [of _ "length b"])
  moreover have "\<not> is_space (CHR ''.'')" by (simp add: is_space_def)
  ultimately show "email_ok s"
    using ne(1) plain by (simp add: email_ok_def s)
qed

end
