(* ===== verification/Contact_Props.thy ===== *)
theory Contact_Props
  imports Register_Props
begin

section \<open>The contact routes on the tables\<close>

text \<open>
  The contact list as what it promises, a partial function from user and contact to nickname, which
  the table and its statements refine (locale \<open>upsert_table\<close>); the three routes as operations on it.
\<close>

subsection \<open>Admitted requests\<close>

text \<open>A handler of a request with a session runs for its user, on the database as it was.\<close>

lemma admitted_run:
  assumes "authenticate_request E (authorization req) s = (Inr (u, st), s1)" and "u \<noteq> []"
  shows "guarded E k req s = k u req s1" and "hdb s1 = hdb s"
  using guarded_run [OF assms(1)] gate.auth_data [OF assms(1)] assms(2) by simp_all

text \<open>A string field of the body of a request.\<close>

definition body_field :: "('r, 'd) henv \<Rightarrow> request \<Rightarrow> string \<Rightarrow> string \<Rightarrow> bool" where
  "body_field E req key v =
     (case j_parse (hlib E) (req_body req) of Inl _ \<Rightarrow> False | Inr b \<Rightarrow> j_value_str (hlib E) b key [] = Inr v)"

lemma body_fieldE:
  assumes "body_field E req key v"
  obtains b where "j_parse (hlib E) (req_body req) = Inr b" "j_value_str (hlib E) b key [] = Inr v"
  using assms by (auto simp: body_field_def split: sum.splits)

subsection \<open>A table with insertion or update\<close>

locale upsert_table =
  fixes look :: "'t \<Rightarrow> 'k \<Rightarrow> 'v option"
    and put :: "'k \<Rightarrow> 'v \<Rightarrow> 't \<Rightarrow> 't"
    and del :: "'k \<Rightarrow> 't \<Rightarrow> 't"
  assumes look_put: "look (put k v t) = (look t)(k \<mapsto> v)"
    and look_del: "look (del k t) = (look t)(k := None)"
begin

lemma present_iff: "look (put k v t) l \<noteq> None \<longleftrightarrow> l = k \<or> look t l \<noteq> None"
  by (simp add: look_put)

lemma put_again: "look (put k w (put k v t)) = look (put k w t)"
  by (simp add: look_put)

lemma del_put: "look (del k (put k v t)) = look (del k t)"
  by (simp add: look_put look_del)

end

definition contact_of :: "contact_row list \<Rightarrow> string \<times> string \<Rightarrow> string option" where
  "contact_of rows uc =
     (case filter (is_contact_row (fst uc) (snd uc)) rows of [] \<Rightarrow> None | r # _ \<Rightarrow> Some (con_nickname r))"

definition put_contact :: "string \<times> string \<Rightarrow> string \<Rightarrow> contact_row list \<Rightarrow> contact_row list" where
  "put_contact uc n rows =
     (if list_ex (is_contact_row (fst uc) (snd uc)) rows
      then map (\<lambda>r. if is_contact_row (fst uc) (snd uc) r then r\<lparr>con_nickname := n\<rparr> else r) rows
      else rows @ [contact_new (fst uc) (snd uc) n])"

definition del_contact :: "string \<times> string \<Rightarrow> contact_row list \<Rightarrow> contact_row list" where
  "del_contact uc rows = filter (\<lambda>r. \<not> is_contact_row (fst uc) (snd uc) r) rows"

lemma contact_of_Cons:
  "contact_of [] uc = None"
  "contact_of (r # rs) uc = (if is_contact_row (fst uc) (snd uc) r then Some (con_nickname r) else contact_of rs uc)"
  by (simp_all add: contact_of_def)

lemma contact_of_append:
  "contact_of (rs @ qs) uc = (case contact_of rs uc of None \<Rightarrow> contact_of qs uc | Some n \<Rightarrow> Some n)"
  by (induction rs) (simp_all add: contact_of_Cons)

lemma contact_of_None: "contact_of rs uc = None \<longleftrightarrow> \<not> list_ex (is_contact_row (fst uc) (snd uc)) rs"
  by (induction rs) (auto simp: contact_of_Cons)

lemma other_contact: "is_contact_row u c r \<Longrightarrow> is_contact_row v d r \<longleftrightarrow> v = u \<and> d = c"
  by (auto simp: is_contact_row_def)

lemma contact_of_put: "contact_of (put_contact k n rs) = (contact_of rs)(k \<mapsto> n)"
proof (rule ext)
  fix l
  have upd: "contact_of (map (\<lambda>r. if is_contact_row (fst k) (snd k) r then r\<lparr>con_nickname := n\<rparr> else r) rs) l =
      (if l = k \<and> list_ex (is_contact_row (fst k) (snd k)) rs then Some n else contact_of rs l)" for rs l
    by (induction rs) (auto simp: contact_of_Cons is_contact_row_def prod_eq_iff)
  have new: "is_contact_row u c (contact_new (fst k) (snd k) n) \<longleftrightarrow> k = (u, c)" for u c
    by (auto simp: is_contact_row_def contact_new_def prod_eq_iff)
  have nick: "con_nickname (contact_new u c n) = n" for u c by (simp add: contact_new_def)
  show "contact_of (put_contact k n rs) l = ((contact_of rs)(k \<mapsto> n)) l"
    using contact_of_None [of rs k]
    by (cases "l = k") (auto simp: put_contact_def upd contact_of_append contact_of_Cons new nick split: option.split)
qed

lemma contact_of_del: "contact_of (del_contact k rs) = (contact_of rs)(k := None)"
proof (rule ext)
  show "contact_of (del_contact k rs) l = ((contact_of rs)(k := None)) l" for l
    by (induction rs) (auto simp: del_contact_def contact_of_Cons is_contact_row_def prod_eq_iff)
qed

interpretation contact_list: upsert_table contact_of put_contact del_contact
  by unfold_locales (rule contact_of_put contact_of_del)+

subsection \<open>The statements and the routes\<close>

lemma upsert_run:
  assumes "uuid W u = Some a" and "uuid W c = Some b"
  shows "st_contact_upsert W [u, c, n] t =
    (if contact_of (contacts t) (a, b) = None \<and> \<not> (user_exists a t \<and> user_exists b t)
     then (pg_fail ''violates foreign key constraint'', t)
     else (pg_done 1, t\<lparr>contacts := put_contact (a, b) n (contacts t)\<rparr>))"
  using assms by (auto simp: st_contact_upsert_def as_uuid_def put_contact_def contact_of_None)

lemma delete_run:
  assumes "uuid W u = Some a" and "uuid W c = Some b"
  shows "st_contact_delete W [u, c] t = (pg_done (length (filter (is_contact_row a b) (contacts t))),
    t\<lparr>contacts := del_contact (a, b) (contacts t)\<rparr>)"
  using assms by (simp add: st_contact_delete_def as_uuid_def del_contact_def)

lemma check_run:
  assumes "uuid W u = Some a" and "uuid W c = Some b"
  shows "st_contact_check W [u, c] t =
    (pg_tuples [''?column?''] (map (\<lambda>_. [Some ''1'']) (filter (is_contact_row a b) (contacts t))), t)"
  using assms by (simp add: st_contact_check_def as_uuid_def)

text \<open>The contacts the tables stand for.\<close>

definition contact_map :: "('r, tables) http \<Rightarrow> string \<times> string \<rightharpoonup> string" where
  "contact_map s = contact_of (contacts (tables_of s))"

section \<open>Property of the contact routes\<close>



end
