(* ===== verification/Chat_Props.thy ===== *)
theory Chat_Props
  imports Contact_Props
begin

section \<open>The chat routes on the tables\<close>

text \<open>
  Opening direct chats, the membership test and its holes, case by case for requests with a session
  on a database that works.
\<close>

text \<open>The private chats two users are both listed in.\<close>

definition direct_chats :: "string \<Rightarrow> string \<Rightarrow> tables \<Rightarrow> chat_row list" where
  "direct_chats a b t =
     filter (\<lambda>c. chat_kind c = ''private'' \<and> list_ex (is_member_row (chat_key c) a) (members t) \<and>
       list_ex (is_member_row (chat_key c) b) (members t)) (chats t)"

lemma direct_chats_sym: "direct_chats a b t = direct_chats b a t"
  unfolding direct_chats_def by (rule filter_cong) auto

lemma direct_find_run:
  assumes "uuid W u = Some a" and "uuid W v = Some b"
  shows "st_direct_find W [u, v] t =
    (pg_tuples [''id''] (take 1 (map (\<lambda>c. [Some (chat_key c)]) (direct_chats a b t))), t)"
  using assms by (simp add: st_direct_find_def as_uuid_def direct_chats_def)

abbreviation private_chat :: "int \<Rightarrow> string \<Rightarrow> string \<Rightarrow> chat_row" where
  "private_chat now i a \<equiv> chat_new now i ''private'' None a"

lemma direct_create_run:
  assumes "uuid W u = Some a" and "user_exists a t" and "\<not> chat_exists (new_id W (id_count t)) t"
  shows "st_direct_create W [u] t =
    (pg_tuples [''id''] [[Some (new_id W (id_count t))]],
     t\<lparr>id_count := Suc (id_count t), chats := chats t @ [private_chat (pg_now t) (new_id W (id_count t)) a]\<rparr>)"
  using assms by (simp add: st_direct_create_def as_uuid_def insert_chat_def Let_def chat_new_def)

text \<open>Nobody is a member of a chat that does not exist.\<close>

lemma no_members:
  assumes "schema_ok t" and "\<not> chat_exists i t"
  shows "\<not> list_ex (is_member_row i u) (members t)"
  using assms by (auto simp: schema_ok_def members_ok_def is_member_row_def list_ex_iff list_all_iff)

lemma direct_members_run:
  assumes "uuid W i' = Some i" and "uuid W u = Some a" and "uuid W v = Some b"
    and "\<not> list_ex (is_member_row i a) (members t)" and "\<not> list_ex (is_member_row i b) (members t)"
    and "chat_exists i t" and "user_exists a t"
  shows "st_direct_members W [i', u, v] t =
    (if a = b then (pg_fail ''duplicate key value violates unique constraint'', t)
     else if \<not> user_exists b t then (pg_fail ''violates foreign key constraint'', t)
     else (pg_done 2, t\<lparr>members := members t @ [member_new (pg_now t) i a ''member'' False, member_new (pg_now t) i b ''member'' False]\<rparr>))"
proof -
  have "member_error (member_new (pg_now t) i a ''member'' False) t = None"
    using assms by (simp add: member_error_def member_new_def)
  moreover have "member_error (member_new (pg_now t) i b ''member'' False) (t\<lparr>members := members t @ [member_new (pg_now t) i a ''member'' False]\<rparr>) =
    (if a = b then Some ''duplicate key value violates unique constraint''
     else if \<not> user_exists b t then Some ''violates foreign key constraint'' else None)"
    using assms by (auto simp: member_error_def member_new_def is_member_row_def chat_exists_def user_exists_def)
  ultimately show ?thesis
    using assms(1-3) by (auto simp: st_direct_members_def as_uuid_def members_stmt_def numeral_2_eq_2)
qed

lemma c_str_twice [simp]: "c_str (c_str x) = c_str x"
  by (simp add: c_str_def takeWhile_idem)

lemma open_direct_run:
  assumes "hpq E = tables_pq W" and "db_conn (hdb s)"
    and "server_works W {Direct_Find, Direct_Create, Direct_Members}" and "json_accessors_ok (hlib E)"
    and "authenticate_request E (authorization req) s = (Inr (u, st), s1)" and "u \<noteq> []"
    and "body_field E req ''targetUserId'' v" and "v \<noteq> []"
    and "uuid W (c_str u) = Some a" and "uuid W (c_str v) = Some b"
    and "uuid W (c_str (new_id W (id_count (tables_of s)))) = Some (new_id W (id_count (tables_of s)))"
    and "schema_ok (tables_of s)" and "user_exists a (tables_of s)"
    and "\<not> chat_exists (new_id W (id_count (tables_of s))) (tables_of s)"
  shows "route_open_direct E req s =
    (let t = tables_of s; i = new_id W (id_count t);
         t1 = t\<lparr>id_count := Suc (id_count t), chats := chats t @ [private_chat (pg_now t) i a]\<rparr>
     in case direct_chats a b t of
          c # _ \<Rightarrow> (Inr (json_resp E 200 (jobj [(''id'', JStr (c_str (chat_key c)))])), s1)
        | [] \<Rightarrow>
            if a \<noteq> b \<and> user_exists b t
            then (Inr (json_resp E 201 (jobj [(''id'', JStr (c_str i))])),
                  with_tables (t1\<lparr>members := members t @ [member_new (pg_now t) i a ''member'' False, member_new (pg_now t) i b ''member'' False]\<rparr>) s1)
            else (Inr (error_resp E 500 ''Server error''), with_tables t1 s1))"
proof -
  note run = admitted_run [OF assms(5,6)]
  have conn: "db_conn (hdb s1)" and tabs: "tables_of s1 = tables_of s" using assms(2) run(2) by simp_all
  have works: "server_works W {Direct_Find}" "server_works W {Direct_Create}" "server_works W {Direct_Members}"
    using assms(3) by (simp_all add: server_works_def)
  obtain bd where bd: "j_parse (hlib E) (req_body req) = Inr bd" "j_value_str (hlib E) bd ''targetUserId'' [] = Inr v"
    using assms(7) by (auto elim!: body_fieldE)
  define t where "t = tables_of s"
  define i where "i = new_id W (id_count t)"
  define t1 where "t1 = t\<lparr>id_count := Suc (id_count t), chats := chats t @ [private_chat (pg_now t) i a]\<rparr>"
  have i: "uuid W (c_str i) = Some i" using assms(11) by (simp add: i_def t_def)
  have known: "user_exists a t" "\<not> chat_exists i t" using assms(13,14) by (simp_all add: t_def i_def)
  have find: "db_query E Direct_Find [u, v] s1 =
      (Inr (map (row_json [''id'']) (take 1 (map (\<lambda>c. [Some (chat_key c)]) (direct_chats a b t)))), s1)"
    by (simp add: db_query_tables [OF assms(1) conn] works_run [OF works(1)] direct_find_run [OF assms(9,10)]
        tabs t_def [symmetric])
  have create: "db_query E Direct_Create [u] s1 = (Inr [row_json [''id''] [Some i]], with_tables t1 s1)"
    using direct_create_run [of W "c_str u" a t] assms(9) known
    by (simp add: db_query_tables [OF assms(1) conn] works_run [OF works(2)] tabs t_def [symmetric] i_def [symmetric] t1_def)
  have none: "\<not> list_ex (is_member_row i x) (members t1)" for x
    using no_members [of t i x] assms(12) known(2) by (simp add: t1_def t_def)
  have there: "chat_exists i t1" "user_exists x t1 = user_exists x t" "members t1 = members t" "pg_now t1 = pg_now t" for x
    using known(1) by (simp_all add: t1_def chat_exists_def user_exists_def chat_new_def)
  have conn1: "db_conn (hdb (with_tables t1 s1))" using conn by simp
  have add: "db_exec E Direct_Members [c_str i, u, v] (with_tables t1 s1) =
     (if a \<noteq> b \<and> user_exists b t
      then (Inr (affected_rows (show_nat 2)),
            with_tables (t1\<lparr>members := members t @ [member_new (pg_now t) i a ''member'' False, member_new (pg_now t) i b ''member'' False]\<rparr>) s1)
      else (Inl (Runtime_Error (if a = b then ''Exec failed: duplicate key value violates unique constraint''
                                else ''Exec failed: violates foreign key constraint'')), with_tables t1 s1))"
    using direct_members_run [OF i assms(9,10) none none there(1)] known there
    by (simp add: db_exec_tables [OF assms(1) conn1] works_run [OF works(3)])
  show ?thesis
    unfolding Let_def t_def [symmetric] i_def [symmetric] t1_def [symmetric]
    using bd assms(8)
    by (cases "direct_chats a b t")
      (auto simp: route_open_direct_def run(1) with_json_body_def body_str_def try_500_def em_simps find create
        add first_row_def col_str_def one_col doc_accessors [OF assms(4)])
qed

lemma open_direct_found:
  assumes "hpq E = tables_pq W" and "db_conn (hdb s)" and "server_works W {Direct_Find}"
    and "authenticate_request E (authorization req) s = (Inr (u, st), s1)" and "u \<noteq> []"
    and "body_field E req ''targetUserId'' v" and "v \<noteq> []"
    and "uuid W (c_str u) = Some a" and "uuid W (c_str v) = Some b"
    and "direct_chats a b (tables_of s) = c # cs"
  shows "route_open_direct E req s = (Inr (json_resp E 200 (jobj [(''id'', JStr (c_str (chat_key c)))])), s1)"
proof -
  note run = admitted_run [OF assms(4,5)]
  obtain bd where bd: "j_parse (hlib E) (req_body req) = Inr bd" "j_value_str (hlib E) bd ''targetUserId'' [] = Inr v"
    using assms(6) by (auto elim!: body_fieldE)
  have "db_conn (hdb s1)" "tables_of s1 = tables_of s" using assms(2) run(2) by simp_all
  then have "db_query E Direct_Find [u, v] s1 = (Inr [row_json [''id''] [Some (chat_key c)]], s1)"
    by (simp add: db_query_tables [OF assms(1)] works_run [OF assms(3)] direct_find_run [OF assms(8,9)] assms(10))
  then show ?thesis
    using bd assms(7)
    by (simp add: route_open_direct_def run(1) with_json_body_def body_str_def try_500_def em_simps one_col)
qed

text \<open>After the creation the new chat is the only one of the two.\<close>

lemma direct_chats_new:
  assumes "direct_chats a b t = []" and "\<not> chat_exists i t"
    and "t2 = t\<lparr>id_count := k, chats := chats t @ [private_chat (pg_now t) i a],
       members := members t @ [member_new (pg_now t) i a ''member'' False, member_new (pg_now t) i b ''member'' False]\<rparr>"
  shows "direct_chats a b t2 = [private_chat (pg_now t) i a]"
proof -
  have "chat_key c \<noteq> i" if "c \<in> set (chats t)" for c
    using assms(2) that by (auto simp: chat_exists_def list_ex_iff)
  then have "filter (\<lambda>c. chat_kind c = ''private'' \<and> list_ex (is_member_row (chat_key c) a) (members t2) \<and>
      list_ex (is_member_row (chat_key c) b) (members t2)) (chats t) = direct_chats a b t"
    unfolding direct_chats_def
    by (intro filter_cong) (auto simp: assms(3) is_member_row_def member_new_def)
  then show ?thesis
    using assms(1)
    by (simp add: direct_chats_def assms(3) chat_new_def is_member_row_def member_new_def)
qed

subsection \<open>Members\<close>

definition active_member :: "string \<Rightarrow> string \<Rightarrow> tables \<Rightarrow> bool" where
  "active_member c u t = list_ex (\<lambda>r. is_member_row c u r \<and> mem_left r = None) (members t)"

lemma member_check_run:
  assumes "uuid W c' = Some c" and "uuid W u' = Some u"
  shows "st_member_check W [c', u'] t =
    (pg_tuples [''?column?''] (map (\<lambda>_. [Some ''1'']) (filter (\<lambda>r. is_member_row c u r \<and> mem_left r = None) (members t))), t)"
  using assms by (simp add: st_member_check_def as_uuid_def)

lemma list_ex_updated:
  "list_ex P xs \<Longrightarrow> (\<And>x. P x \<Longrightarrow> Q (f x)) \<Longrightarrow> list_ex Q (map (\<lambda>x. if P x then f x else x) xs)"
  "(\<And>x. P x \<Longrightarrow> \<not> Q (f x)) \<Longrightarrow> (\<And>x. \<not> P x \<Longrightarrow> \<not> Q x) \<Longrightarrow> \<not> list_ex Q (map (\<lambda>x. if P x then f x else x) xs)"
  by (induction xs) auto

lemma member_add_run:
  assumes "uuid W c' = Some c" and "uuid W u' = Some u" and "chat_exists c t" and "user_exists u t"
  shows "\<exists>ms. st_member_add W [c', u'] t = (pg_done 1, t\<lparr>members := ms\<rparr>) \<and> active_member c u (t\<lparr>members := ms\<rparr>)"
proof (cases "list_ex (is_member_row c u) (members t)")
  case True
  then have "active_member c u (t\<lparr>members := map (\<lambda>r. if is_member_row c u r then r\<lparr>mem_left := None\<rparr> else r) (members t)\<rparr>)"
    by (simp add: active_member_def) (erule list_ex_updated(1), simp add: is_member_row_def)
  then show ?thesis
    using assms True by (simp add: st_member_add_def as_uuid_def) (intro exI conjI, rule refl)
next
  case False
  then show ?thesis
    using assms by (auto simp: st_member_add_def as_uuid_def members_stmt_def member_error_def member_new_def
        active_member_def is_member_row_def)
qed

lemma member_leave_run:
  assumes "uuid W c' = Some c" and "uuid W u' = Some u"
  shows "\<exists>k ms. st_member_leave W [c', u'] t = (pg_done k, t\<lparr>members := ms\<rparr>) \<and> \<not> active_member c u (t\<lparr>members := ms\<rparr>)"
proof -
  have "\<not> active_member c u (t\<lparr>members := map (\<lambda>r. if is_member_row c u r then r\<lparr>mem_left := Some (pg_now t)\<rparr> else r) (members t)\<rparr>)"
    by (simp add: active_member_def) (rule list_ex_updated(2); auto simp: is_member_row_def)
  then show ?thesis
    using assms by (simp add: st_member_leave_def as_uuid_def) (intro exI conjI; (rule refl | assumption))
qed

text \<open>The membership test in front of a body.\<close>

lemma member_gate_run:
  assumes "hpq E = tables_pq W" and "db_conn (hdb s)" and "server_works W {Member_Check}"
    and "uuid W (c_str c') = Some c" and "uuid W (c_str u') = Some u"
  shows "member_gate E c' u' k s =
    (if active_member c u (tables_of s) then k s else (Inr (error_resp E 403 ''Not a member''), s))"
proof -
  have "filter (\<lambda>r. is_member_row c u r \<and> mem_left r = None) (members t) = [] \<longleftrightarrow> \<not> active_member c u t" for t
    by (auto simp: active_member_def filter_empty_conv list_ex_iff)
  then show ?thesis
    by (simp add: member_gate_def em_simps db_query_tables [OF assms(1,2)] works_run [OF assms(3)]
        member_check_run [OF assms(4,5)])
qed

text \<open>What \<open>get_messages\<close> replies to a member: the page of the chat before the time in the request, or
  the newest page, an error for a text that is no time.\<close>

definition history_reply :: "('r, 'd) henv \<Rightarrow> pg \<Rightarrow> string \<Rightarrow> request \<Rightarrow> tables \<Rightarrow> response" where
  "history_reply E W k req t =
     (let x = c_str (param req ''before'');
          page = (\<lambda>p bound. list_resp E message_fields
            (map (\<lambda>m. row_json message_columns (message_cells W m)) (message_page p k bound t)))
      in if param req ''before'' = [] then page (scan W Messages_Latest [k] t) None
         else (case time_read W x of
                 None \<Rightarrow> error_resp E 500 ''Server error''
               | Some b \<Rightarrow> page (scan W Messages_Before [k, x] t) (Some b)))"

lemma get_messages_run:
  assumes "hpq E = tables_pq W" and "db_conn (hdb s)"
    and "server_works W {Member_Check, Messages_Latest, Messages_Before}"
    and "authenticate_request E (authorization req) s = (Inr (u, st), s1)" and "u \<noteq> []"
    and "uuid W (c_str c) = Some k" and "uuid W (c_str u) = Some a"
  shows "route_get_messages E c req s =
    (Inr (if active_member k a (tables_of s) then history_reply E W k req (tables_of s)
          else error_resp E 403 ''Not a member''), s1)"
proof -
  note run = admitted_run [OF assms(4,5)]
  have works: "server_works W {Member_Check}" "server_works W {Messages_Latest}" "server_works W {Messages_Before}"
    using assms(3) by (simp_all add: server_works_def)
  have conn: "db_conn (hdb s1)" and tabs: "tables_of s1 = tables_of s" using assms(2) run(2) by simp_all
  note queries = db_query_tables [OF assms(1) conn] works_run [OF works(2)] works_run [OF works(3)]
    st_messages_latest_def st_messages_before_def as_uuid_def as_time_def assms(6) tabs
  show ?thesis
    by (simp add: route_get_messages_def run(1) try_500_def em_simps Let_def queries history_reply_def comp_def
        member_gate_run [OF assms(1) conn works(1) assms(6,7)] split: option.split)
qed

section \<open>Properties of the chat routes\<close>


lemma demo_target:
  "body_field (demo_world (JObj [(''targetUserId'', JStr v)])) demo_request ''targetUserId'' v"
  by (simp add: body_field_def demo_henv_def demo_json_def doc_json_def doc_value_def doc_get_str_def
      demo_request_def)

lemma demo_facts:
  "server_works demo_pg Q" "json_accessors_ok (hlib (demo_world b))"
  "user_exists ''u1'' (tables_of demo_state)" "schema_ok (tables_of demo_state)"
  "\<not> chat_exists (new_id demo_pg (id_count (tables_of demo_state))) (tables_of demo_state)"
  "c_str ''u1'' = ''u1''" "c_str ''u2'' = ''u2''" "c_str ''n0'' = ''n0''"
  by (simp_all add: server_works_def demo_ids demo_json_ok demo_henv_def user_exists_def demo_rows demo_user_def
      demo_schema chat_exists_def chat_new_def c_str_def)


text \<open>A direct chat is opened once for two users: after the reply 201, the same request made by
  either of them about the other, next, is answered 200 with the identifier of that chat and changes
  nothing.\<close>

theorem direct_chat_found_again:
  assumes "hpq E = tables_pq W" and "db_conn (hdb s)"
    and "server_works W {Direct_Find, Direct_Create, Direct_Members}" and "json_accessors_ok (hlib E)"
    and "authenticate_request E (authorization req) s = (Inr (u, st), s1)" and "u \<noteq> []"
    and "body_field E req ''targetUserId'' v" and "v \<noteq> []"
    and "uuid W (c_str u) = Some a" and "uuid W (c_str v) = Some b"
    and "uuid W (c_str (new_id W (id_count (tables_of s)))) = Some (new_id W (id_count (tables_of s)))"
    and "schema_ok (tables_of s)" and "user_exists a (tables_of s)"
    and "\<not> chat_exists (new_id W (id_count (tables_of s))) (tables_of s)"
    and "route_open_direct E req s = (Inr resp, s2)" and "resp_status resp = 201"
    and "authenticate_request E (authorization req') s2 = (Inr (u', st'), s3)" and "u' \<noteq> []"
    and "body_field E req' ''targetUserId'' v'" and "v' \<noteq> []"
    and "(uuid W (c_str u') = Some a \<and> uuid W (c_str v') = Some b) \<or>
         (uuid W (c_str u') = Some b \<and> uuid W (c_str v') = Some a)"
  shows "\<exists>i. resp = json_resp E 201 (jobj [(''id'', JStr i)]) \<and>
    route_open_direct E req' s2 = (Inr (json_resp E 200 (jobj [(''id'', JStr i)])), s3) \<and> hdb s3 = hdb s2"
proof -
  define t i where "t = tables_of s" and "i = new_id W (id_count t)"
  define t2 where "t2 = t\<lparr>id_count := Suc (id_count t), chats := chats t @ [private_chat (pg_now t) i a],
     members := members t @ [member_new (pg_now t) i a ''member'' False, member_new (pg_now t) i b ''member'' False]\<rparr>"
  note first = open_direct_run [OF assms(1-14)]
  have new: "direct_chats a b t = []" "resp = json_resp E 201 (jobj [(''id'', JStr (c_str i))])"
    "s2 = with_tables t2 s1"
    using first assms(15,16)
    by (auto simp: Let_def t2_def t_def [symmetric] i_def [symmetric] json_resp_def error_resp_def
        split: list.splits if_splits)
  have db: "tables_of s2 = t2" "db_conn (hdb s2)"
    using new(3) admitted_run(2) [OF assms(5,6)] assms(2) by simp_all
  have found: "direct_chats a b t2 = [private_chat (pg_now t) i a]"
    by (rule direct_chats_new [OF new(1) _ t2_def]) (use assms(14) in \<open>simp add: i_def t_def\<close>)
  have works: "server_works W {Direct_Find}" using assms(3) by (simp add: server_works_def)
  note again = open_direct_found [OF assms(1) db(2) works assms(17-20)]
  have "route_open_direct E req' s2 = (Inr (json_resp E 200 (jobj [(''id'', JStr (c_str i))])), s3)"
    using assms(21) again [of a b "private_chat (pg_now t) i a" "[]"] again [of b a "private_chat (pg_now t) i a" "[]"] found
      direct_chats_sym [of b a t2] db(1)
    by (auto simp: chat_new_def)
  then show ?thesis using new(2) admitted_run(2) [OF assms(17,18)] by blast
qed

theorem direct_chat_found_again_witness:
  "let E = demo_world (JObj [(''targetUserId'', JStr ''u2'')]) in
   \<exists>i s2 s3. route_open_direct E demo_request demo_state = (Inr (json_resp E 201 (jobj [(''id'', JStr i)])), s2) \<and>
     route_open_direct E demo_request s2 = (Inr (json_resp E 200 (jobj [(''id'', JStr i)])), s3) \<and> hdb s3 = hdb s2"
proof -
  let ?E = "demo_world (JObj [(''targetUserId'', JStr ''u2'')])"
  have none: "direct_chats ''u1'' ''u2'' demo_tables = []"
    by (simp add: direct_chats_def demo_rows is_member_row_def member_new_def)
  have u2: "user_exists ''u2'' demo_tables" by (simp add: user_exists_def demo_rows demo_user_def)
  have "\<exists>t. route_open_direct ?E demo_request demo_state =
      (Inr (json_resp ?E 201 (jobj [(''id'', JStr ''n0'')])), with_tables t (demo_state\<lparr>hticks := 1\<rparr>))"
    using open_direct_run [OF demo_world_pq _ demo_facts(1,2) demo_session _ demo_target [of "''u2''"] _ _ _ _
        demo_facts(4,3,5), of "''u2''"]
    by (auto simp: Let_def demo_facts(6-8) demo_ids demo_rows none u2)
  then obtain s2 where s2: "route_open_direct ?E demo_request demo_state = (Inr (json_resp ?E 201 (jobj [(''id'', JStr ''n0'')])), s2)"
    "hredis s2 = demo_client"
    by force
  show ?thesis
    using direct_chat_found_again [OF demo_world_pq _ demo_facts(1,2) demo_session _ demo_target [of "''u2''"] _ _ _ _
        demo_facts(4,3,5) s2(1) _ demo_authenticated [OF s2(2)] _ demo_target [of "''u2''"], of "''u2''"] s2(1)
    by (auto simp: Let_def demo_facts(6-8) demo_ids demo_rows json_resp_def)
qed

text \<open>C34: Reading a chat's messages is for its members, but anyone can become one: a user who is not
  an active member is answered 403, and by adding themselves with the route for members, which makes no
  check, gets the messages at the next request.\<close>

theorem membership_open_to_all:
  assumes "hpq E = tables_pq W" and "db_conn (hdb s)"
    and "server_works W {Member_Check, Messages_Latest, Messages_Before, Member_Add}"
    and "authenticate_request E (authorization req) s = (Inr (u, st), s1)" and "u \<noteq> []"
    and "body_field E req ''userId'' u"
    and "uuid W (c_str c) = Some k" and "uuid W (c_str u) = Some a"
    and "chat_exists k (tables_of s)" and "user_exists a (tables_of s)" and "\<not> active_member k a (tables_of s)"
  shows "route_get_messages E c req s = (Inr (error_resp E 403 ''Not a member''), s1) \<and>
    (\<exists>s2. route_add_member E c req s = (Inr (ok_resp E 200), s2) \<and>
      (\<forall>st' s3. authenticate_request E (authorization req) s2 = (Inr (u, st'), s3) \<longrightarrow>
        route_get_messages E c req s2 = (Inr (history_reply E W k req (tables_of s2)), s3)))"
proof -
  note run = admitted_run [OF assms(4,5)]
  have works: "server_works W {Member_Check, Messages_Latest, Messages_Before}" "server_works W {Member_Add}"
    using assms(3) by (simp_all add: server_works_def)
  have conn: "db_conn (hdb s1)" and tabs: "tables_of s1 = tables_of s" using assms(2) run(2) by simp_all
  obtain bd where bd: "j_parse (hlib E) (req_body req) = Inr bd" "j_value_str (hlib E) bd ''userId'' [] = Inr u"
    using assms(6) by (auto elim!: body_fieldE)
  obtain ms where ms: "st_member_add W [c_str c, c_str u] (tables_of s) = (pg_done 1, (tables_of s)\<lparr>members := ms\<rparr>)"
    "active_member k a ((tables_of s)\<lparr>members := ms\<rparr>)"
    using member_add_run [OF assms(7-10)] by blast
  define s2 where "s2 = with_tables ((tables_of s)\<lparr>members := ms\<rparr>) s1"
  have "db_exec E Member_Add [c, u] s1 = (Inr (affected_rows (show_nat 1)), s2)"
    by (simp add: db_exec_tables [OF assms(1) conn] works_run [OF works(2)] ms(1) tabs s2_def)
  then have "route_add_member E c req s = (Inr (ok_resp E 200), s2)"
    using bd assms(5)
    by (simp add: route_add_member_def run(1) with_json_body_def body_str_def try_500_def em_simps)
  moreover have "route_get_messages E c req s2 = (Inr (history_reply E W k req (tables_of s2)), s3)"
    if "authenticate_request E (authorization req) s2 = (Inr (u, st'), s3)" for st' s3
    using get_messages_run [OF assms(1) _ works(1) that assms(5,7,8)] ms(2) conn by (simp add: s2_def)
  ultimately show ?thesis
    using get_messages_run [OF assms(1,2) works(1) assms(4,5,7,8)] assms(11) by auto
qed

theorem membership_open_to_all_witness:
  "let E = demo_world (JObj [(''userId'', JStr ''u1'')]) in
   route_get_messages E ''c1'' demo_request demo_state = (Inr (error_resp E 403 ''Not a member''), demo_state\<lparr>hticks := 1\<rparr>) \<and>
   (\<exists>s2. route_add_member E ''c1'' demo_request demo_state = (Inr (ok_resp E 200), s2))"
proof -
  let ?E = "demo_world (JObj [(''userId'', JStr ''u1'')])"
  have field: "body_field ?E demo_request ''userId'' ''u1''"
    by (simp add: body_field_def demo_henv_def demo_json_def doc_json_def doc_value_def doc_get_str_def
        demo_request_def)
  have there: "chat_exists ''c1'' (tables_of demo_state)" "\<not> active_member ''c1'' ''u1'' (tables_of demo_state)"
    "c_str ''c1'' = ''c1''"
    by (simp_all add: chat_exists_def active_member_def demo_rows is_member_row_def member_new_def chat_new_def c_str_def)
  show ?thesis
    using membership_open_to_all [OF demo_world_pq _ demo_facts(1) demo_session _ field _ _ there(1) demo_facts(3)
        there(2), of "''c1''"]
    by (auto simp: Let_def there(3) demo_ids demo_facts(6))
qed

text \<open>Removing a member needs no right over the chat: any user with a session removes any user,
  the owner included, from any chat; the reply is 200 and the removed one is then refused the
  messages with 403.\<close>

theorem anyone_removes_anyone:
  assumes "hpq E = tables_pq W" and "db_conn (hdb s)"
    and "server_works W {Member_Check, Messages_Latest, Messages_Before, Member_Leave}"
    and "authenticate_request E (authorization req) s = (Inr (u, st), s1)" and "u \<noteq> []"
    and "uuid W (c_str c) = Some k" and "uuid W (c_str v) = Some b"
  shows "\<exists>s2. route_remove_member E c v req s = (Inr (ok_resp E 200), s2) \<and>
    \<not> active_member k b (tables_of s2) \<and>
    (\<forall>req' st' s3. authenticate_request E (authorization req') s2 = (Inr (v, st'), s3) \<and> v \<noteq> [] \<longrightarrow>
       route_get_messages E c req' s2 = (Inr (error_resp E 403 ''Not a member''), s3))"
proof -
  note run = admitted_run [OF assms(4,5)]
  have works: "server_works W {Member_Check, Messages_Latest, Messages_Before}" "server_works W {Member_Leave}"
    using assms(3) by (simp_all add: server_works_def)
  have conn: "db_conn (hdb s1)" and tabs: "tables_of s1 = tables_of s" using assms(2) run(2) by simp_all
  obtain n ms where ms: "st_member_leave W [c_str c, c_str v] (tables_of s) = (pg_done n, (tables_of s)\<lparr>members := ms\<rparr>)"
    "\<not> active_member k b ((tables_of s)\<lparr>members := ms\<rparr>)"
    using member_leave_run [OF assms(6,7)] by blast
  define s2 where "s2 = with_tables ((tables_of s)\<lparr>members := ms\<rparr>) s1"
  have "db_exec E Member_Leave [c, v] s1 = (Inr (affected_rows (show_nat n)), s2)"
    by (simp add: db_exec_tables [OF assms(1) conn] works_run [OF works(2)] ms(1) tabs s2_def)
  then have "route_remove_member E c v req s = (Inr (ok_resp E 200), s2)"
    by (simp add: route_remove_member_def run(1) try_500_def em_simps)
  moreover have gone: "\<not> active_member k b (tables_of s2)" "db_conn (hdb s2)"
    using ms(2) conn by (simp_all add: s2_def)
  moreover have "route_get_messages E c req' s2 = (Inr (error_resp E 403 ''Not a member''), s3)"
    if "authenticate_request E (authorization req') s2 = (Inr (v, st'), s3)" "v \<noteq> []" for req' st' s3
    using get_messages_run [OF assms(1) gone(2) works(1) that assms(6,7)] gone(1) by simp
  ultimately show ?thesis by blast
qed

theorem anyone_removes_anyone_witness:
  "active_member ''c1'' ''u2'' demo_tables \<and>
   (\<exists>s2. route_remove_member (demo_world JNull) ''c1'' ''u2'' demo_request demo_state =
      (Inr (ok_resp (demo_world JNull) 200), s2) \<and> \<not> active_member ''c1'' ''u2'' (tables_of s2))"
proof -
  have "active_member ''c1'' ''u2'' demo_tables"
    by (simp add: active_member_def demo_rows is_member_row_def member_new_def)
  moreover have ids: "uuid demo_pg (c_str ''c1'') = Some ''c1''" "uuid demo_pg (c_str ''u2'') = Some ''u2''"
    by (simp_all add: demo_ids c_str_def)
  ultimately show ?thesis
    using anyone_removes_anyone [OF demo_world_pq _ demo_facts(1) demo_session [of JNull _ demo_tables] _ ids]
    by auto
qed

text \<open>Reacting to a message never works: the statement ends in ON CONFLICT ... DO DELETE, which
  PostgreSQL does not have, so every request with a session and an emoji is answered 500 and no
  reaction is ever stored.\<close>

theorem react_always_fails:
  assumes "hpq E = tables_pq W" and "authenticate_request E (authorization req) s = (Inr (u, st), s1)"
    and "u \<noteq> []" and "body_field E req ''emoji'' e" and "e \<noteq> []"
  shows "\<exists>s2. route_react_message E c m req s = (Inr (error_resp E 500 ''Server error''), s2) \<and> hdb s2 = hdb s"
proof -
  note run = admitted_run [OF assms(2,3)]
  obtain bd where bd: "j_parse (hlib E) (req_body req) = Inr bd" "j_value_str (hlib E) bd ''emoji'' [] = Inr e"
    using assms(4) by (auto elim!: body_fieldE)
  have "\<exists>t. db_exec E Reaction_Toggle [m, u, e] s1 = (Inl (Runtime_Error t), s1)"
  proof (cases "db_conn (hdb s1)")
    case True
    then show ?thesis
      by (auto simp: db_exec_tables [OF assms(1)] run_statement_def st_reaction_toggle_def split: option.split)
  next
    case False
    then show ?thesis by (simp add: db_exec_def em_simps exec_def)
  qed
  then show ?thesis
    using bd assms(5) run(2)
    by (auto simp: route_react_message_def run(1) with_json_body_def body_str_def try_500_def em_simps)
qed

theorem react_always_fails_witness:
  "\<exists>s2. route_react_message (demo_world (JObj [(''emoji'', JStr ''ok'')])) ''c1'' ''m1'' demo_request demo_state =
     (Inr (error_resp (demo_world (JObj [(''emoji'', JStr ''ok'')])) 500 ''Server error''), s2) \<and> hdb s2 = hdb demo_state"
proof -
  have field: "body_field (demo_world (JObj [(''emoji'', JStr ''ok'')])) demo_request ''emoji'' ''ok''"
    by (simp add: body_field_def demo_henv_def demo_json_def doc_json_def doc_value_def doc_get_str_def
        demo_request_def)
  show ?thesis by (rule react_always_fails [OF demo_world_pq demo_session _ field]) simp_all
qed

end
