(* ===== verification/Channel_Props.thy ===== *)
theory Channel_Props
  imports Chat_Props
begin

section \<open>The channel routes on the tables\<close>

text \<open>
  Creating channels, posting, and the subscriber count, case by case for requests with a session on
  a database that works.
\<close>

subsection \<open>Statements\<close>

lemma count_up_run:
  assumes "uuid W c' = Some c"
  shows "st_channel_count_up W [c'] t =
    (pg_done (length (filter (\<lambda>r. chn_key r = c) (channels t))),
     t\<lparr>channels := map (\<lambda>r. if chn_key r = c then r\<lparr>chn_count := chn_count r + 1\<rparr> else r) (channels t)\<rparr>)"
  using assms by (simp add: st_channel_count_up_def as_uuid_def)

definition subscribed :: "string \<Rightarrow> string \<Rightarrow> tables \<Rightarrow> bool" where
  "subscribed c u t = list_ex (is_sub_row c u) (subs t)"

definition sub_new :: "string \<Rightarrow> string \<Rightarrow> string \<Rightarrow> sub_row" where
  "sub_new c u role = \<lparr>sub_channel = c, sub_user = u, sub_role = role\<rparr>"

lemma subscribe_run:
  assumes "uuid W c' = Some c" and "uuid W u' = Some u" and "channel_exists c t" and "user_exists u t"
  shows "st_channel_subscribe W [c', u'] t =
    (if subscribed c u t then (pg_done 0, t) else (pg_done 1, t\<lparr>subs := subs t @ [sub_new c u ''subscriber'']\<rparr>))"
  using assms by (simp add: st_channel_subscribe_def as_uuid_def insert_sub_def subscribed_def sub_new_def)

text \<open>The count that a channel shows, and the subscriptions there are.\<close>

definition shown_count :: "string \<Rightarrow> tables \<Rightarrow> int" where
  "shown_count c t = (case filter (\<lambda>r. chn_key r = c) (channels t) of [] \<Rightarrow> 0 | r # _ \<Rightarrow> chn_count r)"

definition subscriptions :: "string \<Rightarrow> tables \<Rightarrow> nat" where
  "subscriptions c t = length (filter (\<lambda>r. sub_channel r = c) (subs t))"

definition count_up :: "string \<Rightarrow> tables \<Rightarrow> tables" where
  "count_up c t =
     t\<lparr>channels := map (\<lambda>r. if chn_key r = c then r\<lparr>chn_count := chn_count r + 1\<rparr> else r) (channels t)\<rparr>"

lemma shown_count_up: "channel_exists c t \<Longrightarrow> shown_count c (count_up c t) = shown_count c t + 1"
proof -
  have up: "filter (\<lambda>r. chn_key r = c) (map (\<lambda>r. if chn_key r = c then r\<lparr>chn_count := chn_count r + 1\<rparr> else r) xs) =
      map (\<lambda>r. r\<lparr>chn_count := chn_count r + 1\<rparr>) (filter (\<lambda>r. chn_key r = c) xs)" for xs
    by (induction xs) auto
  assume "channel_exists c t"
  then have "filter (\<lambda>r. chn_key r = c) (channels t) \<noteq> []"
    by (auto simp: channel_exists_def filter_empty_conv list_ex_iff)
  then show ?thesis
    by (cases "filter (\<lambda>r. chn_key r = c) (channels t)") (simp_all add: shown_count_def count_up_def up)
qed

lemma subscribe_route_run:
  assumes "hpq E = tables_pq W" and "db_conn (hdb s)" and "server_works W {Channel_Subscribe, Channel_Count_Up}"
    and "authenticate_request E (authorization req) s = (Inr (u, st), s1)" and "u \<noteq> []"
    and "uuid W (c_str c) = Some k" and "uuid W (c_str u) = Some a"
    and "channel_exists k (tables_of s)" and "user_exists a (tables_of s)"
  shows "route_subscribe_channel E c req s = (Inr (ok_resp E 200),
    with_tables (count_up k (if subscribed k a (tables_of s) then tables_of s
       else (tables_of s)\<lparr>subs := subs (tables_of s) @ [sub_new k a ''subscriber'']\<rparr>)) s1)"
proof -
  note run = admitted_run [OF assms(4,5)]
  have works: "server_works W {Channel_Subscribe}" "server_works W {Channel_Count_Up}"
    using assms(3) by (simp_all add: server_works_def)
  have conn: "db_conn (hdb s1)" and tabs: "tables_of s1 = tables_of s" using assms(2) run(2) by simp_all
  let ?t = "if subscribed k a (tables_of s) then tables_of s
       else (tables_of s)\<lparr>subs := subs (tables_of s) @ [sub_new k a ''subscriber'']\<rparr>"
  have "\<exists>n. db_exec E Channel_Subscribe [c, u] s1 = (Inr n, with_tables ?t s1)"
    by (simp add: db_exec_tables [OF assms(1) conn] works_run [OF works(1)] subscribe_run [OF assms(6-9)] tabs)
  moreover have "\<exists>n. db_exec E Channel_Count_Up [c] (with_tables ?t s1) = (Inr n, with_tables (count_up k ?t) s1)"
    using conn by (simp add: db_exec_tables [OF assms(1)] works_run [OF works(2)] count_up_run [OF assms(6)] count_up_def)
  ultimately show ?thesis
    by (auto simp: route_subscribe_channel_def run(1) try_500_def em_simps)
qed

lemma read_bool_text: "read_bool (c_str (bool_text b)) = Some b"
  by (simp add: read_bool_def bool_text_def c_str_def)

subsection \<open>Posting\<close>

text \<open>The role that \<open>create_post\<close> reads: that of the first subscription found.\<close>

definition role_of :: "string \<Rightarrow> string \<Rightarrow> tables \<Rightarrow> string option" where
  "role_of c u t = (case filter (is_sub_row c u) (subs t) of [] \<Rightarrow> None | r # _ \<Rightarrow> Some (c_str (sub_role r)))"

definition may_post :: "string \<Rightarrow> string \<Rightarrow> tables \<Rightarrow> bool" where
  "may_post c u t \<longleftrightarrow> role_of c u t = Some ''owner'' \<or> role_of c u t = Some ''admin''"

lemma role_query:
  assumes "hpq E = tables_pq W" and "db_conn (hdb s)" and "server_works W {Subscriber_Role}"
    and "uuid W (c_str c) = Some k" and "uuid W (c_str u) = Some a"
  shows "db_query E Subscriber_Role [c, u] s =
    (Inr (map (\<lambda>r. row_json [''role''] [Some (sub_role r)]) (filter (is_sub_row k a) (subs (tables_of s)))), s)"
  using assms(4,5)
  by (simp add: db_query_tables [OF assms(1,2)] works_run [OF assms(3)] st_subscriber_role_def as_uuid_def comp_def)

lemma post_insert_run:
  assumes "uuid W c' = Some c" and "uuid W u' = Some u" and "channel_exists c t" and "user_exists u t"
    and "\<not> post_exists (new_id W (id_count t)) t" and "read_bool paid' = Some paid"
  shows "st_post_insert W [c', content, paid', u'] t =
    (pg_done 1, t\<lparr>id_count := Suc (id_count t), posts := posts t @ [post_new W t c content paid u]\<rparr>)"
  using assms by (simp add: st_post_insert_def as_uuid_def Let_def post_new_def post_exists_def)

section \<open>Properties of the channel routes\<close>

text \<open>Every subscription request counts, but only the first one subscribes: after it, the count the
  channel shows is one higher and the user subscribed; the same request once more raises the count
  again although there is no new subscription. So the shown count drifts from the subscriptions.\<close>

theorem subscribing_twice_counts_twice:
  assumes "hpq E = tables_pq W" and "db_conn (hdb s)" and "server_works W {Channel_Subscribe, Channel_Count_Up}"
    and "authenticate_request E (authorization req) s = (Inr (u, st), s1)" and "u \<noteq> []"
    and "uuid W (c_str c) = Some k" and "uuid W (c_str u) = Some a"
    and "channel_exists k (tables_of s)" and "user_exists a (tables_of s)" and "\<not> subscribed k a (tables_of s)"
  shows "\<exists>s2. route_subscribe_channel E c req s = (Inr (ok_resp E 200), s2) \<and>
    shown_count k (tables_of s2) = shown_count k (tables_of s) + 1 \<and>
    subscriptions k (tables_of s2) = subscriptions k (tables_of s) + 1 \<and>
    (\<forall>st' s3. authenticate_request E (authorization req) s2 = (Inr (u, st'), s3) \<longrightarrow>
       (\<exists>s4. route_subscribe_channel E c req s2 = (Inr (ok_resp E 200), s4) \<and>
          shown_count k (tables_of s4) = shown_count k (tables_of s) + 2 \<and>
          subscriptions k (tables_of s4) = subscriptions k (tables_of s) + 1))"
proof -
  note first = subscribe_route_run [OF assms(1-9)]
  define t where "t = (tables_of s)\<lparr>subs := subs (tables_of s) @ [sub_new k a ''subscriber'']\<rparr>"
  define s2 where "s2 = with_tables (count_up k t) s1"
  have s2: "route_subscribe_channel E c req s = (Inr (ok_resp E 200), s2)"
    using first assms(10) by (simp add: s2_def t_def)
  have keys: "channel_exists k (count_up k u) = channel_exists k u" "user_exists a (count_up k u) = user_exists a u"
    "subscribed k a (count_up k u) = subscribed k a u" "subscriptions k (count_up k u) = subscriptions k u" for u
    by (simp_all add: channel_exists_def user_exists_def count_up_def subscribed_def subscriptions_def)
  have t: "channel_exists k t" "user_exists a t" "subscribed k a t" "shown_count k t = shown_count k (tables_of s)"
    "subscriptions k t = subscriptions k (tables_of s) + 1"
    using assms(8,9)
    by (simp_all add: t_def channel_exists_def user_exists_def subscribed_def sub_new_def is_sub_row_def
        shown_count_def subscriptions_def)
  have "\<exists>s4. route_subscribe_channel E c req s2 = (Inr (ok_resp E 200), s4) \<and>
      shown_count k (tables_of s4) = shown_count k (tables_of s) + 2 \<and>
      subscriptions k (tables_of s4) = subscriptions k (tables_of s) + 1"
    if "authenticate_request E (authorization req) s2 = (Inr (u, st'), s3)" for st' s3
  proof -
    have "tables_of s2 = count_up k t" "db_conn (hdb s2)"
      using admitted_run(2) [OF assms(4,5)] assms(2) by (simp_all add: s2_def)
    then show ?thesis
      using subscribe_route_run [OF assms(1) _ assms(3) that assms(5-7)] t
      by (simp add: keys shown_count_up)
  qed
  moreover have "shown_count k (tables_of s2) = shown_count k (tables_of s) + 1"
    "subscriptions k (tables_of s2) = subscriptions k (tables_of s) + 1"
    using t by (simp_all add: s2_def keys shown_count_up)
  ultimately show ?thesis using s2 by blast
qed

lemma demo_channel:
  "channel_exists ''h1'' (tables_of demo_state)" "uuid demo_pg (c_str ''h1'') = Some ''h1''"
  "uuid demo_pg (c_str ''u1'') = Some ''u1''" "uuid demo_pg (c_str ''p1'') = Some ''p1''"
  "\<not> post_exists (new_id demo_pg (id_count (tables_of demo_state))) (tables_of demo_state)"
  by (simp_all add: channel_exists_def post_exists_def demo_rows demo_ids c_str_def channel_new_def demo_post_def)

theorem subscribing_twice_counts_twice_witness:
  "\<exists>s2. route_subscribe_channel (demo_world JNull) ''h1'' demo_request demo_state =
      (Inr (ok_resp (demo_world JNull) 200), s2) \<and>
    shown_count ''h1'' (tables_of s2) = 1 \<and> subscriptions ''h1'' (tables_of s2) = 2"
proof -
  have "\<not> subscribed ''h1'' ''u1'' (tables_of demo_state)" "shown_count ''h1'' demo_tables = 0"
    "subscriptions ''h1'' demo_tables = 1"
    by (simp_all add: subscribed_def is_sub_row_def shown_count_def subscriptions_def demo_rows channel_new_def)
  then show ?thesis
    using subscribing_twice_counts_twice [OF demo_world_pq _ demo_facts(1) demo_session [of JNull _ demo_tables] _
        demo_channel(2,3,1) demo_facts(3)]
    by auto
qed

text \<open>C36: Posting to a channel is for its owner and admins: for anyone else the reply is 403 and nothing
  changes, for them 201 and one more post. Deleting is for everyone: any user with a session deletes
  any post of any channel.\<close>

theorem posting_needs_role_deleting_none:
  assumes "hpq E = tables_pq W" and "db_conn (hdb s)"
    and "server_works W {Subscriber_Role, Post_Insert, Post_Delete}" and "json_accessors_ok (hlib E)"
    and "authenticate_request E (authorization req) s = (Inr (u, st), s1)" and "u \<noteq> []"
    and "j_parse (hlib E) (req_body req) = Inr body" and "j_value_str (hlib E) body ''content'' [] = Inr content"
    and "j_value_bool (hlib E) body ''isPaid'' False = Inr paid"
    and "uuid W (c_str c) = Some k" and "uuid W (c_str u) = Some a" and "uuid W (c_str p) = Some q"
    and "channel_exists k (tables_of s)" and "user_exists a (tables_of s)"
    and "\<not> post_exists (new_id W (id_count (tables_of s))) (tables_of s)"
  shows "route_create_post E c req s =
      (if may_post k a (tables_of s)
       then (Inr (ok_resp E 201), with_tables ((tables_of s)\<lparr>id_count := Suc (id_count (tables_of s)),
               posts := posts (tables_of s) @ [post_new W (tables_of s) k (c_str content) paid a]\<rparr>) s1)
       else (Inr (error_resp E 403 ''Not a channel admin''), s1)) \<and>
    route_delete_post E c p req s =
      (Inr (ok_resp E 200), with_tables ((tables_of s)\<lparr>posts :=
         filter (\<lambda>r. \<not> (post_key r = q \<and> post_channel r = k)) (posts (tables_of s))\<rparr>) s1)"
proof -
  note run = admitted_run [OF assms(5,6)]
  have works: "server_works W {Subscriber_Role}" "server_works W {Post_Insert}" "server_works W {Post_Delete}"
    using assms(3) by (simp_all add: server_works_def)
  have conn: "db_conn (hdb s1)" and tabs: "tables_of s1 = tables_of s" using assms(2) run(2) by simp_all
  have ins: "db_exec E Post_Insert [c, content, bool_text paid, u] s1 = (Inr (affected_rows (show_nat 1)),
      with_tables ((tables_of s)\<lparr>id_count := Suc (id_count (tables_of s)),
        posts := posts (tables_of s) @ [post_new W (tables_of s) k (c_str content) paid a]\<rparr>) s1)"
    using post_insert_run [OF assms(10,11,13-15) read_bool_text]
    by (simp add: db_exec_tables [OF assms(1) conn] works_run [OF works(2)] tabs)
  have del: "\<exists>n. db_exec E Post_Delete [p, c] s1 = (Inr n, with_tables ((tables_of s)\<lparr>posts :=
       filter (\<lambda>r. \<not> (post_key r = q \<and> post_channel r = k)) (posts (tables_of s))\<rparr>) s1)"
    using assms(10,12)
    by (simp add: db_exec_tables [OF assms(1) conn] works_run [OF works(3)] st_post_delete_def as_uuid_def tabs)
  have "route_create_post E c req s =
      (if may_post k a (tables_of s)
       then (Inr (ok_resp E 201), with_tables ((tables_of s)\<lparr>id_count := Suc (id_count (tables_of s)),
               posts := posts (tables_of s) @ [post_new W (tables_of s) k (c_str content) paid a]\<rparr>) s1)
       else (Inr (error_resp E 403 ''Not a channel admin''), s1))"
    using assms(7-9)
    by (cases "filter (is_sub_row k a) (subs (tables_of s))")
      (simp_all add: route_create_post_def run(1) with_json_body_def body_str_def try_500_def em_simps tabs
        role_query [OF assms(1) conn works(1) assms(10,11)] ins may_post_def role_of_def col_str_def one_col
        doc_accessors [OF assms(4)])
  moreover have "route_delete_post E c p req s =
      (Inr (ok_resp E 200), with_tables ((tables_of s)\<lparr>posts :=
         filter (\<lambda>r. \<not> (post_key r = q \<and> post_channel r = k)) (posts (tables_of s))\<rparr>) s1)"
    using del by (auto simp: route_delete_post_def run(1) try_500_def em_simps)
  ultimately show ?thesis by blast
qed

theorem posting_needs_role_deleting_none_witness:
  "let E = demo_world (JObj [(''content'', JStr ''hi'')]) in
   route_create_post E ''h1'' demo_request demo_state =
     (Inr (error_resp E 403 ''Not a channel admin''), demo_state\<lparr>hticks := 1\<rparr>) \<and>
   route_delete_post E ''h1'' ''p1'' demo_request demo_state =
     (Inr (ok_resp E 200), with_tables (demo_tables\<lparr>posts := []\<rparr>) (demo_state\<lparr>hticks := 1\<rparr>))"
proof -
  let ?body = "JObj [(''content'', JStr ''hi'')]"
  let ?E = "demo_world ?body"
  have b: "j_parse (hlib ?E) (req_body demo_request) = Inr ?body"
    "j_value_str (hlib ?E) ?body ''content'' [] = Inr ''hi''"
    "j_value_bool (hlib ?E) ?body ''isPaid'' False = Inr False"
    by (simp_all add: demo_henv_def demo_json_def doc_json_def doc_value_def doc_get_str_def demo_request_def)
  have "\<not> may_post ''h1'' ''u1'' demo_tables"
    by (simp add: may_post_def role_of_def demo_rows is_sub_row_def)
  then show ?thesis
    using posting_needs_role_deleting_none [OF demo_world_pq _ demo_facts(1,2) demo_session _ b
        demo_channel(2,3,4,1) demo_facts(3) demo_channel(5)]
    by (simp add: Let_def demo_rows demo_post_def)
qed

text \<open>Channel names are unique: creating a channel whose name exists is answered 409 (the reply
  depends on the word \<open>unique\<close> in PostgreSQL's message) and no channel appears; with a new name the
  reply is 201 and there is one more channel, with no counted subscriber, of which the caller is
  owner and subscriber.\<close>

theorem create_channel_cases:
  assumes "hpq E = tables_pq W" and "db_conn (hdb s)" and "server_works W {Channel_Create, Channel_Owner}"
    and "json_accessors_ok (hlib E)"
    and "authenticate_request E (authorization req) s = (Inr (u, st), s1)" and "u \<noteq> []"
    and "j_parse (hlib E) (req_body req) = Inr body"
    and "j_value_str (hlib E) body ''username'' [] = Inr n" and "j_value_str (hlib E) body ''name'' [] = Inr title"
    and "j_value_str (hlib E) body ''description'' [] = Inr d" and "j_value_bool (hlib E) body ''isPublic'' True = Inr pub"
    and "n \<noteq> []" and "title \<noteq> []" and "uuid W (c_str u) = Some a" and "user_exists a (tables_of s)"
    and "schema_ok (tables_of s)" and "i = new_id W (id_count (tables_of s))" and "uuid W (c_str i) = Some i"
    and "\<not> channel_exists i (tables_of s)"
  shows "route_create_channel E req s =
    (let t = tables_of s; t1 = t\<lparr>id_count := Suc (id_count t)\<rparr> in
     if list_ex (\<lambda>r. chn_username r = c_str n) (channels t)
     then (Inr (error_resp E 409 ''Username already taken''), with_tables t1 s1)
     else (Inr (json_resp E 201 (jobj [(''id'', JStr (c_str i)), (''username'', JStr n)])),
       with_tables (t1\<lparr>channels := channels t @ [channel_new i (c_str n) (c_str title) (c_str d) pub a],
         subs := subs t @ [sub_new i a ''owner'']\<rparr>) s1))"
proof -
  note run = admitted_run [OF assms(5,6)]
  have works: "server_works W {Channel_Create}" "server_works W {Channel_Owner}"
    using assms(3) by (simp_all add: server_works_def)
  have conn: "db_conn (hdb s1)" and tabs: "tables_of s1 = tables_of s" using assms(2) run(2) by simp_all
  define t where "t = tables_of s"
  define t1 where "t1 = t\<lparr>id_count := Suc (id_count t), channels := channels t @ [channel_new i (c_str n) (c_str title) (c_str d) pub a]\<rparr>"
  have pub: "read_bool (c_str (bool_text pub)) = Some pub" by (rule read_bool_text)
  have keys: "list_ex (\<lambda>r. chn_username r = x \<or> chn_key r = i) (channels t) \<longleftrightarrow> list_ex (\<lambda>r. chn_username r = x) (channels t)" for x
    using assms(19) by (auto simp: channel_exists_def t_def list_ex_iff)
  have create: "db_query E Channel_Create [n, title, d, bool_text pub, u] s1 =
    (if list_ex (\<lambda>r. chn_username r = c_str n) (channels t)
     then (Inl (Runtime_Error ''Query failed: duplicate key value violates unique constraint''),
           with_tables (t\<lparr>id_count := Suc (id_count t)\<rparr>) s1)
     else (Inr [row_json [''id''] [Some i]], with_tables t1 s1))"
    using assms(14,15)
    by (simp add: db_query_tables [OF assms(1) conn] works_run [OF works(1)] st_channel_create_def as_uuid_def
        Let_def tabs t_def [symmetric] assms(17) [folded t_def, symmetric] keys pub t1_def)
  have "\<not> list_ex (is_sub_row i a) (subs t)"
    using assms(16,19) by (auto simp: schema_ok_def subs_ok_def list_all_iff list_ex_iff is_sub_row_def t_def)
  then have own: "db_exec E Channel_Owner [c_str i, u] (with_tables t1 s1) =
      (Inr (affected_rows (show_nat 1)), with_tables (t1\<lparr>subs := subs t @ [sub_new i a ''owner'']\<rparr>) s1)"
    using conn assms(14,15,18)
    by (simp add: db_exec_tables [OF assms(1)] works_run [OF works(2)] st_channel_owner_def as_uuid_def
        insert_sub_def t1_def channel_exists_def user_exists_def sub_new_def channel_new_def t_def [symmetric])
  have uniq: "find_str ''unique'' ''Query failed: duplicate key value violates unique constraint'' \<noteq> None"
    by simp
  show ?thesis
    unfolding Let_def t_def [symmetric]
    using assms(7-13) uniq
    by (simp add: route_create_channel_def run(1) with_json_body_def body_str_def em_simps create own
        first_row_def col_str_def one_col doc_accessors [OF assms(4)] what_def)
      (simp add: t1_def)
qed

theorem create_channel_cases_witness:
  "let E = demo_world (JObj [(''name'', JStr ''News''), (''username'', JStr ''news'')]) in
   route_create_channel E demo_request demo_state =
     (Inr (error_resp E 409 ''Username already taken''),
      with_tables (demo_tables\<lparr>id_count := 1\<rparr>) (demo_state\<lparr>hticks := 1\<rparr>))"
proof -
  let ?body = "JObj [(''name'', JStr ''News''), (''username'', JStr ''news'')]"
  let ?E = "demo_world ?body"
  have b: "j_parse (hlib ?E) (req_body demo_request) = Inr ?body"
    "j_value_str (hlib ?E) ?body ''username'' [] = Inr ''news''" "j_value_str (hlib ?E) ?body ''name'' [] = Inr ''News''"
    "j_value_str (hlib ?E) ?body ''description'' [] = Inr []" "j_value_bool (hlib ?E) ?body ''isPublic'' True = Inr True"
    by (simp_all add: demo_henv_def demo_json_def doc_json_def doc_value_def doc_get_str_def demo_request_def)
  have i: "''n0'' = new_id demo_pg (id_count (tables_of demo_state))" "uuid demo_pg (c_str ''n0'') = Some ''n0''"
    "\<not> channel_exists ''n0'' (tables_of demo_state)" "c_str ''news'' = ''news''"
    by (simp_all add: demo_rows demo_ids channel_exists_def c_str_def channel_new_def)
  show ?thesis
    using create_channel_cases [OF demo_world_pq _ demo_facts(1,2) demo_session _ b _ _ demo_channel(3) demo_facts(3,4) i(1-3)]
    by (simp add: Let_def demo_rows i(4) channel_new_def)
qed

end
