(* ===== verification/Database_Props.thy ===== *)
theory Database_Props
  imports Database
begin

section \<open>The database wrapper and the migrations\<close>

text \<open>
  Rows as \<open>query\<close> hands them to the routes, and the migrations against a server that executes
  data definitions once what they refer to exists (\<open>ddl_server\<close>).
\<close>

subsection \<open>Rows\<close>

lemma map_of_puts:
  "map_of (foldl (\<lambda>m (k, v). sm_put k (cell v) m) m kvs) k =
     (case map_of (rev kvs) k of None \<Rightarrow> map_of m k | Some v \<Rightarrow> Some (cell v))"
  by (induction kvs arbitrary: m) (auto simp: map_of_sm_put map_add_def split: option.split)

lemma row_json_lookup:
  assumes "distinct names" and "length vals = length names" and "c < length names"
  shows "row_json names vals = JObj (foldl (\<lambda>m (k, v). sm_put k (cell v) m) [] (zip names vals))"
    and "map_of (foldl (\<lambda>m (k, v). sm_put k (cell v) m) [] (zip names vals)) (names ! c) = Some (cell (vals ! c))"
proof -
  show "row_json names vals = JObj (foldl (\<lambda>m (k, v). sm_put k (cell v) m) [] (zip names vals))"
    using assms(3) by (auto simp: row_json_def)
  have "distinct (map fst (rev (zip names vals)))" using assms(1,2) by (simp add: rev_map [symmetric])
  moreover have "(names ! c, vals ! c) \<in> set (rev (zip names vals))"
    using assms(2,3) by (auto simp: in_set_zip)
  ultimately have "map_of (rev (zip names vals)) (names ! c) = Some (vals ! c)" by simp
  then show "map_of (foldl (\<lambda>m (k, v). sm_put k (cell v) m) [] (zip names vals)) (names ! c) = Some (cell (vals ! c))"
    by (simp add: map_of_puts)
qed

subsection \<open>Data definitions in order\<close>

text \<open>The tables a definition needs and the one it makes.\<close>

fun ddl_needs :: "ddl \<Rightarrow> string list" where
  "ddl_needs (Create_Table n cols keys fks) = filter (\<lambda>t. t \<noteq> n) (map snd fks)"
| "ddl_needs (Create_Index i t c) = [t]"
| "ddl_needs (Add_Column t c ty) = [t]"
| "ddl_needs (Create_Extension e) = []"

fun ddl_makes :: "ddl \<Rightarrow> string list" where
  "ddl_makes (Create_Table n cols keys fks) = [n]"
| "ddl_makes _ = []"

text \<open>
  What PostgreSQL documents of these statements, with IF NOT EXISTS: given the tables it needs, one
  succeeds and its table exists. \<open>tabs\<close> reads the tables off the state of the server.
\<close>

definition ddl_server :: "'d libpq \<Rightarrow> ('d \<Rightarrow> string set) \<Rightarrow> bool" where
  "ddl_server P tabs \<longleftrightarrow>
     (\<forall>m d. set (ddl_needs m) \<subseteq> tabs d \<longrightarrow>
        pg_status (fst (pq_exec P (Ddl m) [] d)) = Command_Ok \<and>
        tabs (snd (pq_exec P (Ddl m) [] d)) = tabs d \<union> set (ddl_makes m))"

text \<open>Each statement of a list finds what it needs in what is there or made before it.\<close>

fun in_order :: "string list \<Rightarrow> ddl list \<Rightarrow> bool" where
  "in_order made [] = True"
| "in_order made (m # ms) \<longleftrightarrow> list_all (\<lambda>t. t \<in> set made) (ddl_needs m) \<and> in_order (made @ ddl_makes m) ms"

lemma migrations_in_order: "in_order [] migrations"
  by (simp add: migrations_def users_table_def otp_codes_table_def chats_table_def chat_members_table_def
      messages_table_def message_delivery_table_def reactions_table_def contacts_table_def channels_table_def
      channel_subscribers_table_def channel_posts_table_def)

lemma migrations_make:
  "concat (map ddl_makes migrations) =
     [''users'', ''otp_codes'', ''chats'', ''chat_members'', ''messages'', ''message_delivery'', ''reactions'',
      ''contacts'', ''channels'', ''channel_subscribers'', ''channel_posts'']"
  by (simp add: migrations_def users_table_def otp_codes_table_def chats_table_def chat_members_table_def
      messages_table_def message_delivery_table_def reactions_table_def contacts_table_def channels_table_def
      channel_subscribers_table_def channel_posts_table_def)

definition run_ddl :: "'d libpq \<Rightarrow> ddl \<Rightarrow> ('d pgdb, unit) em" where
  "run_ddl P m = and_then (exec P (Ddl m) []) (\<lambda>_. ret ())"

lemma in_order_run:
  assumes "ddl_server P tabs" and "in_order made ms" and "set made \<subseteq> tabs (db_server db)" and "db_conn db"
  shows "\<exists>d. for_each ms (run_ddl P) db = (Inr (), db\<lparr>db_server := d\<rparr>) \<and>
    tabs d = tabs (db_server db) \<union> set (concat (map ddl_makes ms))"
  using assms(2-4)
proof (induction ms arbitrary: made db)
  case Nil
  then show ?case by (auto simp: em_simps intro!: exI [of _ "db_server db"])
next
  case (Cons m ms)
  obtain res d where d: "pq_exec P (Ddl m) [] (db_server db) = (res, d)" by force
  have "set (ddl_needs m) \<subseteq> tabs (db_server db)"
    using Cons.prems(1,2) by (auto simp: list_all_iff)
  then have res: "pg_status res = Command_Ok" "tabs d = tabs (db_server db) \<union> set (ddl_makes m)"
    using assms(1) d unfolding ddl_server_def by (metis fst_conv snd_conv)+
  let ?db = "db\<lparr>db_server := d\<rparr>"
  have step: "run_ddl P m db = (Inr (), ?db)"
    using Cons.prems(3) d res(1) by (simp add: run_ddl_def em_simps exec_def)
  have "in_order (made @ ddl_makes m) ms" "set (made @ ddl_makes m) \<subseteq> tabs (db_server ?db)" "db_conn ?db"
    using Cons.prems res(2) by auto
  from Cons.IH [OF this] obtain d' where
    "for_each ms (run_ddl P) ?db = (Inr (), ?db\<lparr>db_server := d'\<rparr>)"
    "tabs d' = tabs d \<union> set (concat (map ddl_makes ms))" by auto
  then show ?case using step res(2) by (intro exI [of _ d']) (auto simp: em_simps)
qed

subsection \<open>A server that keeps the names of its tables\<close>

definition table_server :: "string list libpq" where
  "table_server = \<lparr>pq_connect = (\<lambda>url d. (True, d)), pq_alive = (\<lambda>d. True),
     pq_exec = (\<lambda>q ps d. case q of
        Ddl m \<Rightarrow>
          (if list_all (\<lambda>t. t \<in> set d) (ddl_needs m)
           then (\<lparr>pg_status = Command_Ok, pg_names = [], pg_rows = [], pg_tag = ''CREATE TABLE''\<rparr>,
             d @ filter (\<lambda>t. t \<notin> set d) (ddl_makes m))
           else (\<lparr>pg_status = Pg_Error ''relation does not exist'', pg_names = [], pg_rows = [], pg_tag = []\<rparr>, d))
      | User_Me \<Rightarrow>
          (\<lparr>pg_status = Tuples_Ok, pg_names = [''id'', ''bio''], pg_rows = [[Some ''u1'', None]],
             pg_tag = ''SELECT 1''\<rparr>, d)
      | _ \<Rightarrow> (\<lparr>pg_status = Command_Ok, pg_names = [], pg_rows = [], pg_tag = ''INSERT 0 1''\<rparr>, d))\<rparr>"

lemma table_server_ddl: "ddl_server table_server set"
  by (auto simp: ddl_server_def table_server_def list_all_iff)

section \<open>Properties of the wrapper and the migrations\<close>

text \<open>What a route reads of a row is what the server sent: \<open>query\<close> gives one JSON object per
  row, in order, whose field for a column is a string, the text of the value, or null for NULL, and
  never a value of another type.\<close>

theorem query_rows_typed:
  assumes "query P q ps db = (Inr rows, db')" and "pq_exec P q (map c_str ps) (db_server db) = (res, d)"
    and "distinct (pg_names res)" and "list_all (\<lambda>vs. length vs = length (pg_names res)) (pg_rows res)"
    and "r < length rows" and "c < length (pg_names res)"
  shows "length rows = length (pg_rows res) \<and>
    (\<exists>kvs. rows ! r = JObj kvs \<and> map_of kvs (pg_names res ! c) =
       Some (case pg_rows res ! r ! c of None \<Rightarrow> JNull | Some v \<Rightarrow> JStr (c_str v)))"
proof -
  have rows: "rows = map (row_json (pg_names res)) (pg_rows res)"
    using assms(1,2) by (auto simp: query_def split: if_splits pg_status.splits)
  then have "length (pg_rows res ! r) = length (pg_names res)" "r < length (pg_rows res)"
    using assms(4,5) by (auto simp: list_all_iff)
  then show ?thesis
    using row_json_lookup [OF assms(3) _ assms(6), of "pg_rows res ! r"] by (simp add: rows cell_def)
qed

theorem query_rows_typed_witness:
  "map_of [(''bio'', JNull), (''id'', JStr ''u1'')] ''bio'' = Some JNull \<and>
   (\<exists>kvs. hd (case query table_server User_Me [''u1''] \<lparr>db_conn = True, db_server = []\<rparr> of
        (Inr rows, _) \<Rightarrow> rows | _ \<Rightarrow> []) = JObj kvs \<and> map_of kvs ''bio'' = Some JNull)"
proof -
  let ?res = "\<lparr>pg_status = Tuples_Ok, pg_names = [''id'', ''bio''], pg_rows = [[Some ''u1'', None]],
      pg_tag = ''SELECT 1''\<rparr>"
  let ?db = "\<lparr>db_conn = True, db_server = []\<rparr>"
  let ?rows = "[row_json [''id'', ''bio''] [Some ''u1'', None]]"
  have run: "query table_server User_Me [''u1''] ?db = (Inr ?rows, ?db)"
    by (simp add: query_def table_server_def)
  have "pq_exec table_server User_Me (map c_str [''u1'']) (db_server ?db) = (?res, [])"
    by (simp add: table_server_def)
  from query_rows_typed [OF run this, of 0 1] show ?thesis
    by (simp add: run)
qed

text \<open>The migrations complete: against a server that executes each definition once the tables it
  refers to exist, \<open>run_migrations\<close> meets every reference in order, from an empty database or any
  other, fails nowhere, and leaves the eleven tables beside those there were. So a restart, which runs
  them again, changes nothing.\<close>

theorem migrations_complete:
  assumes "ddl_server P tabs" and "db_connected P db"
  shows "\<exists>d. run_migrations P db = (Inr (), db\<lparr>db_server := d\<rparr>) \<and>
    tabs d = tabs (db_server db) \<union>
      {''users'', ''otp_codes'', ''chats'', ''chat_members'', ''messages'', ''message_delivery'', ''reactions'',
       ''contacts'', ''channels'', ''channel_subscribers'', ''channel_posts''}"
proof -
  have "db_conn db" using assms(2) by (simp add: db_connected_def)
  then obtain d where d: "for_each migrations (run_ddl P) db = (Inr (), db\<lparr>db_server := d\<rparr>)"
    "tabs d = tabs (db_server db) \<union> set (concat (map ddl_makes migrations))"
    using in_order_run [OF assms(1) migrations_in_order, of db] by auto
  have "run_migrations P db = catch_any (for_each migrations (run_ddl P)) (\<lambda>_. ret ()) db"
    using assms(2) by (simp add: run_migrations_def run_ddl_def [abs_def])
  also have "\<dots> = (Inr (), db\<lparr>db_server := d\<rparr>)" by (simp add: catch_any_run d(1))
  finally show ?thesis using d(2) by (intro exI [of _ d]) (simp add: migrations_make del: concat.simps)
qed

theorem migrations_complete_witness:
  "\<exists>d. run_migrations table_server \<lparr>db_conn = True, db_server = [''legacy'']\<rparr> =
       (Inr (), \<lparr>db_conn = True, db_server = d\<rparr>) \<and>
     ''legacy'' \<in> set d \<and> ''channel_posts'' \<in> set d"
proof -
  let ?db = "\<lparr>db_conn = True, db_server = [''legacy'']\<rparr>"
  have "db_connected table_server ?db" by (simp add: db_connected_def table_server_def)
  note all_made = migrations_complete [OF table_server_ddl this]
  from all_made obtain d where run: "run_migrations table_server ?db = (Inr (), ?db\<lparr>db_server := d\<rparr>)"
    and tables: "set d = set (db_server ?db) \<union>
      {''users'', ''otp_codes'', ''chats'', ''chat_members'', ''messages'', ''message_delivery'', ''reactions'',
       ''contacts'', ''channels'', ''channel_subscribers'', ''channel_posts''}" by (elim exE conjE)
  have "''legacy'' \<in> set d" by (simp only: tables pgdb.select_convs list.set Un_iff insert_iff simp_thms)
  moreover have "''channel_posts'' \<in> set d" by (simp only: tables Un_iff insert_iff simp_thms)
  ultimately show ?thesis using run by (intro exI [of _ d]) simp
qed

end
