(* ===== verification/Sign_In.thy ===== *)
theory Sign_In
  imports Otp_Props
begin

section \<open>From the code sent to the session, and codes tried at the same time\<close>

text \<open>
  \<open>send-otp\<close> on the tables, the code it sends taken to \<open>verify-otp\<close>, and \<open>verify-otp\<close> in the two
  parts between which another request can run: the handler threads of the server share the database,
  whose lock covers one statement.
\<close>

subsection \<open>Sending a code\<close>

text \<open>The row of an address after a code has been stored for it.\<close>

definition store_code :: "string \<Rightarrow> string \<Rightarrow> int \<Rightarrow> tables \<Rightarrow> tables" where
  "store_code e h x t = snd (st_otp_upsert [e, h, show_int x] t)"

lemma strtol_show_int: "0 \<le> x \<Longrightarrow> strtol 10 (show_int x) = Some x"
  using strtol_show_nat [of "nat x"] by (simp add: show_int_def)

lemma c_str_show_int: "0 \<le> x \<Longrightarrow> c_str (show_int x) = show_int x"
  by (simp add: show_int_def)

lemma otp_upsert_run:
  "0 \<le> x \<Longrightarrow> st_otp_upsert [e, h, show_int x] t = (pg_done 1, store_code e h x t)"
  by (simp add: store_code_def st_otp_upsert_def strtol_show_int)

lemma stored_row:
  assumes "0 \<le> x"
  shows "\<exists>r rs. otp_rows e (store_code e h x t) = r # rs \<and>
    otp_code r = h \<and> otp_attempts r = 0 \<and> otp_expires r = x"
proof (cases "otp_rows e t")
  case Nil
  then show ?thesis
    using assms by (simp add: store_code_def st_otp_upsert_def strtol_show_int otp_rows_def)
next
  case (Cons r rs)
  have "filter (\<lambda>r. otp_email r = e) (map (\<lambda>r. if otp_email r = e then f r else r) xs) =
      map f (filter (\<lambda>r. otp_email r = e) xs)"
    if "\<And>r. otp_email (f r) = otp_email r" for f :: "otp_row \<Rightarrow> otp_row" and xs
    by (induction xs) (auto simp: that)
  then show ?thesis
    using assms Cons by (simp add: store_code_def st_otp_upsert_def strtol_show_int otp_rows_def)
qed

text \<open>A request of \<open>send-otp\<close> for the address \<open>m\<close>.\<close>

definition asks_for :: "('r, 'd) henv \<Rightarrow> request \<Rightarrow> string \<Rightarrow> bool" where
  "asks_for E req m \<longleftrightarrow>
     (case j_parse (hlib E) (req_body req) of
        Inl _ \<Rightarrow> False
      | Inr b \<Rightarrow> j_value_str (hlib E) b ''email'' [] = Inr m)"

lemma send_run:
  assumes "hpq E = tables_pq W" and "db_conn (hdb s)" and "server_works W {Otp_Upsert}"
    and "asks_for E req m" and "email_ok m" and "c = otp_generate (hsod E) (hdraws s)"
    and "x = unix_time (hclk E) (hticks s) + 600" and "0 \<le> x"
  shows "route_send_otp E req s =
    (Inr (json_resp E 200 (jobj [(''ok'', JBool True), (''message'', JStr ''OTP sent'')])),
     with_tables (store_code (c_str m) (c_str (otp_hash (hsod E) c)) x (tables_of s))
       (s\<lparr>hdraws := Suc (hdraws s), hticks := Suc (hticks s), otp_log := otp_log s @ [c]\<rparr>))"
proof -
  obtain b where b: "j_parse (hlib E) (req_body req) = Inr b" "j_value_str (hlib E) b ''email'' [] = Inr m"
    using assms(4) by (auto simp: asks_for_def split: sum.splits)
  have "m \<noteq> []" using assms(5) by (auto simp: email_ok_def find_ch_def)
  let ?s = "s\<lparr>hdraws := Suc (hdraws s), hticks := Suc (hticks s)\<rparr>"
  have "db_exec E Otp_Upsert [m, otp_hash (hsod E) c, show_int x] ?s =
      (Inr (affected_rows (show_nat 1)),
       with_tables (store_code (c_str m) (c_str (otp_hash (hsod E) c)) x (tables_of s)) ?s)"
    using assms(2) by (simp add: db_exec_tables [OF assms(1)] works_run [OF assms(3)] otp_upsert_run [OF assms(8)]
        c_str_show_int [OF assms(8)])
  then show ?thesis
    using \<open>m \<noteq> []\<close> b assms(5)
    by (simp add: route_send_otp_def with_json_body_def body_str_def em_simps http_draw_def http_time_def
        try_500_def send_otp_email_def assms(6) [symmetric] assms(7) [symmetric])
qed

subsection \<open>Requests in between\<close>

text \<open>An event that has nothing to do with the code of the address.\<close>

fun spares :: "('r, 'd) henv \<Rightarrow> string \<Rightarrow> event \<Rightarrow> bool" where
  "spares E e (Request r req) \<longleftrightarrow> \<not> asks_code E e (Request r req) \<and> \<not> tries_code E e r req"
| "spares E e (Wait n) = True"

lemma spared_rows:
  assumes "hpq E = tables_pq W" and "list_all (spares E e) es"
  shows "otp_rows e (tables_of (after E es s)) = otp_rows e (tables_of s)"
  using assms(2)
proof (induction es arbitrary: s)
  case (Cons ev es)
  then show ?case by (cases ev) (simp_all add: otp_rows_kept [OF assms(1)])
qed simp

lemma after_connected: "db_conn (hdb (after E es s)) = db_conn (hdb s)"
proof (induction es arbitrary: s)
  case (Cons ev es)
  then show ?case by (cases ev) (simp_all add: handle_connected wait_def)
qed simp

subsection \<open>The two parts of a request\<close>

text \<open>
  \<open>verify-otp\<close> reads the row and its counter, and only then counts the attempt and compares: two
  statements, between which other threads run theirs. What the first part hands on is the reply that
  ends the request, or the row.
\<close>

definition verify_read :: "('r, 'd) henv \<Rightarrow> string \<Rightarrow> (('r, 'd) http, response + json) em" where
  "verify_read E email =
     and_then (catch_any (and_then (db_query E Otp_Select [email]) (\<lambda>rows. ret (Some rows))) (\<lambda>_. ret None)) (\<lambda>found.
     case found of
       None \<Rightarrow> ret (Inl (error_resp E 500 ''Server error''))
     | Some [] \<Rightarrow> ret (Inl (error_resp E 400 ''No OTP found for this email. Request a new one.''))
     | Some (row # _) \<Rightarrow>
         and_then (col_str E row ''attempts'') (\<lambda>a.
         and_then (lift_sum (stoi a)) (\<lambda>attempts.
         if 5 \<le> attempts then ret (Inl (error_resp E 429 ''Too many attempts. Request a new OTP.''))
         else ret (Inr row))))"

definition verify_rest ::
    "('r, 'd) henv \<Rightarrow> string \<Rightarrow> string \<Rightarrow> response + json \<Rightarrow> (('r, 'd) http, response) em" where
  "verify_rest E email code x =
     (case x of
        Inl resp \<Rightarrow> ret resp
      | Inr row \<Rightarrow>
          and_then (catch_any (and_then (db_exec E Otp_Increment [email]) (\<lambda>_. ret ())) (\<lambda>_. ret ())) (\<lambda>_.
          check_otp E email code row))"

lemma verify_parts:
  assumes "otp_of E req = Some (m, c)"
  shows "route_verify_otp E req s = and_then (verify_read E m) (verify_rest E m c) s"
proof -
  obtain b where b: "j_parse (hlib E) (req_body req) = Inr b" "j_value_str (hlib E) b ''email'' [] = Inr m"
    "j_value_str (hlib E) b ''code'' [] = Inr c" "m \<noteq> []" "c \<noteq> []"
    using assms by (auto simp: otp_of_def split: sum.splits if_splits)
  show ?thesis
    using b by (auto simp: route_verify_otp_def with_json_body_def body_str_def verify_read_def verify_rest_def
        em_simps split: prod.split sum.split option.split list.split)
qed

text \<open>Requests for one address with the codes given, at the same time: all read, then each goes on, in
  turn. The replies are in the order of the codes; a thread that throws replies with its exception.\<close>

fun all_read :: "('r, 'd) henv \<Rightarrow> string \<Rightarrow> nat \<Rightarrow> ('r, 'd) http \<Rightarrow>
    (err + (response + json)) list \<times> ('r, 'd) http" where
  "all_read E m 0 s = ([], s)"
| "all_read E m (Suc n) s =
     (case verify_read E m s of (x, s') \<Rightarrow> (case all_read E m n s' of (xs, s'') \<Rightarrow> (x # xs, s'')))"

fun all_rest :: "('r, 'd) henv \<Rightarrow> string \<Rightarrow> ((err + (response + json)) \<times> string) list \<Rightarrow> ('r, 'd) http \<Rightarrow>
    (err + response) list \<times> ('r, 'd) http" where
  "all_rest E m [] s = ([], s)"
| "all_rest E m ((x, c) # xcs) s =
     (case (case x of Inl e \<Rightarrow> (Inl e, s) | Inr y \<Rightarrow> verify_rest E m c y s) of
        (r, s') \<Rightarrow> (case all_rest E m xcs s' of (rs, s'') \<Rightarrow> (r # rs, s'')))"

definition burst :: "('r, 'd) henv \<Rightarrow> string \<Rightarrow> string list \<Rightarrow> ('r, 'd) http \<Rightarrow>
    (err + response) list \<times> ('r, 'd) http" where
  "burst E m cs s = (case all_read E m (length cs) s of (xs, s') \<Rightarrow> all_rest E m (zip xs cs) s')"

text \<open>The row of an address as the statement of the first part gives it.\<close>

abbreviation code_json :: "pg \<Rightarrow> otp_row \<Rightarrow> json" where
  "code_json W r \<equiv> row_json [''code_hash'', ''expires_at'', ''attempts'']
     [Some (otp_code r), Some (time_text W (otp_expires r)), Some (show_int (otp_attempts r))]"

lemma all_read_run:
  assumes "hpq E = tables_pq W" and "db_conn (hdb s)" and "server_works W {Otp_Select}"
    and "json_accessors_ok (hlib E)" and "otp_rows (c_str m) (tables_of s) = r # rs"
    and "0 \<le> otp_attempts r" and "otp_attempts r < 5"
  shows "all_read E m n s = (replicate n (Inr (Inr (code_json W r))), s)"
proof -
  have "stoi (show_int (otp_attempts r)) = Inr (otp_attempts r)"
    using assms(6,7) by (intro stoi_show_int) simp_all
  then have "verify_read E m s = (Inr (Inr (code_json W r)), s)"
    using assms(5,7) by (simp add: verify_read_def em_simps select_code [OF assms(1-3)] col_str_def
        otp_row_json doc_accessors [OF assms(4)] c_str_show_int [OF assms(6)])
  then show ?thesis by (induction n) simp_all
qed

text \<open>The second part with the row \<open>r\<close> that was read, whatever has been counted since.\<close>

lemma verify_rest_run:
  assumes "hpq E = tables_pq W" and "db_conn (hdb s)" and "server_works W {Otp_Increment, Otp_Valid, Otp_Delete}"
    and "json_accessors_ok (hlib E)" and "otp_rows (c_str m) (tables_of s) = r' # rs"
    and "pg_now (tables_of s) < otp_expires r'"
  shows "verify_rest E m c (Inr (code_json W r)) s =
    (if otp_hash (hsod E) c = c_str (otp_code r)
     then login_user E m (with_tables (drop_code (c_str m) (tables_of s)) s)
     else (Inr (error_resp E 400 ''Invalid OTP code''), with_tables (count_attempt (c_str m) (tables_of s)) s))"
proof -
  let ?s = "with_tables (count_attempt (c_str m) (tables_of s)) s"
  have works: "server_works W {Otp_Increment}" "server_works W {Otp_Valid}" "server_works W {Otp_Delete}"
    using assms(3) by (simp_all add: server_works_def)
  have conn: "db_conn (hdb ?s)" using assms(2) by simp
  have now: "pg_now (count_attempt e t) = pg_now t" for e t
    by (simp add: count_attempt_def st_otp_increment_def)
  obtain n where inc: "db_exec E Otp_Increment [m] s = (Inr n, ?s)"
    using increment_code [OF assms(1,2) works(1)] by blast
  have valid: "db_query E Otp_Valid [m] ?s =
      (Inr (row_json [''valid''] [Some ''t''] # map (\<lambda>r. row_json [''valid'']
        [Some (if pg_now (tables_of s) < otp_expires r then ''t'' else ''f'')]) rs), ?s)"
    using assms(5,6) by (simp add: db_query_tables [OF assms(1) conn] works_run [OF works(2)] st_otp_valid_def
        otp_rows_count comp_def now)
  obtain k where del: "db_exec E Otp_Delete [m] ?s = (Inr k, with_tables (drop_code (c_str m) (tables_of s)) s)"
    using delete_code [OF assms(1) conn works(3), of m] by (auto simp: drop_counted)
  have "c_str ''t'' = ''t''" by (simp add: c_str_def)
  then show ?thesis
    by (auto simp: verify_rest_def check_otp_def em_simps inc valid del col_str_def otp_row_json one_col
        doc_accessors [OF assms(4)])
qed

lemma wrong_rests:
  assumes "hpq E = tables_pq W" and "server_works W {Otp_Increment, Otp_Valid, Otp_Delete}"
    and "json_accessors_ok (hlib E)" and "list_all (\<lambda>w. otp_hash (hsod E) w \<noteq> c_str (otp_code r)) ws"
    and "db_conn (hdb s)" and "otp_rows (c_str m) (tables_of s) = r' # rs"
    and "pg_now (tables_of s) < otp_expires r'"
  shows "all_rest E m (zip (replicate (length ws) (Inr (Inr (code_json W r))) @ xs) (ws @ cs)) s =
    (case all_rest E m (zip xs cs) (with_tables (((count_attempt (c_str m)) ^^ length ws) (tables_of s)) s) of
       (ys, s') \<Rightarrow> (replicate (length ws) (Inr (error_resp E 400 ''Invalid OTP code'')) @ ys, s')) \<and>
    (\<exists>r'' rs'. otp_rows (c_str m) (((count_attempt (c_str m)) ^^ length ws) (tables_of s)) = r'' # rs' \<and>
       pg_now (((count_attempt (c_str m)) ^^ length ws) (tables_of s)) < otp_expires r'') \<and>
    drop_code (c_str m) (((count_attempt (c_str m)) ^^ length ws) (tables_of s)) = drop_code (c_str m) (tables_of s)"
  using assms(4-7)
proof (induction ws arbitrary: s r' rs)
  case (Cons w ws)
  let ?s = "with_tables (count_attempt (c_str m) (tables_of s)) s"
  have "pg_now (count_attempt e t) = pg_now t" for e t
    by (simp add: count_attempt_def st_otp_increment_def)
  then have "otp_rows (c_str m) (tables_of ?s) =
      r'\<lparr>otp_attempts := otp_attempts r' + 1\<rparr> # map (\<lambda>r. r\<lparr>otp_attempts := otp_attempts r + 1\<rparr>) rs"
    "pg_now (tables_of ?s) < otp_expires (r'\<lparr>otp_attempts := otp_attempts r' + 1\<rparr>)"
    using Cons.prems by (simp_all add: otp_rows_count)
  note IH = Cons.IH [OF _ _ this]
  show ?case
    using IH Cons.prems verify_rest_run [OF assms(1) Cons.prems(2) assms(2,3) Cons.prems(3,4), of w r]
    by (simp add: funpow_Suc_right drop_counted del: funpow.simps split: prod.split)
qed simp_all

section \<open>Properties of signing in\<close>

text \<open>C16: The code that is sent signs in: \<open>send-otp\<close> for a well-formed address replies 200, puts one
  new code in the message and its hash in the database; and until ten minutes later, whatever other
  requests come in between that neither ask for a code of the address nor try one, \<open>verify-otp\<close> with
  the address and that code deletes it and goes on to sign in the user of the address.\<close>

theorem sent_code_signs_in:
  assumes "hpq E = tables_pq W" and "db_conn (hdb s)"
    and "server_works W {Otp_Upsert, Otp_Select, Otp_Increment, Otp_Valid, Otp_Delete}"
    and "json_accessors_ok (hlib E)" and "asks_for E req m" and "email_ok m"
    and "c = otp_generate (hsod E) (hdraws s)" and "CHR 0x00 \<notin> set (otp_hash (hsod E) c)"
    and "x = unix_time (hclk E) (hticks s) + 600" and "0 \<le> x"
    and "list_all (spares E (c_str m)) es" and "otp_of E req' = Some (m', c)" and "c_str m' = c_str m"
  shows "\<exists>s1. route_send_otp E req s =
      (Inr (json_resp E 200 (jobj [(''ok'', JBool True), (''message'', JStr ''OTP sent'')])), s1) \<and>
    otp_log s1 = otp_log s @ [c] \<and> pg_now (tables_of s1) = pg_now (tables_of s) \<and>
    (pg_now (tables_of (after E es s1)) < x \<longrightarrow>
       route_verify_otp E req' (after E es s1) =
         login_user E m' (with_tables (drop_code (c_str m) (tables_of (after E es s1))) (after E es s1)))"
proof -
  let ?t = "store_code (c_str m) (c_str (otp_hash (hsod E) c)) x (tables_of s)"
  let ?s1 = "with_tables ?t (s\<lparr>hdraws := Suc (hdraws s), hticks := Suc (hticks s), otp_log := otp_log s @ [c]\<rparr>)"
  let ?s2 = "after E es ?s1"
  have works: "server_works W {Otp_Upsert}" "server_works W {Otp_Select, Otp_Increment, Otp_Valid, Otp_Delete}"
    using assms(3) by (simp_all add: server_works_def)
  have sent: "route_send_otp E req s =
      (Inr (json_resp E 200 (jobj [(''ok'', JBool True), (''message'', JStr ''OTP sent'')])), ?s1)"
    by (rule send_run [OF assms(1,2) works(1) assms(5-7,9,10)])
  obtain r rs where row: "otp_rows (c_str m) (tables_of ?s2) = r # rs"
    "otp_code r = c_str (otp_hash (hsod E) c)" "otp_attempts r = 0" "otp_expires r = x"
    using stored_row [OF assms(10), of "c_str m" "c_str (otp_hash (hsod E) c)" "tables_of s"]
      spared_rows [OF assms(1,11), of ?s1] by auto
  have hash: "c_str (otp_hash (hsod E) c) = otp_hash (hsod E) c" by (rule no_nul_c_str [OF assms(8)])
  have "db_conn (hdb ?s2)" using assms(2) by (simp add: after_connected)
  moreover have "counts_ok (c_str m') (tables_of ?s2)" using row by (simp add: counts_ok_def assms(13))
  ultimately have "pg_now (tables_of ?s2) < x \<longrightarrow> route_verify_otp E req' ?s2 =
      login_user E m' (with_tables (drop_code (c_str m) (tables_of ?s2)) ?s2)"
    using verify_otp_run [OF assms(1) _ works(2) assms(4,12)] row by (simp add: assms(13) hash)
  moreover have "pg_now ?t = pg_now (tables_of s)"
    using assms(10) by (simp add: store_code_def st_otp_upsert_def strtol_show_int)
  ultimately show ?thesis using sent by (intro exI [of _ ?s1]) simp
qed

lemma demo_hash_text: "otp_hash demo_sodium x = take 32 (x @ replicate 32 (CHR ''a''))"
proof -
  have "char_of_byte 97 = CHR ''a''" by (simp add: char_of_byte_def char_of_def bit_Suc_0_iff)
  then show ?thesis
    using string_of_bytes_of [of x]
    by (simp add: otp_hash_def demo_sodium_def toy_sodium_def take_map [symmetric] string_of_def)
qed

lemma demo_body:
  "j_parse (hlib (demo_world b)) (req_body demo_request) = Inr b"
  "json_accessors_ok (hlib (demo_world b))" "server_works demo_pg Q"
  by (simp_all add: demo_henv_def demo_json_def doc_json_def demo_request_def server_works_def demo_pg_def
      demo_json_ok [unfolded demo_json_def doc_json_def])

theorem sent_code_signs_in_witness:
  "let E = demo_world (JObj [(''code'', JStr ''100000''), (''email'', JStr ''a@b.c'')]);
       es = [Wait 100, Request Get_Me demo_request] in
   \<exists>s1. otp_log s1 = [''100000''] \<and>
     route_send_otp E demo_request demo_state =
       (Inr (json_resp E 200 (jobj [(''ok'', JBool True), (''message'', JStr ''OTP sent'')])), s1) \<and>
     route_verify_otp E demo_request (after E es s1) =
       login_user E ''a@b.c'' (with_tables (drop_code ''a@b.c'' (tables_of (after E es s1))) (after E es s1))"
proof -
  let ?E = "demo_world (JObj [(''code'', JStr ''100000''), (''email'', JStr ''a@b.c'')])"
  let ?es = "[Wait 100, Request Get_Me demo_request]"
  have asks: "asks_for ?E demo_request ''a@b.c''" "otp_of ?E demo_request = Some (''a@b.c'', ''100000'')"
    by (simp_all add: asks_for_def otp_of_def demo_body(1))
      (simp_all add: demo_henv_def demo_json_def doc_json_def doc_value_def doc_get_str_def)
  have mail: "email_ok ''a@b.c''" "c_str ''a@b.c'' = ''a@b.c''"
    by (simp_all add: email_ok_def find_ch_def is_space_def upt_rec c_str_def)
  have code: "''100000'' = otp_generate (hsod ?E) (hdraws demo_state)"
    by (simp add: otp_generate_def demo_henv_def demo_sodium_def toy_sodium_def show_eval)
  have hash: "CHR 0x00 \<notin> set (otp_hash (hsod ?E) ''100000'')"
    using demo_hash [of "''100000''"] set_takeWhileD [of "CHR 0x00" "\<lambda>c. c \<noteq> CHR 0x00" "otp_hash demo_sodium ''100000''"]
    by (auto simp: demo_henv_def c_str_def)
  have time: "(700 :: int) = unix_time (hclk ?E) (hticks demo_state) + 600" by (simp add: demo_henv_def)
  have spare: "list_all (spares ?E (c_str ''a@b.c'')) ?es" by (simp add: tries_code_def)
  note sent = sent_code_signs_in [OF demo_world_pq _ demo_body(3,2) asks(1) mail(1) code hash time _ spare asks(2) refl]
  from sent obtain s1 where s1: "route_send_otp ?E demo_request demo_state =
      (Inr (json_resp ?E 200 (jobj [(''ok'', JBool True), (''message'', JStr ''OTP sent'')])), s1)"
    "otp_log s1 = [''100000'']" "pg_now (tables_of s1) = 100"
    and signs: "pg_now (tables_of (after ?E ?es s1)) < 700 \<Longrightarrow> route_verify_otp ?E demo_request (after ?E ?es s1) =
      login_user ?E ''a@b.c'' (with_tables (drop_code ''a@b.c'' (tables_of (after ?E ?es s1))) (after ?E ?es s1))"
    by (auto simp: mail(2) demo_http_def demo_rows)
  have "pg_now (tables_of (after ?E ?es s1)) = 200"
    using route_confined [OF demo_world_pq, where r = Get_Me and req = demo_request and s = "wait 100 s1"] s1(3)
    by (simp add: same_except_def wait_def)
  with s1 signs show ?thesis by (simp add: Let_def)
qed

text \<open>C17: The bound on guesses does not hold for requests handled at the same time: the check of the
  counter and its increment are two statements, so any number of requests that read the row before
  one of them counts are all compared with the code. With a code that is still valid and fewer than
  five attempts, a burst of any length finds it: each wrong code is answered 400, never 429, and the
  right one at the end goes on to sign in.\<close>

theorem burst_finds_code:
  assumes "hpq E = tables_pq W" and "db_conn (hdb s)"
    and "server_works W {Otp_Select, Otp_Increment, Otp_Valid, Otp_Delete}"
    and "json_accessors_ok (hlib E)" and "otp_rows (c_str m) (tables_of s) = r # rs"
    and "0 \<le> otp_attempts r" and "otp_attempts r < 5" and "pg_now (tables_of s) < otp_expires r"
    and "list_all (\<lambda>w. otp_hash (hsod E) w \<noteq> c_str (otp_code r)) ws"
    and "otp_hash (hsod E) c = c_str (otp_code r)"
  shows "burst E m (ws @ [c]) s =
    (case login_user E m (with_tables (drop_code (c_str m) (tables_of s)) s) of
       (x, s') \<Rightarrow> (replicate (length ws) (Inr (error_resp E 400 ''Invalid OTP code'')) @ [x], s'))"
proof -
  have works: "server_works W {Otp_Select}" "server_works W {Otp_Increment, Otp_Valid, Otp_Delete}"
    using assms(3) by (simp_all add: server_works_def)
  let ?t = "((count_attempt (c_str m)) ^^ length ws) (tables_of s)"
  note read = all_read_run [OF assms(1,2) works(1) assms(4-7)]
  note wrong = wrong_rests [OF assms(1) works(2) assms(4,9,2,5,8), of "[Inr (Inr (code_json W r))]" "[c]"]
  then obtain r' rs' where "otp_rows (c_str m) (tables_of (with_tables ?t s)) = r' # rs'"
    "pg_now (tables_of (with_tables ?t s)) < otp_expires r'" by auto
  from verify_rest_run [OF assms(1) _ works(2) assms(4) this, of c r]
  have last: "verify_rest E m c (Inr (code_json W r)) (with_tables ?t s) =
      login_user E m (with_tables (drop_code (c_str m) (tables_of s)) s)"
    using assms(2,10) wrong by simp
  have "replicate (length (ws @ [c])) x = replicate (length ws) x @ [x]" for x :: "err + (response + json)"
    by (simp add: replicate_append_same)
  then have "burst E m (ws @ [c]) s =
      all_rest E m (zip (replicate (length ws) (Inr (Inr (code_json W r))) @ [Inr (Inr (code_json W r))]) (ws @ [c])) s"
    unfolding burst_def read by simp
  also have "\<dots> = (case all_rest E m (zip [Inr (Inr (code_json W r))] [c]) (with_tables ?t s) of
      (ys, s') \<Rightarrow> (replicate (length ws) (Inr (error_resp E 400 ''Invalid OTP code'')) @ ys, s'))"
    using wrong by blast
  finally show ?thesis by (simp add: last split: prod.split)
qed

theorem burst_finds_code_witness:
  "let E = demo_world JNull in
   burst E ''a@b.c'' (replicate 9 ''000000'' @ [''123456'']) demo_state =
     (case login_user E ''a@b.c'' (with_tables (drop_code ''a@b.c'' demo_tables) demo_state) of
        (x, s') \<Rightarrow> (replicate 9 (Inr (error_resp E 400 ''Invalid OTP code'')) @ [x], s'))"
proof -
  let ?E = "demo_world JNull"
  let ?r = "\<lparr>otp_email = ''a@b.c'', otp_code = otp_hash demo_sodium ''123456'', otp_attempts = 0, otp_expires = 700\<rparr>"
  have mail: "c_str ''a@b.c'' = ''a@b.c''" by (simp add: c_str_def)
  have sod: "hsod ?E = demo_sodium" by (simp add: demo_henv_def)
  have hash: "c_str (otp_hash demo_sodium ''123456'') = otp_hash demo_sodium ''123456''"
    by (simp add: demo_hash)
  have other: "otp_hash demo_sodium ''000000'' \<noteq> otp_hash demo_sodium ''123456''"
    by (simp add: demo_hash_text numeral_eq_Suc)
  have row: "otp_rows (c_str ''a@b.c'') (tables_of demo_state) = ?r # []" by (simp add: demo_code mail)
  note found = burst_finds_code [OF demo_world_pq _ demo_body(3,2) row, where ws = "replicate 9 ''000000''" and c = "''123456''"]
  show ?thesis
    unfolding Let_def
    by (rule found [unfolded mail demo_state_simps length_replicate]) (simp_all add: demo_rows sod hash other list_all_iff)
qed

end
