(* ===== verification/Profile_Props.thy ===== *)
theory Profile_Props
  imports Contact_Props
begin

section \<open>Changing one's profile\<close>

text \<open>
  \<open>PATCH /api/auth/me\<close> against what it should do to the caller's row: the fields given replace those
  stored (\<open>profile_after\<close>), unless the telephone number belongs to another account.
\<close>

subsection \<open>The fields given\<close>

text \<open>The columns \<open>add_field\<close> is called for, each at most once.\<close>

lemma add_fields_columns:
  "add_fields E body cks = Inr fs \<Longrightarrow> set (map fst fs) \<subseteq> set (map fst cks)"
  "add_fields E body cks = Inr fs \<Longrightarrow> distinct (map fst cks) \<Longrightarrow> distinct (map fst fs)"
proof -
  have one: "add_field E body ck = Inr f \<Longrightarrow> f = [] \<or> (\<exists>v. f = [(fst ck, v)])" for ck f
    by (auto simp: add_field_def split: option.splits if_splits sum.splits)
  show sub: "set (map fst fs) \<subseteq> set (map fst cks)" if "add_fields E body cks = Inr fs" for cks fs
    using that
  proof (induction cks arbitrary: fs)
    case (Cons ck cks)
    then obtain f gs where "add_field E body ck = Inr f" "add_fields E body cks = Inr gs" "fs = f @ gs"
      by (auto split: sum.splits)
    then show ?case using one [of ck f] Cons.IH [of gs] by auto
  qed simp
  show "distinct (map fst fs)" if "add_fields E body cks = Inr fs" "distinct (map fst cks)"
    using that
  proof (induction cks arbitrary: fs)
    case (Cons ck cks)
    then obtain f gs where "add_field E body ck = Inr f" "add_fields E body cks = Inr gs" "fs = f @ gs"
      by (auto split: sum.splits)
    moreover have "fst ck \<notin> set (map fst gs)" using calculation(2) sub [of cks gs] Cons.prems(2) by auto
    moreover have "distinct (map fst gs)" using Cons.IH [of gs] calculation(2) Cons.prems(2) by simp
    ultimately show ?case using one [of ck f] by (elim disjE [OF one] exE) simp_all
  qed simp
qed

lemma update_columns_distinct: "distinct (map fst update_columns)"
  "set (map fst update_columns) = {''display_name'', ''bio'', ''avatar_url'', ''status_text'', ''phone_number''}"
  by (auto simp: update_columns_def)

subsection \<open>The row afterwards\<close>

definition given :: "(string \<times> string) list \<Rightarrow> string \<Rightarrow> string option \<Rightarrow> string option" where
  "given fs c old = (case map_of fs c of None \<Rightarrow> old | Some v \<Rightarrow> Some v)"

lemma given_simps [simp]:
  "given [] k old = old" "given ((k, v) # fs) k old = Some v"
  "c \<noteq> k \<Longrightarrow> given ((c, v) # fs) k old = given fs k old"
  "map_of fs k = None \<Longrightarrow> given fs k old = old"
  by (simp_all add: given_def)

definition profile_after :: "(string \<times> string) list \<Rightarrow> user_row \<Rightarrow> user_row" where
  "profile_after fs r = r\<lparr>usr_display := given fs ''display_name'' (usr_display r), usr_bio := given fs ''bio'' (usr_bio r),
     usr_avatar := given fs ''avatar_url'' (usr_avatar r),
     usr_status_text := given fs ''status_text'' (usr_status_text r),
     usr_phone := given fs ''phone_number'' (usr_phone r)\<rparr>"

lemma profile_after_keys [simp]:
  "usr_id (profile_after fs r) = usr_id r" "usr_name (profile_after fs r) = usr_name r"
  "usr_email (profile_after fs r) = usr_email r"
  "usr_phone (profile_after fs r) = given fs ''phone_number'' (usr_phone r)"
  by (simp_all add: profile_after_def)

lemma set_columns_given:
  assumes "distinct (map fst fs)"
    and "set (map fst fs) \<subseteq> {''display_name'', ''bio'', ''avatar_url'', ''status_text'', ''phone_number''}"
  shows "set_columns fs r = profile_after fs r"
  using assms
proof (induction fs arbitrary: r)
  case Nil
  then show ?case by (simp add: profile_after_def)
next
  case (Cons cv fs)
  obtain c v where cv: "cv = (c, v)" by (cases cv)
  then have "map_of fs c = None" using Cons.prems by (simp add: map_of_eq_None_iff image_def)
  moreover have "c = ''display_name'' \<or> c = ''bio'' \<or> c = ''avatar_url'' \<or> c = ''status_text'' \<or> c = ''phone_number''"
    using Cons.prems cv by simp
  ultimately show ?case
    using Cons.IH Cons.prems cv by (elim disjE) (simp_all add: profile_after_def)
qed

subsection \<open>Telephone numbers\<close>

text \<open>Another account has the number the request gives.\<close>

definition phone_of_other :: "string \<Rightarrow> (string \<times> string) list \<Rightarrow> tables \<Rightarrow> bool" where
  "phone_of_other a fs t \<longleftrightarrow> user_exists a t \<and>
     (case map_of fs ''phone_number'' of
        None \<Rightarrow> False
      | Some p \<Rightarrow> list_ex (\<lambda>v. usr_id v \<noteq> a \<and> usr_phone v = Some p) (users t))"

lemma phones_unique:
  assumes "users_ok t" and "u \<in> set (users t)" and "v \<in> set (users t)" and "usr_id u \<noteq> usr_id v"
    and "usr_phone u = Some p"
  shows "usr_phone v \<noteq> Some p"
proof -
  obtain i j where ij: "i < length (users t)" "j < length (users t)" "users t ! i = u" "users t ! j = v" "i \<noteq> j"
    using assms(2-4) by (metis in_set_conv_nth)
  then have "\<not> user_clash u v \<or> \<not> user_clash v u"
    using assms(1) unfolding users_ok_def by (metis nat_neq_iff sorted_wrt_nth_less)
  then show ?thesis using assms(5) by (auto simp: user_clash_def)
qed

lemma update_clash:
  assumes "users_ok t"
    and "new = map (\<lambda>r. if usr_id r = a then profile_after fs r else r) (users t)"
  shows "list_ex (\<lambda>u. list_ex (\<lambda>v. usr_id v \<noteq> usr_id u \<and> usr_phone u \<noteq> None \<and> usr_phone u = usr_phone v) new) new
    \<longleftrightarrow> phone_of_other a fs t"
proof
  let ?f = "\<lambda>r. if usr_id r = a then profile_after fs r else r"
  assume "list_ex (\<lambda>u. list_ex (\<lambda>v. usr_id v \<noteq> usr_id u \<and> usr_phone u \<noteq> None \<and> usr_phone u = usr_phone v) new) new"
  then obtain u v where uv: "u \<in> set (users t)" "v \<in> set (users t)" "usr_id (?f v) \<noteq> usr_id (?f u)"
    "usr_phone (?f u) \<noteq> None" "usr_phone (?f u) = usr_phone (?f v)"
    unfolding assms(2) list_ex_iff set_map by blast
  then obtain p where p: "usr_phone (?f u) = Some p" "usr_phone (?f v) = Some p" "usr_id u \<noteq> usr_id v"
    by (auto simp del: not_None_eq split: if_splits)
  show "phone_of_other a fs t"
    using phones_unique [OF assms(1) uv(1,2) p(3), of p] uv(1,2) p
    by (cases "map_of fs ''phone_number''"; cases "usr_id u = a"; cases "usr_id v = a")
      (auto simp: phone_of_other_def user_exists_def list_ex_iff given_def)
next
  assume "phone_of_other a fs t"
  then obtain p u v where uv: "map_of fs ''phone_number'' = Some p" "u \<in> set (users t)" "usr_id u = a"
    "v \<in> set (users t)" "usr_id v \<noteq> a" "usr_phone v = Some p"
    by (auto simp: phone_of_other_def user_exists_def list_ex_iff split: option.splits)
  have "profile_after fs u \<in> set new" "v \<in> set new"
    using uv unfolding assms(2) by (auto simp: image_iff intro: bexI [of _ u] bexI [of _ v])
  moreover have "usr_id v \<noteq> usr_id (profile_after fs u)" "usr_phone (profile_after fs u) = Some p"
    using uv by (simp_all add: given_def)
  ultimately show "list_ex (\<lambda>u. list_ex (\<lambda>v. usr_id v \<noteq> usr_id u \<and> usr_phone u \<noteq> None \<and> usr_phone u = usr_phone v) new) new"
    unfolding list_ex_iff using uv(6)
    by (intro bexI [of _ "profile_after fs u"] bexI [of _ v]) simp_all
qed

section \<open>Properties of the profile\<close>



section \<open>Seeing the changes\<close>

text \<open>What the routes show of a row to its user, and to others.\<close>

definition me_json :: "pg \<Rightarrow> user_row \<Rightarrow> json" where
  "me_json W r = jobj [(''id'', cell (Some (usr_id r))), (''username'', cell (Some (usr_name r))),
     (''email'', cell (Some (usr_email r))), (''phone'', cell (usr_phone r)), (''displayName'', cell (usr_display r)),
     (''avatarUrl'', cell (usr_avatar r)), (''bio'', cell (usr_bio r)), (''status'', cell (usr_status r)),
     (''statusText'', cell (usr_status_text r)), (''createdAt'', cell (time_cell W (usr_created r)))]"

definition public_json :: "user_row \<Rightarrow> json" where
  "public_json r = jobj [(''id'', cell (Some (usr_id r))), (''username'', cell (Some (usr_name r))),
     (''displayName'', cell (usr_display r)), (''avatarUrl'', cell (usr_avatar r)), (''bio'', cell (usr_bio r)),
     (''status'', cell (usr_status r))]"

lemma me_json_row: "pick me_fields (row_json me_columns (me_row W r)) = me_json W r"
  by (simp add: me_json_def pick_def me_fields_def me_columns_def me_row_def row_json_def col_def)

lemma one_row:
  assumes "users_ok t" and "r \<in> set (users t)"
  shows "filter (\<lambda>v. usr_id v = usr_id r) (users t) = [r]"
proof -
  have "filter (\<lambda>v. usr_id v = usr_id r) us = [r]"
    if "sorted_wrt (\<lambda>u v. \<not> user_clash u v) us" "r \<in> set us" for us
    using that by (induction us) (auto simp: user_clash_def filter_empty_conv)
  then show ?thesis using assms by (simp add: users_ok_def)
qed

lemma get_me_run:
  assumes "hpq E = tables_pq W" and "db_conn (hdb s)" and "server_works W {User_Me}"
    and "authenticate_request E (authorization req) s = (Inr (u, st), s1)" and "u \<noteq> []"
    and "uuid W (c_str u) = Some a"
  shows "route_get_me E req s =
    (Inr (case filter (\<lambda>r. usr_id r = a \<and> \<not> usr_deleted r) (users (tables_of s)) of
            [] \<Rightarrow> error_resp E 404 ''User not found'' | r # _ \<Rightarrow> json_resp E 200 (me_json W r)), s1)"
proof -
  note run = admitted_run [OF assms(4,5)]
  have conn: "db_conn (hdb s1)" and tabs: "tables_of s1 = tables_of s" using assms(2) run(2) by simp_all
  show ?thesis
    by (simp add: route_get_me_def run(1) try_500_def em_simps db_query_tables [OF assms(1) conn]
        works_run [OF assms(3)] st_user_me_def as_uuid_def assms(6) tabs me_json_row split: list.split)
qed

lemma get_user_run:
  assumes "hpq E = tables_pq W" and "db_conn (hdb s)" and "server_works W {User_Public}"
    and "authenticate_request E (authorization req) s = (Inr (u, st), s1)" and "u \<noteq> []"
    and "uuid W (c_str v) = Some a"
  shows "route_get_user E v req s =
    (Inr (case filter (\<lambda>r. usr_id r = a \<and> \<not> usr_deleted r) (users (tables_of s)) of
            [] \<Rightarrow> error_resp E 404 ''User not found'' | r # _ \<Rightarrow> json_resp E 200 (public_json r)), s1)"
proof -
  note run = admitted_run [OF assms(4,5)]
  have conn: "db_conn (hdb s1)" and tabs: "tables_of s1 = tables_of s" using assms(2) run(2) by simp_all
  show ?thesis
    by (simp add: route_get_user_def run(1) try_500_def em_simps db_query_tables [OF assms(1) conn]
        works_run [OF assms(3)] st_user_public_def as_uuid_def assms(6) tabs split: list.split)
      (simp add: public_json_def pick_def row_json_def col_def)
qed

lemma profile_row_after:
  assumes "users_ok t" and "r \<in> set (users t)" and "\<not> usr_deleted r" and "usr_id r = a"
  shows "filter (\<lambda>v. usr_id v = a \<and> \<not> usr_deleted v)
    (map (\<lambda>v. if usr_id v = a then profile_after gs v else v) (users t)) = [profile_after gs r]"
proof -
  have "filter (\<lambda>v. usr_id v = a \<and> \<not> usr_deleted v) (map (\<lambda>v. if usr_id v = a then profile_after gs v else v) us) =
      map (profile_after gs) (filter (\<lambda>v. \<not> usr_deleted v) (filter (\<lambda>v. usr_id v = a) us))" for us
    by (induction us) (auto simp: profile_after_def)
  then show ?thesis using one_row [OF assms(1,2)] assms(3,4) by (simp del: filter_filter)
qed



end
