(* ===== verification/Group_Props.thy ===== *)
theory Group_Props
  imports Chat_Props
begin

section \<open>Creating a group\<close>

text \<open>
  \<open>POST /api/chats/group\<close>: the chat, its owner, and the loop over the member identifiers, whose
  failures the code swallows one by one.
\<close>

subsection \<open>Who joins\<close>

text \<open>The users the identifiers name, each once, without those already there.\<close>

fun joining :: "pg \<Rightarrow> tables \<Rightarrow> string set \<Rightarrow> string list \<Rightarrow> string list" where
  "joining W t there [] = []"
| "joining W t there (x # xs) =
     (case uuid W (c_str x) of
        None \<Rightarrow> joining W t there xs
      | Some b \<Rightarrow>
          if b \<in> there \<or> \<not> user_exists b t then joining W t there xs
          else b # joining W t (insert b there) xs)"

lemma joining_set:
  "set (joining W t there xs) =
     {b. b \<notin> there \<and> user_exists b t \<and> Some b \<in> set (map (\<lambda>x. uuid W (c_str x)) xs)}"
  by (induction xs arbitrary: there) (auto split: option.split)

lemma joining_distinct: "distinct (joining W t there xs)"
  by (induction xs arbitrary: there) (auto simp: joining_set split: option.split)

lemma joining_members [simp]: "joining W (t\<lparr>members := ms\<rparr>) there xs = joining W t there xs"
  by (induction xs arbitrary: there) (auto simp: user_exists_def split: option.split)

definition there :: "string \<Rightarrow> tables \<Rightarrow> string set" where
  "there i t = {b. list_ex (is_member_row i b) (members t)}"

lemma group_member_run:
  assumes "uuid W i' = Some i" and "chat_exists i t"
  shows "st_group_member W [i', x] t =
    (case uuid W x of
       None \<Rightarrow> (pg_fail ''invalid input syntax for type uuid'', t)
     | Some b \<Rightarrow>
         if b \<in> there i t then (pg_done 0, t)
         else if \<not> user_exists b t then (pg_fail ''violates foreign key constraint'', t)
         else (pg_done 1, t\<lparr>members := members t @ [member_new (pg_now t) i b ''member'' False]\<rparr>))"
  using assms by (simp add: st_group_member_def as_uuid_def there_def members_stmt_def member_error_def
      member_new_def split: option.split)

lemma there_add:
  "there i (t\<lparr>members := members t @ [member_new n i b r l]\<rparr>) = insert b (there i t)"
  by (auto simp: there_def is_member_row_def member_new_def)

subsection \<open>The loop\<close>

lemma add_members_run:
  assumes "hpq E = tables_pq W" and "server_works W {Group_Member}" and "json_accessors_ok (hlib E)"
    and "uuid W (c_str i') = Some i" and "uuid W (c_str u) = Some a"
    and "db_conn (hdb s)" and "chat_exists i (tables_of s)" and "a \<in> there i (tables_of s)"
  shows "add_members E i' u (map JStr xs) s =
    (Inr (), with_tables ((tables_of s)\<lparr>members := members (tables_of s) @
       map (\<lambda>b. member_new (pg_now (tables_of s)) i b ''member'' False) (joining W (tables_of s) (there i (tables_of s)) xs)\<rparr>) s)"
  using assms(6-8)
proof (induction xs arbitrary: s)
  case (Cons x xs)
  let ?t = "tables_of s"
  note skip = Cons.IH [OF Cons.prems]
  note run = group_member_run [OF assms(4) Cons.prems(2), of "c_str x"]
  note step = em_simps doc_accessors [OF assms(3)] db_exec_tables [OF assms(1) Cons.prems(1)] works_run [OF assms(2)]
  show ?case
  proof (cases "uuid W (c_str x)")
    case None
    then show ?thesis using skip run assms(5) by (auto simp: step)
  next
    case (Some b)
    show ?thesis
    proof (cases "b \<in> there i ?t \<or> \<not> user_exists b ?t")
      case True
      then show ?thesis using skip run Some by (auto simp: step)
    next
      case False
      let ?s = "with_tables (?t\<lparr>members := members ?t @ [member_new (pg_now ?t) i b ''member'' False]\<rparr>) s"
      have "x \<noteq> u" using False Some assms(5) Cons.prems(3) by auto
      moreover have "add_members E i' u (map JStr xs) ?s = (Inr (), with_tables (?t\<lparr>members :=
          members ?t @ member_new (pg_now ?t) i b ''member'' False # map (\<lambda>b. member_new (pg_now ?t) i b ''member'' False)
            (joining W ?t (insert b (there i ?t)) xs)\<rparr>) s)"
        using Cons.IH [of ?s] Cons.prems by (simp add: there_add chat_exists_def)
      ultimately show ?thesis using run Some False by (simp add: step)
    qed
  qed
qed (simp add: em_simps)

subsection \<open>The chat and its owner\<close>

definition with_group :: "string \<Rightarrow> string \<Rightarrow> string \<Rightarrow> string \<Rightarrow> tables \<Rightarrow> tables" where
  "with_group i n d a t = t\<lparr>id_count := Suc (id_count t),
     chats := chats t @ [chat_new (pg_now t) i ''group'' (Some (n, d)) a]\<rparr>"

definition with_owner :: "string \<Rightarrow> string \<Rightarrow> tables \<Rightarrow> tables" where
  "with_owner i a t = t\<lparr>members := members t @ [member_new (pg_now t) i a ''owner'' True]\<rparr>"

lemma with_group_simps [simp]:
  "chat_exists i (with_group i n d a t)" "user_exists b (with_group i n d a t) = user_exists b t"
  "members (with_group i n d a t) = members t" "pg_now (with_group i n d a t) = pg_now t"
  by (simp_all add: with_group_def chat_exists_def user_exists_def chat_new_def)

lemma with_owner_simps [simp]:
  "chat_exists i (with_owner j a t) = chat_exists i t" "user_exists b (with_owner j a t) = user_exists b t"
  "there i (with_owner i a t) = insert a (there i t)" "pg_now (with_owner i a t) = pg_now t"
  by (simp_all add: with_owner_def chat_exists_def user_exists_def there_add)

lemma group_create_run:
  assumes "uuid W u = Some a" and "user_exists a t" and "\<not> chat_exists i t" and "i = new_id W (id_count t)"
  shows "st_group_create W [n, d, u] t = (pg_tuples [''id''] [[Some i]], with_group i n d a t)"
  using assms by (simp add: st_group_create_def as_uuid_def insert_chat_def Let_def with_group_def)

lemma group_owner_run:
  assumes "uuid W i' = Some i" and "uuid W u = Some a" and "user_exists a t" and "there i t = {}"
  shows "st_group_owner W [i', u] (with_group i n d a t) = (pg_done 1, with_owner i a (with_group i n d a t))"
  using assms by (simp add: st_group_owner_def as_uuid_def members_stmt_def member_error_def
      member_new_def there_def with_owner_def)

section \<open>Properties of groups\<close>

text \<open>With a database that works, creating a group with a name replies 201 and adds one group chat
  whose members are exactly the caller, as its owner, and the existing users among the identifiers
  given, once each, as members; identifiers that are no UUID, name nobody or repeat are passed over
  without notice. Nobody is asked, and nothing else of the database changes.\<close>

theorem create_group_cases:
  assumes "hpq E = tables_pq W" and "db_conn (hdb s)"
    and "server_works W {Group_Create, Group_Owner, Group_Member}" and "json_accessors_ok (hlib E)"
    and "authenticate_request E (authorization req) s = (Inr (u, st), s1)" and "u \<noteq> []"
    and "j_parse (hlib E) (req_body req) = Inr body"
    and "j_value_str (hlib E) body ''name'' [] = Inr n" and "j_value_str (hlib E) body ''description'' [] = Inr d"
    and "member_ids E body = map JStr xs" and "uuid W (c_str u) = Some a" and "user_exists a (tables_of s)"
    and "schema_ok (tables_of s)" and "i = new_id W (id_count (tables_of s))" and "uuid W (c_str i) = Some i"
    and "\<not> chat_exists i (tables_of s)"
  shows "\<exists>bs. distinct bs \<and>
    set bs = {b. b \<noteq> a \<and> user_exists b (tables_of s) \<and> Some b \<in> set (map (\<lambda>x. uuid W (c_str x)) xs)} \<and>
    route_create_group E req s =
      (if n = [] then (Inr (error_resp E 400 ''name required''), s1)
       else (Inr (json_resp E 201 (jobj [(''id'', JStr (c_str i)), (''name'', JStr n)])),
         with_tables ((tables_of s)\<lparr>id_count := Suc (id_count (tables_of s)),
           chats := chats (tables_of s) @
             [chat_new (pg_now (tables_of s)) i ''group'' (Some (c_str n, c_str d)) a],
           members := members (tables_of s) @ member_new (pg_now (tables_of s)) i a ''owner'' True #
             map (\<lambda>b. member_new (pg_now (tables_of s)) i b ''member'' False) bs\<rparr>) s1))"
proof -
  note run = admitted_run [OF assms(5,6)]
  have conn: "db_conn (hdb s1)" "db_conn (hdb (with_tables t s1))" and tabs: "tables_of s1 = tables_of s" for t
    using assms(2) run(2) by simp_all
  have works: "server_works W {Group_Create}" "server_works W {Group_Owner}" "server_works W {Group_Member}"
    using assms(3) by (simp_all add: server_works_def)
  let ?t1 = "with_group i (c_str n) (c_str d) a (tables_of s)" and ?t2 = "with_owner i a (with_group i (c_str n) (c_str d) a (tables_of s))"
  let ?bs = "joining W ?t2 {a} xs"
  have none: "there i (tables_of s) = {}"
    using no_members [OF assms(13,16)] by (simp add: there_def)
  then have none1: "there i ?t1 = {}" by (simp add: there_def)
  have create: "db_query E Group_Create [n, d, u] s1 = (Inr [row_json [''id''] [Some i]], with_tables ?t1 s1)"
    using group_create_run [OF assms(11,12,16,14)]
    by (simp add: db_query_tables [OF assms(1) conn(1)] tabs works_run [OF works(1)])
  have owner: "db_exec E Group_Owner [c_str i, u] (with_tables ?t1 s1) =
      (Inr (affected_rows (show_nat 1)), with_tables ?t2 s1)"
    using group_owner_run [OF assms(15,11,12) none]
    by (simp add: db_exec_tables [OF assms(1) conn(2)] works_run [OF works(2)])
  have "add_members E (c_str i) u (map JStr xs) (with_tables ?t2 s1) =
      (Inr (), with_tables (?t2\<lparr>members := members ?t2 @ map (\<lambda>b. member_new (pg_now (tables_of s)) i b ''member'' False) ?bs\<rparr>) s1)"
    using add_members_run [OF assms(1) works(3) assms(4) _ assms(11) conn(2), of "c_str i" i ?t2 xs] assms(15)
    by (simp add: none1)
  then have "route_create_group E req s =
      (if n = [] then (Inr (error_resp E 400 ''name required''), s1)
       else (Inr (json_resp E 201 (jobj [(''id'', JStr (c_str i)), (''name'', JStr n)])),
         with_tables (?t1\<lparr>members := members (tables_of s) @ member_new (pg_now (tables_of s)) i a ''owner'' True #
             map (\<lambda>b. member_new (pg_now (tables_of s)) i b ''member'' False) ?bs\<rparr>) s1))"
    using assms(7-9) by (simp add: route_create_group_def run(1) with_json_body_def body_str_def try_500_def em_simps
        create first_row_def col_str_def one_col doc_accessors [OF assms(4)] owner assms(10) with_owner_def)
  moreover have "set ?bs = {b. b \<noteq> a \<and> user_exists b (tables_of s) \<and> Some b \<in> set (map (\<lambda>x. uuid W (c_str x)) xs)}"
    by (simp add: joining_set)
  ultimately show ?thesis
    by (intro exI [of _ ?bs]) (simp add: joining_distinct with_group_def)
qed

theorem create_group_cases_witness:
  "let body = JObj [(''memberIds'', JArr (map JStr [''u2'', ''zz'', ''u1'', ''u2''])), (''name'', JStr ''team'')];
       E = demo_world body in
   \<exists>bs. set bs = {b. b \<noteq> ''u1'' \<and> user_exists b demo_tables \<and> b \<in> {''u2'', ''zz'', ''u1''}} \<and>
     route_create_group E demo_request demo_state =
       (Inr (json_resp E 201 (jobj [(''id'', JStr ''n0''), (''name'', JStr ''team'')])),
        with_tables (demo_tables\<lparr>id_count := 1,
          chats := chats demo_tables @
            [chat_new 100 ''n0'' ''group'' (Some (''team'', [])) ''u1''],
          members := members demo_tables @ member_new 100 ''n0'' ''u1'' ''owner'' True #
            map (\<lambda>b. member_new 100 ''n0'' b ''member'' False) bs\<rparr>) (demo_state\<lparr>hticks := 1\<rparr>))"
proof -
  let ?xs = "[''u2'', ''zz'', ''u1'', ''u2'']"
  let ?body = "JObj [(''memberIds'', JArr (map JStr ?xs)), (''name'', JStr ''team'')]"
  let ?E = "demo_world ?body"
  have parse: "j_parse (hlib ?E) (req_body demo_request) = Inr ?body"
    by (simp add: demo_henv_def demo_json_def doc_json_def demo_request_def)
  have fields: "j_value_str (hlib ?E) ?body ''name'' [] = Inr ''team''"
    "j_value_str (hlib ?E) ?body ''description'' [] = Inr []" "member_ids ?E ?body = map JStr ?xs"
    by (simp_all add: member_ids_def demo_henv_def demo_json_def doc_json_def doc_value_def doc_get_str_def)
  have works: "server_works demo_pg Q" for Q by (simp add: server_works_def demo_pg_def)
  have acc: "json_accessors_ok (hlib ?E)" by (simp add: demo_henv_def demo_json_ok)
  have facts: "user_exists ''u1'' (tables_of demo_state)" "schema_ok (tables_of demo_state)"
    "''n0'' = new_id demo_pg (id_count (tables_of demo_state))" "\<not> chat_exists ''n0'' (tables_of demo_state)"
    by (simp_all add: demo_schema user_exists_def chat_exists_def demo_rows demo_user_def demo_ids(3) chat_new_def)
  have texts: "c_str ''u1'' = ''u1''" "c_str ''n0'' = ''n0''" "c_str ''team'' = ''team''" "c_str ''u2'' = ''u2''"
    "c_str ''zz'' = ''zz''" by (simp_all add: c_str_def)
  note made = create_group_cases [OF demo_world_pq _ works acc demo_session _ parse fields, where a = "''u1''" and i = "''n0''"]
  have side: "db_conn (hdb demo_state)" "''u1'' \<noteq> []" "''team'' \<noteq> []" "uuid demo_pg (c_str ''u1'') = Some ''u1''"
    "uuid demo_pg (c_str ''n0'') = Some ''n0''" by (simp_all add: demo_ids texts)
  have ids: "(Some b \<in> set (map (\<lambda>x. uuid demo_pg (c_str x)) ?xs)) = (b \<in> {''u2'', ''zz'', ''u1''})" for b
    by (auto simp: demo_ids(1) texts)
  have eqs: "tables_of demo_state = demo_tables" "Suc (id_count demo_tables) = 1" "pg_now demo_tables = 100" "c_str [] = []"
    by (simp_all add: demo_rows c_str_def)
  note res = made [OF side(1,2,4) facts(1-3) side(5) facts(4), unfolded ids eqs texts if_not_P [OF side(3)]]
  then show ?thesis unfolding Let_def by blast
qed

end
