(* ===== verification/Paging.thy ===== *)
theory Paging
  imports Tables_Props "HOL-Library.Multiset"
begin

section \<open>Reading a history page by page\<close>

text \<open>
  The histories of chats and channels are read in pages, the newest rows first; the next page is the
  one \<open>before\<close> the creation time of the last row received. A page is \<open>take\<close> of a sorted listing
  (locale \<open>paged\<close>); a client that follows the pages (\<open>scroll\<close>) receives the whole listing.
\<close>

subsection \<open>Orders\<close>

lemma visit_mset: "mset (visit p xs) = mset xs"
proof (cases "distinct p \<and> length p = length xs \<and> list_all (\<lambda>i. i < length xs) p")
  case True
  then have "set p \<subseteq> {0..<length xs}" "card (set p) = card {0..<length xs}"
    by (auto simp: list_all_iff distinct_card)
  then have "set p = {0..<length xs}" by (intro card_subset_eq) simp_all
  then have "mset p = mset [0..<length xs]"
    using True by (intro set_eq_iff_mset_eq_distinct [THEN iffD1]) auto
  then have "mset (map ((!) xs) p) = mset (map ((!) xs) [0..<length xs])" by simp
  then show ?thesis using True by (simp add: visit_def map_nth)
qed (auto simp: visit_def)

lemma visit_set [simp]: "set (visit p xs) = set xs"
  using visit_mset [of p xs] by (metis set_mset_mset)

lemma visit_length [simp]: "length (visit p xs) = length xs"
  using visit_mset [of p xs] by (metis size_mset)

lemma newest_length [simp]: "length (newest time xs) = length xs"
  by (simp add: newest_def)

lemma newest_set [simp]: "set (newest time xs) = set xs"
  by (simp add: newest_def)

text \<open>Where no two times agree, the order in which the server visits the rows does not show.\<close>

lemma newest_visit:
  assumes "distinct (map time xs)"
  shows "newest time (visit p xs) = newest time xs"
  unfolding newest_def
proof (rule sort_key_inj_key_eq)
  show "inj_on (\<lambda>x. - time x) (set (visit p xs))"
    using assms by (simp add: distinct_map inj_on_def)
qed (simp_all add: visit_mset)

lemma newest_filter: "newest time (filter P xs) = filter P (newest time xs)"
  by (simp add: newest_def filter_sort)

definition strictly_newest :: "('a \<Rightarrow> int) \<Rightarrow> 'a list \<Rightarrow> bool" where
  "strictly_newest time = sorted_wrt (\<lambda>x y. time y < time x)"

lemma strictly_sorted:
  "distinct (map time ys) \<Longrightarrow> sorted (map (\<lambda>x. - time x) ys) \<Longrightarrow> strictly_newest time ys"
proof (induction ys)
  case (Cons y ys)
  then have "time x \<noteq> time y \<and> time x \<le> time y" if "x \<in> set ys" for x
    using that by (auto simp: image_iff)
  then show ?case using Cons by (auto simp: strictly_newest_def order_less_le)
qed (simp add: strictly_newest_def)

lemma newest_strict: "distinct (map time xs) \<Longrightarrow> strictly_newest time (newest time xs)"
  by (rule strictly_sorted) (simp_all add: newest_def distinct_map)

text \<open>After a page, exactly what follows it is older than its last row.\<close>

lemma older_than_page:
  assumes "strictly_newest time xs" and "take n xs \<noteq> []"
  shows "filter (\<lambda>x. time x < time (last (take n xs))) xs = drop n xs"
proof -
  let ?b = "time (last (take n xs))"
  have wrt: "sorted_wrt (\<lambda>x y. time y < time x) (take n xs @ drop n xs)"
    using assms(1) by (simp add: strictly_newest_def)
  have "last (take n xs) \<in> set (take n xs)" using assms(2) by simp
  then have old: "time x < ?b" if "x \<in> set (drop n xs)" for x
    using wrt that unfolding sorted_wrt_append by blast
  have "sorted_wrt (\<lambda>x y. time y < time x) (butlast (take n xs) @ [last (take n xs)])"
    using wrt assms(2) by (simp add: sorted_wrt_append)
  then have "\<not> time x < ?b" if "x \<in> set (take n xs)" for x
    using that assms(2) append_butlast_last_id [of "take n xs"] unfolding sorted_wrt_append
    by (metis (no_types) Un_iff empty_iff less_asym less_irrefl list.set(1) list.set_intros(1) set_ConsD set_append)
  then have "filter (\<lambda>x. time x < ?b) (take n xs) = []" "filter (\<lambda>x. time x < ?b) (drop n xs) = drop n xs"
    using old by (simp_all add: filter_empty_conv)
  then show ?thesis by (metis append_take_drop_id filter_append self_append_conv2)
qed

subsection \<open>A client that reads on\<close>

text \<open>Starting without \<open>before\<close>, the client asks again with the time in the column \<open>f\<close> of the last row it
  received, until an empty page or \<open>n\<close> requests.\<close>

fun scroll :: "json_lib \<Rightarrow> string \<Rightarrow> (string \<Rightarrow> ('s, response) em) \<Rightarrow> nat \<Rightarrow> string \<Rightarrow> 's \<Rightarrow> json list" where
  "scroll L f send 0 b s = []"
| "scroll L f send (Suc n) b s =
     (case send b s of
        (Inl e, s') \<Rightarrow> []
      | (Inr r, s') \<Rightarrow>
          (case j_parse L (resp_body r) of
             Inr (JArr rows) \<Rightarrow>
               if rows = [] then []
               else rows @ scroll L f send n (case col (last rows) f of JStr x \<Rightarrow> x | _ \<Rightarrow> []) s'
           | _ \<Rightarrow> []))"

definition older :: "int option \<Rightarrow> int \<Rightarrow> bool" where
  "older b x = (case b of None \<Rightarrow> True | Some y \<Rightarrow> x < y)"

text \<open>What a history of the program promises: its pages are the newest rows of a listing that is the same
  in every request, at most \<open>limit\<close> of them, in a reply the client can read, and the text of a row's time
  is one the next request understands. \<open>ready n s\<close> says that \<open>s\<close> is a state that serves \<open>n\<close> requests.\<close>

locale paged =
  fixes time :: "'a \<Rightarrow> int" and limit :: nat and listing :: "'a list" and row :: "'a \<Rightarrow> json"
    and L :: json_lib and f :: string and w :: "int \<Rightarrow> string"
    and send :: "string \<Rightarrow> ('s, response) em" and ready :: "nat \<Rightarrow> 's \<Rightarrow> bool"
  assumes some: "0 < limit"
    and last_time: "ready n s \<Longrightarrow> x \<in> set listing \<Longrightarrow> col (row x) f = JStr (w (time x))"
    and reply: "ready (Suc n) s \<Longrightarrow> b = None \<or> b \<in> Some ` time ` set listing \<Longrightarrow>
      \<exists>r s' p. send (case b of None \<Rightarrow> [] | Some x \<Rightarrow> w x) s = (Inr r, s') \<and> ready n s' \<and>
        j_parse L (resp_body r) =
          Inr (JArr (map row (take limit (newest time (visit p (filter (\<lambda>x. older b (time x)) listing))))))"
begin

lemma page_exact:
  assumes times: "distinct (map time listing)"
  shows "newest time (visit p (filter (\<lambda>x. older b (time x)) listing)) = filter (\<lambda>x. older b (time x)) (newest time listing)"
proof -
  have "distinct (map time (filter (\<lambda>x. older b (time x)) listing))"
    using times by (simp add: distinct_map inj_on_def)
  then show ?thesis by (simp add: newest_visit newest_filter)
qed

text \<open>With enough requests the client receives everything older than where it starts, once, in order.\<close>

lemma scroll_rest:
  assumes times: "distinct (map time listing)" and "ready n s" and "b = None \<or> b \<in> Some ` time ` set listing"
    and "rest = filter (\<lambda>x. older b (time x)) (newest time listing)" and "length rest \<le> limit * n"
  shows "scroll L f send n (case b of None \<Rightarrow> [] | Some x \<Rightarrow> w x) s = map row rest"
  using assms(2-)
proof (induction n arbitrary: s b rest)
  case (Suc n)
  obtain r s' where r: "send (case b of None \<Rightarrow> [] | Some x \<Rightarrow> w x) s = (Inr r, s')" "ready n s'"
    "j_parse L (resp_body r) = Inr (JArr (map row (take limit rest)))"
    using reply [OF Suc.prems(1,2)] by (auto simp: page_exact [OF times] Suc.prems(3))
  show ?case
  proof (cases "rest = []")
    case False
    define x where "x = last (take limit rest)"
    have page: "take limit rest \<noteq> []" using False some by simp
    then have "x \<in> set rest" unfolding x_def using last_in_set in_set_takeD by metis
    then have x: "x \<in> set listing" "older b (time x)" by (auto simp: Suc.prems(3))
    have "strictly_newest time rest"
      using newest_strict [OF times] by (simp add: Suc.prems(3) strictly_newest_def sorted_wrt_filter)
    then have "drop limit rest = filter (\<lambda>y. time y < time x) rest"
      using older_than_page page by (metis x_def)
    also have "\<dots> = filter (\<lambda>y. older (Some (time x)) (time y)) (newest time listing)"
      unfolding Suc.prems(3) filter_filter
      by (rule filter_cong) (use x(2) in \<open>auto simp: older_def split: option.splits\<close>)
    finally have "drop limit rest = filter (\<lambda>y. older (Some (time x)) (time y)) (newest time listing)" .
    moreover have "length (drop limit rest) \<le> limit * n" using Suc.prems(4) by simp
    ultimately have "scroll L f send n (w (time x)) s' = map row (drop limit rest)"
      using Suc.IH [OF r(2), of "Some (time x)" "drop limit rest"] x(1) by simp
    moreover have "last (map row (take limit rest)) = row x" using page by (simp add: last_map x_def)
    ultimately show ?thesis
      using r page last_time [OF Suc.prems(1) x(1)] by (simp flip: map_append)
  qed (use r in simp)
qed simp

lemma scroll_all:
  assumes "distinct (map time listing)" and "ready n s" and "length listing \<le> limit * n"
  shows "scroll L f send n [] s = map row (newest time listing)"
  using scroll_rest [OF assms(1,2), of None "newest time listing"] assms(3) by (simp add: older_def)

text \<open>The times are all the client has to tell rows apart: if all rows have the same time, it gets one
  page and no more.\<close>

lemma scroll_equal_times:
  assumes "\<And>x. x \<in> set listing \<Longrightarrow> time x = y" and "ready n s"
  shows "length (scroll L f send n [] s) \<le> limit"
proof (cases n)
  case (Suc m)
  have none: "filter (\<lambda>x. older (Some y) (time x)) listing = []"
    using assms(1) by (auto simp: older_def filter_empty_conv)
  obtain r s' p where r: "send [] s = (Inr r, s')" "ready m s'"
    "j_parse L (resp_body r) = Inr (JArr (map row (take limit (newest time (visit p listing)))))"
    using reply [of m s None] assms(2) Suc by (auto simp: older_def)
  define page where "page = take limit (newest time (visit p listing))"
  show ?thesis
  proof (cases "page = []")
    case False
    then have "last page \<in> set listing"
      using last_in_set [OF False] in_set_takeD unfolding page_def by fastforce
    then have last: "col (row (last page)) f = JStr (w y)" "y \<in> time ` set listing"
      using last_time [OF assms(2)] assms(1) by force+
    have "scroll L f send m (w y) s' = []"
    proof (cases m)
      case (Suc k)
      then obtain r' s'' where "send (w y) s' = (Inr r', s'')" "j_parse L (resp_body r') = Inr (JArr [])"
        using reply [of k s' "Some y"] r(2) last(2) none by (auto simp: newest_def visit_def)
      then show ?thesis using Suc by simp
    qed simp
    then show ?thesis using r last(1) Suc False by (simp add: last_map flip: page_def) (simp add: page_def)
  qed (use r Suc in \<open>simp flip: page_def\<close>)
qed simp

end

end
