(* ===== verification/History_Props.thy ===== *)
theory History_Props
  imports Paging Channel_Props "HOL-Library.Countable"
begin

section \<open>The histories of channels and chats\<close>

text \<open>
  The posts of a channel and the messages of a chat, read page by page: both routes provide what
  \<open>paged\<close> asks of a history.
\<close>

subsection \<open>Requests that read on\<close>

definition with_before :: "request \<Rightarrow> string \<Rightarrow> request" where
  "with_before req b = req\<lparr>url_param := (url_param req)(''before'' := (if b = [] then None else Some b))\<rparr>"

lemma with_before_simps [simp]:
  "authorization (with_before req b) = authorization req" "param (with_before req b) ''before'' = b"
  by (simp_all add: with_before_def param_def)

text \<open>The session is good for the next \<open>n\<close> requests.\<close>

fun stays_admitted :: "('r, 'd) henv \<Rightarrow> string \<Rightarrow> string \<Rightarrow> nat \<Rightarrow> ('r, 'd) http \<Rightarrow> bool" where
  "stays_admitted E h u 0 s = True"
| "stays_admitted E h u (Suc n) s =
     (case authenticate_request E h s of
        (Inl e, s') \<Rightarrow> False
      | (Inr (v, st), s') \<Rightarrow> v = u \<and> stays_admitted E h u n s')"

lemma stays_admittedD:
  assumes "stays_admitted E h u (Suc n) s"
  obtains st s' where "authenticate_request E h s = (Inr (u, st), s')" "stays_admitted E h u n s'"
  using assms by (auto split: prod.splits sum.splits)

text \<open>The server reads back the times it writes.\<close>

definition reads_back :: "pg \<Rightarrow> int \<Rightarrow> bool" where
  "reads_back W x \<longleftrightarrow> time_text W x \<noteq> [] \<and> c_str (time_text W x) = time_text W x \<and> time_read W (time_text W x) = Some x"

subsection \<open>Posts\<close>

abbreviation posts_of :: "string \<Rightarrow> tables \<Rightarrow> post_row list" where
  "posts_of k t \<equiv> filter (\<lambda>r. post_channel r = k) (posts t)"

definition post_json :: "pg \<Rightarrow> post_row \<Rightarrow> json" where
  "post_json W r = row_json post_columns (post_cells W r)"

lemma post_page_older:
  "post_page p k b t = take 30 (newest post_created (visit p (filter (\<lambda>r. older b (post_created r)) (posts_of k t))))"
  by (simp add: post_page_def older_def conj_commute)

definition posts_reply :: "('r, 'd) henv \<Rightarrow> pg \<Rightarrow> string \<Rightarrow> request \<Rightarrow> tables \<Rightarrow> response" where
  "posts_reply E W k req t =
     (let x = c_str (param req ''before'');
          page = (\<lambda>p b. json_resp E 200 (JArr (map (post_json W) (post_page p k b t))))
      in if param req ''before'' = [] then page (scan W Posts_Latest [k] t) None
         else (case time_read W x of
                 None \<Rightarrow> error_resp E 500 ''Server error''
               | Some b \<Rightarrow> page (scan W Posts_Before [k, x] t) (Some b)))"

lemma get_posts_run:
  assumes "hpq E = tables_pq W" and "db_conn (hdb s)" and "server_works W {Posts_Latest, Posts_Before}"
    and "authenticate_request E (authorization req) s = (Inr (u, st), s1)" and "u \<noteq> []"
    and "uuid W (c_str c) = Some k"
  shows "route_get_channel_posts E c req s = (Inr (posts_reply E W k req (tables_of s)), s1)"
proof -
  note run = admitted_run [OF assms(4,5)]
  have works: "server_works W {Posts_Latest}" "server_works W {Posts_Before}"
    using assms(3) by (simp_all add: server_works_def)
  have conn: "db_conn (hdb s1)" and tabs: "tables_of s1 = tables_of s" using assms(2) run(2) by simp_all
  note queries = db_query_tables [OF assms(1) conn] works_run [OF works(1)] works_run [OF works(2)]
    st_posts_latest_def st_posts_before_def as_uuid_def as_time_def assms(6) tabs
  show ?thesis
    by (simp add: route_get_channel_posts_def run(1) try_500_def em_simps Let_def queries posts_reply_def comp_def
        post_json_def [abs_def] split: option.split)
qed

lemma post_json_time:
  "c_str (time_text W (post_created r)) = time_text W (post_created r) \<Longrightarrow>
   col (post_json W r) ''created_at'' = JStr (time_text W (post_created r))"
  by (simp add: post_json_def row_json_def post_columns_def post_cells_def time_cell_def col_def cell_def bool_cell_def)

definition posts_ready ::
    "('r, tables) henv \<Rightarrow> pg \<Rightarrow> string \<Rightarrow> string \<Rightarrow> request \<Rightarrow> string \<Rightarrow> tables \<Rightarrow> nat \<Rightarrow> ('r, tables) http \<Rightarrow> bool" where
  "posts_ready E W c k req u t n s \<longleftrightarrow>
     hpq E = tables_pq W \<and> db_conn (hdb s) \<and> server_works W {Posts_Latest, Posts_Before} \<and>
     uuid W (c_str c) = Some k \<and> u \<noteq> [] \<and> tables_of s = t \<and> stays_admitted E (authorization req) u n s \<and>
     (\<forall>r \<in> set (posts_of k t). reads_back W (post_created r)) \<and>
     (\<forall>rs. set rs \<subseteq> set (posts_of k t) \<longrightarrow> json_roundtrips (hlib E) (JArr (map (post_json W) rs)))"

interpretation post_history: paged post_created 30 "posts_of k t" "post_json W" "hlib E" "''created_at''"
    "time_text W" "\<lambda>b. route_get_channel_posts E c (with_before req b)" "posts_ready E W c k req u t"
  for E W c k req u t
proof
  fix n s x assume "posts_ready E W c k req u t n s" "x \<in> set (posts_of k t)"
  then show "col (post_json W x) ''created_at'' = JStr (time_text W (post_created x))"
    by (auto simp: posts_ready_def reads_back_def intro: post_json_time)
next
  fix n s b
  assume ready: "posts_ready E W c k req u t (Suc n) s"
    and b: "b = None \<or> b \<in> Some ` post_created ` set (posts_of k t)"
  let ?req = "with_before req (case b of None \<Rightarrow> [] | Some x \<Rightarrow> time_text W x)"
  have b': "reads_back W y" if "b = Some y" for y
    using ready b that by (auto simp: posts_ready_def)
  have "stays_admitted E (authorization ?req) u (Suc n) s" using ready unfolding posts_ready_def by simp
  then obtain st s' where auth: "authenticate_request E (authorization ?req) s = (Inr (u, st), s')"
    "stays_admitted E (authorization ?req) u n s'" by (rule stays_admittedD)
  have ok: "hpq E = tables_pq W" "db_conn (hdb s)" "server_works W {Posts_Latest, Posts_Before}"
    "u \<noteq> []" "uuid W (c_str c) = Some k" "tables_of s = t"
    using ready by (simp_all add: posts_ready_def)
  have "hdb s' = hdb s" using admitted_run(2) [OF auth(1) ok(4)] .
  then have "posts_ready E W c k req u t n s'" using ready auth(2) by (simp add: posts_ready_def)
  moreover have "\<exists>p. posts_reply E W k ?req t = json_resp E 200 (JArr (map (post_json W) (post_page p k b t)))"
    using b' by (cases b) (auto simp: posts_reply_def Let_def reads_back_def)
  then obtain p where "posts_reply E W k ?req t = json_resp E 200 (JArr (map (post_json W) (post_page p k b t)))" by blast
  moreover have "json_roundtrips (hlib E) (JArr (map (post_json W) (post_page p k b t)))"
  proof -
    have "set (post_page p k b t) \<subseteq> set (posts_of k t)"
      unfolding post_page_older using set_take_subset by (force dest: in_set_takeD)
    then show ?thesis using ready by (simp add: posts_ready_def)
  qed
  ultimately show "\<exists>r s' p. route_get_channel_posts E c ?req s = (Inr r, s') \<and> posts_ready E W c k req u t n s' \<and>
      j_parse (hlib E) (resp_body r) = Inr (JArr (map (post_json W) (take 30 (newest post_created
        (visit p (filter (\<lambda>r. older b (post_created r)) (posts_of k t)))))))"
    using get_posts_run [OF ok(1-3) auth(1) ok(4,5)] ok(6)
    by (auto simp: post_page_older json_resp_def json_roundtrips_def)
qed simp

subsection \<open>Messages\<close>

lemma sent_messages_older:
  "sent_messages k b t = filter (\<lambda>x. older b (msg_created (fst x))) (sent_messages k None t)"
proof -
  have "concat (map f (filter (\<lambda>m. P m \<and> Q m) ms)) = filter (\<lambda>x. Q (fst x)) (concat (map f (filter P ms)))"
    if "\<And>m x. x \<in> set (f m) \<Longrightarrow> fst x = m" for f :: "message_row \<Rightarrow> (message_row \<times> user_row) list" and P Q ms
    using that by (induction ms) (auto simp: filter_id_conv filter_empty_conv)
  then have "concat (map (\<lambda>m. map (\<lambda>u. (m, u)) (filter (\<lambda>u. msg_sender m = Some (usr_id u)) (users t)))
      (filter (\<lambda>m. (msg_chat m = k \<and> \<not> msg_deleted m) \<and> Q m) (messages t))) =
    filter (\<lambda>x. Q (fst x)) (concat (map (\<lambda>m. map (\<lambda>u. (m, u)) (filter (\<lambda>u. msg_sender m = Some (usr_id u)) (users t)))
      (filter (\<lambda>m. msg_chat m = k \<and> \<not> msg_deleted m) (messages t))))" for Q
    by (rule; force)
  from this [of "\<lambda>m. older b (msg_created m)"] show ?thesis by (simp add: sent_messages_def older_def conj_assoc)
qed

definition message_json :: "pg \<Rightarrow> message_row \<times> user_row \<Rightarrow> json" where
  "message_json W m = pick message_fields (row_json message_columns (message_cells W m))"

lemma message_json_time:
  "c_str (time_text W (msg_created (fst m))) = time_text W (msg_created (fst m)) \<Longrightarrow>
   col (message_json W m) ''createdAt'' = JStr (time_text W (msg_created (fst m)))"
  by (cases m) (simp add: message_json_def pick_def message_fields_def jobj_def row_json_def message_columns_def
      message_cells_def time_cell_def col_def cell_def bool_cell_def)

definition messages_ready ::
    "('r, tables) henv \<Rightarrow> pg \<Rightarrow> string \<Rightarrow> string \<Rightarrow> request \<Rightarrow> string \<Rightarrow> tables \<Rightarrow> nat \<Rightarrow> ('r, tables) http \<Rightarrow> bool" where
  "messages_ready E W c k req u t n s \<longleftrightarrow>
     hpq E = tables_pq W \<and> db_conn (hdb s) \<and> server_works W {Member_Check, Messages_Latest, Messages_Before} \<and>
     uuid W (c_str c) = Some k \<and> u \<noteq> [] \<and> tables_of s = t \<and> stays_admitted E (authorization req) u n s \<and>
     (\<exists>a. uuid W (c_str u) = Some a \<and> active_member k a t) \<and>
     (\<forall>m \<in> set (sent_messages k None t). reads_back W (msg_created (fst m))) \<and>
     (\<forall>ms. set ms \<subseteq> set (sent_messages k None t) \<longrightarrow> json_roundtrips (hlib E) (JArr (map (message_json W) ms)))"

lemma history_reply_page:
  assumes "b = None \<or> (\<exists>x. b = Some x \<and> reads_back W x)"
  shows "\<exists>p. history_reply E W k (with_before req (case b of None \<Rightarrow> [] | Some x \<Rightarrow> time_text W x)) t =
    json_resp E 200 (JArr (map (message_json W) (message_page p k b t)))"
  using assms
  by (auto simp: history_reply_def Let_def reads_back_def list_resp_def message_json_def [abs_def] comp_def)

interpretation message_history: paged "msg_created \<circ> fst" 50 "sent_messages k None t" "message_json W" "hlib E"
    "''createdAt''" "time_text W" "\<lambda>b. route_get_messages E c (with_before req b)" "messages_ready E W c k req u t"
  for E W c k req u t
proof
  fix n s x assume "messages_ready E W c k req u t n s" "x \<in> set (sent_messages k None t)"
  then show "col (message_json W x) ''createdAt'' = JStr (time_text W ((msg_created \<circ> fst) x))"
    by (auto simp: messages_ready_def reads_back_def intro: message_json_time)
next
  fix n s b
  assume ready: "messages_ready E W c k req u t (Suc n) s"
    and b: "b = None \<or> b \<in> Some ` (msg_created \<circ> fst) ` set (sent_messages k None t)"
  let ?req = "with_before req (case b of None \<Rightarrow> [] | Some x \<Rightarrow> time_text W x)"
  have "stays_admitted E (authorization ?req) u (Suc n) s" using ready unfolding messages_ready_def by simp
  then obtain st s' where auth: "authenticate_request E (authorization ?req) s = (Inr (u, st), s')"
    "stays_admitted E (authorization ?req) u n s'" by (rule stays_admittedD)
  obtain a where ok: "hpq E = tables_pq W" "db_conn (hdb s)"
    "server_works W {Member_Check, Messages_Latest, Messages_Before}" "u \<noteq> []" "uuid W (c_str c) = Some k"
    "uuid W (c_str u) = Some a" "tables_of s = t" "active_member k a t"
    using ready by (auto simp: messages_ready_def)
  have "hdb s' = hdb s" using admitted_run(2) [OF auth(1) ok(4)] .
  then have "messages_ready E W c k req u t n s'" using ready auth(2) by (simp add: messages_ready_def)
  moreover have "b = None \<or> (\<exists>x. b = Some x \<and> reads_back W x)"
    using ready b by (auto simp: messages_ready_def)
  then obtain p where "history_reply E W k ?req t = json_resp E 200 (JArr (map (message_json W) (message_page p k b t)))"
    using history_reply_page by blast
  moreover have page: "message_page p k b t = take 50 (newest (msg_created \<circ> fst)
      (visit p (filter (\<lambda>x. older b ((msg_created \<circ> fst) x)) (sent_messages k None t))))"
    unfolding message_page_def by (subst sent_messages_older) (simp add: comp_def)
  moreover have "set (message_page p k b t) \<subseteq> set (sent_messages k None t)"
    unfolding page by (force dest: in_set_takeD)
  then have "json_roundtrips (hlib E) (JArr (map (message_json W) (message_page p k b t)))"
    using ready unfolding messages_ready_def by blast
  ultimately show "\<exists>r s' p. route_get_messages E c ?req s = (Inr r, s') \<and> messages_ready E W c k req u t n s' \<and>
      j_parse (hlib E) (resp_body r) = Inr (JArr (map (message_json W) (take 50 (newest (msg_created \<circ> fst)
        (visit p (filter (\<lambda>x. older b ((msg_created \<circ> fst) x)) (sent_messages k None t)))))))"
    using get_messages_run [OF ok(1-3) auth(1) ok(4-6)] ok(7,8) by (auto simp: json_resp_def json_roundtrips_def)
qed simp

section \<open>Properties of the histories\<close>

text \<open>C20: A client that reads on through the posts of a channel, each time asking for those before the
  creation time of the last one it received, receives every post of the channel exactly once, the newest
  first, and then stops, if no two posts have the same creation time: whatever the order in which the
  database visits rows, and with at most 30 posts in a reply.\<close>

theorem posts_scrolled:
  assumes "hpq E = tables_pq W" and "db_conn (hdb s)" and "server_works W {Posts_Latest, Posts_Before}"
    and "stays_admitted E (authorization req) u n s" and "u \<noteq> []" and "uuid W (c_str c) = Some k"
    and "ps = filter (\<lambda>r. post_channel r = k) (posts (tables_of s))" and "distinct (map post_created ps)"
    and "\<And>r. r \<in> set ps \<Longrightarrow> reads_back W (post_created r)"
    and "\<And>rs. set rs \<subseteq> set ps \<Longrightarrow> json_roundtrips (hlib E) (JArr (map (post_json W) rs))"
    and "length ps \<le> 30 * n"
  shows "scroll (hlib E) ''created_at'' (\<lambda>b. route_get_channel_posts E c (with_before req b)) n [] s =
      map (post_json W) (newest post_created ps) \<and>
    set (newest post_created ps) = set ps \<and> strictly_newest post_created (newest post_created ps)"
proof -
  have "posts_ready E W c k req u (tables_of s) n s"
    using assms by (auto simp: posts_ready_def)
  then show ?thesis
    using post_history.scroll_all assms(7,8,11) newest_strict [OF assms(8)] by simp
qed

text \<open>A JSON library that prints and parses arrays, for the witnesses.\<close>

instance json :: countable by countable_datatype

definition array_json :: json_lib where
  "array_json = doc_json
     (\<lambda>s. if s \<noteq> [] \<and> hd s = CHR ''['' then Inr (from_nat (length (tl s)))
          else if s = ''p'' then Inr (jwt_payload 100 ''u1'') else Inl Parse_Error)
     (\<lambda>j. case j of JArr js \<Rightarrow> CHR ''['' # replicate (to_nat j) (CHR ''.'') | _ \<Rightarrow> ''p'')"

abbreviation array_world :: "(string, tables) henv" where
  "array_world \<equiv> (demo_world JNull)\<lparr>hlib := array_json\<rparr>"

lemma array_json_ok:
  "json_roundtrips array_json (JArr js)" "json_accessors_ok array_json"
  "json_roundtrips array_json (jwt_payload 100 ''u1'')"
  by (simp_all add: json_roundtrips_def array_json_def) (simp_all add: doc_json_def jwt_payload_def jobj_def)

lemma array_authenticated:
  assumes "hredis s = demo_client"
  shows "authenticate_request array_world (authorization demo_request) s =
    (Inr (''u1'', 200), s\<lparr>hticks := Suc (hticks s)\<rparr>)"
proof -
  have "jwt_create demo_sodium array_json 100 ''u1'' ''key'' = demo_token"
    by (simp add: demo_token_def jwt_create_def jwt_hp_def demo_json_def array_json_def doc_json_def jwt_payload_def jobj_def)
  then have verify: "jwt_verify demo_sodium array_json 100 demo_token ''key'' = ''u1''"
    using jwt_verify_created [OF demo_sodium_ok array_json_ok(2,3), of 100 "''key''" "''key''"] by simp
  have "demo_token \<noteq> []" using jwt_plain by (auto simp: demo_token_def plain_def)
  moreover have "running demo_client" using demo_client_ready(1) by (simp add: redis_ready_def)
  moreover have "s\<lparr>hticks := n, hredis := demo_client\<rparr> = s\<lparr>hticks := n\<rparr>" for n
    using assms by (cases s) simp
  ultimately show ?thesis
    using authenticate_session [of demo_token s array_world "''u1''" demo_client] assms demo_get_session
    by (simp add: demo_request_def demo_henv_def verify)
qed

lemma array_admitted: "hredis s = demo_client \<Longrightarrow> stays_admitted array_world (authorization demo_request) ''u1'' n s"
  by (induction n arbitrary: s) (simp_all add: array_authenticated)

lemma demo_reads_back:
  "reads_back demo_pg 5" "reads_back demo_pg 9" "uuid demo_pg (c_str ''h1'') = Some ''h1''"
  "uuid demo_pg (c_str ''c1'') = Some ''c1''" "uuid demo_pg (c_str ''u1'') = Some ''u1''" "server_works demo_pg Q"
  by (simp_all add: reads_back_def demo_pg_def show_eval c_str_def strtol_def is_space_def Let_def digit_val_def
      server_works_def)

text \<open>Two posts, the older one first in the table: the client gets both, the newer one first.\<close>

theorem posts_scrolled_witness:
  "let older = demo_post\<lparr>post_created := 5\<rparr>; newer = demo_post\<lparr>post_key := ''p2'', post_created := 9\<rparr> in
   scroll array_json ''created_at'' (\<lambda>b. route_get_channel_posts array_world ''h1'' (with_before demo_request b)) 1 []
     (demo_http (demo_tables\<lparr>posts := [older, newer]\<rparr>)) = [post_json demo_pg newer, post_json demo_pg older]"
proof -
  define older newer where "older = demo_post\<lparr>post_created := 5\<rparr>" and
    "newer = demo_post\<lparr>post_key := ''p2'', post_created := 9\<rparr>"
  define ps where "ps = filter (\<lambda>r. post_channel r = ''h1'') (posts (demo_tables\<lparr>posts := [older, newer]\<rparr>))"
  have ps: "ps = [older, newer]" by (simp add: ps_def older_def newer_def demo_post_def)
  have times: "post_created older = 5" "post_created newer = 9" by (simp_all add: older_def newer_def)
  have http: "db_conn (hdb (demo_http d))" "tables_of (demo_http d) = d" "hredis (demo_http d) = demo_client" for d
    by (simp_all add: demo_http_def)
  have adm: "stays_admitted array_world (authorization demo_request) ''u1'' n (demo_http d)" for n d
    using http(3) by (rule array_admitted)
  have "newest post_created ps = [newer, older]" by (simp add: ps newest_def times)
  moreover have "scroll (hlib array_world) ''created_at''
      (\<lambda>b. route_get_channel_posts array_world ''h1'' (with_before demo_request b)) 1 []
      (demo_http (demo_tables\<lparr>posts := [older, newer]\<rparr>)) = map (post_json demo_pg) (newest post_created ps) \<and>
    set (newest post_created ps) = set ps \<and> strictly_newest post_created (newest post_created ps)"
  proof (rule posts_scrolled)
    show "stays_admitted array_world (authorization demo_request) ''u1'' 1 (demo_http (demo_tables\<lparr>posts := [older, newer]\<rparr>))"
      by (rule adm)
    show "server_works demo_pg {Posts_Latest, Posts_Before}" "uuid demo_pg (c_str ''h1'') = Some ''h1''"
      by (rule demo_reads_back)+
    show "ps = filter (\<lambda>r. post_channel r = ''h1'') (posts (tables_of (demo_http (demo_tables\<lparr>posts := [older, newer]\<rparr>))))"
      by (simp add: ps_def http)
  qed (use times in \<open>auto simp: demo_world_pq ps http demo_reads_back array_json_ok\<close>)
  ultimately show ?thesis by (simp add: Let_def flip: older_def newer_def del: scroll.simps)
qed

text \<open>The messages of a chat read in the same way: an active member who reads on from page to page
  receives every message that is not deleted and still has its sender, once, the newest first, if no two
  were created at the same time. Messages whose sender's account is gone are never shown.\<close>

theorem messages_scrolled:
  assumes "hpq E = tables_pq W" and "db_conn (hdb s)"
    and "server_works W {Member_Check, Messages_Latest, Messages_Before}"
    and "stays_admitted E (authorization req) u n s" and "u \<noteq> []" and "uuid W (c_str c) = Some k"
    and "uuid W (c_str u) = Some a" and "active_member k a (tables_of s)"
    and "ms = sent_messages k None (tables_of s)" and "distinct (map (msg_created \<circ> fst) ms)"
    and "\<And>m. m \<in> set ms \<Longrightarrow> reads_back W (msg_created (fst m))"
    and "\<And>rs. set rs \<subseteq> set ms \<Longrightarrow> json_roundtrips (hlib E) (JArr (map (message_json W) rs))"
    and "length ms \<le> 50 * n"
  shows "scroll (hlib E) ''createdAt'' (\<lambda>b. route_get_messages E c (with_before req b)) n [] s =
      map (message_json W) (newest (msg_created \<circ> fst) ms) \<and>
    set (newest (msg_created \<circ> fst) ms) =
      {(m, v). m \<in> set (messages (tables_of s)) \<and> msg_chat m = k \<and> \<not> msg_deleted m \<and>
               v \<in> set (users (tables_of s)) \<and> msg_sender m = Some (usr_id v)} \<and>
    strictly_newest (msg_created \<circ> fst) (newest (msg_created \<circ> fst) ms)"
proof -
  have "messages_ready E W c k req u (tables_of s) n s"
    using assms by (auto simp: messages_ready_def)
  then have "scroll (hlib E) ''createdAt'' (\<lambda>b. route_get_messages E c (with_before req b)) n [] s =
      map (message_json W) (newest (msg_created \<circ> fst) ms)"
    using message_history.scroll_all assms(9,10,13) by simp
  moreover have "set ms = {(m, v). m \<in> set (messages (tables_of s)) \<and> msg_chat m = k \<and> \<not> msg_deleted m \<and>
               v \<in> set (users (tables_of s)) \<and> msg_sender m = Some (usr_id v)}"
    by (auto simp: assms(9) sent_messages_def)
  ultimately show ?thesis using newest_strict [OF assms(10)] by simp
qed

theorem messages_scrolled_witness:
  "scroll array_json ''createdAt'' (\<lambda>b. route_get_messages array_world ''c1'' (with_before demo_request b)) 1 []
     (demo_http (demo_tables\<lparr>members := [member_new 1 ''c1'' ''u1'' ''member'' False]\<rparr>)) =
   [message_json demo_pg (demo_message, demo_user ''u2'' ''bob'' ''b@b.c'')]"
proof -
  define s where "s = demo_http (demo_tables\<lparr>members := [member_new 1 ''c1'' ''u1'' ''member'' False]\<rparr>)"
  define ms where "ms = sent_messages ''c1'' None (tables_of s)"
  have s: "db_conn (hdb s)" "tables_of s = demo_tables\<lparr>members := [member_new 1 ''c1'' ''u1'' ''member'' False]\<rparr>"
    "hredis s = demo_client" by (simp_all add: s_def demo_http_def)
  have ms: "ms = [(demo_message, demo_user ''u2'' ''bob'' ''b@b.c'')]"
    by (simp add: ms_def s sent_messages_def demo_rows demo_message_def demo_user_def)
  have time: "msg_created demo_message = 5" by (simp add: demo_message_def)
  have "scroll (hlib array_world) ''createdAt'' (\<lambda>b. route_get_messages array_world ''c1'' (with_before demo_request b)) 1 [] s =
      map (message_json demo_pg) (newest (msg_created \<circ> fst) ms)"
  proof (rule messages_scrolled [THEN conjunct1])
    show "stays_admitted array_world (authorization demo_request) ''u1'' 1 s" using s(3) by (rule array_admitted)
    show "server_works demo_pg {Member_Check, Messages_Latest, Messages_Before}" "uuid demo_pg (c_str ''c1'') = Some ''c1''"
      "uuid demo_pg (c_str ''u1'') = Some ''u1''" by (rule demo_reads_back)+
    show "active_member ''c1'' ''u1'' (tables_of s)" by (simp add: active_member_def s is_member_row_def member_new_def)
    show "ms = sent_messages ''c1'' None (tables_of s)" by (fact ms_def)
  qed (use time s in \<open>auto simp: demo_world_pq ms demo_reads_back array_json_ok\<close>)
  then show ?thesis by (simp add: ms newest_def flip: s_def del: scroll.simps)
qed

text \<open>Without the assumption on the times rows get lost: of the posts of one time (a burst within the
  precision of the clock) a client never sees more than one page, however many there are.\<close>

theorem equal_times_lost:
  assumes "posts_ready E W c k req u t n s" and "\<And>r. r \<in> set (posts_of k t) \<Longrightarrow> post_created r = y"
  shows "length (scroll (hlib E) ''created_at'' (\<lambda>b. route_get_channel_posts E c (with_before req b)) n [] s) \<le> 30"
  using post_history.scroll_equal_times [OF assms(2,1)] .

end
