(* ===== verification/Chat_List.thy ===== *)
theory Chat_List
  imports Chat_Props Paging
begin

section \<open>The list of chats\<close>

text \<open>
  \<open>GET /api/chats\<close> against what it should list: the chats its user is an active member of, once each.
\<close>

lemma one_membership:
  assumes "schema_ok t"
  shows "filter (\<lambda>m. is_member_row k a m \<and> mem_left m = None) (members t) = [] \<or>
    (\<exists>m. filter (\<lambda>m. is_member_row k a m \<and> mem_left m = None) (members t) = [m])"
proof -
  have "filter P ms = [] \<or> (\<exists>m. filter P ms = [m])"
    if "distinct (map f ms)" "\<And>m. P m \<Longrightarrow> f m = y" for P and f :: "member_row \<Rightarrow> string \<times> string" and y ms
    using that
  proof (induction ms)
    case (Cons m ms)
    then have "P m \<Longrightarrow> filter P ms = []" by (force simp: filter_empty_conv)
    then show ?case using Cons by auto
  qed simp
  from this [of "\<lambda>m. (mem_chat m, mem_user m)" "members t" "\<lambda>m. is_member_row k a m \<and> mem_left m = None" "(k, a)"]
  show ?thesis
    using assms by (simp add: schema_ok_def members_ok_def is_member_row_def)
qed

lemma joined_chats:
  assumes "schema_ok t"
  shows "concat (map (\<lambda>c. map (\<lambda>_. c) (filter (\<lambda>m. is_member_row (chat_key c) a m \<and> mem_left m = None) (members t))) cs) =
    filter (\<lambda>c. active_member (chat_key c) a t) cs"
proof (induction cs)
  case (Cons c cs)
  have "active_member (chat_key c) a t \<longleftrightarrow> filter (\<lambda>m. is_member_row (chat_key c) a m \<and> mem_left m = None) (members t) \<noteq> []"
    by (auto simp: active_member_def list_ex_iff filter_empty_conv)
  then show ?case using Cons.IH one_membership [OF assms, of "chat_key c" a] by auto
qed simp

text \<open>What the list shows of a chat.\<close>

definition chat_item :: "pg \<Rightarrow> tables \<Rightarrow> string \<Rightarrow> chat_row \<Rightarrow> json" where
  "chat_item W t a c = jobj [(''id'', cell (Some (chat_key c))), (''type'', cell (Some (chat_kind c))),
     (''name'', cell (chat_name c)), (''avatarUrl'', cell (chat_avatar c)),
     (''lastMessage'', cell (last_content W (chat_key c) t)),
     (''unreadCount'', cell (Some (show_nat (unread_count (chat_key c) a t)))),
     (''updatedAt'', cell (time_cell W (chat_updated c)))]"

lemma chats_list_run:
  assumes "hpq E = tables_pq W" and "db_conn (hdb s)" and "server_works W {Chats_Of}"
    and "authenticate_request E (authorization req) s = (Inr (u, st), s1)" and "u \<noteq> []"
    and "uuid W (c_str u) = Some a"
  shows "route_get_chats E req s =
    (Inr (json_resp E 200 (JArr (map (chat_item W (tables_of s) a) (chats_of W a (tables_of s))))), s1)"
proof -
  note run = admitted_run [OF assms(4,5)]
  have conn: "db_conn (hdb s1)" and tabs: "tables_of s1 = tables_of s" using assms(2) run(2) by simp_all
  have item: "pick [(''id'', ''id''), (''type'', ''chat_type''), (''name'', ''name''),
      (''avatarUrl'', ''avatar_url''), (''lastMessage'', ''last_message''),
      (''unreadCount'', ''unread_count''), (''updatedAt'', ''updated_at'')]
    (row_json [''id'', ''chat_type'', ''name'', ''avatar_url'', ''updated_at'', ''last_message'', ''unread_count'']
      [Some (chat_key c), Some (chat_kind c), chat_name c, chat_avatar c, time_cell W (chat_updated c),
       last_content W (chat_key c) t, Some (show_nat (unread_count (chat_key c) a t))]) = chat_item W t a c" for c t
    by (simp add: chat_item_def pick_def row_json_def col_def)
  show ?thesis
    by (simp add: route_get_chats_def run(1) try_500_def em_simps db_query_tables [OF assms(1) conn]
        works_run [OF assms(3)] st_chats_of_def as_uuid_def assms(6) tabs list_resp_def comp_def item)
qed

lemma chats_of_active:
  assumes "schema_ok t" and "length (filter (\<lambda>c. active_member (chat_key c) a t) (chats t)) \<le> 100"
  shows "mset (chats_of W a t) = mset (filter (\<lambda>c. active_member (chat_key c) a t) (chats t))"
    and "sorted (map (\<lambda>c. - chat_updated c) (chats_of W a t))"
  using assms(2) by (simp_all add: chats_of_def joined_chats [OF assms(1)] newest_def visit_mset)

lemma request_schema:
  assumes "hpq E = tables_pq W" and "schema_ok (tables_of s)"
  shows "schema_ok (tables_of (snd (handle E r req s)))"
proof -
  have "schema_ok (tables_of (after E [Request r req] s))"
  proof (rule serve_invariant [OF assms(1)])
    show "schema_ok (t\<lparr>pg_now := pg_now t + int n\<rparr>)" if "schema_ok t" for t n
      using that by (simp add: schema_ok_def ok_defs exists_defs)
  qed (rule schema_statement assms(2); assumption?)+
  then show ?thesis by simp
qed

section \<open>Properties of the list\<close>

text \<open>\<open>GET /api/chats\<close> lists exactly the chats of which its user is an active member, each once, those
  with the latest \<open>updated_at\<close> first, if there are at most 100; with more, it lists 100 of them.\<close>

theorem chats_listed:
  assumes "hpq E = tables_pq W" and "db_conn (hdb s)" and "server_works W {Chats_Of}"
    and "authenticate_request E (authorization req) s = (Inr (u, st), s1)" and "u \<noteq> []"
    and "uuid W (c_str u) = Some a" and "schema_ok (tables_of s)"
    and "mine = filter (\<lambda>c. active_member (chat_key c) a (tables_of s)) (chats (tables_of s))"
  shows "\<exists>cs. route_get_chats E req s = (Inr (json_resp E 200 (JArr (map (chat_item W (tables_of s) a) cs))), s1) \<and>
    sorted (map (\<lambda>c. - chat_updated c) cs) \<and> set cs \<subseteq> set mine \<and> distinct cs \<and>
    (if length mine \<le> 100 then set cs = set mine else length cs = 100)"
proof (intro exI conjI)
  let ?cs = "chats_of W a (tables_of s)"
  have cs: "?cs = take 100 (newest chat_updated (visit (scan W Chats_Of [a] (tables_of s)) mine))"
    by (simp add: chats_of_def joined_chats [OF assms(7)] assms(8))
  let ?all = "newest chat_updated (visit (scan W Chats_Of [a] (tables_of s)) mine)"
  show "route_get_chats E req s = (Inr (json_resp E 200 (JArr (map (chat_item W (tables_of s) a) ?cs))), s1)"
    by (rule chats_list_run [OF assms(1-6)])
  have "sorted (map (\<lambda>c. - chat_updated c) ?all)" by (simp add: newest_def)
  then show "sorted (map (\<lambda>c. - chat_updated c) ?cs)" by (simp add: cs take_map [symmetric] sorted_wrt_take)
  show "set ?cs \<subseteq> set mine" unfolding cs by (force dest: in_set_takeD)
  have "distinct (chats (tables_of s))"
    using assms(7) by (auto simp: schema_ok_def chats_ok_def simp: distinct_map)
  then have "distinct (visit (scan W Chats_Of [a] (tables_of s)) mine)"
    using visit_mset [of _ mine] mset_eq_imp_distinct_iff by (metis assms(8) distinct_filter)
  then show "distinct ?cs" by (simp add: cs newest_def)
  show "if length mine \<le> 100 then set ?cs = set mine else length ?cs = 100" by (simp add: cs)
qed

theorem chats_listed_witness:
  "route_get_chats (demo_world JNull) demo_request (demo_http (demo_tables\<lparr>members := [member_new 1 ''c1'' ''u1'' ''member'' False]\<rparr>)) =
   (Inr (json_resp (demo_world JNull) 200 (JArr [chat_item demo_pg
      (demo_tables\<lparr>members := [member_new 1 ''c1'' ''u1'' ''member'' False]\<rparr>) ''u1''
      (chat_new 1 ''c1'' ''group'' (Some (''g'', [])) ''u2'')])),
    (demo_http (demo_tables\<lparr>members := [member_new 1 ''c1'' ''u1'' ''member'' False]\<rparr>))\<lparr>hticks := 1\<rparr>)"
proof -
  define t where "t = demo_tables\<lparr>members := [member_new 1 ''c1'' ''u1'' ''member'' False]\<rparr>"
  define c where "c = chat_new 1 ''c1'' ''group'' (Some (''g'', [])) ''u2''"
  have s: "db_conn (hdb (demo_http t))" "tables_of (demo_http t) = t" by (simp_all add: demo_http_def)
  have t: "schema_ok t"
    by (simp add: t_def schema_ok_def ok_defs exists_defs demo_tables_def demo_user_def user_clash_def member_new_def
        chat_new_def channel_new_def demo_post_def demo_message_def)
  have id: "uuid demo_pg (c_str ''u1'') = Some ''u1''" by (simp add: demo_ids c_str_def)
  have mine: "filter (\<lambda>c. active_member (chat_key c) ''u1'' t) (chats t) = [c]"
    by (simp add: t_def c_def demo_rows active_member_def is_member_row_def member_new_def chat_new_def)
  obtain cs where cs: "route_get_chats (demo_world JNull) demo_request (demo_http t) =
      (Inr (json_resp (demo_world JNull) 200 (JArr (map (chat_item demo_pg t ''u1'') cs))), (demo_http t)\<lparr>hticks := 1\<rparr>)"
    "distinct cs" "set cs = {c}"
    using chats_listed [OF demo_world_pq [of JNull] s(1) demo_facts(1) demo_session _ id, unfolded s(2), OF _ t refl] by (auto simp: mine)
  then have "cs = [c]" by (cases cs; cases "tl cs") auto
  then show ?thesis using cs(1) by (simp add: t_def c_def)
qed

text \<open>C26: A direct chat appears in the lists of its two users and of nobody else: after the reply 201 each
  of the two, with at most 100 chats, finds the new chat in the list, and no other user does.\<close>

theorem direct_chat_listed:
  assumes "hpq E = tables_pq W" and "db_conn (hdb s)"
    and "server_works W {Direct_Find, Direct_Create, Direct_Members, Chats_Of}" and "json_accessors_ok (hlib E)"
    and "authenticate_request E (authorization req) s = (Inr (u, st), s1)" and "u \<noteq> []"
    and "body_field E req ''targetUserId'' v" and "v \<noteq> []"
    and "uuid W (c_str u) = Some a" and "uuid W (c_str v) = Some b" and "i = new_id W (id_count (tables_of s))"
    and "uuid W (c_str i) = Some i" and "schema_ok (tables_of s)" and "user_exists a (tables_of s)"
    and "\<not> chat_exists i (tables_of s)"
    and "route_open_direct E req s = (Inr resp, s2)" and "resp_status resp = 201"
    and "authenticate_request E (authorization req') s2 = (Inr (w, st'), s3)" and "w \<noteq> []"
    and "uuid W (c_str w) = Some x"
    and "length (filter (\<lambda>c. active_member (chat_key c) x (tables_of s2)) (chats (tables_of s2))) \<le> 100"
  shows "\<exists>cs. route_get_chats E req' s2 = (Inr (json_resp E 200 (JArr (map (chat_item W (tables_of s2) x) cs))), s3) \<and>
    (x \<in> {a, b} \<longleftrightarrow> private_chat (pg_now (tables_of s)) i a \<in> set cs) \<and>
    (x \<in> {a, b} \<longleftrightarrow> i \<in> chat_key ` set cs)"
proof -
  define t where "t = tables_of s"
  define t2 where "t2 = t\<lparr>id_count := Suc (id_count t), chats := chats t @ [private_chat (pg_now t) i a],
     members := members t @ [member_new (pg_now t) i a ''member'' False, member_new (pg_now t) i b ''member'' False]\<rparr>"
  have works: "server_works W {Direct_Find, Direct_Create, Direct_Members}" "server_works W {Chats_Of}"
    using assms(3) by (simp_all add: server_works_def)
  note first = open_direct_run [OF assms(1,2) works(1) assms(4-10) assms(12) [unfolded assms(11)] assms(13,14)
      assms(15) [unfolded assms(11)], folded assms(11)]
  have new: "s2 = with_tables t2 s1"
    using first assms(16,17) assms(11) [folded t_def, symmetric]
    by (auto simp: Let_def t2_def t_def [symmetric] json_resp_def error_resp_def split: list.splits if_splits)
  have db: "tables_of s2 = t2" "db_conn (hdb s2)"
    using new admitted_run(2) [OF assms(5,6)] assms(2) by simp_all
  have schema: "schema_ok t2"
    using request_schema [OF assms(1,13), of Open_Direct req] assms(16) db(1) by simp
  have old: "\<not> list_ex (is_member_row i y) (members t)" for y
    using no_members [of t i y] assms(13,15) by (simp add: t_def)
  then have active: "active_member i x t2 \<longleftrightarrow> x \<in> {a, b}"
    by (auto simp: active_member_def t2_def member_new_def is_member_row_def list_ex_iff)
  have one: "c \<in> set (chats t2) \<Longrightarrow> chat_key c = i \<longleftrightarrow> c = private_chat (pg_now t) i a" for c
    using assms(15) by (auto simp: t2_def t_def chat_exists_def list_ex_iff chat_new_def)
  define cs where "cs = chats_of W x t2"
  have cs: "route_get_chats E req' s2 = (Inr (json_resp E 200 (JArr (map (chat_item W t2 x) cs))), s3)"
    using chats_list_run [OF assms(1) db(2) works(2) assms(18-20)] by (simp add: db(1) cs_def)
  have "set cs = {c \<in> set (chats t2). active_member (chat_key c) x t2}"
    using mset_eq_setD [OF chats_of_active(1) [OF schema, of x W]] assms(21) by (simp add: db(1) cs_def)
  note cs = cs this
  have "private_chat (pg_now t) i a \<in> set (chats t2)" by (simp add: t2_def)
  then show ?thesis
    using cs active one by (intro exI [of _ cs]) (auto simp: db(1) t_def chat_new_def image_iff)
qed

theorem direct_chat_listed_witness:
  "let E = demo_world (JObj [(''targetUserId'', JStr ''u2'')]) in
   \<exists>s2 s3 cs. route_open_direct E demo_request demo_state = (Inr (json_resp E 201 (jobj [(''id'', JStr ''n0'')])), s2) \<and>
     route_get_chats E demo_request s2 = (Inr (json_resp E 200 (JArr (map (chat_item demo_pg (tables_of s2) ''u1'') cs))), s3) \<and>
     private_chat 100 ''n0'' ''u1'' \<in> set cs"
proof -
  let ?E = "demo_world (JObj [(''targetUserId'', JStr ''u2'')])"
  have none: "direct_chats ''u1'' ''u2'' demo_tables = []"
    by (simp add: direct_chats_def demo_rows is_member_row_def member_new_def)
  have u2: "user_exists ''u2'' demo_tables" by (simp add: user_exists_def demo_rows demo_user_def)
  have ids: "''n0'' = new_id demo_pg (id_count (tables_of demo_state))" "uuid demo_pg (c_str ''n0'') = Some ''n0''"
    "uuid demo_pg (c_str ''u1'') = Some ''u1''" "uuid demo_pg (c_str ''u2'') = Some ''u2''"
    by (simp_all add: demo_ids demo_rows c_str_def)
  define t where "t = demo_tables\<lparr>id_count := 1, chats := chats demo_tables @ [private_chat 100 ''n0'' ''u1''],
    members := members demo_tables @ [member_new 100 ''n0'' ''u1'' ''member'' False, member_new 100 ''n0'' ''u2'' ''member'' False]\<rparr>"
  have t: "length (chats t) = 2" "route_open_direct ?E demo_request demo_state =
      (Inr (json_resp ?E 201 (jobj [(''id'', JStr ''n0'')])), with_tables t (demo_state\<lparr>hticks := 1\<rparr>))"
    using open_direct_run [OF demo_world_pq _ demo_facts(1,2) demo_session _ demo_target [of "''u2''"] _ ids(3,4)]
      demo_facts(3-5) ids(2)
    by (simp_all add: Let_def demo_facts(6-8) demo_ids demo_rows none u2 t_def)
  define s2 where "s2 = with_tables t (demo_state\<lparr>hticks := 1\<rparr>)"
  have s2: "hredis s2 = demo_client" "tables_of s2 = t" by (simp_all add: s2_def)
  have few: "length (filter (\<lambda>c. active_member (chat_key c) ''u1'' (tables_of s2)) (chats (tables_of s2))) \<le> 100"
    using length_filter_le [of "\<lambda>c. active_member (chat_key c) ''u1'' t" "chats t"] t(1) unfolding s2(2) by linarith
  have side: "db_conn (hdb demo_state)" "''u1'' \<noteq> []" "''u2'' \<noteq> []" "\<not> chat_exists ''n0'' (tables_of demo_state)"
    "resp_status (json_resp ?E 201 (jobj [(''id'', JStr ''n0'')])) = 201"
    using demo_facts(5) ids(1) by (simp_all add: json_resp_def)
  show ?thesis
    using direct_chat_listed [OF demo_world_pq side(1) demo_facts(1,2) demo_session side(2) demo_target side(3)
        ids(3,4,1,2) demo_facts(4,3) side(4) t(2) [folded s2_def] side(5) demo_authenticated [OF s2(1)] side(2) ids(3) few]
      t(2) unfolding Let_def s2_def by (auto simp: demo_rows)
qed

end
