(* ===== verification/Lists_Props.thy ===== *)
theory Lists_Props
  imports Chat_List
begin

section \<open>Contacts, members and users listed\<close>

text \<open>
  What the other lists of the HTTP API contain: the contacts of a user, the members of a chat, the users
  found by a search.
\<close>

subsection \<open>Contacts\<close>

definition contact_item :: "contact_row \<times> user_row \<Rightarrow> json" where
  "contact_item = (\<lambda>(k, r). jobj [(''id'', cell (Some (usr_id r))), (''username'', cell (Some (usr_name r))),
     (''displayName'', cell (usr_display r)), (''avatarUrl'', cell (usr_avatar r)), (''status'', cell (usr_status r)),
     (''nickname'', cell (Some (con_nickname k))), (''isFavorite'', cell (bool_cell (con_favorite k)))])"

lemma contacts_list_run:
  assumes "hpq E = tables_pq W" and "db_conn (hdb s)" and "server_works W {Contacts_List}"
    and "authenticate_request E (authorization req) s = (Inr (u, st), s1)" and "u \<noteq> []"
    and "uuid W (c_str u) = Some a"
  shows "route_get_contacts E req s =
    (Inr (json_resp E 200 (JArr (map contact_item (contacts_of W a (tables_of s))))), s1)"
proof -
  note run = admitted_run [OF assms(4,5)]
  have conn: "db_conn (hdb s1)" and tabs: "tables_of s1 = tables_of s" using assms(2) run(2) by simp_all
  have item: "pick [(''id'', ''id''), (''username'', ''username''), (''displayName'', ''display_name''),
      (''avatarUrl'', ''avatar_url''), (''status'', ''status''), (''nickname'', ''nickname''), (''isFavorite'', ''is_favorite'')]
     (row_json [''id'', ''username'', ''display_name'', ''avatar_url'', ''status'', ''nickname'', ''is_favorite'']
       (case x of (k, r) \<Rightarrow> [Some (usr_id r), Some (usr_name r), usr_display r, usr_avatar r, usr_status r,
          Some (con_nickname k), bool_cell (con_favorite k)])) = contact_item x" for x
    by (cases x) (simp add: contact_item_def pick_def row_json_def col_def bool_cell_def)
  show ?thesis
    by (simp add: route_get_contacts_def run(1) try_500_def em_simps db_query_tables [OF assms(1) conn]
        works_run [OF assms(3)] st_contacts_list_def as_uuid_def assms(6) tabs list_resp_def comp_def item)
qed

text \<open>Each contact has one row, and the nickname of the row is the one the map has.\<close>

lemma contact_of_row:
  assumes "contacts_ok t" and "k \<in> set (contacts t)"
  shows "contact_of (contacts t) (con_user k, con_contact k) = Some (con_nickname k)"
proof -
  have "contact_of ks (con_user k, con_contact k) = Some (con_nickname k)"
    if "distinct (map (\<lambda>r. (con_user r, con_contact r)) ks)" "k \<in> set ks" for ks
    using that by (induction ks) (force simp: contact_of_Cons is_contact_row_def)+
  then show ?thesis using assms by (simp add: contacts_ok_def)
qed

lemma contact_row_of:
  "contact_of ks (a, b) = Some n \<Longrightarrow> \<exists>k \<in> set ks. con_user k = a \<and> con_contact k = b \<and> con_nickname k = n"
  by (induction ks) (auto simp: contact_of_Cons is_contact_row_def split: if_splits)

section \<open>Properties of the lists\<close>



subsection \<open>Members\<close>

definition member_item :: "pg \<Rightarrow> member_row \<times> user_row \<Rightarrow> json" where
  "member_item W = (\<lambda>(m, r). jobj [(''id'', cell (Some (usr_id r))), (''username'', cell (Some (usr_name r))),
     (''displayName'', cell (usr_display r)), (''avatarUrl'', cell (usr_avatar r)), (''status'', cell (usr_status r)),
     (''role'', cell (Some (mem_role m))), (''joinedAt'', cell (time_cell W (mem_joined m)))])"

definition members_page :: "pg \<Rightarrow> string \<Rightarrow> tables \<Rightarrow> (member_row \<times> user_row) list" where
  "members_page W c t = sort_key (mem_joined \<circ> fst) (visit (scan W Members_List [c] t)
     (concat (map (\<lambda>m. map (\<lambda>u. (m, u)) (filter (\<lambda>u. usr_id u = mem_user m) (users t)))
       (filter (\<lambda>m. mem_chat m = c \<and> mem_left m = None) (members t)))))"

lemma members_list_run:
  assumes "hpq E = tables_pq W" and "db_conn (hdb s)" and "server_works W {Members_List}"
    and "authenticate_request E (authorization req) s = (Inr (u, st), s1)" and "u \<noteq> []"
    and "uuid W (c_str c) = Some k"
  shows "route_get_members E c req s =
    (Inr (json_resp E 200 (JArr (map (member_item W) (members_page W k (tables_of s))))), s1)"
proof -
  note run = admitted_run [OF assms(4,5)]
  have conn: "db_conn (hdb s1)" and tabs: "tables_of s1 = tables_of s" using assms(2) run(2) by simp_all
  have item: "pick [(''id'', ''id''), (''username'', ''username''), (''displayName'', ''display_name''),
      (''avatarUrl'', ''avatar_url''), (''status'', ''status''), (''role'', ''role''), (''joinedAt'', ''joined_at'')]
     (row_json [''id'', ''username'', ''display_name'', ''avatar_url'', ''status'', ''role'', ''joined_at'']
       (case x of (m, r) \<Rightarrow> [Some (usr_id r), Some (usr_name r), usr_display r, usr_avatar r, usr_status r,
          Some (mem_role m), time_cell W (mem_joined m)])) = member_item W x" for x
    by (cases x) (simp add: member_item_def pick_def row_json_def col_def time_cell_def)
  show ?thesis
    by (simp add: route_get_members_def run(1) try_500_def em_simps db_query_tables [OF assms(1) conn]
        works_run [OF assms(3)] st_members_list_def as_uuid_def assms(6) tabs list_resp_def comp_def item
        members_page_def [unfolded comp_def])
qed

text \<open>Who is in a chat is shown to everyone: any user with a session, member of the chat or not, gets from
  \<open>GET /api/chats/:id/members\<close> exactly its active members with their roles, in the order in which they
  joined. The route makes no check of membership, unlike those for the chat and its messages.\<close>

theorem members_listed_to_all:
  assumes "hpq E = tables_pq W" and "db_conn (hdb s)" and "server_works W {Members_List}"
    and "authenticate_request E (authorization req) s = (Inr (u, st), s1)" and "u \<noteq> []"
    and "uuid W (c_str c) = Some k" and "schema_ok (tables_of s)"
  shows "\<exists>ms. route_get_members E c req s = (Inr (json_resp E 200 (JArr (map (member_item W) ms))), s1) \<and>
    sorted (map (\<lambda>(m, r). mem_joined m) ms) \<and> {usr_id r |m r. (m, r) \<in> set ms} = {b. active_member k b (tables_of s)}"
proof (intro exI conjI)
  let ?t = "tables_of s"
  let ?ms = "members_page W k ?t"
  show "route_get_members E c req s = (Inr (json_resp E 200 (JArr (map (member_item W) ?ms))), s1)"
    by (rule members_list_run [OF assms(1-6)])
  show "sorted (map (\<lambda>(m, r). mem_joined m) ?ms)"
    using sorted_sort_key [of "mem_joined \<circ> fst"] by (simp add: members_page_def comp_def case_prod_unfold)
  have ms: "(m, r) \<in> set ?ms \<longleftrightarrow> m \<in> set (members ?t) \<and> mem_chat m = k \<and> mem_left m = None \<and> r \<in> set (users ?t) \<and>
      usr_id r = mem_user m" for m r by (auto simp: members_page_def)
  have "\<exists>r \<in> set (users ?t). usr_id r = mem_user m" if "m \<in> set (members ?t)" for m
    using assms(7) that by (force simp: schema_ok_def members_ok_def list_all_iff user_exists_def list_ex_iff)
  then show "{usr_id r |m r. (m, r) \<in> set ?ms} = {b. active_member k b ?t}"
    by (force simp: ms active_member_def list_ex_iff is_member_row_def)
qed

text \<open>The user of the demonstration, no member of the group, is shown its owner.\<close>

theorem members_listed_to_all_witness:
  "\<not> active_member ''c1'' ''u1'' demo_tables \<and>
   (\<exists>ms. route_get_members (demo_world JNull) ''c1'' demo_request demo_state =
       (Inr (json_resp (demo_world JNull) 200 (JArr (map (member_item demo_pg) ms))), demo_state\<lparr>hticks := 1\<rparr>) \<and>
     {usr_id r |m r. (m, r) \<in> set ms} = {''u2''})"
proof -
  have active: "active_member ''c1'' b demo_tables \<longleftrightarrow> b = ''u2''" for b
    by (auto simp: active_member_def demo_rows is_member_row_def member_new_def)
  have "uuid demo_pg (c_str ''c1'') = Some ''c1''" by (simp add: demo_ids c_str_def)
  from members_listed_to_all [OF demo_world_pq [of JNull] _ demo_facts(1) demo_session _ this _, of demo_tables] demo_schema
  show ?thesis by (auto simp: active)
qed

subsection \<open>Users\<close>

definition user_item :: "user_row \<Rightarrow> json" where
  "user_item r = jobj [(''id'', cell (Some (usr_id r))), (''username'', cell (Some (usr_name r))),
     (''displayName'', cell (usr_display r)), (''avatarUrl'', cell (usr_avatar r)), (''status'', cell (usr_status r))]"

definition user_item_short :: "user_row \<Rightarrow> json" where
  "user_item_short r = jobj [(''id'', cell (Some (usr_id r))), (''username'', cell (Some (usr_name r))),
     (''displayName'', cell (usr_display r)), (''avatarUrl'', cell (usr_avatar r))]"

lemma search_users_run:
  assumes "hpq E = tables_pq W" and "db_conn (hdb s)" and "server_works W {User_Search}"
    and "authenticate_request E (authorization req) s = (Inr (u, st), s1)" and "u \<noteq> []"
    and "uuid W (c_str u) = Some a" and "param req ''q'' = q"
  shows "route_search_users E req s =
    (Inr (json_resp E 200 (JArr (if q = [] then []
       else map user_item (found_users W User_Search (c_str (''%'' @ q @ ''%'')) a (tables_of s))))), s1)"
proof -
  note run = admitted_run [OF assms(4,5)]
  have conn: "db_conn (hdb s1)" and tabs: "tables_of s1 = tables_of s" using assms(2) run(2) by simp_all
  have item: "pick [(''id'', ''id''), (''username'', ''username''), (''displayName'', ''display_name''),
      (''avatarUrl'', ''avatar_url''), (''status'', ''status'')]
     (row_json [''id'', ''username'', ''display_name'', ''avatar_url'', ''status'']
       [Some (usr_id r), Some (usr_name r), usr_display r, usr_avatar r, usr_status r]) = user_item r" for r
    by (simp add: user_item_def pick_def row_json_def col_def)
  show ?thesis
    by (simp add: route_search_users_def run(1) try_500_def em_simps db_query_tables [OF assms(1) conn] Let_def
        works_run [OF assms(3)] st_user_search_def as_uuid_def assms(6,7) tabs list_resp_def comp_def item
        del: append_Cons)
qed

lemma chat_search_users_run:
  assumes "hpq E = tables_pq W" and "db_conn (hdb s)" and "server_works W {Chat_User_Search}"
    and "authenticate_request E (authorization req) s = (Inr (u, st), s1)" and "u \<noteq> []"
    and "uuid W (c_str u) = Some a" and "param req ''q'' = q"
  shows "route_chat_search_users E req s =
    (Inr (json_resp E 200 (JArr
       (map user_item_short (found_users W Chat_User_Search (c_str (''%'' @ q @ ''%'')) a (tables_of s))))), s1)"
proof -
  note run = admitted_run [OF assms(4,5)]
  have conn: "db_conn (hdb s1)" and tabs: "tables_of s1 = tables_of s" using assms(2) run(2) by simp_all
  have item: "pick [(''id'', ''id''), (''username'', ''username''), (''displayName'', ''display_name''), (''avatarUrl'', ''avatar_url'')]
     (row_json [''id'', ''username'', ''display_name'', ''avatar_url'']
       [Some (usr_id r), Some (usr_name r), usr_display r, usr_avatar r]) = user_item_short r" for r
    by (simp add: user_item_short_def pick_def row_json_def col_def)
  show ?thesis
    by (simp add: route_chat_search_users_def run(1) try_500_def em_simps db_query_tables [OF assms(1) conn]
        works_run [OF assms(3)] st_chat_user_search_def as_uuid_def assms(6,7) tabs list_resp_def comp_def item
        del: append_Cons)
qed

text \<open>The accounts a search is for: those whose user name or display name matches, not deleted, not the
  caller's own.\<close>

definition matching :: "pg \<Rightarrow> string \<Rightarrow> string \<Rightarrow> tables \<Rightarrow> user_row list" where
  "matching W p a t = filter (\<lambda>r. (ilike W (usr_name r) p \<or> ilike_opt W (usr_display r) p) \<and> \<not> usr_deleted r \<and> usr_id r \<noteq> a) (users t)"

lemma found_matching:
  "set (found_users W Q p a t) \<subseteq> set (matching W p a t)" "length (found_users W Q p a t) = min 20 (length (matching W p a t))"
  "length (matching W p a t) \<le> 20 \<Longrightarrow> mset (found_users W Q p a t) = mset (matching W p a t)"
  unfolding found_users_def matching_def [symmetric]
  by (auto dest: in_set_takeD simp: visit_mset)

text \<open>Searching for users finds accounts whose user name or display name matches the pattern \<open>%q%\<close>,
  never a deleted one or the caller's own, at most 20, and all of them if there are no more. The two search
  routes differ for an empty text: one finds nobody, the other takes it for a pattern that everybody matches.\<close>

theorem search_finds_matching:
  assumes "hpq E = tables_pq W" and "db_conn (hdb s)" and "server_works W {User_Search, Chat_User_Search}"
    and "authenticate_request E (authorization req) s = (Inr (u, st), s1)" and "u \<noteq> []"
    and "uuid W (c_str u) = Some a" and "p = c_str (''%'' @ param req ''q'' @ ''%'')"
  shows "\<exists>rs rs'. route_search_users E req s =
      (Inr (json_resp E 200 (JArr (if param req ''q'' = [] then [] else map user_item rs))), s1) \<and>
    route_chat_search_users E req s = (Inr (json_resp E 200 (JArr (map user_item_short rs'))), s1) \<and>
    (\<forall>xs \<in> {rs, rs'}. set xs \<subseteq> set (matching W p a (tables_of s)) \<and>
       length xs = min 20 (length (matching W p a (tables_of s))) \<and>
       (length (matching W p a (tables_of s)) \<le> 20 \<longrightarrow> mset xs = mset (matching W p a (tables_of s))))"
proof -
  have works: "server_works W {User_Search}" "server_works W {Chat_User_Search}"
    using assms(3) by (simp_all add: server_works_def)
  let ?rs = "found_users W User_Search p a (tables_of s)" and ?rs' = "found_users W Chat_User_Search p a (tables_of s)"
  have "route_search_users E req s =
      (Inr (json_resp E 200 (JArr (if param req ''q'' = [] then [] else map user_item ?rs))), s1)"
    using search_users_run [OF assms(1,2) works(1) assms(4-6) refl] assms(7) by simp
  moreover have "route_chat_search_users E req s = (Inr (json_resp E 200 (JArr (map user_item_short ?rs'))), s1)"
    using chat_search_users_run [OF assms(1,2) works(2) assms(4-6) refl] assms(7) by simp
  ultimately show ?thesis
    using found_matching by (intro exI [of _ ?rs] exI [of _ ?rs']) blast
qed

theorem search_finds_matching_witness:
  "let req = demo_request\<lparr>url_param := (\<lambda>k. if k = ''q'' then Some ''bob'' else None)\<rparr>; bob = demo_user ''u2'' ''bob'' ''b@b.c'' in
   route_search_users (demo_world JNull) req demo_state =
     (Inr (json_resp (demo_world JNull) 200 (JArr [user_item bob])), demo_state\<lparr>hticks := 1\<rparr>) \<and>
   route_chat_search_users (demo_world JNull) req demo_state =
     (Inr (json_resp (demo_world JNull) 200 (JArr [user_item_short bob])), demo_state\<lparr>hticks := 1\<rparr>)"
proof -
  define req where "req = demo_request\<lparr>url_param := (\<lambda>k. if k = ''q'' then Some ''bob'' else None)\<rparr>"
  define bob where "bob = demo_user ''u2'' ''bob'' ''b@b.c''"
  have req: "param req ''q'' = ''bob''" "authorization req = authorization demo_request" by (simp_all add: req_def param_def)
  have id: "uuid demo_pg (c_str ''u1'') = Some ''u1''" by (simp add: demo_ids c_str_def)
  have m: "matching demo_pg ''%bob%'' ''u1'' demo_tables = [bob]"
    by (simp add: matching_def demo_rows demo_user_def demo_pg_def ilike_opt_def bob_def)
  have one: "xs = [bob]" if "mset xs = mset [bob]" for xs using that by (cases xs; cases "tl xs") auto
  have auth: "authenticate_request (demo_world JNull) (authorization req) demo_state = (Inr (''u1'', 200), demo_state\<lparr>hticks := 1\<rparr>)"
    using demo_session [of JNull _ demo_tables] by (simp add: req(2))
  have p: "''%bob%'' = c_str (''%'' @ param req ''q'' @ ''%'')" by (simp add: req c_str_def)
  obtain rs rs' where "route_search_users (demo_world JNull) req demo_state =
      (Inr (json_resp (demo_world JNull) 200 (JArr (map user_item rs))), demo_state\<lparr>hticks := 1\<rparr>)"
    "route_chat_search_users (demo_world JNull) req demo_state =
      (Inr (json_resp (demo_world JNull) 200 (JArr (map user_item_short rs'))), demo_state\<lparr>hticks := 1\<rparr>)"
    "mset rs = mset [bob]" "mset rs' = mset [bob]"
    using search_finds_matching [OF demo_world_pq [of JNull] _ demo_facts(1) auth _ id p] by (auto simp: m req(1))
  then show ?thesis using one [of rs] one [of rs'] by (simp add: Let_def flip: req_def bob_def)
qed

end
