(* ===== verification/Sql_Types.thy ===== *)
theory Sql_Types
  imports Profile_Props
begin

section \<open>The statements against the schema\<close>

text \<open>
  Each SQL text names tables and columns, and the texts are only checked by the server when they run.
  Here they are checked against what \<open>run_migrations\<close> creates: what a text mentions exists, an ON CONFLICT
  clause has its unique constraint, and an INSERT gives every column that must be given.
\<close>

subsection \<open>The schema that the migrations create\<close>

fun created :: "ddl list \<Rightarrow> (string \<times> string list \<times> string list list) list" where
  "created [] = []"
| "created (Create_Table t cs us fs # ds) = (t, cs, us) # created ds"
| "created (d # ds) = created ds"

definition columns_of :: "string \<Rightarrow> string list" where
  "columns_of t = (case map_of (created migrations) t of None \<Rightarrow> [] | Some (cs, us) \<Rightarrow> cs)"

definition uniques_of :: "string \<Rightarrow> string list list" where
  "uniques_of t = (case map_of (created migrations) t of None \<Rightarrow> [] | Some (cs, us) \<Rightarrow> us)"

text \<open>The columns that are NOT NULL and have no default.\<close>

fun required :: "string \<Rightarrow> string list" where
  "required t =
     (if t = ''users'' then [''username'', ''email'']
      else if t = ''otp_codes'' then [''email'', ''code_hash'', ''expires_at'']
      else if t = ''chats'' then [''chat_type'']
      else if t = ''chat_members'' then [''chat_id'', ''user_id'']
      else if t = ''messages'' then [''chat_id'', ''content'']
      else if t = ''message_delivery'' then [''message_id'', ''recipient_id'']
      else if t = ''reactions'' then [''message_id'', ''user_id'', ''emoji'']
      else if t = ''contacts'' then [''user_id'', ''contact_id'']
      else if t = ''channels'' then [''username'', ''name'']
      else if t = ''channel_subscribers'' then [''channel_id'', ''user_id'']
      else if t = ''channel_posts'' then [''channel_id'', ''content'']
      else [])"

subsection \<open>What the texts mention\<close>

text \<open>The columns an INSERT gives, with its table.\<close>

definition inserts :: "sql \<Rightarrow> (string \<times> string list) option" where
  "inserts q =
     (case q of
        Otp_Upsert \<Rightarrow> Some (''otp_codes'', [''email'', ''code_hash'', ''expires_at''])
      | User_Insert \<Rightarrow> Some (''users'', [''username'', ''email'', ''phone_number'', ''display_name'',
          ''password_hash'', ''password_salt'', ''public_key'', ''is_verified''])
      | Direct_Create \<Rightarrow> Some (''chats'', [''chat_type'', ''created_by''])
      | Direct_Members \<Rightarrow> Some (''chat_members'', [''chat_id'', ''user_id'', ''role''])
      | Group_Create \<Rightarrow> Some (''chats'', [''chat_type'', ''name'', ''description'', ''created_by''])
      | Group_Owner \<Rightarrow> Some (''chat_members'', [''chat_id'', ''user_id'', ''role'', ''can_admin''])
      | Group_Member \<Rightarrow> Some (''chat_members'', [''chat_id'', ''user_id'', ''role''])
      | Member_Add \<Rightarrow> Some (''chat_members'', [''chat_id'', ''user_id'', ''role''])
      | Reaction_Toggle \<Rightarrow> Some (''reactions'', [''message_id'', ''user_id'', ''emoji''])
      | Contact_Upsert \<Rightarrow> Some (''contacts'', [''user_id'', ''contact_id'', ''nickname''])
      | Channel_Create \<Rightarrow> Some (''channels'', [''username'', ''name'', ''description'', ''is_public'', ''owner_id''])
      | Channel_Owner \<Rightarrow> Some (''channel_subscribers'', [''channel_id'', ''user_id'', ''role''])
      | Channel_Subscribe \<Rightarrow> Some (''channel_subscribers'', [''channel_id'', ''user_id'', ''role''])
      | Post_Insert \<Rightarrow> Some (''channel_posts'', [''channel_id'', ''content'', ''is_paid'', ''author_id''])
      | _ \<Rightarrow> None)"

text \<open>The columns after ON CONFLICT, where it names some.\<close>

definition conflict_target :: "sql \<Rightarrow> (string \<times> string list) option" where
  "conflict_target q =
     (case q of
        Otp_Upsert \<Rightarrow> Some (''otp_codes'', [''email''])
      | Member_Add \<Rightarrow> Some (''chat_members'', [''chat_id'', ''user_id''])
      | Reaction_Toggle \<Rightarrow> Some (''reactions'', [''message_id'', ''user_id'', ''emoji''])
      | Contact_Upsert \<Rightarrow> Some (''contacts'', [''user_id'', ''contact_id''])
      | _ \<Rightarrow> None)"

text \<open>The columns that SELECT, SET, WHERE, JOIN, ORDER BY and RETURNING name, by table.\<close>

primrec mentions :: "sql \<Rightarrow> (string \<times> string list) list" where
  "mentions (Ddl d) = []"
| "mentions Otp_Upsert = [(''otp_codes'', [''code_hash'', ''expires_at'', ''attempts''])]"
| "mentions Otp_Select = [(''otp_codes'', [''code_hash'', ''expires_at'', ''attempts'', ''email''])]"
| "mentions Otp_Increment = [(''otp_codes'', [''attempts'', ''email''])]"
| "mentions Otp_Valid = [(''otp_codes'', [''expires_at'', ''email''])]"
| "mentions Otp_Delete = [(''otp_codes'', [''email''])]"
| "mentions User_Login = [(''users'', [''id'', ''username'', ''display_name'', ''email''])]"
| "mentions (User_With c) = [(''users'', [''id'', c])]"
| "mentions User_Insert = [(''users'', [''id''])]"
| "mentions User_Me = [(''users'', [''id'', ''username'', ''email'', ''phone_number'', ''display_name'',
     ''avatar_url'', ''bio'', ''status'', ''status_text'', ''created_at'', ''is_deleted''])]"
| "mentions (User_Update cs) = [(''users'', cs @ [''id''])]"
| "mentions User_Search = [(''users'', [''id'', ''username'', ''display_name'', ''avatar_url'', ''status'', ''is_deleted''])]"
| "mentions User_Public = [(''users'', [''id'', ''username'', ''display_name'', ''avatar_url'', ''bio'', ''status'',
     ''is_deleted''])]"
| "mentions Chats_Of = [(''chats'', [''id'', ''chat_type'', ''name'', ''avatar_url'', ''updated_at'']),
     (''messages'', [''id'', ''content'', ''chat_id'', ''is_deleted'', ''created_at'']),
     (''message_delivery'', [''message_id'', ''recipient_id'', ''status'']),
     (''chat_members'', [''chat_id'', ''user_id'', ''left_at''])]"
| "mentions Direct_Find = [(''chats'', [''id'', ''chat_type'']), (''chat_members'', [''chat_id'', ''user_id''])]"
| "mentions Direct_Create = [(''chats'', [''id''])]"
| "mentions Direct_Members = []"
| "mentions Group_Create = [(''chats'', [''id''])]"
| "mentions Group_Owner = []"
| "mentions Group_Member = []"
| "mentions Member_Check = [(''chat_members'', [''chat_id'', ''user_id'', ''left_at''])]"
| "mentions Chat_Select = [(''chats'', [''id'', ''chat_type'', ''name'', ''description'', ''avatar_url'', ''created_at''])]"
| "mentions Messages_Latest = [(''messages'', [''id'', ''sender_id'', ''content'', ''content_type'', ''is_edited'',
     ''is_pinned'', ''reply_to_id'', ''created_at'', ''chat_id'', ''is_deleted'']),
     (''users'', [''id'', ''username'', ''display_name'', ''avatar_url''])]"
| "mentions Messages_Before = [(''messages'', [''id'', ''sender_id'', ''content'', ''content_type'', ''is_edited'',
     ''is_pinned'', ''reply_to_id'', ''created_at'', ''chat_id'', ''is_deleted'']),
     (''users'', [''id'', ''username'', ''display_name'', ''avatar_url''])]"
| "mentions Members_List = [(''users'', [''id'', ''username'', ''display_name'', ''avatar_url'', ''status'']),
     (''chat_members'', [''role'', ''joined_at'', ''user_id'', ''chat_id'', ''left_at''])]"
| "mentions Member_Add = [(''chat_members'', [''left_at''])]"
| "mentions Member_Leave = [(''chat_members'', [''left_at'', ''chat_id'', ''user_id''])]"
| "mentions Messages_Search = [(''messages'', [''id'', ''sender_id'', ''content'', ''created_at'', ''chat_id'', ''is_deleted''])]"
| "mentions Message_Pin = [(''messages'', [''is_pinned'', ''id''])]"
| "mentions Reaction_Toggle = []"
| "mentions Chat_Mute = [(''chat_members'', [''muted_until'', ''chat_id'', ''user_id''])]"
| "mentions Chat_User_Search = [(''users'', [''id'', ''username'', ''display_name'', ''avatar_url'', ''is_deleted''])]"
| "mentions Contacts_List = [(''users'', [''id'', ''username'', ''display_name'', ''avatar_url'', ''status'']),
     (''contacts'', [''nickname'', ''is_favorite'', ''contact_id'', ''user_id'', ''is_blocked''])]"
| "mentions Contact_Upsert = [(''contacts'', [''nickname''])]"
| "mentions Contact_Delete = [(''contacts'', [''user_id'', ''contact_id''])]"
| "mentions Contact_Check = [(''contacts'', [''user_id'', ''contact_id''])]"
| "mentions User_By_Phone = [(''users'', [''id'', ''username'', ''display_name'', ''avatar_url'', ''phone_number'', ''is_deleted''])]"
| "mentions Channels_Explore = [(''channels'', [''id'', ''username'', ''name'', ''description'', ''avatar_url'',
     ''is_public'', ''subscriber_count''])]"
| "mentions Channels_Mine = [(''channels'', [''id'', ''username'', ''name'', ''avatar_url'']),
     (''channel_subscribers'', [''role'', ''channel_id'', ''user_id''])]"
| "mentions Channel_Create = [(''channels'', [''id''])]"
| "mentions Channel_Owner = []"
| "mentions Channel_Select = [(''channels'', [''id'', ''username'', ''name'', ''description'', ''avatar_url'',
     ''is_public'', ''subscriber_count'', ''owner_id''])]"
| "mentions Channel_Subscribe = []"
| "mentions Channel_Count_Up = [(''channels'', [''subscriber_count'', ''id''])]"
| "mentions Posts_Latest = [(''channel_posts'', [''id'', ''channel_id'', ''content'', ''media_urls'', ''is_paid'', ''created_at''])]"
| "mentions Posts_Before = [(''channel_posts'', [''id'', ''channel_id'', ''content'', ''media_urls'', ''is_paid'', ''created_at''])]"
| "mentions Subscriber_Role = [(''channel_subscribers'', [''role'', ''channel_id'', ''user_id''])]"
| "mentions Post_Insert = []"
| "mentions Post_Delete = [(''channel_posts'', [''id'', ''channel_id''])]"

definition has_columns :: "string \<times> string list \<Rightarrow> bool" where
  "has_columns = (\<lambda>(t, cs). list_all (\<lambda>c. c \<in> set (columns_of t)) cs)"

definition fits_schema :: "sql \<Rightarrow> bool" where
  "fits_schema q \<longleftrightarrow> list_all has_columns (mentions q) \<and>
     (case inserts q of None \<Rightarrow> True
      | Some (t, cs) \<Rightarrow> has_columns (t, cs) \<and> list_all (\<lambda>c. c \<in> set cs) (required t)) \<and>
     (case conflict_target q of None \<Rightarrow> True | Some (t, cs) \<Rightarrow> cs \<in> set (uniques_of t))"

lemma schema_columns:
  "columns_of ''users'' = [''id'', ''username'', ''email'', ''phone_number'', ''password_hash'', ''password_salt'',
      ''first_name'', ''last_name'', ''display_name'', ''status_text'', ''avatar_url'', ''bio'',
      ''status'', ''public_key'', ''public_key_signature'', ''encryption_algorithm'',
      ''two_factor_enabled'', ''two_factor_secret'', ''is_verified'', ''is_blocked'', ''is_deleted'',
      ''created_at'', ''updated_at'', ''last_seen'']"
  "columns_of ''otp_codes'' = [''email'', ''code_hash'', ''attempts'', ''expires_at'', ''created_at'']"
  "columns_of ''chats'' = [''id'', ''chat_type'', ''name'', ''description'', ''avatar_url'', ''created_by'', ''created_at'', ''updated_at'']"
  "columns_of ''chat_members'' = [''id'', ''chat_id'', ''user_id'', ''role'', ''can_admin'', ''joined_at'', ''left_at'', ''muted_until'']"
  "columns_of ''messages'' = [''id'', ''chat_id'', ''sender_id'', ''reply_to_id'', ''content'', ''content_type'', ''is_edited'',
      ''is_pinned'', ''is_deleted'', ''created_at'', ''updated_at'']"
  "columns_of ''message_delivery'' = [''id'', ''message_id'', ''recipient_id'', ''status'', ''delivered_at'', ''read_at'']"
  "columns_of ''reactions'' = [''id'', ''message_id'', ''user_id'', ''emoji'', ''created_at'']"
  "columns_of ''contacts'' = [''id'', ''user_id'', ''contact_id'', ''nickname'', ''is_favorite'', ''is_blocked'', ''created_at'']"
  "columns_of ''channels'' = [''id'', ''username'', ''name'', ''description'', ''avatar_url'', ''is_public'', ''subscriber_count'',
      ''owner_id'', ''created_at'', ''updated_at'']"
  "columns_of ''channel_subscribers'' = [''id'', ''channel_id'', ''user_id'', ''role'', ''joined_at'']"
  "columns_of ''channel_posts'' = [''id'', ''channel_id'', ''author_id'', ''content'', ''media_urls'', ''is_paid'', ''created_at'']"
  by (simp_all add: columns_of_def migrations_def users_table_def otp_codes_table_def chats_table_def
      chat_members_table_def messages_table_def message_delivery_table_def reactions_table_def contacts_table_def
      channels_table_def channel_subscribers_table_def channel_posts_table_def)

lemma schema_uniques:
  "uniques_of ''otp_codes'' = [[''email'']]" "uniques_of ''chat_members'' = [[''id''], [''chat_id'', ''user_id'']]"
  "uniques_of ''reactions'' = [[''id''], [''message_id'', ''user_id'', ''emoji'']]"
  "uniques_of ''contacts'' = [[''id''], [''user_id'', ''contact_id'']]"
  by (simp_all add: uniques_of_def migrations_def users_table_def otp_codes_table_def chats_table_def
      chat_members_table_def messages_table_def message_delivery_table_def reactions_table_def contacts_table_def
      channels_table_def channel_subscribers_table_def channel_posts_table_def)

text \<open>Every statement fits whose dynamic columns do.\<close>

definition dynamic_columns :: "sql \<Rightarrow> string list" where
  "dynamic_columns q =
     (case q of
        User_With c \<Rightarrow> [c]
      | User_Update cs \<Rightarrow> cs
      | _ \<Rightarrow> [])"

lemma statement_fits: "set (dynamic_columns q) \<subseteq> set (columns_of ''users'') \<Longrightarrow> fits_schema q"
  by (cases q) (simp_all add: fits_schema_def has_columns_def schema_columns schema_uniques inserts_def
      conflict_target_def dynamic_columns_def list_all_iff subset_iff)

subsection \<open>What the routes send\<close>

text \<open>A server that records the statements it executes.\<close>

definition recording :: "'d libpq \<Rightarrow> (sql list \<times> 'd) libpq" where
  "recording P =
     \<lparr>pq_connect = (\<lambda>url (l, d). case pq_connect P url d of (ok, d') \<Rightarrow> (ok, (l, d'))),
      pq_alive = (\<lambda>(l, d). pq_alive P d),
      pq_exec = (\<lambda>q ps (l, d). case pq_exec P q ps d of (r, d') \<Rightarrow> (r, (l @ [q], d')))\<rparr>"

abbreviation sent :: "(sql list \<times> 'd) pgdb \<Rightarrow> sql list" where
  "sent db \<equiv> fst (db_server db)"

text \<open>A statement whose text is the program's own: no data definition, and where the columns depend on the
  request they are among seven.\<close>

definition own_columns :: "string list" where
  "own_columns = [''username'', ''email'', ''phone_number'', ''display_name'', ''bio'', ''avatar_url'', ''status_text'']"

definition own_text :: "sql \<Rightarrow> bool" where
  "own_text q \<longleftrightarrow> set (dynamic_columns q) \<subseteq> set own_columns \<and> (case q of Ddl d \<Rightarrow> False | _ \<Rightarrow> True)"

lemma own_text_fits: "own_text q \<Longrightarrow> fits_schema q"
proof (rule statement_fits)
  have "set own_columns \<subseteq> set (columns_of ''users'')" by (simp add: own_columns_def schema_columns)
  then show "set (dynamic_columns q) \<subseteq> set (columns_of ''users'')" if "own_text q"
    using that by (auto simp: own_text_def)
qed

lemma recorded:
  "own_text q \<Longrightarrow> keeps_stmt (\<lambda>db. list_all own_text (sent db)) (recording P) q"
  by (simp add: keeps_stmt_def recording_def split: prod.split)

lemma route_own_text: "q \<in> route_statements r \<Longrightarrow> r \<noteq> Update_Me \<Longrightarrow> own_text q"
  by (cases r) (auto simp: own_text_def dynamic_columns_def own_columns_def)

lemma add_fields_own: "add_fields E body update_columns = Inr fs \<Longrightarrow> set (map fst fs) \<subseteq> set own_columns"
  by (drule add_fields_columns(1), unfold update_columns_distinct own_columns_def) (erule subset_trans, simp)

lemma update_me_recorded:
  assumes "hpq E = recording P"
  shows "maintains (holds (\<lambda>db. list_all own_text (sent db))) (route_update_me E req)"
proof -
  let ?M = "maintains (holds (\<lambda>db. list_all own_text (sent db)))"
  have "?M (and_then (lift_sum (add_fields E body update_columns)) (\<lambda>fields.
      if fields = [] then ret (error_resp E 400 ''Nothing to update'')
      else try_500 E (and_then (db_exec E (User_Update (map fst fields)) (map snd fields @ [u])) (\<lambda>_.
           ret (json_resp E 200 (jobj [(''ok'', JBool True)]))))))" for body u
  proof (cases "add_fields E body update_columns")
    case (Inr fs)
    have "own_text (User_Update (map fst fs))"
      using add_fields_own [OF Inr] by (simp add: own_text_def dynamic_columns_def)
    then have "keeps_stmt (\<lambda>db. list_all own_text (sent db)) (hpq E) (User_Update (map fst fs))"
      unfolding assms by (rule recorded)
    then have "?M (if fs = [] then ret (error_resp E 400 ''Nothing to update'')
      else try_500 E (and_then (db_exec E (User_Update (map fst fs)) (map snd fs @ [u])) (\<lambda>_.
           ret (json_resp E 200 (jobj [(''ok'', JBool True)])))))"
      by (intro frame_intros route_frame)
    then show ?thesis by (simp add: Inr maintains_def em_simps)
  qed (simp add: maintains_def em_simps)
  then show ?thesis unfolding route_update_me_def by (intro route_frame)
qed

section \<open>Property of the statements\<close>

text \<open>C13: Whatever a request contains, the statements it makes the server send are texts of the program: the
  request's data travels as parameters only, the columns of the one statement that is put together come
  from seven fixed names, and no request defines data. All these texts fit the schema that the migrations
  create: tables and columns exist, ON CONFLICT names a unique constraint, and an INSERT gives every column
  that has to be given.\<close>

theorem statements_fit_schema:
  assumes "hpq E = recording P" and "sent (hdb s) = []"
  shows "list_all (\<lambda>q. own_text q \<and> fits_schema q) (sent (hdb (snd (handle E r req s))))"
proof -
  have "maintains (holds (\<lambda>db. list_all own_text (sent db))) (handle E r req)"
  proof (cases "r = Update_Me")
    case True
    then show ?thesis using update_me_recorded [OF assms(1)] by simp
  next
    case False
    show ?thesis
      by (rule route_holds) (unfold assms(1), rule recorded, erule route_own_text [OF _ False])
  qed
  then have "list_all own_text (sent (hdb (snd (handle E r req s))))"
    using assms(2) by (simp add: maintains_def)
  then show ?thesis by (simp add: list_all_iff own_text_fits)
qed

text \<open>A body that names a column of its own gets it ignored.\<close>

theorem statements_fit_schema_witness:
  "let E = demo_henv (JObj [(''bio'', JStr ''x''), (''is_deleted'', JStr ''y'')]) (recording demo_pq);
       s = snd (handle E Update_Me demo_request (demo_http ([], ()))) in
   sent (hdb s) = [User_Update [''bio'']] \<and> list_all (\<lambda>q. own_text q \<and> fits_schema q) (sent (hdb s))"
proof -
  let ?body = "JObj [(''bio'', JStr ''x''), (''is_deleted'', JStr ''y'')]"
  let ?E = "demo_henv ?body (recording demo_pq)"
  have E: "hpq ?E = recording demo_pq" "sent (hdb (demo_http ([], ()))) = []"
    by (simp_all add: demo_henv_def demo_http_def)
  have fields: "add_fields ?E ?body update_columns = Inr [(''bio'', ''x'')]"
    by (simp add: update_columns_def add_field_def demo_henv_def demo_json_def doc_json_def doc_get_str_def)
  have parse: "j_parse (hlib ?E) (req_body demo_request) = Inr ?body"
    by (simp add: demo_henv_def demo_json_def doc_json_def demo_request_def)
  have "sent (hdb (snd (handle ?E Update_Me demo_request (demo_http ([], ()))))) = [User_Update [''bio'']]"
    unfolding handle.simps route_update_me_def demo_guarded [OF demo_client_ready(2)] with_json_body_def parse
    by (simp add: em_simps try_500_def fields db_exec_def exec_def E(1))
      (simp add: demo_http_def recording_def demo_pq_def em_simps)
  then show ?thesis using statements_fit_schema [OF E, of Update_Me demo_request] by (simp add: Let_def)
qed

end
