(* ===== verification/Shutdown.thy ===== *)
theory Shutdown
  imports Messenger_Props Startup
begin

section \<open>Starting and ending the process\<close>

text \<open>
  The thread that starts the messaging server, and the handler of signals that ends the process, at
  whatever point of the other that is.
\<close>

subsection \<open>Disconnecting\<close>

lemma free_contexts:
  assumes "distinct is" and "\<And>i. i \<in> set is \<Longrightarrow> i < length (conns s)"
  shows "\<exists>t. for_each is (free_context h) s = (Inr (), t) \<and> length (conns t) = length (conns s) \<and>
    (\<forall>i \<in> set is. ctx (conns t ! i) = None) \<and> (\<forall>i. i \<notin> set is \<longrightarrow> conns t ! i = conns s ! i) \<and>
    running t = running s \<and> pool_locked t = pool_locked s"
  using assms
proof (induction "is" arbitrary: s)
  case (Cons i "is")
  obtain s1 where s1: "free_context h i s = (Inr (), s1)" "length (conns s1) = length (conns s)"
    "ctx (conns s1 ! i) = None" "\<And>j. j \<noteq> i \<Longrightarrow> conns s1 ! j = conns s ! j"
    "running s1 = running s" "pool_locked s1 = pool_locked s"
    using Cons.prems(2) [of i]
    by (cases "ctx (conns s ! i)") (auto simp: free_context_def mod_st_def set_context_def)
  then show ?case using Cons.IH [of s1] Cons.prems by (auto simp: em_simps)
qed (simp add: em_simps)

lemma disconnect_frees:
  assumes "\<not> pool_locked s"
  shows "\<exists>t. disconnect h s = (Inr (), t) \<and> \<not> running t \<and> \<not> pool_locked t \<and>
    list_all (\<lambda>c. ctx c = None) (conns t)"
proof -
  let ?s = "s\<lparr>running := False, subscriber_joinable := False, pool_locked := True\<rparr>"
  obtain t where "for_each [0 ..< length (conns ?s)] (free_context h) ?s = (Inr (), t)"
    "length (conns t) = length (conns s)" "\<And>i. i < length (conns s) \<Longrightarrow> ctx (conns t ! i) = None" "\<not> running t"
    using free_contexts [of "[0 ..< length (conns ?s)]" ?s h] by auto
  then show ?thesis
    using assms by (simp add: disconnect_def em_simps with_pool_lock_def list_all_length)
qed

subsection \<open>The thread that starts\<close>

lemma ws_thread_outcomes:
  assumes "\<not> ms_running m" and "\<not> pool_locked (redis m)" and "\<not> running (redis m)" and "0 < max_retries (redis_cfg m)"
  shows "(\<exists>m'. ws_thread E n m = (Inr (), m') \<and> ms_running m' \<and> running (redis m') \<and> \<not> pool_locked (redis m')) \<or>
    (\<exists>m'. ws_thread E n m = (Inl (Deadlock ''pool_mutex_''), m') \<and> \<not> ms_running m')"
proof -
  define r where "r = set_error_callback (redis m)"
  have r: "\<not> pool_locked r" "\<not> running r" using assms by (simp_all add: r_def set_error_callback_def)
  consider t where "connect (hir E) (redis_cfg m) r = (Inr True, t)" "running t" "\<not> pool_locked t"
    | t where "connect (hir E) (redis_cfg m) r = (Inl (Deadlock ''pool_mutex_''), t)"
    using connect_outcomes [OF r assms(4), of "hir E"] by blast
  then show ?thesis
    using assms(1)
    by cases (simp_all add: ws_thread.simps start_def em_simps redis_max_attempts_def numeral_eq_Suc flip: r_def)
qed

lemma ws_server_fresh:
  assumes "ws_server_of E c k w = Inr m"
  shows "\<not> ms_running m" "\<not> pool_locked (redis m)" "\<not> running (redis m)" "0 < max_retries (redis_cfg m)"
  using assms
  by (auto simp: ws_server_of_def messenger_new_def messenger_redis_cfg_def redis_new_def split: prod.splits sum.splits)

lemma handler_run:
  assumes "sig = SIGINT \<or> sig = SIGTERM" and "g_ws_server p = Some m" and "stop E m = (Inr (), m')"
  shows "signal_handler E sig p = (Inr (), p\<lparr>http_serving := http_serving p \<and> \<not> g_http_api p, g_ws_server := Some m',
    exit_code := Some 0\<rparr>)"
  using assms by (cases p) (simp add: signal_handler_def stop_http_def stop_ws_def em_simps)

section \<open>Properties of start and end\<close>

text \<open>C32: The thread that starts the messaging server has two outcomes: it returns with the server running and
  Redis connected, so that its five retries and the degraded mode are never reached, or it never returns
  (the mutex of the Redis pool). In both, SIGINT and SIGTERM end the process with code 0 and no server
  serving; the connections to Redis are closed only in the first.\<close>

theorem signals_end_process:
  assumes "ws_server_of E c k w = Inr m" and "ws_thread E 5 m = (r, m1)" and "sig = SIGINT \<or> sig = SIGTERM"
    and "g_http_api p" and "g_ws_server p = Some m1"
  shows "\<exists>m2. signal_handler E sig p =
      (Inr (), p\<lparr>http_serving := False, g_ws_server := Some m2, exit_code := Some 0\<rparr>) \<and> \<not> ms_running m2 \<and>
    (r = Inr () \<and> ms_running m1 \<and> running (redis m1) \<and> list_all (\<lambda>c. ctx c = None) (conns (redis m2)) \<or>
     r = Inl (Deadlock ''pool_mutex_'') \<and> m2 = m1)"
proof -
  consider "r = Inr ()" "ms_running m1" "running (redis m1)" "\<not> pool_locked (redis m1)"
    | "r = Inl (Deadlock ''pool_mutex_'')" "\<not> ms_running m1"
    using ws_thread_outcomes [OF ws_server_fresh [OF assms(1)], of E 5] assms(2) by auto
  then show ?thesis
  proof cases
    case 1
    obtain t where t: "disconnect (hir E) (redis m1) = (Inr (), t)" "list_all (\<lambda>c. ctx c = None) (conns t)"
      using disconnect_frees [OF 1(4)] by blast
    then have "stop E m1 = (Inr (), m1\<lparr>ms_running := False, redis := t\<rparr>)"
      using 1(2) by (simp add: stop_def em_simps on_redis_def zoom_def)
    then show ?thesis
      using handler_run [OF assms(3,5)] 1 t(2) assms(4)
      by (intro exI [of _ "m1\<lparr>ms_running := False, redis := t\<rparr>"]) simp
  next
    case 2
    then have "stop E m1 = (Inr (), m1)" by (simp add: stop_def em_simps)
    then show ?thesis using handler_run [OF assms(3,5)] 2 assms(4) by simp
  qed
qed

theorem signals_end_process_witness:
  "let E = \<lparr>lib = doc_json (\<lambda>t. Inl Parse_Error) (\<lambda>j. []), sod = toy_sodium,
        clk = \<lparr>unix_time = int, sys_clock = word_of_nat\<rparr>, hir = dead_redis\<rparr> in
   \<exists>m r m1 m2. ws_server_of E (env_settings (\<lambda>k. None)) \<lparr>sodium_initialized = False, draws = 0\<rparr> () = Inr m \<and>
     ws_thread E 5 m = (r, m1) \<and> \<not> ms_running m2 \<and>
     signal_handler E SIGTERM \<lparr>http_serving = True, g_http_api = True, g_ws_server = Some m1, exit_code = None\<rparr> =
       (Inr (), \<lparr>http_serving = False, g_http_api = True, g_ws_server = Some m2, exit_code = Some 0\<rparr>)"
proof -
  let ?E = "\<lparr>lib = doc_json (\<lambda>t. Inl Parse_Error) (\<lambda>j. []), sod = toy_sodium,
        clk = \<lparr>unix_time = int, sys_clock = word_of_nat\<rparr>, hir = dead_redis\<rparr> :: unit env"
  obtain m where m: "ws_server_of ?E (env_settings (\<lambda>k. None)) \<lparr>sodium_initialized = False, draws = 0\<rparr> () = Inr m"
    by (simp add: ws_server_of_def messenger_new_def initialize_def generate_keypair_def ensure_init_def
        em_simps draw_def toy_sodium_def)
  obtain r m1 where r: "ws_thread ?E 5 m = (r, m1)" by force
  let ?p = "\<lparr>http_serving = True, g_http_api = True, g_ws_server = Some m1, exit_code = None\<rparr> :: unit process"
  obtain m2 where "signal_handler ?E SIGTERM ?p =
      (Inr (), ?p\<lparr>http_serving := False, g_ws_server := Some m2, exit_code := Some 0\<rparr>)" "\<not> ms_running m2"
    using signals_end_process [OF m r, of SIGTERM ?p] by auto
  then show ?thesis using m r unfolding Let_def by auto
qed

end
