(* ===== verification/Redis_Old.thy ===== *)
theory Redis_Old
  imports Std_Map "HOL-Library.Signed_Division"
begin

section \<open>The first Redis client (redis_client_old.cpp)\<close>

text \<open>
  The client that \<open>redis_client.cpp\<close> replaced, over sockets instead of hiredis. The build leaves it out
  and the header it was written for is not there, so that of its types only what the file itself uses is
  known: a connection has \<open>socket_fd\<close> and \<open>in_use\<close>. What the missing declaration would say is a
  parameter, beside the sockets: the first value of \<open>socket_fd\<close> and the destructor of a connection.
  The pool holds \<open>std::unique_ptr\<close>; one that was moved from is \<open>None\<close>, and following it is undefined.
\<close>

subsection \<open>Sockets\<close>

text \<open>\<open>sk_pton\<close> is \<open>inet_pton\<close>: \<open>None\<close> leaves the address as it was, which is without a value here.
  \<open>sk_send\<close> says whether the result was not negative, \<open>sk_recv\<close> gives \<open>None\<close> for a negative one.\<close>

datatype connecting = Established | In_Progress | Refused

record 'w sockets =
  sk_socket :: "'w \<Rightarrow> int \<times> 'w"
  sk_nonblock :: "int \<Rightarrow> 'w \<Rightarrow> 'w"
  sk_timeouts :: "int \<Rightarrow> int \<Rightarrow> int \<Rightarrow> 'w \<Rightarrow> 'w"
  sk_pton :: "string \<Rightarrow> u32 option"
  sk_connect :: "int \<Rightarrow> u32 option \<Rightarrow> u16 \<Rightarrow> 'w \<Rightarrow> connecting \<times> 'w"
  sk_send :: "int \<Rightarrow> string \<Rightarrow> 'w \<Rightarrow> bool \<times> 'w"
  sk_recv :: "int \<Rightarrow> nat \<Rightarrow> 'w \<Rightarrow> string option \<times> 'w"
  sk_close :: "int \<Rightarrow> 'w \<Rightarrow> 'w"
  first_fd :: int
  destroy :: "int \<Rightarrow> 'w \<Rightarrow> 'w"

subsection \<open>State\<close>

record old_config =
  oc_host :: string
  oc_port :: int
  oc_pool_size :: int
  oc_timeout_ms :: int

record old_connection =
  socket_fd :: int
  busy :: bool

record 'w old_client =
  old_pool :: "old_connection option list"
  old_running :: bool
  old_subscribers :: "(string \<times> nat) list"
  old_callback :: bool
  old_reported :: "string list"
  old_error :: string
  old_locked :: bool
  old_attempts :: int
  net :: 'w

definition old_fresh_connection :: "'w sockets \<Rightarrow> old_connection" where
  "old_fresh_connection K = \<lparr>socket_fd = first_fd K, busy = False\<rparr>"

definition old_new :: "'w sockets \<Rightarrow> old_config \<Rightarrow> 'w \<Rightarrow> 'w old_client" where
  "old_new K cfg w =
     \<lparr>old_pool = replicate (nat (oc_pool_size cfg)) (Some (old_fresh_connection K)), old_running = False,
      old_subscribers = [], old_callback = False, old_reported = [], old_error = [], old_locked = False,
      old_attempts = 0, net = w\<rparr>"

definition old_set_error_callback :: "('w old_client, unit) em" where
  "old_set_error_callback = mod_st (\<lambda>s. s\<lparr>old_callback := True\<rparr>)"

definition old_report :: "string \<Rightarrow> ('w old_client, unit) em" where
  "old_report msg = mod_st (\<lambda>s. s\<lparr>old_error := msg,
     old_reported := (if old_callback s then old_reported s @ [msg] else old_reported s)\<rparr>)"

definition old_with_lock :: "('w old_client, 'a) em \<Rightarrow> ('w old_client, 'a) em" where
  "old_with_lock m = (\<lambda>s.
     if old_locked s then (Inl (Deadlock ''pool_mutex_''), s)
     else (case m (s\<lparr>old_locked := True\<rparr>) of
             (Inl e, s') \<Rightarrow> (Inl e, if catchable e then s'\<lparr>old_locked := False\<rparr> else s')
           | (Inr x, s') \<Rightarrow> (Inr x, s'\<lparr>old_locked := False\<rparr>)))"

definition on_net :: "('w \<Rightarrow> 'a \<times> 'w) \<Rightarrow> ('w old_client, 'a) em" where
  "on_net f = zoom net (\<lambda>w s. s\<lparr>net := w\<rparr>) (\<lambda>w. case f w of (x, w') \<Rightarrow> (Inr x, w'))"

abbreviation on_net_do :: "('w \<Rightarrow> 'w) \<Rightarrow> ('w old_client, unit) em" where
  "on_net_do f \<equiv> on_net (\<lambda>w. ((), f w))"

subsection \<open>Sending a command\<close>

abbreviation crlf :: string where
  "crlf \<equiv> [CHR 0x0D, CHR 0x0A]"

text \<open>The whole command becomes one bulk string of an array of one.\<close>

definition old_frame :: "string \<Rightarrow> string" where
  "old_frame cmd = ''*1'' @ crlf @ ''$'' @ show_nat (length cmd) @ crlf @ cmd @ crlf"

definition old_send_command :: "'w sockets \<Rightarrow> old_connection \<Rightarrow> string \<Rightarrow> ('w old_client, string) em" where
  "old_send_command K c cmd =
     (if socket_fd c < 0 then ret []
      else
        and_then (on_net (sk_send K (socket_fd c) (old_frame cmd))) (\<lambda>sent.
        if \<not> sent then ret []
        else
          and_then (on_net (sk_recv K (socket_fd c) 4095)) (\<lambda>r.
          ret (case r of None \<Rightarrow> [] | Some buffer \<Rightarrow> c_str buffer))))"

subsection \<open>The pool\<close>

text \<open>The search for a connection not in use; it follows every pointer before the one it takes.\<close>

fun old_search :: "old_connection option list \<Rightarrow> err + nat option" where
  "old_search [] = Inr None"
| "old_search (None # cs) = Inl (Undefined ''null connection'')"
| "old_search (Some c # cs) =
     (if \<not> busy c then Inr (Some 0)
      else (case old_search cs of Inl e \<Rightarrow> Inl e | Inr r \<Rightarrow> Inr (map_option Suc r)))"

text \<open>\<open>return std::move(conn)\<close> leaves the null pointer in the pool; with all in use a connection outside
  the pool is made.\<close>

definition old_acquire :: "'w sockets \<Rightarrow> ('w old_client, old_connection option) em" where
  "old_acquire K = old_with_lock (\<lambda>s.
     if old_pool s = [] then (Inr None, s)
     else (case old_search (old_pool s) of
             Inl e \<Rightarrow> (Inl e, s)
           | Inr None \<Rightarrow> (Inr (Some (old_fresh_connection K)), s)
           | Inr (Some i) \<Rightarrow>
               (Inr (Some ((the (old_pool s ! i))\<lparr>busy := True\<rparr>)), s\<lparr>old_pool := (old_pool s)[i := None]\<rparr>)))"

text \<open>The pointer is passed by value and not put back: the connection is destroyed.\<close>

definition old_release :: "'w sockets \<Rightarrow> old_connection \<Rightarrow> ('w old_client, unit) em" where
  "old_release K c = and_then (old_with_lock (ret ())) (\<lambda>_. on_net_do (destroy K (socket_fd c)))"

definition old_run :: "'w sockets \<Rightarrow> 'a \<Rightarrow> string \<Rightarrow> (string \<Rightarrow> err + 'a) \<Rightarrow> ('w old_client, 'a) em" where
  "old_run K dflt cmd k =
     and_then (old_acquire K) (\<lambda>c.
     case c of
       None \<Rightarrow> ret dflt
     | Some c \<Rightarrow>
         and_then (old_send_command K c cmd) (\<lambda>r.
         and_then (old_release K c) (\<lambda>_. lift_sum (k r))))"

subsection \<open>Commands\<close>

definition quoted :: "string \<Rightarrow> string" where
  "quoted v = '' '' @ [CHR 0x22] @ v @ [CHR 0x22]"

definition has :: "string \<Rightarrow> string \<Rightarrow> bool" where
  "has p r \<longleftrightarrow> find_str p r \<noteq> None"

definition old_ping :: "'w sockets \<Rightarrow> ('w old_client, string) em" where
  "old_ping K = old_run K [] ''PING'' (\<lambda>r. Inr (if has ''PONG'' r then ''PONG'' else []))"

definition old_set :: "'w sockets \<Rightarrow> string \<Rightarrow> string \<Rightarrow> int \<Rightarrow> ('w old_client, bool) em" where
  "old_set K key value ttl =
     old_run K False (''SET '' @ key @ quoted value @ (if 0 < ttl then '' EX '' @ show_int ttl else []))
       (\<lambda>r. Inr (r = ''+OK''))"

definition old_get :: "'w sockets \<Rightarrow> string \<Rightarrow> ('w old_client, string) em" where
  "old_get K key =
     old_run K [] (''GET '' @ key)
       (\<lambda>r. Inr (if find_str ''$-1'' r = Some 0 then []
                 else (case find_ch (CHR 0x0A) r of Some i \<Rightarrow> drop (i + 1) r | None \<Rightarrow> r)))"

definition old_exists :: "'w sockets \<Rightarrow> string \<Rightarrow> ('w old_client, bool) em" where
  "old_exists K key = old_run K False (''EXISTS '' @ key) (\<lambda>r. Inr (has '':1'' r))"

definition old_del :: "'w sockets \<Rightarrow> string \<Rightarrow> ('w old_client, bool) em" where
  "old_del K key = old_run K False (''DEL '' @ key) (\<lambda>r. Inr (has '':1'' r))"

definition old_expire :: "'w sockets \<Rightarrow> string \<Rightarrow> int \<Rightarrow> ('w old_client, bool) em" where
  "old_expire K key secs =
     old_run K False (''EXPIRE '' @ key @ '' '' @ show_int secs) (\<lambda>r. Inr (has '':1'' r))"

definition old_lpush :: "'w sockets \<Rightarrow> string \<Rightarrow> string list \<Rightarrow> ('w old_client, bool) em" where
  "old_lpush K key vals =
     old_run K False (''LPUSH '' @ key @ concat (map quoted vals)) (\<lambda>r. Inr (has '':'' r))"

definition old_lrange :: "'w sockets \<Rightarrow> string \<Rightarrow> int \<Rightarrow> int \<Rightarrow> ('w old_client, string list) em" where
  "old_lrange K key start stop =
     old_run K [] (''LRANGE '' @ key @ '' '' @ show_int start @ '' '' @ show_int stop) (\<lambda>r. Inr [])"

definition old_llen :: "'w sockets \<Rightarrow> string \<Rightarrow> ('w old_client, int) em" where
  "old_llen K key =
     old_run K 0 (''LLEN '' @ key)
       (\<lambda>r. case find_ch (CHR '':'') r of Some i \<Rightarrow> stoi (drop (i + 1) r) | None \<Rightarrow> Inr 0)"

definition old_sadd :: "'w sockets \<Rightarrow> string \<Rightarrow> string list \<Rightarrow> ('w old_client, bool) em" where
  "old_sadd K key members =
     old_run K False (''SADD '' @ key @ concat (map quoted members)) (\<lambda>r. Inr (has '':'' r))"

definition old_smembers :: "'w sockets \<Rightarrow> string \<Rightarrow> ('w old_client, string list) em" where
  "old_smembers K key = old_run K [] (''SMEMBERS '' @ key) (\<lambda>r. Inr [])"

definition old_sismember :: "'w sockets \<Rightarrow> string \<Rightarrow> string \<Rightarrow> ('w old_client, bool) em" where
  "old_sismember K key m = old_run K False (''SISMEMBER '' @ key @ quoted m) (\<lambda>r. Inr (has '':1'' r))"

definition old_srem :: "'w sockets \<Rightarrow> string \<Rightarrow> string \<Rightarrow> ('w old_client, bool) em" where
  "old_srem K key m = old_run K False (''SREM '' @ key @ quoted m) (\<lambda>r. Inr (has '':1'' r))"

definition old_hset :: "'w sockets \<Rightarrow> string \<Rightarrow> string \<Rightarrow> string \<Rightarrow> ('w old_client, bool) em" where
  "old_hset K key field value =
     old_run K False (''HSET '' @ key @ quoted field @ quoted value) (\<lambda>r. Inr (has '':'' r))"

definition old_hget :: "'w sockets \<Rightarrow> string \<Rightarrow> string \<Rightarrow> ('w old_client, string) em" where
  "old_hget K key field = old_run K [] (''HGET '' @ key @ quoted field) Inr"

definition old_hdel :: "'w sockets \<Rightarrow> string \<Rightarrow> string \<Rightarrow> ('w old_client, bool) em" where
  "old_hdel K key field = old_run K False (''HDEL '' @ key @ quoted field) (\<lambda>r. Inr (has '':1'' r))"

definition old_hgetall :: "'w sockets \<Rightarrow> string \<Rightarrow> ('w old_client, (string \<times> string) list) em" where
  "old_hgetall K key = old_run K [] (''HGETALL '' @ key) (\<lambda>r. Inr [])"

definition old_publish :: "'w sockets \<Rightarrow> string \<Rightarrow> string \<Rightarrow> ('w old_client, bool) em" where
  "old_publish K channel msg =
     old_run K False (''PUBLISH '' @ channel @ quoted msg) (\<lambda>r. Inr (has '':'' r))"

definition old_info :: "'w sockets \<Rightarrow> string \<Rightarrow> ('w old_client, string) em" where
  "old_info K section = old_run K [] (''INFO '' @ section) Inr"

subsection \<open>Subscribers and transactions\<close>

definition old_subscribe :: "string \<Rightarrow> nat \<Rightarrow> ('w old_client, bool) em" where
  "old_subscribe channel cb =
     and_then (mod_st (\<lambda>s. s\<lparr>old_subscribers := sm_put channel cb (old_subscribers s)\<rparr>)) (\<lambda>_. ret True)"

definition old_unsubscribe :: "string \<Rightarrow> ('w old_client, bool) em" where
  "old_unsubscribe channel =
     and_then (mod_st (\<lambda>s. s\<lparr>old_subscribers := sm_del channel (old_subscribers s)\<rparr>)) (\<lambda>_. ret True)"

definition old_subscription_count :: "string \<Rightarrow> ('w old_client, int) em" where
  "old_subscription_count channel =
     get_st (\<lambda>s. if map_of (old_subscribers s) channel \<noteq> None then 1 else 0)"

definition old_multi_start :: "('w old_client, bool) em" where
  "old_multi_start = ret True"

definition old_queue_command :: "string \<Rightarrow> ('w old_client, bool) em" where
  "old_queue_command cmd = ret True"

definition old_exec :: "('w old_client, string list) em" where
  "old_exec = ret []"

definition old_discard :: "('w old_client, unit) em" where
  "old_discard = ret ()"

definition old_is_connected :: "('w old_client, bool) em" where
  "old_is_connected = get_st old_running"

definition old_last_error :: "('w old_client, string) em" where
  "old_last_error = get_st old_error"

subsection \<open>Connecting\<close>

text \<open>\<open>connection->...\<close> for the entry \<open>i\<close> of the pool.\<close>

definition old_entry :: "nat \<Rightarrow> ('w old_client, old_connection) em" where
  "old_entry i = (\<lambda>s. case old_pool s ! i of
       None \<Rightarrow> (Inl (Undefined ''null connection''), s)
     | Some c \<Rightarrow> (Inr c, s))"

definition old_set_fd :: "nat \<Rightarrow> int \<Rightarrow> ('w old_client, unit) em" where
  "old_set_fd i fd = and_then (old_entry i) (\<lambda>c.
     mod_st (\<lambda>s. s\<lparr>old_pool := (old_pool s)[i := Some (c\<lparr>socket_fd := fd\<rparr>)]\<rparr>))"

text \<open>The body of the loop over the pool; the flags of the socket are not looked at.\<close>

definition old_connect_one :: "'w sockets \<Rightarrow> old_config \<Rightarrow> nat \<Rightarrow> ('w old_client, bool) em" where
  "old_connect_one K cfg i =
     and_then (old_entry i) (\<lambda>_.
     and_then (on_net (sk_socket K)) (\<lambda>fd.
     and_then (old_set_fd i fd) (\<lambda>_.
     if fd < 0 then and_then (old_report ''Failed to create socket'') (\<lambda>_. ret False)
     else
       and_then (on_net_do (sk_nonblock K fd)) (\<lambda>_.
       and_then (on_net_do (sk_timeouts K fd (oc_timeout_ms cfg sdiv 1000) ((oc_timeout_ms cfg smod 1000) * 1000))) (\<lambda>_.
       and_then (on_net (sk_connect K fd (sk_pton K (c_str (oc_host cfg))) (word_of_int (oc_port cfg)))) (\<lambda>r.
       if r = Refused then
         and_then (old_report (''Failed to connect to Redis at '' @ oc_host cfg @ '':'' @ show_int (oc_port cfg)))
           (\<lambda>_. ret False)
       else
         and_then (old_ping K) (\<lambda>pong.
         if pong \<noteq> ''PONG'' then and_then (old_report ''Redis PING failed'') (\<lambda>_. ret False)
         else ret True)))))))"

fun old_connect_each :: "'w sockets \<Rightarrow> old_config \<Rightarrow> nat list \<Rightarrow> ('w old_client, bool) em" where
  "old_connect_each K cfg [] = ret True"
| "old_connect_each K cfg (i # is) =
     and_then (old_connect_one K cfg i) (\<lambda>ok. if ok then old_connect_each K cfg is else ret False)"

definition old_connect :: "'w sockets \<Rightarrow> old_config \<Rightarrow> ('w old_client, bool) em" where
  "old_connect K cfg = old_with_lock (\<lambda>s.
     if old_running s then (Inr True, s)
     else
       and_then (old_connect_each K cfg [0 ..< length (old_pool s)]) (\<lambda>ok.
       if \<not> ok then ret False
       else and_then (mod_st (\<lambda>s. s\<lparr>old_running := True\<rparr>)) (\<lambda>_. ret True)) s)"

text \<open>The destructor does the same. The subscriber thread only sleeps until \<open>running_\<close> is false.\<close>

definition old_close_entry :: "'w sockets \<Rightarrow> nat \<Rightarrow> ('w old_client, unit) em" where
  "old_close_entry K i =
     and_then (old_entry i) (\<lambda>c.
     if 0 \<le> socket_fd c then and_then (on_net_do (sk_close K (socket_fd c))) (\<lambda>_. old_set_fd i (- 1))
     else ret ())"

definition old_disconnect :: "'w sockets \<Rightarrow> ('w old_client, unit) em" where
  "old_disconnect K =
     and_then (mod_st (\<lambda>s. s\<lparr>old_running := False\<rparr>)) (\<lambda>_.
     old_with_lock (\<lambda>s. for_each [0 ..< length (old_pool s)] (old_close_entry K) s))"

definition old_handle_reconnect :: "'w sockets \<Rightarrow> old_config \<Rightarrow> ('w old_client, unit) em" where
  "old_handle_reconnect K cfg =
     and_then (mod_st (\<lambda>s. s\<lparr>old_attempts := old_attempts s + 1\<rparr>)) (\<lambda>_.
     and_then (old_connect K cfg) (\<lambda>_. ret ()))"

end
