(* ===== verification/Redis_Old_Props.thy ===== *)
theory Redis_Old_Props
  imports Redis_Old
begin

section \<open>What the first Redis client does\<close>

text \<open>
  All operations as a datatype, with the function that performs one, and the life of a client: fresh
  until its first command, spent afterwards. The frames it sends, read by a reader of the Redis protocol.
\<close>

subsection \<open>The operations\<close>

datatype old_call =
    Do_Connect | Do_Disconnect | Do_Reconnect | Ask_Connected | Ask_Error | Set_Callback
  | Do_Subscribe string nat | Do_Unsubscribe string | Ask_Subscriptions string
  | Do_Multi | Do_Queue string | Do_Exec | Do_Discard
  | Cmd_Ping | Cmd_Info string | Cmd_Set string string int | Cmd_Get string | Cmd_Exists string
  | Cmd_Del string | Cmd_Expire string int | Cmd_Lpush string "string list" | Cmd_Lrange string int int
  | Cmd_Llen string | Cmd_Sadd string "string list" | Cmd_Smembers string | Cmd_Sismember string string
  | Cmd_Srem string string | Cmd_Hset string string string | Cmd_Hget string string
  | Cmd_Hdel string string | Cmd_Hgetall string | Cmd_Publish string string

datatype old_result =
    Unit_R | Bool_R bool | Int_R int | Text_R string | List_R "string list" | Pairs_R "(string \<times> string) list"

definition giving :: "('a \<Rightarrow> 'b) \<Rightarrow> ('s, 'a) em \<Rightarrow> ('s, 'b) em" where
  "giving f m = and_then m (\<lambda>x. ret (f x))"

fun old_do :: "'w sockets \<Rightarrow> old_config \<Rightarrow> old_call \<Rightarrow> ('w old_client, old_result) em" where
  "old_do K cfg Do_Connect = giving Bool_R (old_connect K cfg)"
| "old_do K cfg Do_Disconnect = giving (\<lambda>_. Unit_R) (old_disconnect K)"
| "old_do K cfg Do_Reconnect = giving (\<lambda>_. Unit_R) (old_handle_reconnect K cfg)"
| "old_do K cfg Ask_Connected = giving Bool_R old_is_connected"
| "old_do K cfg Ask_Error = giving Text_R old_last_error"
| "old_do K cfg Set_Callback = giving (\<lambda>_. Unit_R) old_set_error_callback"
| "old_do K cfg (Do_Subscribe c b) = giving Bool_R (old_subscribe c b)"
| "old_do K cfg (Do_Unsubscribe c) = giving Bool_R (old_unsubscribe c)"
| "old_do K cfg (Ask_Subscriptions c) = giving Int_R (old_subscription_count c)"
| "old_do K cfg Do_Multi = giving Bool_R old_multi_start"
| "old_do K cfg (Do_Queue c) = giving Bool_R (old_queue_command c)"
| "old_do K cfg Do_Exec = giving List_R old_exec"
| "old_do K cfg Do_Discard = giving (\<lambda>_. Unit_R) old_discard"
| "old_do K cfg Cmd_Ping = giving Text_R (old_ping K)"
| "old_do K cfg (Cmd_Info x) = giving Text_R (old_info K x)"
| "old_do K cfg (Cmd_Set k v t) = giving Bool_R (old_set K k v t)"
| "old_do K cfg (Cmd_Get k) = giving Text_R (old_get K k)"
| "old_do K cfg (Cmd_Exists k) = giving Bool_R (old_exists K k)"
| "old_do K cfg (Cmd_Del k) = giving Bool_R (old_del K k)"
| "old_do K cfg (Cmd_Expire k t) = giving Bool_R (old_expire K k t)"
| "old_do K cfg (Cmd_Lpush k vs) = giving Bool_R (old_lpush K k vs)"
| "old_do K cfg (Cmd_Lrange k i j) = giving List_R (old_lrange K k i j)"
| "old_do K cfg (Cmd_Llen k) = giving Int_R (old_llen K k)"
| "old_do K cfg (Cmd_Sadd k vs) = giving Bool_R (old_sadd K k vs)"
| "old_do K cfg (Cmd_Smembers k) = giving List_R (old_smembers K k)"
| "old_do K cfg (Cmd_Sismember k v) = giving Bool_R (old_sismember K k v)"
| "old_do K cfg (Cmd_Srem k v) = giving Bool_R (old_srem K k v)"
| "old_do K cfg (Cmd_Hset k f v) = giving Bool_R (old_hset K k f v)"
| "old_do K cfg (Cmd_Hget k f) = giving Text_R (old_hget K k f)"
| "old_do K cfg (Cmd_Hdel k f) = giving Bool_R (old_hdel K k f)"
| "old_do K cfg (Cmd_Hgetall k) = giving Pairs_R (old_hgetall K k)"
| "old_do K cfg (Cmd_Publish c m) = giving Bool_R (old_publish K c m)"

text \<open>The operations that leave the pool alone.\<close>

definition bookkeeping :: "old_call \<Rightarrow> bool" where
  "bookkeeping c \<longleftrightarrow> (case c of Ask_Connected \<Rightarrow> True | Ask_Error \<Rightarrow> True | Set_Callback \<Rightarrow> True | Do_Subscribe _ _ \<Rightarrow> True
     | Do_Unsubscribe _ \<Rightarrow> True | Ask_Subscriptions _ \<Rightarrow> True | Do_Multi \<Rightarrow> True | Do_Queue _ \<Rightarrow> True
     | Do_Exec \<Rightarrow> True | Do_Discard \<Rightarrow> True | _ \<Rightarrow> False)"

definition is_command :: "old_call \<Rightarrow> bool" where
  "is_command c \<longleftrightarrow> \<not> bookkeeping c \<and> c \<notin> {Do_Connect, Do_Disconnect, Do_Reconnect}"

lemmas old_command_defs = old_ping_def old_info_def old_set_def old_get_def old_exists_def old_del_def
  old_expire_def old_lpush_def old_lrange_def old_llen_def old_sadd_def old_smembers_def
  old_sismember_def old_srem_def old_hset_def old_hget_def old_hdel_def old_hgetall_def old_publish_def

subsection \<open>Fresh and spent clients\<close>

definition idle :: "old_connection option list \<Rightarrow> bool" where
  "idle cs \<longleftrightarrow> cs \<noteq> [] \<and> list_all (\<lambda>p. case p of None \<Rightarrow> False | Some c \<Rightarrow> \<not> busy c) cs"

definition fresh :: "'w old_client \<Rightarrow> bool" where
  "fresh s \<longleftrightarrow> \<not> old_locked s \<and> \<not> old_running s \<and> idle (old_pool s)"

definition spent :: "'w old_client \<Rightarrow> bool" where
  "spent s \<longleftrightarrow> \<not> old_locked s \<and> \<not> old_running s \<and> (\<exists>cs. old_pool s = None # cs)"

lemma fresh_new: "0 < oc_pool_size cfg \<Longrightarrow> fresh (old_new K cfg w)"
  by (simp add: fresh_def idle_def old_new_def old_fresh_connection_def list_all_iff)

lemma idle_head: "idle cs \<Longrightarrow> \<exists>c ds. cs = Some c # ds \<and> \<not> busy c"
  by (cases cs) (auto simp: idle_def split: option.splits)

lemma idle_nth: "idle cs \<Longrightarrow> i < length cs \<Longrightarrow> \<exists>c. cs ! i = Some c \<and> \<not> busy c"
  by (auto simp: idle_def list_all_length split: option.splits)

lemma idle_update: "idle cs \<Longrightarrow> \<not> busy c \<Longrightarrow> idle (cs[i := Some c])"
  by (auto simp: idle_def list_all_iff dest!: set_update_subset_insert [THEN subsetD])

text \<open>A command takes the first connection of a fresh client with it; on a spent one it follows the null
  pointer.\<close>

lemma on_net_run [em_simps]: "on_net f s = (case f (net s) of (x, w) \<Rightarrow> (Inr x, s\<lparr>net := w\<rparr>))"
  by (simp add: on_net_def zoom_run split: prod.split)

lemma send_spent: "spent s \<Longrightarrow> \<exists>r s'. old_send_command K c cmd s = (Inr r, s') \<and> spent s'"
  by (auto simp: old_send_command_def em_simps spent_def split: prod.splits)

lemma release_spent: "spent s \<Longrightarrow> \<exists>s'. old_release K c s = (Inr (), s') \<and> spent s'"
  by (auto simp: old_release_def em_simps old_with_lock_def spent_def)

lemma acquire_fresh:
  assumes "fresh s"
  shows "\<exists>c s'. old_acquire K s = (Inr (Some c), s') \<and> spent s'"
  using assms idle_head [of "old_pool s"] by (auto simp: old_acquire_def old_with_lock_def fresh_def spent_def)

definition spends :: "('w old_client, 'a) em \<Rightarrow> bool" where
  "spends m \<longleftrightarrow> (\<forall>s. fresh s \<longrightarrow> spent (snd (m s))) \<and>
     (\<forall>s. spent s \<longrightarrow> fst (m s) = Inl (Undefined ''null connection''))"

lemma run_spends: "spends (old_run K d cmd k)"
proof -
  have "spent (snd (old_run K d cmd k s))" if fr: "fresh s" for s
  proof -
    obtain c s1 where 1: "old_acquire K s = (Inr (Some c), s1)" "spent s1" using acquire_fresh [OF fr] by blast
    obtain r s2 where 2: "old_send_command K c cmd s1 = (Inr r, s2)" "spent s2" using send_spent [OF 1(2)] by blast
    obtain s3 where 3: "old_release K c s2 = (Inr (), s3)" "spent s3" using release_spent [OF 2(2)] by blast
    show ?thesis by (simp add: old_run_def em_simps 1 2 3)
  qed
  moreover have "fst (old_run K d cmd k s) = Inl (Undefined ''null connection'')"
    if "spent s" for s
    using that by (auto simp: old_run_def em_simps old_acquire_def old_with_lock_def spent_def)
  ultimately show ?thesis by (simp add: spends_def)
qed

lemma giving_run: "giving f m s = (case m s of (Inl e, t) \<Rightarrow> (Inl e, t) | (Inr x, t) \<Rightarrow> (Inr (f x), t))"
  by (simp add: giving_def and_then_def ret_def)

lemma giving_spends: "spends m \<Longrightarrow> spends (giving f m)"
  by (fastforce simp: spends_def giving_run split: prod.splits sum.splits)

lemma command_spends: "is_command c \<Longrightarrow> spends (old_do K cfg c)"
  by (cases c) (simp_all add: is_command_def bookkeeping_def old_command_defs giving_spends run_spends)

lemma bookkeeping_keeps:
  assumes "bookkeeping c" and "old_do K cfg c s = (r, s')"
  shows "(fresh s \<longrightarrow> fresh s') \<and> (spent s \<longrightarrow> spent s') \<and> (\<exists>x. r = Inr x) \<and>
    (c = Ask_Connected \<longrightarrow> r = Inr (Bool_R (old_running s)))"
  using assms
  by (cases c) (auto simp: bookkeeping_def giving_run em_simps fresh_def spent_def old_is_connected_def
      old_last_error_def old_set_error_callback_def old_subscribe_def old_unsubscribe_def
      old_subscription_count_def old_multi_start_def old_queue_command_def old_exec_def old_discard_def)

subsection \<open>Connecting and disconnecting\<close>

text \<open>\<open>connect\<close> holds the mutex of the pool when \<open>ping\<close> locks it again.\<close>

lemma ping_locked: "old_locked s \<Longrightarrow> old_ping K s = (Inl (Deadlock ''pool_mutex_''), s)"
  by (simp add: old_ping_def old_run_def old_acquire_def old_with_lock_def em_simps)

lemma old_connect_one_run:
  assumes "old_pool s = Some c # cs" and "old_locked s" and "sk_socket K (net s) = (fd, w)"
    and "sk_connect K fd (sk_pton K (c_str (oc_host cfg))) (word_of_int (oc_port cfg))
      (sk_timeouts K fd (oc_timeout_ms cfg sdiv 1000) ((oc_timeout_ms cfg smod 1000) * 1000) (sk_nonblock K fd w)) = (r, w')"
  defines "s1 \<equiv> s\<lparr>net := w, old_pool := Some (c\<lparr>socket_fd := fd\<rparr>) # cs\<rparr>"
  shows "old_connect_one K cfg 0 s = (if fd < 0 then (Inr False, snd (old_report ''Failed to create socket'' s1))
      else if r = Refused then (Inr False, snd (old_report (''Failed to connect to Redis at '' @ oc_host cfg @ '':'' @
        show_int (oc_port cfg)) (s1\<lparr>net := w'\<rparr>)))
      else (Inl (Deadlock ''pool_mutex_''), s1\<lparr>net := w'\<rparr>))"
  using assms
  by (simp add: old_connect_one_def old_entry_def old_set_fd_def em_simps ping_locked old_report_def)

lemma connect_first:
  assumes "idle (old_pool s)" and "\<not> old_running s" and "old_locked s"
  shows "\<exists>s'. idle (old_pool s') \<and> \<not> old_running s' \<and> old_locked s' \<and>
    (old_connect_each K cfg [0 ..< length (old_pool s)] s = (Inr False, s') \<or>
     old_connect_each K cfg [0 ..< length (old_pool s)] s = (Inl (Deadlock ''pool_mutex_''), s'))"
proof -
  obtain c cs where c: "old_pool s = Some c # cs" "\<not> busy c" using idle_head [OF assms(1)] by blast
  then have is0: "[0 ..< length (old_pool s)] = 0 # [1 ..< length (old_pool s)]"
    by (simp add: upt_conv_Cons del: upt_Suc)
  have keep: "idle (Some (c\<lparr>socket_fd := fd\<rparr>) # cs)" for fd
    using idle_update [OF assms(1), of "c\<lparr>socket_fd := fd\<rparr>" 0] c by simp
  obtain fd w where fd: "sk_socket K (net s) = (fd, w)" by force
  define s1 where "s1 = s\<lparr>net := w, old_pool := Some (c\<lparr>socket_fd := fd\<rparr>) # cs\<rparr>"
  let ?w = "sk_timeouts K fd (oc_timeout_ms cfg sdiv 1000) ((oc_timeout_ms cfg smod 1000) * 1000) (sk_nonblock K fd w)"
  obtain r w' where r: "sk_connect K fd (sk_pton K (c_str (oc_host cfg))) (word_of_int (oc_port cfg)) ?w = (r, w')" by force
  have s1: "idle (old_pool s1)" "\<not> old_running s1" "old_locked s1" using assms keep by (simp_all add: s1_def)
  note run = old_connect_one_run [OF c(1) assms(3) fd r, folded s1_def]
  define s' where "s' = snd (old_connect_one K cfg 0 s)"
  have "idle (old_pool s')" "\<not> old_running s'" "old_locked s'"
    using s1 by (simp_all add: s'_def run old_report_def em_simps)
  moreover have "old_connect_one K cfg 0 s = (Inr False, s') \<or> old_connect_one K cfg 0 s = (Inl (Deadlock ''pool_mutex_''), s')"
    by (simp add: s'_def run)
  ultimately show ?thesis unfolding is0 by (intro exI [of _ s']) (auto simp: em_simps)
qed

lemma connect_fresh:
  assumes "fresh s"
  shows "(\<exists>s'. old_connect K cfg s = (Inr False, s') \<and> fresh s') \<or>
    fst (old_connect K cfg s) = Inl (Deadlock ''pool_mutex_'')"
  using connect_first [of "s\<lparr>old_locked := True\<rparr>" K cfg] assms
  by (auto simp: old_connect_def old_with_lock_def fresh_def em_simps)

lemma connect_spent: "spent s \<Longrightarrow> fst (old_connect K cfg s) = Inl (Undefined ''null connection'')"
  by (auto simp: old_connect_def old_with_lock_def spent_def em_simps old_connect_one_def old_entry_def upt_conv_Cons
      simp del: upt_Suc)

lemma reconnect_spent:
  assumes "spent s"
  shows "fst (old_handle_reconnect K cfg s) = Inl (Undefined ''null connection'')"
proof -
  let ?s = "s\<lparr>old_attempts := old_attempts s + 1\<rparr>"
  have "fst (old_connect K cfg ?s) = Inl (Undefined ''null connection'')"
    using assms by (intro connect_spent) (simp add: spent_def)
  then show ?thesis
    by (cases "old_connect K cfg ?s") (simp add: old_handle_reconnect_def em_simps)
qed

lemma close_entries:
  assumes "idle (old_pool s)" and "\<forall>i \<in> set is. i < length (old_pool s)"
  shows "\<exists>s'. for_each is (old_close_entry K) s = (Inr (), s') \<and> idle (old_pool s') \<and>
    old_locked s' = old_locked s \<and> old_running s' = old_running s"
  using assms
proof (induction "is" arbitrary: s)
  case (Cons i "is")
  obtain c where c: "old_pool s ! i = Some c" "\<not> busy c" using idle_nth Cons.prems by force
  then obtain s1 where "old_close_entry K i s = (Inr (), s1)" "idle (old_pool s1)" "length (old_pool s1) = length (old_pool s)"
    "old_locked s1 = old_locked s" "old_running s1 = old_running s"
    using Cons.prems(1) idle_update [OF Cons.prems(1), of "c\<lparr>socket_fd := - 1\<rparr>" i]
    by (cases "0 \<le> socket_fd c") (auto simp: old_close_entry_def old_entry_def old_set_fd_def em_simps)
  then show ?case using Cons.IH [of s1] Cons.prems(2) by (auto simp: em_simps)
qed (simp add: em_simps)

lemma disconnect_fresh: "fresh s \<Longrightarrow> \<exists>s'. old_disconnect K s = (Inr (), s') \<and> fresh s'"
  using close_entries [of "s\<lparr>old_running := False, old_locked := True\<rparr>" "[0 ..< length (old_pool s)]" K]
  by (auto simp: old_disconnect_def old_with_lock_def fresh_def em_simps)

lemma disconnect_spent: "spent s \<Longrightarrow> fst (old_disconnect K s) = Inl (Undefined ''null connection'')"
  by (auto simp: old_disconnect_def old_with_lock_def spent_def em_simps old_close_entry_def old_entry_def upt_conv_Cons
      simp del: upt_Suc)

subsection \<open>The life of a client\<close>

text \<open>Operations one after the other, up to the first that does not come back: one of a thread that waits
  for itself, or whose behaviour is undefined. What \<open>std::stoi\<close> throws in \<open>llen\<close> leaves the client usable.\<close>

fun old_life :: "'w sockets \<Rightarrow> old_config \<Rightarrow> old_call list \<Rightarrow> 'w old_client \<Rightarrow> (old_call \<times> (err + old_result)) list" where
  "old_life K cfg [] s = []"
| "old_life K cfg (c # cs) s =
     (case old_do K cfg c s of (r, s') \<Rightarrow>
        (c, r) # (case r of Inl e \<Rightarrow> if catchable e then old_life K cfg cs s' else [] | Inr _ \<Rightarrow> old_life K cfg cs s'))"

definition came_back :: "err + old_result \<Rightarrow> bool" where
  "came_back r \<longleftrightarrow> (case r of Inl e \<Rightarrow> catchable e | Inr _ \<Rightarrow> True)"

abbreviation commands_back :: "(old_call \<times> (err + old_result)) list \<Rightarrow> nat" where
  "commands_back xs \<equiv> length (filter (\<lambda>(c, r). is_command c \<and> came_back r) xs)"

definition never_up :: "(old_call \<times> (err + old_result)) list \<Rightarrow> bool" where
  "never_up xs \<longleftrightarrow> (Do_Connect, Inr (Bool_R True)) \<notin> set xs \<and> (Ask_Connected, Inr (Bool_R True)) \<notin> set xs"

lemma pool_calls: "\<not> bookkeeping c \<Longrightarrow> \<not> is_command c \<Longrightarrow> c = Do_Connect \<or> c = Do_Disconnect \<or> c = Do_Reconnect"
  by (auto simp: is_command_def)

lemma fresh_step:
  assumes "fresh s" and "old_do K cfg c s = (r, s')"
  shows "\<not> came_back r \<or> (if is_command c then spent s' else fresh s')" "(c, r) \<noteq> (Do_Connect, Inr (Bool_R True))"
    "(c, r) \<noteq> (Ask_Connected, Inr (Bool_R True))"
proof -
  show "\<not> came_back r \<or> (if is_command c then spent s' else fresh s')"
  proof (cases "bookkeeping c \<or> is_command c")
    case True
    then show ?thesis
      using command_spends [of c K cfg] bookkeeping_keeps [OF _ assms(2)] assms
      by (auto simp: spends_def is_command_def) (metis snd_conv)+
  next
    case False
    with pool_calls show ?thesis
      using connect_fresh [of s K cfg] connect_fresh [of "s\<lparr>old_attempts := old_attempts s + 1\<rparr>" K cfg]
        disconnect_fresh [of s K] assms
      by (fastforce simp: giving_run old_handle_reconnect_def em_simps came_back_def fresh_def
          split: prod.splits sum.splits)
  qed
  show "(c, r) \<noteq> (Do_Connect, Inr (Bool_R True))"
    using connect_fresh [OF assms(1), of K cfg] assms(2) by (auto simp: giving_run split: prod.splits sum.splits)
  show "(c, r) \<noteq> (Ask_Connected, Inr (Bool_R True))"
    using assms bookkeeping_keeps [OF _ assms(2)] by (auto simp: fresh_def bookkeeping_def)
qed

lemma spent_step:
  assumes "spent s" and "old_do K cfg c s = (r, s')"
  shows "if bookkeeping c then spent s' \<and> came_back r else \<not> came_back r" "(c, r) \<noteq> (Do_Connect, Inr (Bool_R True))"
    "(c, r) \<noteq> (Ask_Connected, Inr (Bool_R True))"
proof -
  show r: "if bookkeeping c then spent s' \<and> came_back r else \<not> came_back r"
  proof (cases "bookkeeping c \<or> is_command c")
    case True
    have "is_command c \<Longrightarrow> fst (old_do K cfg c s) = Inl (Undefined ''null connection'')"
      using command_spends [of c K cfg] assms(1) by (simp add: spends_def)
    then show ?thesis
      using True bookkeeping_keeps [OF _ assms(2)] assms by (auto simp: is_command_def came_back_def)
  next
    case False
    have "fst (old_handle_reconnect K cfg s) = Inl (Undefined ''null connection'')"
      by (rule reconnect_spent [OF assms(1)])
    then have "fst (old_do K cfg c s) = Inl (Undefined ''null connection'')"
      using False pool_calls [of c] connect_spent [OF assms(1), of K cfg] disconnect_spent [OF assms(1), of K]
      by (auto simp: giving_run split: prod.split sum.split)
    then show ?thesis using False assms(2) by (simp add: came_back_def)
  qed
  show "(c, r) \<noteq> (Do_Connect, Inr (Bool_R True))" using r by (auto simp: bookkeeping_def came_back_def)
  show "(c, r) \<noteq> (Ask_Connected, Inr (Bool_R True))"
    using assms bookkeeping_keeps [OF _ assms(2)] by (auto simp: spent_def bookkeeping_def)
qed

lemma spent_life: "spent s \<Longrightarrow> commands_back (old_life K cfg cs s) = 0 \<and> never_up (old_life K cfg cs s)"
proof (induction cs arbitrary: s)
  case (Cons c cs)
  obtain r s' where r: "old_do K cfg c s = (r, s')" by force
  show ?case
    using spent_step [OF Cons.prems r] Cons.IH [of s']
    by (cases "bookkeeping c") (auto simp: r never_up_def is_command_def came_back_def split: sum.splits)
qed (simp add: never_up_def)

lemma fresh_life: "fresh s \<Longrightarrow> commands_back (old_life K cfg cs s) \<le> 1 \<and> never_up (old_life K cfg cs s)"
proof (induction cs arbitrary: s)
  case (Cons c cs)
  obtain r s' where r: "old_do K cfg c s = (r, s')" by force
  show ?case
    using fresh_step [OF Cons.prems r] Cons.IH [of s'] spent_life [of s' K cfg cs]
    by (cases "is_command c") (auto simp: r never_up_def came_back_def split: sum.splits)
qed (simp add: never_up_def)

lemma connect_up:
  assumes "fresh s" and "0 \<le> fst (sk_socket K (net s))" and "\<And>fd a p w. fst (sk_connect K fd a p w) \<noteq> Refused"
  shows "fst (old_connect K cfg s) = Inl (Deadlock ''pool_mutex_'')"
proof -
  let ?s = "s\<lparr>old_locked := True\<rparr>"
  obtain c cs where c: "old_pool ?s = Some c # cs" using idle_head assms(1) by (fastforce simp: fresh_def)
  obtain fd w where fd: "sk_socket K (net ?s) = (fd, w)" by force
  obtain r w' where r: "sk_connect K fd (sk_pton K (c_str (oc_host cfg))) (word_of_int (oc_port cfg))
      (sk_timeouts K fd (oc_timeout_ms cfg sdiv 1000) ((oc_timeout_ms cfg smod 1000) * 1000) (sk_nonblock K fd w)) = (r, w')"
    by force
  have "0 \<le> fd" using assms(2) fd by simp
  moreover have "r \<noteq> Refused" by (metis assms(3) fst_conv r)
  ultimately have "fst (old_connect_one K cfg 0 ?s) = Inl (Deadlock ''pool_mutex_'')"
    by (simp add: old_connect_one_run [OF c _ fd r])
  then show ?thesis
    using assms(1) c
    by (cases "old_connect_one K cfg 0 ?s")
      (simp add: old_connect_def old_with_lock_def fresh_def em_simps upt_conv_Cons del: upt_Suc)
qed

subsection \<open>The frames\<close>

text \<open>Requests of the Redis protocol (RESP): an array of bulk strings. The writer and the reader are of
  the protocol, not of the sources.\<close>

definition resp_encode :: "string list \<Rightarrow> string" where
  "resp_encode args = CHR ''*'' # show_nat (length args) @ crlf @
     concat (map (\<lambda>a. CHR ''$'' # show_nat (length a) @ crlf @ a @ crlf) args)"

definition resp_number :: "char \<Rightarrow> string \<Rightarrow> (nat \<times> string) option" where
  "resp_number k s =
     (case s of [] \<Rightarrow> None
      | c # t \<Rightarrow>
          if c \<noteq> k then None
          else (case find_ch (CHR 0x0D) t of None \<Rightarrow> None
                | Some i \<Rightarrow> (case strtol 10 (take i t) of None \<Rightarrow> None
                            | Some n \<Rightarrow> if n < 0 \<or> take 2 (drop i t) \<noteq> crlf then None
                                      else Some (nat n, drop (i + 2) t))))"

fun resp_bulks :: "nat \<Rightarrow> string \<Rightarrow> string list option" where
  "resp_bulks 0 s = (if s = [] then Some [] else None)"
| "resp_bulks (Suc n) s =
     (case resp_number (CHR ''$'') s of None \<Rightarrow> None
      | Some (l, t) \<Rightarrow>
          if take 2 (drop l t) \<noteq> crlf then None
          else map_option (Cons (take l t)) (resp_bulks n (drop (l + 2) t)))"

definition resp_request :: "string \<Rightarrow> string list option" where
  "resp_request s = (case resp_number (CHR ''*'') s of None \<Rightarrow> None | Some (n, t) \<Rightarrow> resp_bulks n t)"

lemma no_cr_in_number: "CHR 0x0D \<notin> set (show_nat n)"
proof
  assume "CHR 0x0D \<in> set (show_nat n)"
  then obtain d where "d < 10" "CHR 0x0D = digit_char d" using show_nat_digits by blast
  then have "\<not> is_space (CHR 0x0D)" using digit_char_plain(1) [of d] by simp
  then show False by (simp add: is_space_def)
qed

lemma resp_number_read: "resp_number k (k # show_nat n @ CHR 0x0D # CHR 0x0A # t) = Some (n, t)"
  using find_ch_first [OF no_cr_in_number, of n "CHR 0x0A # t"]
  by (simp add: resp_number_def strtol_show_nat)

lemma resp_bulks_read:
  "resp_bulks (length args) (concat (map (\<lambda>a. CHR ''$'' # show_nat (length a) @ crlf @ a @ crlf) args)) = Some args"
  by (induction args) (simp_all add: resp_number_read)

lemma resp_reads_back: "resp_request (resp_encode args) = Some args"
  using resp_number_read [of "CHR ''*''" "length args"] resp_bulks_read [of args]
  by (simp add: resp_request_def resp_encode_def)

lemma frame_encodes: "old_frame cmd = resp_encode [cmd]"
  by (simp add: old_frame_def resp_encode_def show_eval)

section \<open>Properties of the first client\<close>

text \<open>C39: A client with a pool answers one command in its life: in any sequence of operations from the
  constructor, at most one command comes back, the next one follows the null pointer the first left in
  the pool; it is never connected, since \<open>connect\<close> can only fail or wait for the mutex it holds itself,
  and it waits exactly when the sockets work.\<close>

theorem old_client_one_command:
  assumes "0 < oc_pool_size cfg"
  shows "commands_back (old_life K cfg cs (old_new K cfg w)) \<le> 1 \<and>
    never_up (old_life K cfg cs (old_new K cfg w)) \<and>
    (0 \<le> fst (sk_socket K w) \<and> (\<forall>fd a p v. fst (sk_connect K fd a p v) \<noteq> Refused) \<longrightarrow>
       fst (old_connect K cfg (old_new K cfg w)) = Inl (Deadlock ''pool_mutex_''))"
  using fresh_life [OF fresh_new [OF assms]] connect_up [OF fresh_new [OF assms, of K w], of K cfg]
  by (simp add: old_new_def)

text \<open>Sockets with a server that answers everything.\<close>

definition good_sockets :: "nat sockets" where
  "good_sockets = \<lparr>sk_socket = (\<lambda>w. (int w, Suc w)), sk_nonblock = (\<lambda>fd w. w), sk_timeouts = (\<lambda>fd a b w. w),
     sk_pton = (\<lambda>h. Some 0), sk_connect = (\<lambda>fd a p w. (Established, w)), sk_send = (\<lambda>fd m w. (True, w)),
     sk_recv = (\<lambda>fd n w. (Some (''+OK'' @ crlf), w)), sk_close = (\<lambda>fd w. w), first_fd = 3, destroy = (\<lambda>fd w. w)\<rparr>"

definition small_pool :: old_config where
  "small_pool = \<lparr>oc_host = ''127.0.0.1'', oc_port = 6379, oc_pool_size = 2, oc_timeout_ms = 1500\<rparr>"

theorem old_client_one_command_witness:
  "commands_back (old_life good_sockets small_pool [Cmd_Set ''k'' ''v'' 0, Ask_Connected, Cmd_Get ''k'']
       (old_new good_sockets small_pool 3)) \<le> 1 \<and>
   fst (old_connect good_sockets small_pool (old_new good_sockets small_pool 3)) = Inl (Deadlock ''pool_mutex_'')"
proof -
  have "0 < oc_pool_size small_pool" by (simp add: small_pool_def)
  from old_client_one_command [OF this, of good_sockets _ 3] show ?thesis
    by (simp add: good_sockets_def del: old_life.simps)
qed

text \<open>C40: Against a server that speaks the Redis protocol no command of the first client has its meaning:
  the frame is a well-formed request of one argument, the whole text, so that the name of the command is
  \<open>SET key "value"\<close> and never \<open>SET\<close>; and \<open>set\<close> reports success in no state, since it compares the reply,
  which ends with CR LF, with \<open>+OK\<close>.\<close>

theorem old_set_unconfirmed:
  assumes "\<And>fd n w r w'. sk_recv K fd n w = (Some r, w') \<Longrightarrow> \<exists>b. r = b @ crlf \<and> CHR 0x00 \<notin> set b"
  shows "resp_request (old_frame cmd) = Some [cmd] \<and>
    resp_request (old_frame (''SET '' @ key @ quoted value)) \<noteq> Some [''SET'', key, value] \<and>
    fst (old_set K key value ttl s) \<noteq> Inr True"
proof -
  have last: "c_str r \<noteq> ''+OK''" if r: "sk_recv K fd n w = (Some r, w')" for fd n w r w'
  proof
    assume ok: "c_str r = ''+OK''"
    obtain b where b: "r = b @ crlf" "CHR 0x00 \<notin> set b" using assms [OF r] by blast
    then have "c_str r = b @ crlf" by (auto simp: c_str_def takeWhile_append2)
    then have "last (c_str r) = CHR 0x0A" by simp
    then show False by (simp add: ok)
  qed
  have reply: "old_send_command K c m t = (Inr ''+OK'', t') \<Longrightarrow> False" for c m t t'
    using last by (auto simp: old_send_command_def em_simps split: if_splits prod.splits option.splits)
  have "fst (old_set K key value ttl s) \<noteq> Inr True"
    using reply by (auto simp: old_set_def old_run_def em_simps split: prod.splits sum.splits option.splits)
  then show ?thesis by (simp add: frame_encodes resp_reads_back)
qed

theorem old_set_unconfirmed_witness:
  "resp_request (old_frame ''PING'') = Some [''PING''] \<and>
   fst (old_set good_sockets ''k'' ''v'' 60 (old_new good_sockets small_pool 3)) = Inr False"
proof -
  let ?s = "old_new good_sockets small_pool 3"
  have replies: "\<And>r. sk_recv good_sockets fd n w = (Some r, w') \<Longrightarrow> \<exists>b. r = b @ crlf \<and> CHR 0x00 \<notin> set b" for fd n w w'
    by (intro exI [of _ "''+OK''"]) (auto simp: good_sockets_def)
  have set: "resp_request (old_frame ''PING'') = Some [''PING''] \<and>
    resp_request (old_frame (''SET '' @ ''k'' @ quoted ''v'')) \<noteq> Some [''SET'', ''k'', ''v''] \<and>
    fst (old_set good_sockets ''k'' ''v'' 60 ?s) \<noteq> Inr True"
    by (rule old_set_unconfirmed) (rule replies)
  obtain t where "fst (old_set good_sockets ''k'' ''v'' 60 ?s) = Inr t"
    by (simp add: old_set_def old_run_def old_acquire_def old_with_lock_def em_simps old_new_def small_pool_def
        old_fresh_connection_def good_sockets_def old_send_command_def old_release_def numeral_2_eq_2)
  then show ?thesis using set by (cases t) simp_all
qed

end
