(* ===== verification/Outcomes.thy ===== *)
theory Outcomes
  imports Http_Session
begin

section \<open>Outcomes of handlers under an invariant\<close>

text \<open>
  A logic for the shapes the handlers are built of: \<open>outcome I C m Q\<close> says that from a state in which \<open>I\<close>
  holds \<open>m\<close> ends in one, that an exception it ends with satisfies \<open>C\<close>, and a value \<open>Q\<close>. The rules are
  collected in \<open>outcome_intros\<close>, so that a route is one application of \<open>intro\<close>.
\<close>

definition outcome :: "('s \<Rightarrow> bool) \<Rightarrow> (err \<Rightarrow> bool) \<Rightarrow> ('s, 'a) em \<Rightarrow> ('a \<Rightarrow> bool) \<Rightarrow> bool" where
  "outcome I C m Q \<longleftrightarrow> (\<forall>s. I s \<longrightarrow> I (snd (m s)) \<and> (case fst (m s) of Inl e \<Rightarrow> C e | Inr x \<Rightarrow> Q x))"

named_theorems outcome_intros \<open>outcomes of the shapes the handlers have\<close>

lemma outcomeD: "outcome I C m Q \<Longrightarrow> I s \<Longrightarrow> m s = (r, s') \<Longrightarrow> I s' \<and> (case r of Inl e \<Rightarrow> C e | Inr x \<Rightarrow> Q x)"
  by (force simp: outcome_def)

lemma outcome_weaken: "outcome I C m Q \<Longrightarrow> (\<And>x. Q x \<Longrightarrow> R x) \<Longrightarrow> outcome I C m R"
  by (fastforce simp: outcome_def split: sum.splits)

lemma outcome_pure [outcome_intros]:
  "Q x \<Longrightarrow> outcome I C (ret x) Q" "C e \<Longrightarrow> outcome I C (raise e) Q"
  by (simp_all add: outcome_def em_simps)

lemma outcome_and_then:
  "outcome I C m R \<Longrightarrow> (\<And>x. R x \<Longrightarrow> outcome I C (k x) Q) \<Longrightarrow> outcome I C (and_then m k) Q"
  by (fastforce simp: outcome_def and_then_run split: prod.split sum.splits)

lemma outcome_lift [outcome_intros]:
  "(\<And>e. r = Inl e \<Longrightarrow> C e) \<Longrightarrow> (\<And>x. r = Inr x \<Longrightarrow> outcome I C (k x) Q) \<Longrightarrow> outcome I C (and_then (lift_sum r) k) Q"
  by (cases r) (auto simp: outcome_def em_simps)

lemma outcome_catch [outcome_intros]:
  "outcome I C m Q \<Longrightarrow> (\<And>e. C e \<Longrightarrow> catchable e \<Longrightarrow> outcome I C (h e) Q) \<Longrightarrow> outcome I C (catch_any m h) Q"
  by (fastforce simp: outcome_def catch_any_run split: prod.split sum.splits)

lemma outcome_branches [outcome_intros]:
  "(b \<Longrightarrow> outcome I C m Q) \<Longrightarrow> (\<not> b \<Longrightarrow> outcome I C n Q) \<Longrightarrow> outcome I C (if b then m else n) Q"
  "(l = [] \<Longrightarrow> outcome I C m Q) \<Longrightarrow> (\<And>x xs. l = x # xs \<Longrightarrow> outcome I C (k x xs) Q) \<Longrightarrow>
   outcome I C (case l of [] \<Rightarrow> m | x # xs \<Rightarrow> k x xs) Q"
  by (simp_all split: list.split)

lemma outcome_json_body [outcome_intros]:
  "(\<And>e. j_parse (hlib E) (req_body req) = Inl e \<Longrightarrow> C e) \<Longrightarrow> (\<And>j. outcome I C (k j) Q) \<Longrightarrow>
   Q (error_resp E 400 ''Invalid JSON'') \<Longrightarrow> outcome I C (with_json_body E req k) Q"
  by (auto simp: with_json_body_def intro!: outcome_pure split: sum.split)

lemma outcome_try [outcome_intros]:
  "outcome I C m Q \<Longrightarrow> Q (error_resp E 500 ''Server error'') \<Longrightarrow> outcome I C (try_500 E m) Q"
  unfolding try_500_def by (intro outcome_intros)

lemma outcome_body_str [outcome_intros]:
  "(\<And>e. j_value_str (hlib E) j key d = Inl e \<Longrightarrow> C e) \<Longrightarrow> (\<And>x. outcome I C (k x) Q) \<Longrightarrow>
   outcome I C (and_then (body_str E j key d) k) Q"
  unfolding body_str_def by (rule outcome_lift)

lemma error_status [simp]: "resp_status (error_resp E st t) = st" "resp_status (json_resp E st j) = st"
  by (simp_all add: error_resp_def json_resp_def)

text \<open>Requests one after the other.\<close>

fun serve_all :: "('r, 'd) henv \<Rightarrow> (route \<times> request) list \<Rightarrow> ('r, 'd) http \<Rightarrow> (err + response) list \<times> ('r, 'd) http" where
  "serve_all E [] s = ([], s)"
| "serve_all E ((r, req) # rs) s =
     (case handle E r req s of (x, s1) \<Rightarrow> (case serve_all E rs s1 of (xs, s2) \<Rightarrow> (x # xs, s2)))"

lemma serve_all_outcomes:
  assumes "\<And>r req. (r, req) \<in> set rs \<Longrightarrow> outcome I C (handle E r req) (Q r req)"
    and "I s" and "serve_all E rs s = (xs, s')"
  shows "I s' \<and> length xs = length rs \<and>
    (\<forall>i < length rs. (\<forall>e. xs ! i = Inl e \<longrightarrow> C e) \<and> (\<forall>resp. xs ! i = Inr resp \<longrightarrow> Q (fst (rs ! i)) (snd (rs ! i)) resp))"
  using assms
proof (induction rs arbitrary: s xs)
  case (Cons p rs)
  obtain r req where p: "p = (r, req)" by force
  obtain x s1 where x: "handle E r req s = (x, s1)" by force
  obtain ys where ys: "serve_all E rs s1 = (ys, s')" "xs = x # ys"
    using Cons.prems(3) x by (auto simp: p split: prod.splits)
  have "I s1 \<and> (\<forall>e. x = Inl e \<longrightarrow> C e) \<and> (\<forall>resp. x = Inr resp \<longrightarrow> Q r req resp)"
    using outcomeD [OF Cons.prems(1) Cons.prems(2) x] by (auto simp: p)
  then show ?case
    using Cons.IH [OF Cons.prems(1) _ ys(1)] by (auto simp: p ys(2) nth_Cons less_Suc_eq_0_disj split: nat.split)
qed simp

end
