(* ===== verification/No_Database.thy ===== *)
theory No_Database
  imports Tables_Props Outcomes
begin

section \<open>The HTTP server without its database\<close>

text \<open>
  \<open>PgDb\<close> connects once, in its constructor, and nothing connects it again. What the routes answer
  while the connection is missing, for all routes and any sequence of requests; no exception is excluded
  (\<open>yields\<close>).
\<close>

subsection \<open>A missing connection\<close>

text \<open>The connection was never made, or it is lost: the status is bad, and libpq answers every statement
  with an error about the connection (which is not about a unique key), without effect.\<close>

definition db_lost :: "'d libpq \<Rightarrow> 'd pgdb \<Rightarrow> bool" where
  "db_lost P db \<longleftrightarrow> \<not> db_connected P db \<and>
     (db_conn db \<longrightarrow> (\<forall>q ps. \<exists>res e. pq_exec P q ps (db_server db) = (res, db_server db) \<and>
        pg_status res = Pg_Error e \<and> find_str ''unique'' e = None))"

lemma lost_statement:
  assumes "db_lost P db"
  shows "\<exists>t. query P q ps db = (Inl (Runtime_Error t), db) \<and> find_str ''unique'' t = None"
    "\<exists>t. exec P q ps db = (Inl (Runtime_Error t), db)"
proof -
  have "\<exists>res e. pq_exec P q (map c_str ps) (db_server db) = (res, db_server db) \<and> pg_status res = Pg_Error e \<and>
      find_str ''unique'' e = None" if "db_conn db" using assms that by (simp add: db_lost_def)
  then show "\<exists>t. query P q ps db = (Inl (Runtime_Error t), db) \<and> find_str ''unique'' t = None"
    "\<exists>t. exec P q ps db = (Inl (Runtime_Error t), db)"
    by (cases "db_conn db"; force simp: query_def exec_def)+
qed

abbreviation yields :: "('s \<Rightarrow> bool) \<Rightarrow> ('s, 'a) em \<Rightarrow> ('a \<Rightarrow> bool) \<Rightarrow> bool" where
  "yields I m Q \<equiv> outcome I (\<lambda>_. True) m Q"

abbreviation db_is :: "'d pgdb \<Rightarrow> ('r, 'd) http \<Rightarrow> bool" where
  "db_is db s \<equiv> hdb s = db"

lemma lost_query: "db_lost (hpq E) db \<Longrightarrow> yields (db_is db) (db_query E q ps) (\<lambda>_. False)"
  using lost_statement(1) [of "hpq E" db q ps]
  by (auto simp: outcome_def db_query_def http_db_run)

lemma lost_exec: "db_lost (hpq E) db \<Longrightarrow> yields (db_is db) (db_exec E q ps) (\<lambda>_. False)"
  using lost_statement(2) [of "hpq E" db q ps]
  by (auto simp: outcome_def db_exec_def http_db_run)

lemma lost_then [outcome_intros]:
  assumes "db_lost (hpq E) db"
  shows "yields (db_is db) (and_then (db_query E q ps) k) Q" "yields (db_is db) (and_then (db_exec E q ps') k') Q"
  by (rule outcome_and_then, rule lost_query lost_exec, rule assms, simp)+

subsection \<open>The shapes of handlers\<close>

abbreviation refusal :: "response \<Rightarrow> bool" where
  "refusal resp \<equiv> resp_status resp \<in> {400, 401, 500, 503}"

lemma authenticate_refusal: "authenticate_request E h s = (Inr ([], st), s') \<Longrightarrow> st = 401 \<or> st = 503"
  by (auto simp: authenticate_request_def check_session_def Let_def em_simps split: if_splits prod.splits sum.splits)

lemma lost_guarded [outcome_intros]:
  assumes "\<And>u. yields (db_is db) (k u req) Q" and "\<And>resp. refusal resp \<Longrightarrow> Q resp"
  shows "yields (db_is db) (guarded E k req) Q"
proof -
  have "yields (db_is db) (authenticate_request E h) (\<lambda>(u, st). u = [] \<longrightarrow> st = 401 \<or> st = 503)" for h
  proof -
    have "hdb (snd (authenticate_request E h s)) = hdb s" for s
      using gate.auth_data [of E h s] by (cases "authenticate_request E h s") simp
    moreover have "fst (authenticate_request E h s) = Inr (u, st) \<Longrightarrow> u = [] \<Longrightarrow> st = 401 \<or> st = 503" for s u st
      using authenticate_refusal [of E h s st] by (cases "authenticate_request E h s") simp
    ultimately show ?thesis by (auto simp: outcome_def split: sum.split)
  qed
  then show ?thesis
    unfolding guarded_def by (rule outcome_and_then) (auto intro!: outcome_intros assms)
qed

lemma lost_clock [outcome_intros]:
  "(\<And>x. yields (db_is db) (k x) Q) \<Longrightarrow> yields (db_is db) (and_then (http_time E) k) Q"
  "(\<And>x. yields (db_is db) (k' x) Q) \<Longrightarrow> yields (db_is db) (and_then (http_draw f) k') Q"
  by (auto simp: outcome_def em_simps http_clock_run)

subsection \<open>The routes\<close>

text \<open>A handler that looks at the text of the exception.\<close>

lemma lost_catch_text:
  assumes "db_lost (hpq E) db" and "\<And>t. find_str ''unique'' t = None \<Longrightarrow> yields (db_is db) (h (Runtime_Error t)) Q"
  shows "yields (db_is db) (catch_any (and_then (db_query E q ps) k) h) Q"
  using lost_statement(1) [OF assms(1), of q ps] assms(2)
  by (fastforce simp: outcome_def em_simps db_query_def)

lemma lost_create_channel:
  assumes "db_lost (hpq E) db"
  shows "yields (db_is db) (route_create_channel E req) refusal"
  unfolding route_create_channel_def
  by (intro lost_guarded outcome_json_body outcome_body_str outcome_lift outcome_branches outcome_pure lost_catch_text assms)
    (simp_all add: what_def)

lemma lost_found:
  assumes "db_lost (hpq E) db" and "yields (db_is db) (k None) Q"
  shows "yields (db_is db) (and_then (catch_any (and_then (db_query E q ps) (\<lambda>rows. ret (Some rows))) (\<lambda>_. ret None)) k) Q"
proof -
  have "yields (db_is db) (catch_any (and_then (db_query E q ps) (\<lambda>rows. ret (Some rows))) (\<lambda>_. ret None)) (\<lambda>x. x = None)"
    by (intro outcome_intros assms(1)) simp
  then show ?thesis by (rule outcome_and_then) (simp add: assms(2))
qed

lemma lost_checks:
  assumes "db_lost (hpq E) db" and "yields (db_is db) (k (Some (error_resp E 500 ''Server error''))) Q"
  shows "yields (db_is db) (and_then (register_checks E u e p) k) Q"
proof -
  have "yields (db_is db) (register_checks E u e p) (\<lambda>r. r = Some (error_resp E 500 ''Server error''))"
    unfolding register_checks_def by (intro outcome_intros assms(1)) simp
  then show ?thesis by (rule outcome_and_then) (simp add: assms(2))
qed

lemma lost_sign_in:
  assumes "db_lost (hpq E) db"
  shows "yields (db_is db) (route_verify_otp E req) refusal" "yields (db_is db) (route_register E req) refusal"
  unfolding route_verify_otp_def route_register_def
  by (intro outcome_intros lost_found lost_checks assms; simp add: outcome_intros)+

text \<open>What can be answered without it: the routes that answer an empty search themselves, and the
  health route.\<close>

definition lost_reply :: "('r, 'd) henv \<Rightarrow> route \<Rightarrow> request \<Rightarrow> response \<Rightarrow> bool" where
  "lost_reply E r req resp \<longleftrightarrow> refusal resp \<or>
     (r = Health \<and> (\<exists>t. resp = json_resp E 200 (jobj [(''status'', JStr ''db_error''), (''db'', JBool False), (''ts'', JInt t)]))) \<or>
     ((r = Search_Users \<or> (\<exists>c. r = Search_Messages c)) \<and> param req ''q'' = [] \<and> resp = json_resp E 200 (JArr []))"

lemma lost_health:
  assumes "db_lost (hpq E) db"
  shows "yields (db_is db) (route_health E req) (lost_reply E Health req)"
  using assms by (auto simp: outcome_def route_health_def em_simps http_clock_run db_lost_def lost_reply_def)

lemma lost_route:
  assumes "db_lost (hpq E) db"
  shows "yields (db_is db) (handle E r req) (lost_reply E r req)"
proof -
  have weaken: "yields I m refusal \<Longrightarrow> yields I m (lost_reply E r req)" for I m
    by (erule outcome_weaken) (simp add: lost_reply_def)
  have posts: "yields (db_is db) (and_then (if b then db_query E q ps else db_query E q' ps') k) Q" for b q q' ps ps' k Q
    by (cases b) (simp_all add: lost_then(1) [OF assms])
  note lost = outcome_intros posts assms
  note whole = lost_health weaken [OF lost_sign_in(1)] weaken [OF lost_sign_in(2)] weaken [OF lost_create_channel]
  show ?thesis
  proof (cases "r \<in> {Health, Verify_Otp, Register, Create_Channel}")
    case True
    then show ?thesis using assms whole by auto
  next
    case False
    then show ?thesis
      by (cases r; simp only: handle.simps route_defs member_gate_def Let_def; (intro lost)?; simp add: lost_reply_def)
  qed
qed

section \<open>Property without the database\<close>

text \<open>C9: Without its database the server stays without it: if the connection failed at the start, or is
  lost, then whatever requests come, in whatever order, none of them reconnects and no statement has
  an effect; every request that is answered gets a refusal (400, 401, 503, or 500 where a statement was
  due), except an empty search, and the health route, which answers 200 with the text db_error. The
  migrations are skipped silently.\<close>

theorem no_database_for_good:
  assumes "db_lost (hpq E) (hdb s)" and "serve_all E rs s = (xs, s')"
  shows "hdb s' = hdb s \<and> run_migrations (hpq E) (hdb s') = (Inr (), hdb s) \<and> length xs = length rs \<and>
    (\<forall>i < length rs. \<forall>resp. xs ! i = Inr resp \<longrightarrow> lost_reply E (fst (rs ! i)) (snd (rs ! i)) resp)"
proof -
  note all = serve_all_outcomes [OF lost_route [OF assms(1)] refl assms(2)]
  then show ?thesis
    using assms(1) by (auto simp: run_migrations_def db_lost_def split: sum.splits)
qed

definition no_pq :: "unit libpq" where
  "no_pq = demo_pq\<lparr>pq_connect := (\<lambda>url d. (False, d)), pq_alive := (\<lambda>d. False)\<rparr>"

theorem no_database_for_good_witness:
  "let E = demo_henv JNull no_pq in
   \<exists>s xs s'. http_new E ''postgresql://db/x'' '''' () = Inr s \<and>
     serve_all E [(Health, demo_request), (Get_Me, demo_request)] (s\<lparr>hredis := demo_client\<rparr>) = (xs, s') \<and>
     hdb s' = \<lparr>db_conn = False, db_server = ()\<rparr> \<and>
     xs ! 1 = Inr (error_resp E 500 ''Server error'') \<and> lost_reply E Get_Me demo_request (error_resp E 500 ''Server error'')"
proof -
  let ?E = "demo_henv JNull no_pq"
  let ?db = "\<lparr>db_conn = False, db_server = ()\<rparr>"
  obtain s where s: "http_new ?E ''postgresql://db/x'' '''' () = Inr s" "hdb s = ?db"
    by (simp add: http_new_def demo_henv_def demo_sodium_def toy_sodium_def pgdb_new_def no_pq_def)
  let ?s = "s\<lparr>hredis := demo_client\<rparr>"
  obtain xs s' where xs: "serve_all ?E [(Health, demo_request), (Get_Me, demo_request)] ?s = (xs, s')" by force
  have "xs ! 1 = Inr (error_resp ?E 500 ''Server error'')"
    using xs s(2)
    by (auto simp: route_health_def em_simps http_clock_run route_get_me_def demo_guarded try_500_def db_query_def
        http_db_run query_def)
  moreover have "db_lost (hpq ?E) (hdb ?s)"
    by (simp add: s(2) db_lost_def db_connected_def)
  note no_database_for_good [OF this xs]
  ultimately show ?thesis
    unfolding Let_def using s xs by (intro exI [of _ s] exI [of _ xs] exI [of _ s']) (auto dest!: spec [of _ "1::nat"])
qed

end
