(* ===== verification/Program.thy ===== *)
theory Program
  imports Http_Props Database_Props Shutdown
begin

section \<open>The program as a whole (main.cpp, HttpApi::run)\<close>

text \<open>
  \<open>main\<close> from its arguments to the running servers, and then the program as a step relation over its
  threads: the thread that starts the messaging server, the one that connects the Redis client of the
  HTTP server, the one that runs the migrations, the handlers of requests and of the WebSocket route,
  and signals. A statement on the database is one step (\<open>PgDb::mutex_\<close>) where the migrations are
  concerned, a request is one. A handler that throws, or waits for itself, leaves the state it had
  reached; nothing is claimed of a process after undefined behaviour. Three members of \<open>HttpApi\<close> that nothing calls stand at the end.
\<close>

subsection \<open>main\<close>

text \<open>The thread that \<open>run\<close> detaches: it sleeps, then looks for the connection, then executes the
  migrations until one fails.\<close>

datatype migrating = Sleeping | Executing "ddl list" | Finished

record ('r, 'd) program =
  proc :: "'r process"
  api :: "('r, 'd) http"
  migration :: migrating
  start_due :: bool
  redis_due :: bool

definition http_run :: "('r, 'd) program \<Rightarrow> ('r, 'd) program" where
  "http_run p = p\<lparr>migration := Sleeping, proc := (proc p)\<lparr>http_serving := True\<rparr>\<rparr>"

text \<open>The libraries come as parameters; an exception before \<open>run\<close> is caught nowhere.\<close>

definition main_start ::
    "json_lib \<Rightarrow> sodium \<Rightarrow> clock \<Rightarrow> 'r hiredis \<Rightarrow> 'd libpq \<Rightarrow> (string \<Rightarrow> string option) \<Rightarrow> string list \<Rightarrow> 'r \<Rightarrow> 'r \<Rightarrow> 'd
      \<Rightarrow> err + (('r, 'd) henv \<times> 'r env \<times> ('r, 'd) program)" where
  "main_start L S C h P getenv args w r d =
     (case settings_of getenv args of
        Inl e \<Rightarrow> Inl e
      | Inr c \<Rightarrow>
          (let M = \<lparr>lib = L, sod = S, clk = C, hir = h\<rparr>; E = http_env_of L S C h P c
           in case ws_server_of M c \<lparr>sodium_initialized = False, draws = 0\<rparr> w of
                Inl e \<Rightarrow> Inl e
              | Inr ms \<Rightarrow>
                  (case http_new E (db_url c) r d of
                     Inl e \<Rightarrow> Inl e
                   | Inr a \<Rightarrow>
                       Inr (E, M, http_run
                         \<lparr>proc = \<lparr>http_serving = False, g_http_api = True, g_ws_server = Some ms, exit_code = None\<rparr>,
                          api = a, migration = Finished, start_due = True, redis_due = True\<rparr>))))"

subsection \<open>The threads\<close>

text \<open>One step of the migration thread.\<close>

definition migrate :: "'d libpq \<Rightarrow> ('r, 'd) program \<Rightarrow> ('r, 'd) program" where
  "migrate P p =
     (case migration p of
        Sleeping \<Rightarrow> p\<lparr>migration := if db_connected P (hdb (api p)) then Executing migrations else Finished\<rparr>
      | Executing [] \<Rightarrow> p\<lparr>migration := Finished\<rparr>
      | Executing (m # ms) \<Rightarrow>
          (case exec P (Ddl m) [] (hdb (api p)) of
             (Inl e, db) \<Rightarrow> p\<lparr>api := (api p)\<lparr>hdb := db\<rparr>, migration := Finished\<rparr>
           | (Inr _, db) \<Rightarrow> p\<lparr>api := (api p)\<lparr>hdb := db\<rparr>, migration := Executing ms\<rparr>)
      | Finished \<Rightarrow> p)"

definition with_ws :: "('r messenger \<Rightarrow> 'r messenger) \<Rightarrow> ('r, 'd) program \<Rightarrow> ('r, 'd) program" where
  "with_ws f p = p\<lparr>proc := (proc p)\<lparr>g_ws_server := map_option f (g_ws_server (proc p))\<rparr>\<rparr>"

definition with_api :: "(('r, 'd) http \<Rightarrow> ('r, 'd) http) \<Rightarrow> ('r, 'd) program \<Rightarrow> ('r, 'd) program" where
  "with_api f p = p\<lparr>api := f (api p)\<rparr>"

inductive program_step :: "('r, 'd) henv \<Rightarrow> 'r env \<Rightarrow> ('r, 'd) program \<Rightarrow> ('r, 'd) program \<Rightarrow> bool"
  for E :: "('r, 'd) henv" and M :: "'r env" where
  Step_Migrate: "exit_code (proc p) = None \<Longrightarrow> program_step E M p (migrate (hpq E) p)"
| Step_Start: "exit_code (proc p) = None \<Longrightarrow> start_due p \<Longrightarrow>
    program_step E M p (with_ws (\<lambda>m. snd (ws_thread M 5 m)) (p\<lparr>start_due := False\<rparr>))"
| Step_Redis: "exit_code (proc p) = None \<Longrightarrow> redis_due p \<Longrightarrow>
    program_step E M p (with_api (\<lambda>s. snd (http_redis (connect (hredis_lib E) (hredis_cfg E)) s)) (p\<lparr>redis_due := False\<rparr>))"
| Step_Request: "exit_code (proc p) = None \<Longrightarrow> http_serving (proc p) \<Longrightarrow>
    program_step E M p (with_api (\<lambda>s. snd (handle E r req s)) p)"
| Step_Open: "exit_code (proc p) = None \<Longrightarrow> http_serving (proc p) \<Longrightarrow>
    program_step E M p (with_ws (\<lambda>m. snd (ws_open M address m)) p)"
| Step_Message: "exit_code (proc p) = None \<Longrightarrow> http_serving (proc p) \<Longrightarrow>
    program_step E M p (with_ws (\<lambda>m. snd (ws_message_event M junk cid data m)) p)"
| Step_Close: "exit_code (proc p) = None \<Longrightarrow> http_serving (proc p) \<Longrightarrow>
    program_step E M p (with_ws (\<lambda>m. snd (ws_close M cid m)) p)"
| Step_Signal: "exit_code (proc p) = None \<Longrightarrow>
    program_step E M p (p\<lparr>proc := snd (signal_handler M sig (proc p))\<rparr>)"

inductive_cases program_stepE: "program_step E M p q"

subsection \<open>Members of HttpApi that nothing calls\<close>

text \<open>libsodium's \<open>crypto_pwhash_str\<close>, by the number of draws, and \<open>crypto_pwhash_str_verify\<close>.\<close>

record pwhash_lib =
  pw_str :: "nat \<Rightarrow> string \<Rightarrow> string option"
  pw_verify :: "string \<Rightarrow> string \<Rightarrow> bool"

definition hash_password :: "pwhash_lib \<Rightarrow> string \<Rightarrow> (('r, 'd) http, string) em" where
  "hash_password W pw =
     and_then (http_draw (\<lambda>n. pw_str W n pw)) (\<lambda>h.
     case h of None \<Rightarrow> raise (Runtime_Error ''Password hashing failed (OOM?)'') | Some b \<Rightarrow> ret (c_str b))"

definition verify_password :: "pwhash_lib \<Rightarrow> string \<Rightarrow> string \<Rightarrow> bool" where
  "verify_password W pw h = pw_verify W (c_str h) pw"

definition authenticate_request_user :: "('r, 'd) henv \<Rightarrow> string \<Rightarrow> (('r, 'd) http, string) em" where
  "authenticate_request_user E header = and_then (authenticate_request E header) (\<lambda>(u, st). ret u)"

section \<open>Properties of the whole program\<close>

lemma hashed_password_verifies:
  assumes "hash_password W pw s = (Inr h, s')"
    and "\<And>n b. pw_str W n pw = Some b \<Longrightarrow> pw_verify W (c_str b) pw"
  shows "verify_password W pw h"
proof -
  have "c_str (c_str x) = c_str x" for x by (simp add: c_str_def takeWhile_idem)
  then show ?thesis
    using assms by (auto simp: hash_password_def verify_password_def em_simps http_draw_def split: option.splits)
qed

subsection \<open>Starting\<close>

lemma main_start_runs:
  assumes "settings_of getenv args = Inr c" and "0 \<le> sodium_init S"
  shows "\<exists>ms a. main_start L S C h P getenv args w r d =
    Inr (http_env_of L S C h P c, \<lparr>lib = L, sod = S, clk = C, hir = h\<rparr>,
      \<lparr>proc = \<lparr>http_serving = True, g_http_api = True, g_ws_server = Some ms, exit_code = None\<rparr>,
       api = a, migration = Sleeping, start_due = True, redis_due = True\<rparr>) \<and>
    \<not> ms_running ms \<and> hdb a = pgdb_new P (db_url c) d \<and> hticks a = 0"
  using assms
  by (simp add: main_start_def ws_server_of_def messenger_new_def initialize_def generate_keypair_def
      ensure_init_def em_simps draw_def http_new_def http_env_of_def http_run_def Let_def split: prod.split)

lemma main_start_fails:
  assumes "main_start L S C h P getenv args w r d = Inl e"
  shows "settings_of getenv args = Inl e \<or> sodium_init S < 0"
proof (rule disjCI)
  assume "\<not> sodium_init S < 0"
  then show "settings_of getenv args = Inl e"
    using assms main_start_runs [of getenv args _ S L C h P w r d]
    by (cases "settings_of getenv args") (auto simp: main_start_def)
qed

lemma parse_args_errors: "parse_args args c = Inl e \<Longrightarrow> e = Invalid_Argument \<or> e = Out_Of_Range"
proof -
  have "stoi x = Inl e \<Longrightarrow> e = Invalid_Argument \<or> e = Out_Of_Range" for x
    by (auto simp: stoi_def stoi_base_def split: option.splits if_splits)
  then show "parse_args args c = Inl e \<Longrightarrow> e = Invalid_Argument \<or> e = Out_Of_Range"
    by (induction args c rule: parse_args.induct) (auto split: if_splits sum.splits)
qed

lemma health_200: "\<exists>j s'. route_health E req s = (Inr (json_resp E 200 j), s')"
  by (auto simp: route_health_def em_simps http_time_def)

text \<open>The start depends on no service: whatever Redis and PostgreSQL do, \<open>main\<close> ends up serving, with the
  thread of the messaging server, that of Redis and the migrations still to run, and the health route
  answers 200; it fails only for a port argument that is not an \<open>int\<close>, or when libsodium does not
  initialise.\<close>

theorem starts_without_services:
  assumes "0 \<le> sodium_init S"
  shows "case main_start L S C h P getenv args w r d of
      Inl e \<Rightarrow> settings_of getenv args = Inl e \<and> (e = Invalid_Argument \<or> e = Out_Of_Range)
    | Inr (E, M, p) \<Rightarrow> http_serving (proc p) \<and> exit_code (proc p) = None \<and> start_due p \<and> redis_due p \<and>
        migration p = Sleeping \<and> (\<exists>c. settings_of getenv args = Inr c \<and> hsecret E = jwt_secret c) \<and>
        (\<forall>req. \<exists>j s'. handle E Health req (api p) = (Inr (json_resp E 200 j), s'))"
proof (cases "settings_of getenv args")
  case (Inl e)
  moreover from Inl have "e = Invalid_Argument \<or> e = Out_Of_Range"
    unfolding settings_of_def by (rule parse_args_errors)
  ultimately show ?thesis by (simp add: main_start_def)
next
  case (Inr c)
  from main_start_runs [OF this assms, of L C h P w r d] show ?thesis
    using Inr health_200 by (auto simp: http_env_of_def)
qed

subsection \<open>Any interleaving of the threads\<close>

definition tables_made :: "ddl list \<Rightarrow> string set" where
  "tables_made ms = set (concat (map ddl_makes ms))"

text \<open>Where the migrations are: what was executed is there, whatever happened in between.\<close>

definition migrated :: "('d \<Rightarrow> string set) \<Rightarrow> ('r, 'd) program \<Rightarrow> bool" where
  "migrated tabs p \<longleftrightarrow>
     (case migration p of
        Sleeping \<Rightarrow> True
      | Executing ms \<Rightarrow> \<exists>done. migrations = done @ ms \<and> tables_made done \<subseteq> tabs (db_server (hdb (api p)))
      | Finished \<Rightarrow> tables_made migrations \<subseteq> tabs (db_server (hdb (api p))))"

definition program_ok :: "('d \<Rightarrow> string set) \<Rightarrow> ('r, 'd) program \<Rightarrow> bool" where
  "program_ok tabs p \<longleftrightarrow> exit_code (proc p) \<in> {None, Some 0} \<and> g_ws_server (proc p) \<noteq> None \<and>
     db_conn (hdb (api p)) \<and> migrated tabs p"

text \<open>A server whose connection stays, and whose other statements drop no table.\<close>

definition steady_server :: "'d libpq \<Rightarrow> ('d \<Rightarrow> string set) \<Rightarrow> bool" where
  "steady_server P tabs \<longleftrightarrow> ddl_server P tabs \<and> (\<forall>d. pq_alive P d) \<and>
     (\<forall>q ps d. (\<forall>m. q \<noteq> Ddl m) \<longrightarrow> tabs d \<subseteq> tabs (snd (pq_exec P q ps d)))"

lemma routes_without_ddl: "Ddl m \<notin> route_statements r"
  by (cases r) auto

lemma handle_tables:
  assumes "steady_server (hpq E) tabs" and "db_conn (hdb s)"
  shows "db_conn (hdb (snd (handle E r req s))) \<and>
    tabs (db_server (hdb s)) \<subseteq> tabs (db_server (hdb (snd (handle E r req s))))"
proof -
  let ?I = "\<lambda>db. db_conn db \<and> tabs (db_server (hdb s)) \<subseteq> tabs (db_server db)"
  have "keeps_stmt ?I (hpq E) q" if q: "q \<in> route_statements r" for q
  proof -
    have "\<forall>m. q \<noteq> Ddl m" using q routes_without_ddl [of _ r] by blast
    then have "tabs d \<subseteq> tabs (snd (pq_exec (hpq E) q ps d))" for ps d
      using assms(1) by (simp add: steady_server_def)
    then show ?thesis unfolding keeps_stmt_def by (simp, blast)
  qed
  then have "maintains (holds ?I) (handle E r req)" by (rule route_holds)
  then show ?thesis using assms(2) by (simp add: maintains_def)
qed

lemma in_order_split: "in_order made (xs @ m # ys) \<Longrightarrow> set (ddl_needs m) \<subseteq> set made \<union> tables_made xs"
  by (induction made xs rule: in_order.induct) (auto simp: tables_made_def list_all_iff)

lemma migrate_ok:
  assumes "steady_server P tabs" and "program_ok tabs p"
  shows "program_ok tabs (migrate P p)"
proof (cases "migration p")
  case Sleeping
  have "db_connected P (hdb (api p))" using assms by (simp add: db_connected_def steady_server_def program_ok_def)
  then show ?thesis
    using assms Sleeping by (simp add: migrate_def program_ok_def migrated_def tables_made_def)
next
  case (Executing ms)
  then obtain made where ms: "migrations = made @ ms" "tables_made made \<subseteq> tabs (db_server (hdb (api p)))"
    using assms(2) by (auto simp: program_ok_def migrated_def)
  show ?thesis
  proof (cases ms)
    case Nil
    then show ?thesis using assms(2) Executing ms by (simp add: migrate_def program_ok_def migrated_def)
  next
    case (Cons m ms')
    obtain res d where d: "pq_exec P (Ddl m) [] (db_server (hdb (api p))) = (res, d)" by force
    have "set (ddl_needs m) \<subseteq> tabs (db_server (hdb (api p)))"
      using in_order_split [of "[]" made m ms'] migrations_in_order ms Cons by auto
    then have "pg_status res = Command_Ok" "tabs d = tabs (db_server (hdb (api p))) \<union> set (ddl_makes m)"
      using assms(1) d unfolding steady_server_def ddl_server_def by (metis fst_conv snd_conv)+
    moreover from this ms(2) have "tables_made (made @ [m]) \<subseteq> tabs d" by (auto simp: tables_made_def)
    moreover have "migrations = (made @ [m]) @ ms'" by (simp add: ms(1) Cons)
    ultimately have "\<exists>done. migrations = done @ ms' \<and> tables_made done \<subseteq> tabs d" by blast
    then show ?thesis
      using assms(2) Executing Cons d \<open>pg_status res = Command_Ok\<close>
      by (simp add: migrate_def exec_def program_ok_def migrated_def)
  qed
qed (use assms in \<open>simp add: migrate_def\<close>)

lemma program_step_ok:
  assumes "program_step E M p q" and "steady_server (hpq E) tabs" and "program_ok tabs p"
  shows "program_ok tabs q"
  using assms(1)
proof cases
  case Step_Migrate
  then show ?thesis using migrate_ok [OF assms(2,3)] by simp
next
  case (Step_Request r req)
  then show ?thesis
    using assms(3) handle_tables [OF assms(2), of "api p" r req]
    by (auto simp: program_ok_def migrated_def with_api_def split: migrating.splits)
next
  case (Step_Signal sig)
  then show ?thesis
    using assms(3)
    by (auto simp: program_ok_def migrated_def signal_handler_def stop_http_def stop_ws_def em_simps
        split: migrating.splits prod.splits sum.splits option.splits)
qed (use assms(3) in \<open>auto simp: program_ok_def migrated_def with_ws_def with_api_def http_redis_run
    split: migrating.splits prod.splits\<close>)

interpretation program: invariant_system "program_ok tabs" "program_step E M"
  "\<lambda>p. steady_server (hpq E) tabs \<longrightarrow> program_ok tabs p" for tabs E M
  by unfold_locales (simp, blast intro: program_step_ok)

fun statements_left :: "migrating \<Rightarrow> nat" where
  "statements_left Sleeping = length migrations + 2"
| "statements_left (Executing ms) = length ms + 1"
| "statements_left Finished = 0"

lemma migrate_left:
  "migration p \<noteq> Finished \<Longrightarrow> statements_left (migration (migrate P p)) < statements_left (migration p)"
  by (auto simp: migrate_def split: migrating.split list.split prod.split sum.split)

lemma migrate_proc: "proc (migrate P p) = proc p"
  by (simp add: migrate_def split: migrating.split list.split prod.split sum.split)

lemma migration_ends:
  assumes "exit_code (proc p) = None"
  shows "\<exists>q. (program_step E M)\<^sup>*\<^sup>* p q \<and> migration q = Finished \<and> proc q = proc p"
  using assms
proof (induction "statements_left (migration p)" arbitrary: p rule: less_induct)
  case less
  show ?case
  proof (cases "migration p = Finished")
    case False
    let ?p = "migrate (hpq E) p"
    from less.hyps [OF migrate_left [OF False], of "hpq E"] less.prems obtain q where
      "(program_step E M)\<^sup>*\<^sup>* ?p q" "migration q = Finished" "proc q = proc p"
      by (auto simp: migrate_proc)
    moreover have "program_step E M p ?p" using less.prems by (rule Step_Migrate)
    ultimately show ?thesis by (meson converse_rtranclp_into_rtranclp)
  qed auto
qed

lemma main_started:
  assumes "main_start L S C h P getenv args w r d = Inr (E, M, p)"
  shows "hpq E = P \<and> migration p = Sleeping \<and> exit_code (proc p) = None \<and> g_ws_server (proc p) \<noteq> None"
  using assms by (auto simp: main_start_def Let_def http_run_def http_env_of_def split: sum.splits)


lemma table_server_steady: "steady_server table_server set"
  by (auto simp: steady_server_def table_server_ddl) (auto simp: table_server_def split: sql.split)

definition any_json :: json_lib where
  "any_json = doc_json (\<lambda>t. Inl Parse_Error) (\<lambda>j. [])"

definition no_redis :: "unit hiredis" where
  "no_redis = \<lparr>h_connect = (\<lambda>h p w. (None, w)), h_err = (\<lambda>c w. False), h_free = (\<lambda>c w. w),
     h_command = (\<lambda>c f a w. (None, w))\<rparr>"

abbreviation demo_start where
  "demo_start args \<equiv> main_start any_json toy_sodium \<lparr>unix_time = int, sys_clock = word_of_nat\<rparr> no_redis table_server
     (\<lambda>k. None) args () () []"

lemma demo_started:
  "\<exists>E M p. demo_start [] = Inr (E, M, p) \<and> db_conn (hdb (api p))"
proof -
  have "settings_of (\<lambda>k. None) [] = Inr (env_settings (\<lambda>k. None))" by (simp add: settings_of_def)
  from main_start_runs [OF this, of toy_sodium] show ?thesis
    by (fastforce simp: toy_sodium_def pgdb_new_def table_server_def)
qed


theorem starts_without_services_witness:
  "\<exists>E M p. demo_start [] = Inr (E, M, p) \<and> http_serving (proc p) \<and> migration p = Sleeping"
proof -
  obtain E M p where s: "demo_start [] = Inr (E, M, p)" using demo_started by blast
  have "0 \<le> sodium_init toy_sodium" by (simp add: toy_sodium_def)
  note starts_without_services [OF this, where L = any_json and C = "\<lparr>unix_time = int, sys_clock = word_of_nat\<rparr>"
      and h = no_redis and P = table_server and getenv = "\<lambda>k. None" and args = "[]" and w = "()" and r = "()" and d = "[]"]
  then show ?thesis unfolding s by auto
qed

text \<open>A signal that finds the mutex of the Redis pool taken, as a reconnection that fails leaves it, waits:
  the process no longer serves and does not end.\<close>

lemma signal_waits:
  assumes "sig = SIGINT \<or> sig = SIGTERM" and "g_ws_server p = Some m" and "ms_running m" and "pool_locked (redis m)"
  shows "fst (signal_handler E sig p) = Inl (Deadlock ''pool_mutex_'') \<and>
    exit_code (snd (signal_handler E sig p)) = exit_code p \<and>
    (g_http_api p \<longrightarrow> \<not> http_serving (snd (signal_handler E sig p)))"
  using assms
  by (auto simp: signal_handler_def stop_http_def stop_ws_def stop_def em_simps on_redis_def disconnect_def
      with_pool_lock_def)

subsection \<open>Redis gone\<close>

text \<open>Redis went away: open contexts report an error, commands get no reply, new connections fail.\<close>

definition redis_gone :: "'r hiredis \<Rightarrow> bool" where
  "redis_gone h \<longleftrightarrow> (\<forall>c w. h_err h c w) \<and> (\<forall>c f as w. fst (h_command h c f as w) = None) \<and>
     (\<forall>a q w. fst (h_connect h a q w) = None)"

lemma connect_one_gone:
  assumes "redis_gone h" and "i < length (conns s)"
  shows "fst (connect_one h cfg i s) = Inr False"
proof -
  obtain s1 where s1: "free_context h i s = (Inr (), s1)" "length (conns s1) = length (conns s)"
    using free_context_run [OF assms(2), of h] by blast
  obtain w where w: "h_connect h (c_str (host cfg)) (port cfg) (server s1) = (None, w)"
    using assms(1) unfolding redis_gone_def by (metis prod.collapse)
  let ?s = "set_context i None (s1\<lparr>server := w\<rparr>)"
  have "ctx (conns ?s ! i) = None" using assms(2) s1(2) by (simp add: set_context_def)
  moreover obtain s3 where "free_context h i ?s = (Inr (), s3)"
    using free_context_run [of i ?s h] assms(2) s1(2) by auto
  moreover have "open_context h cfg i s1 = (Inr (), ?s)" by (simp add: open_context_def em_simps w)
  ultimately show ?thesis by (simp add: connect_one_def em_simps s1(1))
qed

lemma connect_gone:
  assumes "redis_gone h" and "\<not> pool_locked s" and "\<not> running s" and "0 < max_retries cfg" and "0 < length (conns s)"
  shows "\<exists>t. connect h cfg s = (Inl (Deadlock ''pool_mutex_''), t) \<and> pool_locked t"
proof -
  let ?s = "s\<lparr>pool_locked := True\<rparr>"
  obtain n where n: "nat (max_retries cfg) = Suc n" using assms(4) by (cases "nat (max_retries cfg)") auto
  have "fst (connect_one h cfg 0 ?s) = Inr False" using assms(1,5) by (intro connect_one_gone) simp_all
  then have "fst (connect_each h cfg [0 ..< length (conns ?s)] ?s) = Inr False"
    using assms(5) by (cases "connect_one h cfg 0 ?s") (simp add: upt_conv_Cons em_simps del: upt_Suc)
  moreover obtain b t where t: "connect_each h cfg [0 ..< length (conns ?s)] ?s = (Inr b, t)" "pool_locked t"
    using connect_each_run [of "[0 ..< length (conns ?s)]" ?s h cfg] by auto
  ultimately have "connect_loop h cfg (Suc n) 0 ?s = (Inl (Deadlock ''pool_mutex_''), t\<lparr>running := False, subscriber_joinable := False\<rparr>)"
    by (simp add: em_simps disconnect_locked [OF t(2)])
  then show ?thesis using assms(2,3) t(2) by (simp add: connect_def with_pool_lock_def n del: connect_loop.simps)
qed

lemma publish_gone:
  assumes "redis_gone h" and "\<not> pool_locked s" and "0 < max_retries cfg"
    and "first_free (conns s) = Some i" and "ctx (conns s ! i) = Some c"
    and "arg_directives (c_str (''PUBLISH '' @ channel @ sp @ msg)) = 0"
  shows "\<exists>t. redis_publish h cfg channel msg s = (Inl (Deadlock ''pool_mutex_''), t) \<and> pool_locked t"
proof -
  have i: "i < length (conns s)" using first_free_Some [OF assms(4)] by simp
  let ?cmd = "''PUBLISH '' @ channel @ sp @ msg"
  let ?s = "set_in_use i True s"
  have fst_cmd: "fst (h_command h c f as w) = None" for f as w using assms(1) by (simp add: redis_gone_def)
  obtain s1 where s1: "redis_command h i ?cmd [] ?s = (Inr None, s1)" "\<not> pool_locked s1" "length (conns s1) = length (conns s)"
    "context_err h i s1"
    using redis_command_connected [of ?s i c ?cmd "[]" h] assms(1,2,5,6) i fst_cmd
    by (simp add: context_err_def redis_gone_def)
  obtain s1' where r: "report (''Redis '' @ ''command'' @ '' failed, trying reconnect'') s1 = (Inr (), s1')"
    "\<not> pool_locked s1'" "length (conns s1') = length (conns s)"
    using s1(2,3) by (simp add: report_def em_simps)
  obtain s2 where s2: "disconnect h s1' = (Inr (), s2)" "\<not> running s2" "\<not> pool_locked s2" "length (conns s2) = length (conns s)"
    using disconnect_frees [OF r(2), of h] keeps_flags_disconnect [of h, THEN keepsD, of s1'] r(3)
    by (auto dest: arg_cong [where f = length])
  obtain t where t: "connect h cfg s2 = (Inl (Deadlock ''pool_mutex_''), t)" "pool_locked t"
    using connect_gone [OF assms(1) s2(3,2) assms(3)] s2(4) i by fastforce
  have "command_retry h cfg ''command'' i ?cmd [] ?s = (Inl (Deadlock ''pool_mutex_''), t)"
    using s1(1,4) r(1) s2(1) t(1) by (simp add: command_retry_def em_simps reconnect_def)
  then show ?thesis
    using t(2) by (simp add: redis_publish_def run_command_def with_connection_def em_simps acquire_run [OF assms(2)]
        assms(4) send_command_def)
qed


text \<open>A server of which one connection is left, and which then is gone.\<close>

definition one_left :: "unit messenger" where
  "one_left = \<lparr>ms_running = True,
     redis = (redis_new cfg_default ())\<lparr>conns := [\<lparr>ctx = Some 0, in_use = False\<rparr>], running := True\<rparr>,
     redis_cfg = cfg_default, cpool = pool_empty, server_keys = \<lparr>public_key = [], private_key = []\<rparr>,
     user_ratchets = [], ratchet_locked = False, crypto_state = \<lparr>sodium_initialized = True, draws = 0\<rparr>, ticks = 0\<rparr>"

definition gone_redis :: "unit hiredis" where
  "gone_redis = no_redis\<lparr>h_err := (\<lambda>c w. True)\<rparr>"


end
