(* ===== verification/Token_Format.thy ===== *)
theory Token_Format
  imports Tables_Props
begin

section \<open>Tokens with something behind them\<close>

text \<open>
  \<open>base64url_decode_str\<close> skips a character outside its alphabet at the end of a group and stops at
  a group that is cut off, so that text behind a signature of 32 bytes does not change what it decodes to. The
  token then goes, as it is, into a format string of hiredis.
\<close>

subsection \<open>Decoding with a tail\<close>

lemma b64_groups_tail:
  "b64_groups [b64_ch (sextet1 x), b64_ch (sextet2 x y), b64_ch (sextet3 y z), CHR ''%'', CHR ''s'', CHR ''='', CHR ''='', CHR ''='']
   = [char_of_byte x, char_of_byte y]"
proof -
  have "b64_val (CHR ''%'') = -1" by (simp add: b64_val_def)
  then show ?thesis by (simp add: b64_table_sextet decoded_octets sextet_not_neg b64_val_eq Let_def)
qed

lemma b64_std_tail:
  "length bs mod 3 = 2 \<Longrightarrow> \<exists>core. b64_std bs = core @ ''='' \<and> 4 dvd length core + 1 \<and>
     (\<forall>c \<in> set core. url_safe c \<noteq> CHR ''='' \<and> url_unsafe (url_safe c) = c) \<and>
     b64_groups (core @ ''%s==='') = string_of bs"
proof (induction bs rule: b64_std.induct)
  case (3 x y)
  show ?case
    by (intro exI [of _ "[b64_ch (sextet1 x), b64_ch (sextet2 x y), b64_ch (sextet3 y 0)]"])
      (simp add: b64_table_sextet b64_groups_tail string_of_def del: b64_groups.simps, presburger)
next
  case (4 x y z r)
  then obtain core where c: "b64_std r = core @ ''=''" "4 dvd length core + 1"
    "\<forall>c \<in> set core. url_safe c \<noteq> CHR ''='' \<and> url_unsafe (url_safe c) = c"
    "b64_groups (core @ ''%s==='') = string_of r"
    by auto
  have "4 dvd Suc (Suc (Suc (Suc (length core)))) + 1" using c(2) by presburger
  with c show ?case
    by (intro exI [of _ "b64_ch (sextet1 x) # b64_ch (sextet2 x y) # b64_ch (sextet3 y z)
          # b64_ch (sextet4 z) # core"])
      (simp add: b64_table_sextet b64_groups_full string_of_def del: b64_groups.simps)
qed simp_all

lemma decode_tail:
  assumes "length bs mod 3 = 2"
  shows "base64url_decode_str (base64url_encode bs @ ''%s'') = string_of bs"
proof -
  obtain core where c: "b64_std bs = core @ ''=''" "4 dvd length core + 1"
    "\<forall>c \<in> set core. url_safe c \<noteq> CHR ''='' \<and> url_unsafe (url_safe c) = c"
    "b64_groups (core @ ''%s==='') = string_of bs"
    using b64_std_tail [OF assms] by blast
  have "url_safe (CHR ''='') = CHR ''=''" by (simp add: url_safe_def)
  then have enc: "base64url_encode bs = map url_safe core"
    using c(1,3) by (auto simp: base64url_encode_def filter_id_conv)
  have "map url_unsafe (base64url_encode bs @ ''%s'') = core @ ''%s''"
    using c(3) by (simp add: enc map_idI url_unsafe_def)
  moreover have "(length core + 2) mod 4 = 1" using c(2) by presburger
  then have "(4 - length (core @ ''%s'') mod 4) mod 4 = 3" by simp
  ultimately show ?thesis
    by (simp add: base64url_decode_str_def b64_pad_def c(4) [symmetric] numeral_3_eq_3)
qed

lemma verify_tail:
  assumes "hmac_ok S"
  shows "jwt_verify S L now' (jwt_create S L now user secret @ ''%s'') secret' =
    jwt_verify S L now' (jwt_create S L now user secret) secret'"
proof -
  define h where "h = base64url_encode (bytes_of jwt_header)"
  define p where "p = base64url_encode (bytes_of (j_dump L (jwt_payload now user)))"
  define m where "m = jwt_mac S secret (jwt_hp L now user)"
  have "length m mod 3 = 2" using assms by (simp add: m_def jwt_mac_def hmac_ok_def)
  then have tail: "base64url_decode_str (base64url_encode m @ ''%s'') = base64url_decode_str (base64url_encode m)"
    by (simp add: decode_tail base64url_roundtrip)
  have tok: "jwt_create S L now user secret @ t = h @ ''.'' @ p @ ''.'' @ (base64url_encode m @ t)" for t
    by (simp add: jwt_create_def jwt_hp_def Let_def m_def h_def p_def)
  have dots: "CHR ''.'' \<notin> set h" "CHR ''.'' \<notin> set p" by (simp_all add: h_def p_def)
  show ?thesis
    using jwt_verify_parts [OF dots, of S L now' "base64url_encode m @ ''%s''" secret', folded tok [of "''%s''"], unfolded tail]
      jwt_verify_parts [OF dots, of S L now' "base64url_encode m @ []" secret', folded tok [of "[]"]]
    by simp
qed

subsection \<open>The format string\<close>

lemma one_directive:
  assumes "plain k"
  shows "c_str (''GET session:'' @ k @ ''%s'') = ''GET session:'' @ k @ ''%s''"
    "arg_directives (''GET session:'' @ k @ ''%s'') = 1"
proof -
  have k: "CHR 0x00 \<notin> set k" "CHR ''%'' \<notin> set (''GET session:'' @ k)" using assms by (auto simp: plain_set)
  show "c_str (''GET session:'' @ k @ ''%s'') = ''GET session:'' @ k @ ''%s''"
    using k(1) by (intro no_nul_c_str) auto
  show "arg_directives (''GET session:'' @ k @ ''%s'') = 1"
    using arg_directives_skip [OF k(2), of "''%s''"] by simp
qed

text \<open>C7: A user with a token crashes the server: a token that was issued, with the two characters \<open>%s\<close>
  behind it, verifies for the same user as without them, and while Redis is connected a request with
  it, on any route that asks for a token, makes \<open>redisCommand\<close> read an argument that was not passed:
  the behaviour is undefined, before any handler runs.\<close>

theorem token_tail_undefined:
  assumes "hmac_ok (hsod E)" and "tok = jwt_create (hsod E) (hlib E) issued user (hsecret E)"
    and "jwt_verify (hsod E) (hlib E) (unix_time (hclk E) (hticks s)) tok (hsecret E) = user" and "user \<noteq> []"
    and "redis_ready (hredis s)" and "\<not> public_route r"
    and "authorization req = ''Bearer '' @ tok @ ''%s''"
  shows "fst (handle E r req s) = Inl (Undefined ''missing format argument'')"
proof -
  have verified: "jwt_verify (hsod E) (hlib E) (unix_time (hclk E) (hticks s)) (tok @ ''%s'') (hsecret E) = user"
    unfolding assms(2) verify_tail [OF assms(1)] using assms(2,3) by simp
  have tok: "plain tok" unfolding assms(2) by (rule jwt_plain)
  have free: "\<not> pool_locked (hredis s)" "running (hredis s)" using assms(5) by (simp_all add: redis_ready_def)
  obtain i c where i: "first_free (conns (hredis s)) = Some i" "ctx (conns (hredis s) ! i) = Some c"
    using assms(5) by (auto simp: redis_ready_def split: option.splits)
  have "fst (redis_get (hredis_lib E) (hredis_cfg E) (''session:'' @ tok @ ''%s'') (hredis s)) =
      Inl (Undefined ''missing format argument'')"
    using first_free_Some [OF i(1)] i(2) one_directive [OF tok]
    by (simp add: redis_get_def run_command_def with_connection_def em_simps acquire_run [OF free(1)] i(1)
        send_command_def command_retry_def redis_command_def)
  then obtain s' where auth: "authenticate_request E (authorization req) s = (Inl (Undefined ''missing format argument''), s')"
    using free(2) verified assms(4,7)
    by (cases "redis_get (hredis_lib E) (hredis_cfg E) (''session:'' @ tok @ ''%s'') (hredis s)")
      (simp add: authenticate_request_def extract_token_def Let_def ensure_redis_def check_session_def
        redis_available_def is_connected_def em_simps)
  obtain k where "handle E r = guarded E k" using handle_guarded [OF assms(6)] by blast
  then show ?thesis by (simp add: guarded_raise [OF auth])
qed

theorem token_tail_undefined_witness:
  "fst (handle (demo_world JNull) Get_Me (demo_request\<lparr>authorization := ''Bearer '' @ demo_token @ ''%s''\<rparr>) demo_state)
     = Inl (Undefined ''missing format argument'')"
proof (rule token_tail_undefined)
  show "demo_token = jwt_create (hsod (demo_world JNull)) (hlib (demo_world JNull)) 100 ''u1'' (hsecret (demo_world JNull))"
    by (simp add: demo_henv_def demo_token_eq)
qed (simp_all add: demo_henv_def demo_sodium_ok demo_verify demo_client_ready public_route_def)

end
