(* ===== verification/Answered.thy ===== *)
theory Answered
  imports Tables_Props Outcomes
begin

section \<open>Every request comes back\<close>

text \<open>
  While the Redis connection works no handler runs into undefined behaviour or waits for itself: what a
  request ends with is a reply or an exception that the server of the framework answers. The laws of the
  libraries and services this rests on, then one rule for each call a handler makes.
\<close>

subsection \<open>What the services promise\<close>

text \<open>The connections of hiredis report no error; the texts of exceptions of the JSON parser; INSERT ...
  RETURNING gives a row when it succeeds; an identifier read from the users is a UUID, without percent signs.\<close>

definition redis_works :: "'r hiredis \<Rightarrow> bool" where
  "redis_works h \<longleftrightarrow> (\<forall>c w. \<not> h_err h c w)"

definition json_throws :: "json_lib \<Rightarrow> bool" where
  "json_throws L \<longleftrightarrow> json_accessors_ok L \<and> (\<forall>t e. j_parse L t = Inl e \<longrightarrow> catchable e)"

definition returning_rows :: "'d libpq \<Rightarrow> bool" where
  "returning_rows P \<longleftrightarrow> (\<forall>q ps d. q \<in> {Direct_Create, Group_Create, Channel_Create} \<longrightarrow>
     pg_status (fst (pq_exec P q ps d)) = Tuples_Ok \<longrightarrow> pg_rows (fst (pq_exec P q ps d)) \<noteq> [])"

definition ids_plain :: "'d libpq \<Rightarrow> bool" where
  "ids_plain P \<longleftrightarrow> (\<forall>q ps d vals u. q \<in> {User_Login, User_Insert} \<longrightarrow> vals \<in> set (pg_rows (fst (pq_exec P q ps d))) \<longrightarrow>
     col (row_json (pg_names (fst (pq_exec P q ps d))) vals) ''id'' = JStr u \<longrightarrow> CHR ''%'' \<notin> set u)"

definition services_ok :: "('r, 'd) henv \<Rightarrow> bool" where
  "services_ok E \<longleftrightarrow> redis_works (hredis_lib E) \<and> json_throws (hlib E) \<and> returning_rows (hpq E) \<and> ids_plain (hpq E)"

subsection \<open>Redis\<close>

abbreviation up :: "('r, 'd) http \<Rightarrow> bool" where
  "up s \<equiv> redis_ready (hredis s)"

abbreviation comes_back :: "(('r, 'd) http, 'a) em \<Rightarrow> ('a \<Rightarrow> bool) \<Rightarrow> bool" where
  "comes_back m Q \<equiv> outcome up catchable m Q"

lemma run_command_works:
  assumes "redis_ready r" and "arg_directives (c_str cmd) = 0" and "redis_works h"
  shows "\<exists>t w. run_command h cfg d cmd (\<lambda>t. Inr (f t)) r = (Inr (f t), r\<lparr>server := w\<rparr>)"
proof -
  obtain rep w where rep: "h_command h (redis_context r) (c_str cmd) [] (server r) = (rep, w)" by force
  show ?thesis
  proof (cases rep)
    case (Some p)
    then have "run_command h cfg d cmd (\<lambda>t. Inr (f t)) r = (Inr (f (reply_text p)), r\<lparr>server := w\<rparr>)"
      using rep by (intro run_command_ready [OF assms(1,2)]) simp
    then show ?thesis by blast
  next
    case None
    obtain i c where i: "first_free (conns r) = Some i" "ctx (conns r ! i) = Some c"
      using assms(1) by (auto simp: redis_ready_def split: option.splits)
    then have c: "redis_context r = c" by (simp add: redis_context_def)
    have free: "i < length (conns r)" "\<not> in_use (conns r ! i)" using first_free_Some [OF i(1)] by simp_all
    then have "(conns r ! i)\<lparr>in_use := False\<rparr> = conns r ! i" by (cases "conns r ! i") simp
    then have released: "(conns r)[i := (conns r ! i)\<lparr>in_use := False\<rparr>] = conns r" by simp
    have "\<not> pool_locked r" using assms(1) by (simp add: redis_ready_def)
    then show ?thesis
      using assms(2,3) i free c released rep None
      by (auto simp: run_command_def with_connection_def em_simps acquire_run send_command_def
          command_retry_def redis_command_def set_in_use_def context_err_def redis_works_def)
  qed
qed

lemma c_str_subset: "set (c_str s) \<subseteq> set s"
  by (auto simp: c_str_def dest: set_takeWhileD)

lemma no_percent: "CHR ''%'' \<notin> set s \<Longrightarrow> arg_directives (c_str s) = 0"
  using c_str_subset by (blast intro: no_percent_directives)

lemma back_get:
  assumes "services_ok E" and "CHR ''%'' \<notin> set tok"
  shows "comes_back (http_redis (redis_get (hredis_lib E) (hredis_cfg E) (''session:'' @ tok))) (\<lambda>_. True)"
proof -
  have "arg_directives (c_str (''GET '' @ ''session:'' @ tok)) = 0" using assms(2) by (intro no_percent) simp
  then have "\<exists>t w. redis_get (hredis_lib E) (hredis_cfg E) (''session:'' @ tok) r = (Inr t, r\<lparr>server := w\<rparr>)" if "redis_ready r" for r
    using run_command_works [OF that, of "''GET '' @ ''session:'' @ tok" "hredis_lib E" "hredis_cfg E" "[]" "\<lambda>t. t"] assms(1)
    by (auto simp: redis_get_def services_ok_def)
  then show ?thesis by (fastforce simp: outcome_def http_redis_run)
qed

lemma back_store:
  assumes "services_ok E" and "CHR ''%'' \<notin> set u"
  shows "comes_back (store_redis_session E (jwt_create S L now v secret) u) (\<lambda>_. True)"
proof -
  let ?tok = "jwt_create S L now v secret"
  have "CHR ''%'' \<notin> set ?tok" using jwt_plain [of S L now v secret] by (auto simp: plain_set)
  then have "arg_directives (c_str (set_cmd (''session:'' @ ?tok) u 86400)) = 0"
    using assms(2) by (intro no_percent) (simp add: set_cmd_def show_eval)
  then have "\<exists>t w. redis_set (hredis_lib E) (hredis_cfg E) (''session:'' @ ?tok) u 86400 r = (Inr t, r\<lparr>server := w\<rparr>)"
    if "redis_ready r" for r
    using run_command_works [OF that, of "set_cmd (''session:'' @ ?tok) u 86400" "hredis_lib E" "hredis_cfg E" False
        "\<lambda>t. t = ''OK''"] assms(1)
    by (auto simp: redis_set_def services_ok_def)
  then show ?thesis by (fastforce simp: outcome_def store_redis_session_def em_simps)
qed

lemma back_authenticate:
  assumes "services_ok E" and "CHR ''%'' \<notin> set header"
  shows "comes_back (authenticate_request E header) (\<lambda>_. True)"
proof -
  let ?t = "extract_token header"
  have t: "CHR ''%'' \<notin> set ?t" using assms(2) by (auto simp: extract_token_def dest: in_set_dropD)
  have "ensure_redis E s = (Inr True, s)" if "up s" for s
    using that by (simp add: ensure_redis_def em_simps redis_available_def is_connected_def redis_ready_def)
  then have ready: "comes_back (ensure_redis E) (\<lambda>ok. ok)" by (simp add: outcome_def)
  have "comes_back (check_session E ?t) (\<lambda>_. True)"
    unfolding check_session_def Let_def
    by (intro outcome_and_then [OF back_get [OF assms(1) t]] outcome_intros
        outcome_and_then [where m = "http_time E" and R = "\<lambda>_. True"]
        outcome_and_then [where m = "get_st redis_available" and R = "\<lambda>_. True"])
      (simp_all add: outcome_def em_simps)
  then show ?thesis
    unfolding authenticate_request_def Let_def
    by (intro outcome_intros outcome_and_then [OF ready]) simp_all
qed

lemma back_guarded [outcome_intros]:
  assumes "services_ok E" and "CHR ''%'' \<notin> set (authorization req)" and "\<And>u. comes_back (k u req) (\<lambda>_. True)"
  shows "comes_back (guarded E k req) (\<lambda>_. True)"
  unfolding guarded_def
  by (rule outcome_and_then [OF back_authenticate [OF assms(1,2)]]) (auto intro!: outcome_intros assms(3))

subsection \<open>The database and the JSON library\<close>

definition row_law :: "sql \<Rightarrow> json list \<Rightarrow> bool" where
  "row_law q rows \<longleftrightarrow> (q \<in> {Direct_Create, Group_Create, Channel_Create} \<longrightarrow> rows \<noteq> []) \<and>
     (q \<in> {User_Login, User_Insert} \<longrightarrow> (\<forall>row\<in>set rows. \<forall>u. col row ''id'' = JStr u \<longrightarrow> CHR ''%'' \<notin> set u))"

lemma back_database:
  assumes "services_ok E"
  shows "comes_back (db_query E q ps) (row_law q)" "comes_back (db_exec E q ps) (\<lambda>_. True)"
proof -
  have "row_law q rows" if "query (hpq E) q ps db = (Inr rows, db')" for rows db db'
  proof -
    obtain res d where res: "pq_exec (hpq E) q (map c_str ps) (db_server db) = (res, d)" by force
    have "pg_status res = Tuples_Ok" "rows = map (row_json (pg_names res)) (pg_rows res)"
      using that res by (auto simp: query_def split: if_splits pg_status.splits)
    moreover have "returning_rows (hpq E)" "ids_plain (hpq E)" using assms by (simp_all add: services_ok_def)
    then have "q \<in> {Direct_Create, Group_Create, Channel_Create} \<Longrightarrow> pg_status res = Tuples_Ok \<Longrightarrow> pg_rows res \<noteq> []"
      "q \<in> {User_Login, User_Insert} \<Longrightarrow> vals \<in> set (pg_rows res) \<Longrightarrow>
        col (row_json (pg_names res) vals) ''id'' = JStr u \<Longrightarrow> CHR ''%'' \<notin> set u" for vals u
      unfolding returning_rows_def ids_plain_def using res by (metis fst_conv)+
    ultimately show ?thesis by (auto simp: row_law_def)
  qed
  moreover have "catchable e" if "query (hpq E) q ps db = (Inl e, db')" for e db db'
    using that by (auto simp: query_def split: if_splits prod.splits pg_status.splits)
  ultimately show "comes_back (db_query E q ps) (row_law q)"
    by (auto simp: outcome_def db_query_def http_db_run split: prod.split sum.split)
  have "catchable e" if "exec (hpq E) q ps db = (Inl e, db')" for e db db'
    using that by (auto simp: exec_def split: if_splits prod.splits pg_status.splits)
  then show "comes_back (db_exec E q ps) (\<lambda>_. True)"
    by (auto simp: outcome_def db_exec_def http_db_run split: prod.split sum.split)
qed

lemma json_errors:
  assumes "services_ok E"
  shows "j_parse (hlib E) t = Inl e \<Longrightarrow> catchable e" "j_value_str (hlib E) j k d = Inl e \<Longrightarrow> catchable e"
    "j_value_bool (hlib E) j k b = Inl e \<Longrightarrow> catchable e" "j_get_str (hlib E) j = Inl e \<Longrightarrow> catchable e"
    "j_get_str (hlib E) j = Inr x \<Longrightarrow> j = JStr x"
    "add_fields E j cks = Inl e \<Longrightarrow> catchable e"
proof -
  have L: "j_value_str (hlib E) = doc_value doc_get_str" "j_get_str (hlib E) = doc_get_str"
    "j_value_bool (hlib E) = doc_value (\<lambda>j. case j of JBool b \<Rightarrow> Inr b | _ \<Rightarrow> Inl Type_Error)"
    using assms by (simp_all add: services_ok_def json_throws_def json_accessors_ok_def doc_json_def)
  show "j_parse (hlib E) t = Inl e \<Longrightarrow> catchable e"
    using assms by (simp add: services_ok_def json_throws_def)
  show "j_value_str (hlib E) j k d = Inl e \<Longrightarrow> catchable e" "j_value_bool (hlib E) j k b = Inl e \<Longrightarrow> catchable e"
    by (auto simp: L doc_value_def doc_get_str_def split: json.splits option.splits)
  have str: "j_get_str (hlib E) v = Inl e \<Longrightarrow> catchable e" for v e
    by (auto simp: L doc_get_str_def split: json.splits)
  then show "j_get_str (hlib E) j = Inl e \<Longrightarrow> catchable e" .
  show "j_get_str (hlib E) j = Inr x \<Longrightarrow> j = JStr x"
    by (simp add: L doc_get_str_def split: json.splits)
  show "add_fields E j cks = Inl e \<Longrightarrow> catchable e"
    by (induction cks arbitrary: e) (auto simp: add_field_def dest: str split: sum.splits option.splits if_splits)
qed

subsection \<open>The shapes of handlers\<close>

lemma back_query [outcome_intros]:
  assumes "services_ok E" and "\<And>rows. row_law q rows \<Longrightarrow> comes_back (k rows) Q"
  shows "comes_back (and_then (db_query E q ps) k) Q"
  by (rule outcome_and_then [OF back_database(1) [OF assms(1)] assms(2)])

lemma back_exec [outcome_intros]:
  assumes "services_ok E" and "\<And>n. comes_back (k n) Q"
  shows "comes_back (and_then (db_exec E q ps) k) Q"
  by (rule outcome_and_then [OF back_database(2) [OF assms(1)] assms(2)])

lemma back_found [outcome_intros]:
  assumes "services_ok E" and "comes_back (k None) Q" and "\<And>rows. row_law q rows \<Longrightarrow> comes_back (k (Some rows)) Q"
  shows "comes_back (and_then (catch_any (and_then (db_query E q ps) (\<lambda>rows. ret (Some rows))) (\<lambda>_. ret None)) k) Q"
proof -
  have "comes_back (catch_any (and_then (db_query E q ps) (\<lambda>rows. ret (Some rows))) (\<lambda>_. ret None))
      (\<lambda>x. case x of None \<Rightarrow> True | Some rows \<Rightarrow> row_law q rows)"
    by (intro outcome_intros assms(1)) simp_all
  then show ?thesis by (rule outcome_and_then) (auto simp: assms split: option.splits)
qed

lemma back_quiet [outcome_intros]:
  assumes "services_ok E" and "comes_back (k ()) Q"
  shows "comes_back (and_then (catch_any (and_then (db_exec E q ps) (\<lambda>_. ret ())) (\<lambda>_. ret ())) k) Q"
proof -
  have "comes_back (catch_any (and_then (db_exec E q ps) (\<lambda>_. ret ())) (\<lambda>_. ret ())) (\<lambda>_. True)"
    by (intro outcome_intros assms(1)) simp_all
  then show ?thesis by (rule outcome_and_then) (simp add: assms(2))
qed

lemma back_column [outcome_intros]:
  assumes "services_ok E" and "\<And>x. col r c = JStr x \<Longrightarrow> comes_back (k x) Q"
  shows "comes_back (and_then (col_str E r c) k) Q"
  unfolding col_str_def by (intro outcome_lift) (auto intro: assms(2) json_errors [OF assms(1)])

lemma back_first_row [outcome_intros]:
  assumes "rows \<noteq> []" and "\<And>r. comes_back (k r) Q"
  shows "comes_back (and_then (first_row rows) k) Q"
  using assms by (cases rows) (simp_all add: first_row_def outcome_def em_simps)

lemma back_clock [outcome_intros]:
  "(\<And>x. comes_back (k x) Q) \<Longrightarrow> comes_back (and_then (http_time E) k) Q"
  "(\<And>x. comes_back (k' x) Q) \<Longrightarrow> comes_back (and_then (http_draw f) k') Q"
  by (auto simp: outcome_def em_simps http_clock_run)

lemma back_json:
  assumes "services_ok E"
  shows "(\<And>j. comes_back (k j) (\<lambda>_. True)) \<Longrightarrow> comes_back (with_json_body E req k) (\<lambda>_. True)"
    "(\<And>x. comes_back (k1 x) Q) \<Longrightarrow> comes_back (and_then (body_str E j key d) k1) Q"
    "(\<And>x. comes_back (k2 x) Q) \<Longrightarrow> comes_back (and_then (lift_sum (j_value_bool (hlib E) j key b)) k2) Q"
    "(\<And>x. comes_back (k1 x) Q) \<Longrightarrow> comes_back (and_then (lift_sum (j_get_str (hlib E) j)) k1) Q"
    "(\<And>x. comes_back (k3 x) Q) \<Longrightarrow> comes_back (and_then (lift_sum (add_fields E j cks)) k3) Q"
  using json_errors [OF assms]
  by (auto intro!: outcome_json_body outcome_body_str outcome_lift)

lemma back_stoi:
  "(\<And>x. comes_back (k x) Q) \<Longrightarrow> comes_back (and_then (lift_sum (stoi t)) k) Q"
  by (rule outcome_lift) (auto simp: stoi_def stoi_base_def split: option.splits if_splits)

lemma back_cases:
  "comes_back m Q \<Longrightarrow> comes_back (case None of None \<Rightarrow> m | Some x \<Rightarrow> k x) Q"
  "comes_back (k y) Q \<Longrightarrow> comes_back (case Some y of None \<Rightarrow> m | Some x \<Rightarrow> k x) Q"
  "(x = None \<Longrightarrow> comes_back m Q) \<Longrightarrow> (\<And>y. x = Some y \<Longrightarrow> comes_back (k y) Q) \<Longrightarrow>
   comes_back (case x of None \<Rightarrow> m | Some y \<Rightarrow> k y) Q"
  "(\<And>a. z = Inl a \<Longrightarrow> comes_back (f a) Q) \<Longrightarrow> (\<And>b. z = Inr b \<Longrightarrow> comes_back (g b) Q) \<Longrightarrow>
   comes_back (case z of Inl a \<Rightarrow> f a | Inr b \<Rightarrow> g b) Q"
  by (auto split: option.split sum.split)

lemmas back_rules = back_cases back_stoi back_json back_guarded back_query back_exec back_found back_quiet back_column
  back_first_row back_clock outcome_pure outcome_branches outcome_try

subsection \<open>Signing in\<close>

lemma back_login:
  assumes "services_ok E"
  shows "comes_back (login_user E email) (\<lambda>_. True)"
proof -
  have session: "comes_back (and_then (store_redis_session E (jwt_create S L now v sec) u) k) (\<lambda>_. True)"
    if "CHR ''%'' \<notin> set u" "\<And>x. comes_back (k x) (\<lambda>_. True)" for S L now v sec u k
    using that by (intro outcome_and_then [OF back_store [OF assms]])
  show ?thesis
    unfolding login_user_def Let_def
    by (intro back_rules session assms) (simp_all add: row_law_def)
qed

lemma back_verify_otp:
  assumes "services_ok E"
  shows "comes_back (route_verify_otp E req) (\<lambda>_. True)"
proof -
  have fresh: "comes_back (and_then (if rows = [] then ret False
      else and_then (col_str E (hd rows) ''valid'') (\<lambda>v. ret (v = ''t''))) k) (\<lambda>_. True)"
    if "\<And>b. comes_back (k b) (\<lambda>_. True)" for rows k
    using that by (intro outcome_and_then [where R = "\<lambda>_. True"] outcome_branches back_column assms outcome_pure) simp_all
  have check: "comes_back (check_otp E email code row) (\<lambda>_. True)" for email code row
    unfolding check_otp_def
    by (intro fresh back_rules assms back_login) simp_all
  show ?thesis
    unfolding route_verify_otp_def
    by (intro check back_rules assms) simp_all
qed

lemma back_register:
  assumes "services_ok E"
  shows "comes_back (route_register E req) (\<lambda>_. True)"
proof -
  have checks: "comes_back (register_checks E u e p) (\<lambda>_. True)" for u e p
    unfolding register_checks_def by (intro outcome_catch back_rules assms) simp_all
  have insert: "comes_back (register_insert E ps) (\<lambda>x. case x of Inl _ \<Rightarrow> True | Inr u \<Rightarrow> CHR ''%'' \<notin> set u)" for ps
    unfolding register_insert_def
    by (intro outcome_catch back_rules assms) (simp_all add: row_law_def)
  show ?thesis
    unfolding route_register_def Let_def
    by (intro back_rules outcome_and_then [OF checks] outcome_and_then [OF insert] assms
        outcome_and_then [OF back_store [OF assms]]) simp_all
qed

subsection \<open>The other routes\<close>

lemma back_members: "services_ok E \<Longrightarrow> comes_back (add_members E cid uid ms) (\<lambda>_. True)"
proof (induction ms)
  case (Cons m ms)
  have one: "comes_back (if mid = uid then ret ()
      else catch_any (and_then (db_exec E Group_Member [cid, mid]) (\<lambda>_. ret ())) (\<lambda>_. ret ())) (\<lambda>_. True)" for mid
    by (intro outcome_catch back_rules Cons.prems) simp_all
  show ?case
    unfolding add_members.simps
    by (intro back_json(4) Cons outcome_and_then [OF one])
qed (simp add: outcome_pure)

lemma back_create_channel:
  assumes "services_ok E" and "CHR ''%'' \<notin> set (authorization req)"
  shows "comes_back (route_create_channel E req) (\<lambda>_. True)"
  unfolding route_create_channel_def
  by (intro outcome_catch back_rules assms) (simp_all add: row_law_def)

lemma back_route:
  assumes "services_ok E" and "CHR ''%'' \<notin> set (authorization req)"
  shows "comes_back (handle E r req) (\<lambda>_. True)"
proof -
  have gate: "comes_back (and_then (if b then db_query E q ps else db_query E q' ps') k) (\<lambda>_. True)"
    if "\<And>rows. comes_back (k rows) (\<lambda>_. True)" for b q q' ps ps' k
    using that by (cases b) (auto intro!: back_query assms)
  have members: "comes_back (and_then (add_members E cid uid ms) k) (\<lambda>_. True)"
    if "\<And>x. comes_back (k x) (\<lambda>_. True)" for cid uid ms k
    using that by (rule outcome_and_then [OF back_members [OF assms(1)]])
  have role: "comes_back (and_then (case perm of [] \<Rightarrow> ret False | r # _ \<Rightarrow> and_then (col_str E r ''role'') (\<lambda>role. ret (P role))) k)
      (\<lambda>_. True)" if "\<And>b. comes_back (k b) (\<lambda>_. True)" for perm P k
    using that by (intro outcome_and_then [where R = "\<lambda>_. True"] outcome_branches back_column assms outcome_pure) simp_all
  have health: "comes_back (route_health E req) (\<lambda>_. True)"
    by (simp add: outcome_def route_health_def em_simps http_clock_run)
  have send: "comes_back (and_then (send_otp_email e c) k) (\<lambda>_. True)" if "\<And>x. comes_back (k x) (\<lambda>_. True)" for e c k
    using that by (simp add: outcome_def send_otp_email_def em_simps)
  note special = health back_verify_otp back_register back_create_channel
  show ?thesis
  proof (cases "r \<in> {Health, Verify_Otp, Register, Create_Channel}")
    case True
    then show ?thesis using assms special by auto
  next
    case False
    then show ?thesis
      by (cases r; simp only: handle.simps route_defs route_send_otp_def member_gate_def Let_def;
          (intro gate members role send back_rules assms)?; simp add: row_law_def)
  qed
qed

section \<open>Property of all requests\<close>

text \<open>C6: Every request comes back: while the connections of the Redis pool work, whatever requests arrive
  in whatever order, on any tables and with any bodies, none of them waits for a lock for ever, blocks the
  pool for the next one or runs into undefined behaviour; each ends with a response, or with an exception
  that the framework answers. The hypotheses are that no Authorization header contains a percent sign (it
  would reach Redis as a format string), that INSERT ... RETURNING returns a row, and that user ids read
  from the database are free of percent signs, as UUIDs are.\<close>

theorem requests_answered:
  assumes "services_ok E" and "redis_ready (hredis s)"
    and "\<forall>(r, req) \<in> set rs. CHR ''%'' \<notin> set (authorization req)"
    and "serve_all E rs s = (xs, s')"
  shows "redis_ready (hredis s') \<and> length xs = length rs \<and> (\<forall>e. Inl e \<in> set xs \<longrightarrow> catchable e)"
proof -
  have routes: "comes_back (handle E r req) (\<lambda>_. True)" if "(r, req) \<in> set rs" for r req
    using assms(3) that by (intro back_route [OF assms(1)]) auto
  show ?thesis
    using serve_all_outcomes [OF routes assms(2,4)] by (auto simp: in_set_conv_nth)
qed

theorem requests_answered_witness:
  "let req = \<lparr>req_body = ''b'', authorization = [], url_param = (\<lambda>_. None)\<rparr>;
       E = demo_henv (JObj [(''email'', JStr ''a@b.c''), (''code'', JStr ''123456'')]) demo_pq in
   \<exists>xs s'. serve_all E [(Send_Otp, req), (Verify_Otp, req), (Get_Me, req)] (demo_http ()) = (xs, s') \<and>
     redis_ready (hredis s') \<and> length xs = 3 \<and> (\<forall>e. Inl e \<in> set xs \<longrightarrow> catchable e)"
proof -
  let ?req = "\<lparr>req_body = ''b'', authorization = [], url_param = (\<lambda>_. None)\<rparr>"
  let ?E = "demo_henv (JObj [(''email'', JStr ''a@b.c''), (''code'', JStr ''123456'')]) demo_pq"
  let ?rs = "[(Send_Otp, ?req), (Verify_Otp, ?req), (Get_Me, ?req)]"
  obtain xs s' where run: "serve_all ?E ?rs (demo_http ()) = (xs, s')" by force
  have "json_throws (hlib ?E)"
    using demo_json_ok(1) by (auto simp: json_throws_def demo_henv_def demo_json_def doc_json_def split: if_splits)
  then have "services_ok ?E"
    by (auto simp: services_ok_def redis_works_def returning_rows_def ids_plain_def demo_henv_def memo_redis_def
        demo_pq_def col_def row_json_def cell_def c_str_def)
  moreover have "redis_ready (hredis (demo_http ()))" by (simp add: demo_client_ready)
  ultimately show ?thesis
    unfolding Let_def using requests_answered [OF _ _ _ run] run by (intro exI [of _ xs] exI [of _ s']) simp
qed

end
